(* ===== verification/Prelude.thy ===== *)
theory Prelude
  imports
    Main
    "HOL-Library.Finite_Map"
    "HOL-Library.Char_ord"
    "HOL-Library.List_Lexorder"
    "HOL-Library.Multiset"
begin

text \<open>
  What every component shares: the parts of Go and of its standard library that the sources use
  (package \<open>strings\<close>, \<open>encoding/hex\<close>, decimal and JSON text, comparator sorts, maps from strings),
  Go's error values and panics, and the error-and-state monad in which the handlers are written.
  A Go string is a sequence of bytes, as is an Isabelle \<^typ>\<open>string\<close>; the linear order of
  \<^typ>\<open>string\<close> used here is the bytewise one of \<open>strings.Compare\<close>.
\<close>

named_theorems go_simps \<open>evaluation of the error-and-state monad\<close>
named_theorems str_simps \<open>evaluation of the string functions\<close>
named_theorems meta_simps \<open>effect of the metadata operations on the fields of an object\<close>

section \<open>Package strings\<close>

definition HasPrefix :: "string \<Rightarrow> string \<Rightarrow> bool" where
  "HasPrefix s p \<longleftrightarrow> take (length p) s = p"

fun Contains :: "string \<Rightarrow> string \<Rightarrow> bool" where
  "Contains [] sub = (sub = [])"
| "Contains (c # cs) sub = (HasPrefix (c # cs) sub \<or> Contains cs sub)"

text \<open>The white space that \<open>strings.TrimSpace\<close> removes, for ASCII text.\<close>

definition isSpace :: "char \<Rightarrow> bool" where
  "isSpace c \<longleftrightarrow> (let n = of_char c :: nat in n = 32 \<or> (9 \<le> n \<and> n \<le> 13))"

definition TrimSpace :: "string \<Rightarrow> string" where
  "TrimSpace s = rev (dropWhile isSpace (rev (dropWhile isSpace s)))"

definition toLowerChar :: "char \<Rightarrow> char" where
  "toLowerChar c = (let n = of_char c :: nat in if 65 \<le> n \<and> n \<le> 90 then char_of (n + 32) else c)"

definition ToLower :: "string \<Rightarrow> string" where
  "ToLower s = map toLowerChar s"

fun Join :: "string list \<Rightarrow> string \<Rightarrow> string" where
  "Join [] sep = []"
| "Join [x] sep = x"
| "Join (x # y # ys) sep = x @ sep @ Join (y # ys) sep"

text \<open>Splitting at the first occurrence of a one-byte separator; \<open>strings.SplitN\<close> for \<open>n > 0\<close>.\<close>

fun cutAt :: "char \<Rightarrow> string \<Rightarrow> string \<times> string option" where
  "cutAt c [] = ([], None)"
| "cutAt c (x # xs) =
     (if x = c then ([], Some xs) else (case cutAt c xs of (a, b) \<Rightarrow> (x # a, b)))"

fun SplitN :: "char \<Rightarrow> nat \<Rightarrow> string \<Rightarrow> string list" where
  "SplitN c 0 s = []"
| "SplitN c (Suc 0) s = [s]"
| "SplitN c (Suc (Suc n)) s =
     (case cutAt c s of (a, None) \<Rightarrow> [a] | (a, Some b) \<Rightarrow> a # SplitN c (Suc n) b)"

text \<open>\<open>strings.Split\<close> with a one-byte separator and \<open>strings.TrimPrefix\<close>.\<close>

fun Split :: "char \<Rightarrow> string \<Rightarrow> string list" where
  "Split c [] = [[]]"
| "Split c (x # xs) =
     (if x = c then [] # Split c xs
      else (case Split c xs of [] \<Rightarrow> [[x]] | y # ys \<Rightarrow> (x # y) # ys))"

definition TrimPrefix :: "string \<Rightarrow> string \<Rightarrow> string" where
  "TrimPrefix s p = (if HasPrefix s p then drop (length p) s else s)"

text \<open>
  \<open>strings.NewReplacer\<close>: at each position the first pair, in argument order, whose old string is a
  prefix of the rest is replaced; replaced text is not scanned again. The old strings are non-empty.
\<close>

fun firstMatch :: "(string \<times> string) list \<Rightarrow> string \<Rightarrow> (string \<times> string) option" where
  "firstMatch [] s = None"
| "firstMatch ((old, new) # ps) s =
     (if old \<noteq> [] \<and> HasPrefix s old then Some (old, new) else firstMatch ps s)"

function replaceAll :: "(string \<times> string) list \<Rightarrow> string \<Rightarrow> string" where
  "replaceAll ps [] = []"
| "replaceAll ps (c # cs) =
     (case firstMatch ps (c # cs) of
        None \<Rightarrow> c # replaceAll ps cs
      | Some (old, new) \<Rightarrow> new @ replaceAll ps (drop (length old - 1) cs))"
  by pat_completeness auto
termination
  by (relation "measure (\<lambda>(ps, s). length s)") auto

section \<open>Decimal, hexadecimal and JSON text\<close>

definition digitChar :: "nat \<Rightarrow> char" where
  "digitChar d = char_of (48 + d)"

fun showNat :: "nat \<Rightarrow> string" where
  "showNat n = (if n < 10 then [digitChar n] else showNat (n div 10) @ [digitChar (n mod 10)])"

declare showNat.simps [simp del]

definition showInt :: "int \<Rightarrow> string" where
  "showInt i = (if i < 0 then CHR ''-'' # showNat (nat (- i)) else showNat (nat i))"

definition hexDigit :: "nat \<Rightarrow> char" where
  "hexDigit d = (if d < 10 then char_of (48 + d) else char_of (87 + d))"

definition hexByte :: "char \<Rightarrow> string" where
  "hexByte c = (let n = of_char c :: nat in [hexDigit (n div 16), hexDigit (n mod 16)])"

definition hexEncode :: "string \<Rightarrow> string" where
  "hexEncode s = concat (map hexByte s)"

text \<open>\<open>encoding/json\<close> on strings: the escapes of its encoder, with HTML escaping on, for ASCII.\<close>

definition jsonEscape :: "char \<Rightarrow> string" where
  "jsonEscape c =
     (let n = of_char c :: nat in
      if n = 34 then [CHR 0x5C, CHR 0x22]
      else if n = 92 then [CHR 0x5C, CHR 0x5C]
      else if n = 8 then [CHR 0x5C, CHR ''b'']
      else if n = 9 then [CHR 0x5C, CHR ''t'']
      else if n = 10 then [CHR 0x5C, CHR ''n'']
      else if n = 12 then [CHR 0x5C, CHR ''f'']
      else if n = 13 then [CHR 0x5C, CHR ''r'']
      else if n < 32 \<or> n = 38 \<or> n = 60 \<or> n = 62
        then [CHR 0x5C] @ ''u00'' @ hexByte c
      else [c])"

definition jsonString :: "string \<Rightarrow> string" where
  "jsonString s = [CHR 0x22] @ concat (map jsonEscape s) @ [CHR 0x22]"

definition jsonObject :: "(string \<times> string) list \<Rightarrow> string" where
  "jsonObject fs = ''{'' @ Join (map (\<lambda>(k, v). jsonString k @ '':'' @ v) fs) '','' @ ''}''"

text \<open>Decimal text determines the number.\<close>

definition readNat :: "string \<Rightarrow> nat" where
  "readNat s = foldl (\<lambda>a c. 10 * a + (of_char c - 48)) 0 s"

lemma readNat_showNat [simp]: "readNat (showNat n) = n"
proof (induction n rule: showNat.induct)
  case (1 n)
  have digit: "d < 10 \<Longrightarrow> of_char (digitChar d) - (48 :: nat) = d" for d
    by (simp add: digitChar_def)
  show ?case
  proof (cases "n < 10")
    case True
    with digit show ?thesis by (subst showNat.simps) (simp add: readNat_def)
  next
    case False
    with 1 digit [of "n mod 10"] show ?thesis
      by (subst showNat.simps) (simp add: readNat_def)
  qed
qed

lemma showNat_eq_iff [simp]: "showNat m = showNat n \<longleftrightarrow> m = n"
  by (metis readNat_showNat)

text \<open>Hexadecimal text determines the bytes, and joined text without the separator its parts.\<close>

lemma hexDigit_eq_iff: "d < 16 \<Longrightarrow> e < 16 \<Longrightarrow> hexDigit d = hexDigit e \<longleftrightarrow> d = e"
  by (auto simp: hexDigit_def char_of_eq_iff take_bit_eq_mod)

lemma hexByte_eq_iff [simp]: "hexByte c = hexByte d \<longleftrightarrow> c = d"
proof
  assume eq: "hexByte c = hexByte d"
  have bounds: "(of_char c :: nat) < 256" "(of_char d :: nat) < 256"
    by (rule nat_of_char_less_256)+
  with eq have "(of_char c :: nat) div 16 = of_char d div 16" "(of_char c :: nat) mod 16 = of_char d mod 16"
    by (auto simp: hexByte_def Let_def hexDigit_eq_iff)
  then have "(of_char c :: nat) = of_char d" by (metis div_mult_mod_eq)
  then show "c = d" by simp
qed simp

lemma length_hexByte [simp]: "length (hexByte c) = 2"
  by (simp add: hexByte_def Let_def)

lemma length_hexEncode [simp]: "length (hexEncode s) = 2 * length s"
  by (induction s) (simp_all add: hexEncode_def)

lemma hexEncode_eq_iff [simp]: "hexEncode s = hexEncode t \<longleftrightarrow> s = t"
proof
  assume "hexEncode s = hexEncode t"
  then show "s = t"
  proof (induction s arbitrary: t)
    case Nil
    then show ?case by (cases t) (simp_all add: hexEncode_def hexByte_def Let_def)
  next
    case (Cons c s)
    then obtain d t' where t: "t = d # t'"
      by (cases t) (auto simp: hexEncode_def hexByte_def Let_def)
    with Cons.prems have "hexByte c @ hexEncode s = hexByte d @ hexEncode t'"
      by (simp add: hexEncode_def)
    then have "hexByte c = hexByte d" "hexEncode s = hexEncode t'"
      by (simp_all add: append_eq_append_conv)
    with Cons.IH t show ?case by simp
  qed
qed simp

lemma sep_append_eq:
  "c \<notin> set x \<Longrightarrow> c \<notin> set y \<Longrightarrow> x @ c # xs = y @ c # ys \<longleftrightarrow> x = y \<and> xs = ys"
  by (induction x arbitrary: y; case_tac y) auto

lemma HasPrefix_append [simp]: "HasPrefix (p @ s) p"
  by (simp add: HasPrefix_def)

lemma HasPrefix_iff: "HasPrefix s p \<longleftrightarrow> (\<exists>r. s = p @ r)"
  by (metis HasPrefix_append HasPrefix_def append_take_drop_id)

lemma Split_ne [simp]: "Split c s \<noteq> []"
  by (induction s) (auto split: list.splits)

lemma Split_part [simp]: "c \<notin> set x \<Longrightarrow> Split c x = [x]"
  by (induction x) auto

lemma Split_append: "c \<notin> set x \<Longrightarrow> Split c (x @ c # s) = x # Split c s"
  by (induction x) auto

lemma Split_Join: "xs \<noteq> [] \<Longrightarrow> \<forall>x \<in> set xs. c \<notin> set x \<Longrightarrow> Split c (Join xs [c]) = xs"
  by (induction xs "[c]" rule: Join.induct) (auto simp: Split_append)

lemma HasPrefix_Cons [str_simps]:
  "HasPrefix s []" "\<not> HasPrefix [] (c # cs)"
  "HasPrefix (d # ds) (c # cs) \<longleftrightarrow> d = c \<and> HasPrefix ds cs"
  by (auto simp: HasPrefix_def)

lemma Contains_append [simp]: "Contains (p @ sub @ s) sub"
proof (induction p)
  case Nil
  have "HasPrefix (sub @ s) sub" by simp
  then show ?case by (cases "sub @ s") auto
qed simp

section \<open>Errors and panics\<close>

text \<open>
  The errors an API server returns, as package \<open>apierrors\<close> tells them apart, and the error values of
  the program: a plain message, a message wrapped around another error (\<open>fmt.Errorf\<close> with
  \<open>%w\<close>), an API error, and a panic, which no caller handles.
\<close>

datatype apierr = NotFound | AlreadyExists | Conflict | OtherErr string

datatype gerror = Msg string | Wrapped string gerror | ApiErr apierr | Panic string

fun IsNotFound :: "gerror \<Rightarrow> bool" where
  "IsNotFound (ApiErr e) = (e = NotFound)"
| "IsNotFound (Wrapped m e) = IsNotFound e"
| "IsNotFound e = False"

fun IsAlreadyExists :: "gerror \<Rightarrow> bool" where
  "IsAlreadyExists (ApiErr e) = (e = AlreadyExists)"
| "IsAlreadyExists (Wrapped m e) = IsAlreadyExists e"
| "IsAlreadyExists e = False"

fun isPanic :: "gerror \<Rightarrow> bool" where
  "isPanic (Panic m) = True"
| "isPanic e = False"

section \<open>The error-and-state monad\<close>

text \<open>
  A fallible operation on a state \<open>'w\<close>. The state survives an error: what a handler did before it
  failed stays done. \<open>attempt\<close> hands the outcome to the continuation as Go does with
  \<open>x, err := m()\<close>, except that a panic unwinds; \<open>bindE\<close> is \<open>if err != nil { return err }\<close>, and
  \<open>checkE\<close> the same with the error wrapped.
\<close>

type_synonym 'a result = "gerror + 'a"
type_synonym ('w, 'a) go = "'w \<Rightarrow> 'a result \<times> 'w"

definition ok :: "'a \<Rightarrow> ('w, 'a) go" where
  "ok x = (\<lambda>w. (Inr x, w))"

definition fail :: "gerror \<Rightarrow> ('w, 'a) go" where
  "fail e = (\<lambda>w. (Inl e, w))"

definition liftE :: "'a result \<Rightarrow> ('w, 'a) go" where
  "liftE r = (\<lambda>w. (r, w))"

definition attempt :: "('w, 'a) go \<Rightarrow> ('a result \<Rightarrow> ('w, 'b) go) \<Rightarrow> ('w, 'b) go" where
  "attempt m k = (\<lambda>w.
     (case m w of
        (Inl e, w') \<Rightarrow> if isPanic e then (Inl e, w') else k (Inl e) w'
      | (Inr x, w') \<Rightarrow> k (Inr x) w'))"

definition bindE :: "('w, 'a) go \<Rightarrow> ('a \<Rightarrow> ('w, 'b) go) \<Rightarrow> ('w, 'b) go" where
  "bindE m k = attempt m (\<lambda>r. case r of Inl e \<Rightarrow> fail e | Inr x \<Rightarrow> k x)"

definition checkE :: "string \<Rightarrow> ('w, 'a) go \<Rightarrow> ('a \<Rightarrow> ('w, 'b) go) \<Rightarrow> ('w, 'b) go" where
  "checkE msg m k = attempt m (\<lambda>r. case r of Inl e \<Rightarrow> fail (Wrapped msg e) | Inr x \<Rightarrow> k x)"

text \<open>The same on plain results, for the functions that touch no state.\<close>

definition wrapErr :: "string \<Rightarrow> 'a result \<Rightarrow> 'a result" where
  "wrapErr msg r =
     (case r of Inl e \<Rightarrow> if isPanic e then Inl e else Inl (Wrapped msg e) | Inr x \<Rightarrow> Inr x)"

definition bindR :: "'a result \<Rightarrow> ('a \<Rightarrow> 'b result) \<Rightarrow> 'b result" where
  "bindR r k = (case r of Inl e \<Rightarrow> Inl e | Inr x \<Rightarrow> k x)"

text \<open>\<open>utilerrors.NewAggregate\<close>: no error for an empty list.\<close>

definition NewAggregate :: "gerror list \<Rightarrow> gerror list + unit" where
  "NewAggregate errs = (if errs = [] then Inr () else Inl errs)"

lemma NewAggregate_simps [simp]:
  "NewAggregate errs = Inr u \<longleftrightarrow> errs = []" "NewAggregate errs = Inl e \<longleftrightarrow> errs \<noteq> [] \<and> e = errs"
  by (auto simp: NewAggregate_def)

lemma go_eval [go_simps]:
  "ok x w = (Inr x, w)" "fail e w = (Inl e, w)" "liftE r w = (r, w)"
  by (simp_all add: ok_def fail_def liftE_def)

lemma attempt_eval [go_simps]:
  "attempt m k w =
     (case m w of
        (Inl e, w') \<Rightarrow> if isPanic e then (Inl e, w') else k (Inl e) w'
      | (Inr x, w') \<Rightarrow> k (Inr x) w')"
  by (simp add: attempt_def)

lemma bindE_eval [go_simps]:
  "bindE m k w = (case m w of (Inl e, w') \<Rightarrow> (Inl e, w') | (Inr x, w') \<Rightarrow> k x w')"
  by (auto simp: bindE_def go_simps split: prod.splits sum.splits)

lemma checkE_eval [go_simps]:
  "checkE msg m k w =
     (case m w of
        (Inl e, w') \<Rightarrow> (if isPanic e then Inl e else Inl (Wrapped msg e), w')
      | (Inr x, w') \<Rightarrow> k x w')"
  by (auto simp: checkE_def go_simps split: prod.splits sum.splits)

lemma bindR_simps [simp]:
  "bindR (Inl e) k = Inl e" "bindR (Inr x) k = k x"
  by (simp_all add: bindR_def)

lemma bindR_eq_Inr: "bindR r k = Inr y \<longleftrightarrow> (\<exists>x. r = Inr x \<and> k x = Inr y)"
  by (cases r) simp_all

lemma wrapErr_eq_Inr [simp]: "wrapErr msg r = Inr x \<longleftrightarrow> r = Inr x"
  by (auto simp: wrapErr_def split: sum.splits if_splits)

lemma bindE_eq_Inr:
  "bindE m k w = (Inr y, w') \<longleftrightarrow> (\<exists>x v. m w = (Inr x, v) \<and> k x v = (Inr y, w'))"
  by (auto simp: go_simps split: prod.splits sum.splits)

lemma checkE_eq_Inr:
  "checkE msg m k w = (Inr y, w') \<longleftrightarrow> (\<exists>x v. m w = (Inr x, v) \<and> k x v = (Inr y, w'))"
  by (auto simp: go_simps split: prod.splits sum.splits)

lemmas eq_Inr = bindE_eq_Inr checkE_eq_Inr bindR_eq_Inr

lemma bindE_ok [simp]: "bindE (ok x) k = k x"
  by (rule ext) (simp add: go_simps)

lemma liftE_Inr [simp]: "checkE msg (liftE (Inr x)) k = k x" "bindE (liftE (Inr x)) k = k x"
  by (rule ext, simp add: go_simps)+

lemma bindE_fail [simp]: "bindE (fail e) k = fail e"
  by (rule ext) (simp add: go_simps)

lemma bindE_assoc: "bindE (bindE m k) h = bindE m (\<lambda>x. bindE (k x) h)"
  by (rule ext) (simp add: go_simps split: prod.splits sum.splits)

section \<open>Sorting with a comparator\<close>

text \<open>
  \<open>slices.SortStableFunc\<close>: a stable sort by a comparator with values in \<open>{-1, 0, 1}\<close>. The contract
  the package asks of the comparator, a strict weak ordering, is the locale below; the client
  lemmas hold for every comparator that keeps it.
\<close>

definition Compare :: "string \<Rightarrow> string \<Rightarrow> int" where
  "Compare a b = (if a < b then - 1 else if a = b then 0 else 1)"

fun insertFunc :: "('a \<Rightarrow> 'a \<Rightarrow> int) \<Rightarrow> 'a \<Rightarrow> 'a list \<Rightarrow> 'a list" where
  "insertFunc cmp x [] = [x]"
| "insertFunc cmp x (y # ys) = (if cmp y x < 0 then y # insertFunc cmp x ys else x # y # ys)"

definition SortStableFunc :: "('a \<Rightarrow> 'a \<Rightarrow> int) \<Rightarrow> 'a list \<Rightarrow> 'a list" where
  "SortStableFunc cmp xs = foldr (insertFunc cmp) xs []"

lemma mset_insertFunc [simp]: "mset (insertFunc cmp x xs) = add_mset x (mset xs)"
  by (induction xs) auto

lemma mset_SortStableFunc [simp]: "mset (SortStableFunc cmp xs) = mset xs"
  by (induction xs) (simp_all add: SortStableFunc_def)

lemma set_SortStableFunc [simp]: "set (SortStableFunc cmp xs) = set xs"
  by (metis mset_SortStableFunc set_mset_mset)

lemma length_SortStableFunc [simp]: "length (SortStableFunc cmp xs) = length xs"
  by (metis mset_SortStableFunc size_mset)

lemma SortStableFunc_Nil [simp]: "SortStableFunc cmp [] = []"
  by (simp add: SortStableFunc_def)

lemma SortStableFunc_Cons [simp]:
  "SortStableFunc cmp (x # xs) = insertFunc cmp x (SortStableFunc cmp xs)"
  by (simp add: SortStableFunc_def)

locale comparator =
  fixes cmp :: "'a \<Rightarrow> 'a \<Rightarrow> int"
  assumes cmp_flip: "cmp x y < 0 \<longleftrightarrow> 0 < cmp y x"
    and cmp_trans: "cmp x y \<le> 0 \<Longrightarrow> cmp y z \<le> 0 \<Longrightarrow> cmp x z \<le> 0"
begin

lemma cmp_total: "\<not> cmp y x < 0 \<Longrightarrow> cmp x y \<le> 0"
  using cmp_flip [of y x] by simp

lemma sorted_insertFunc:
  "sorted_wrt (\<lambda>a b. cmp a b \<le> 0) xs \<Longrightarrow> sorted_wrt (\<lambda>a b. cmp a b \<le> 0) (insertFunc cmp x xs)"
proof (induction xs)
  case Nil
  then show ?case by simp
next
  case (Cons y ys)
  have mem: "set (insertFunc cmp x ys) = insert x (set ys)"
    by (metis mset_insertFunc set_mset_add_mset_insert set_mset_mset)
  show ?case
  proof (cases "cmp y x < 0")
    case True
    with Cons mem show ?thesis by auto
  next
    case False
    then have "cmp x y \<le> 0" by (rule cmp_total)
    with Cons.prems False show ?thesis by (auto intro: cmp_trans)
  qed
qed

lemma sorted_SortStableFunc: "sorted_wrt (\<lambda>a b. cmp a b \<le> 0) (SortStableFunc cmp xs)"
  by (induction xs) (simp_all add: sorted_insertFunc)

lemma insertFunc_least: "\<forall>y \<in> set xs. cmp x y \<le> 0 \<Longrightarrow> insertFunc cmp x xs = x # xs"
proof (cases xs)
  case (Cons y ys)
  assume "\<forall>y \<in> set xs. cmp x y \<le> 0"
  with Cons have "\<not> cmp y x < 0" using cmp_flip [of y x] by auto
  with Cons show ?thesis by simp
qed simp

lemma SortStableFunc_sorted_id:
  "sorted_wrt (\<lambda>a b. cmp a b \<le> 0) xs \<Longrightarrow> SortStableFunc cmp xs = xs"
  by (induction xs) (simp_all add: insertFunc_least)

lemma SortStableFunc_idem: "SortStableFunc cmp (SortStableFunc cmp xs) = SortStableFunc cmp xs"
  by (rule SortStableFunc_sorted_id) (rule sorted_SortStableFunc)

end

definition compareBy :: "('a \<Rightarrow> string) \<Rightarrow> 'a \<Rightarrow> 'a \<Rightarrow> int" where
  "compareBy f a b = Compare (f a) (f b)"

interpretation by_key: comparator "compareBy f" for f
  by unfold_locales (auto simp: compareBy_def Compare_def split: if_splits)

lemma insertFunc_compareBy: "insertFunc (compareBy f) x xs = insort_key f x xs"
  by (induction xs) (auto simp: compareBy_def Compare_def)

lemma SortStableFunc_compareBy: "SortStableFunc (compareBy f) xs = sort_key f xs"
  by (induction xs) (simp_all add: insertFunc_compareBy)

text \<open>Two lists with the same elements and distinct keys sort to the same list.\<close>

lemma SortStableFunc_compareBy_unique:
  assumes "mset xs = mset ys" "inj_on f (set xs)" "distinct xs"
  shows "SortStableFunc (compareBy f) xs = SortStableFunc (compareBy f) ys"
proof -
  have s: "set ys = set xs" using assms(1) by (metis set_mset_mset)
  have d: "distinct ys" using assms(1,3) by (metis mset_eq_imp_distinct_iff)
  have "sort_key f xs = sort_key f ys"
    by (rule map_sorted_distinct_set_unique [of f])
       (use assms s d in \<open>simp_all add: distinct_map\<close>)
  then show ?thesis by (simp add: SortStableFunc_compareBy)
qed

end
