(* ===== verification/Kube_Types.thy ===== *)
theory Kube_Types
  imports Prelude
begin

text \<open>
  The Kubernetes data the program handles. An \<open>unstructured.Unstructured\<close> is a record of the fields
  its accessors read and write, with every other metadata field in \<open>oExtraMeta\<close> and every top-level
  field besides \<open>apiVersion\<close>, \<open>kind\<close> and \<open>metadata\<close> in \<open>oContent\<close>. A string field that Kubernetes
  omits when empty is \<open>''''\<close>; labels and annotations distinguish an absent map (\<^term>\<open>None\<close>, Go's
  nil) from an empty one, because the merge patches of the syncer do.
\<close>

type_synonym labels = "(string, string) fmap"

datatype json =
    JNull
  | JBool bool
  | JInt int
  | JFloat string
  | JStr string
  | JArr "json list"
  | JObj "(string, json) fmap"

record ownerReference =
  own_APIVersion :: string
  own_Kind :: string
  own_Name :: string

record unstructured =
  oAPIVersion :: string
  oKind :: string
  oName :: string
  oNamespace :: string
  oUID :: string
  oResourceVersion :: string
  oSelfLink :: string
  oGeneration :: int
  oCreationTimestamp :: "string option"
  oDeletionTimestamp :: "string option"
  oLabels :: "labels option"
  oAnnotations :: "labels option"
  oFinalizers :: "string list"
  oOwnerReferences :: "ownerReference list"
  oManagedFields :: "json list"
  oExtraMeta :: "(string, json) fmap"
  oContent :: "(string, json) fmap"

definition emptyObject :: unstructured where
  "emptyObject = \<lparr> oAPIVersion = [], oKind = [], oName = [], oNamespace = [], oUID = [],
     oResourceVersion = [], oSelfLink = [], oGeneration = 0, oCreationTimestamp = None,
     oDeletionTimestamp = None, oLabels = None, oAnnotations = None, oFinalizers = [],
     oOwnerReferences = [], oManagedFields = [], oExtraMeta = fmempty, oContent = fmempty \<rparr>"

text \<open>
  Reading a map that may be nil, as Go does: a nil map has no entries, and a missing key reads as the
  empty string.
\<close>

definition orEmpty :: "labels option \<Rightarrow> labels" where
  "orEmpty m = (case m of None \<Rightarrow> fmempty | Some l \<Rightarrow> l)"

definition mapGet :: "labels \<Rightarrow> string \<Rightarrow> string" where
  "mapGet m k = (case fmlookup m k of None \<Rightarrow> [] | Some v \<Rightarrow> v)"

lemma orEmpty_simps [simp]: "orEmpty None = fmempty" "orEmpty (Some l) = l"
  by (simp_all add: orEmpty_def)

lemma mapGet_simps [simp]:
  "mapGet fmempty k = []" "mapGet (fmupd k v m) k' = (if k = k' then v else mapGet m k')"
  by (simp_all add: mapGet_def)

lemma mapGet_add:
  "mapGet (m ++\<^sub>f n) k = (if k |\<in>| fmdom n then mapGet n k else mapGet m k)"
  by (auto simp: mapGet_def split: option.splits)

record nsname =
  nn_Namespace :: string
  nn_Name :: string

record groupKind =
  gk_Group :: string
  gk_Kind :: string

record groupVersionKind =
  gvk_Group :: string
  gvk_Version :: string
  gvk_Kind :: string

record groupVersionResource =
  gvr_Group :: string
  gvr_Version :: string
  gvr_Resource :: string

record groupResource =
  gr_Group :: string
  gr_Resource :: string

definition GroupResource :: "groupVersionResource \<Rightarrow> groupResource" where
  "GroupResource g = \<lparr> gr_Group = gvr_Group g, gr_Resource = gvr_Resource g \<rparr>"

record labelSelectorRequirement =
  lsr_Key :: string
  lsr_Operator :: string
  lsr_Values :: "string list"

record LabelSelector =
  ls_MatchLabels :: labels
  ls_MatchExpressions :: "labelSelectorRequirement list"

text \<open>
  A selector passed to a List call: everything, the exact labels of \<open>labels.SelectorFromSet\<close>, or a
  converted \<open>metav1.LabelSelector\<close>.
\<close>

datatype selector = Everything | SelectorFromSet labels | FromLabelSelector LabelSelector

record secret =
  sec_Name :: string
  sec_Namespace :: string
  sec_ResourceVersion :: string
  sec_Labels :: "labels option"
  sec_Data :: "labels option"

definition emptySecret :: secret where
  "emptySecret = \<lparr> sec_Name = [], sec_Namespace = [], sec_ResourceVersion = [],
     sec_Labels = None, sec_Data = None \<rparr>"

record kubeNamespace =
  ns_Name :: string
  ns_Labels :: "labels option"

text \<open>\<open>metav1.DeletionPropagation\<close>: the zero value of the Go string type is \<open>PolicyUnset\<close>.\<close>

datatype deletionPropagation =
    PolicyUnset
  | DeletePropagationBackground
  | DeletePropagationForeground
  | DeletePropagationOrphan

end
