(* ===== verification/Agent_Options.thy ===== *)
theory Agent_Options
  imports Kube_Types
begin

text \<open>
  The command line of the agent (\<open>../cmd/api-syncagent/options.go\<close>), its log format (\<open>log/zap.go\<close>) and
  the options of a controller process (\<open>options\<close>): flags, validation and completion. The check of a
  DNS label, the parser of label selectors and the value parsers of \<open>pflag\<close> are parameters.
\<close>

section \<open>Log options\<close>

definition FormatJSON :: string where
  "FormatJSON = ''JSON''"

definition FormatConsole :: string where
  "FormatConsole = ''Console''"

definition AvailableFormats :: "string list" where
  "AvailableFormats = [FormatJSON, FormatConsole]"

record logOptions =
  lo_Debug :: bool
  lo_Format :: string

definition NewDefaultLogOptions :: logOptions where
  "NewDefaultLogOptions = \<lparr> lo_Debug = False, lo_Format = FormatJSON \<rparr>"

definition Format_Set :: "string \<Rightarrow> string result" where
  "Format_Set s =
     (if ToLower s = ''json'' then Inr FormatJSON
      else if ToLower s = ''console'' then Inr FormatConsole
      else Inl (Msg ''invalid format''))"

definition Formats_String :: "string list \<Rightarrow> string" where
  "Formats_String fs = TrimPrefix (foldl (\<lambda>s format. s @ '', '' @ format) [] fs) '', ''"

fun Formats_Contains :: "string list \<Rightarrow> string \<Rightarrow> bool" where
  "Formats_Contains [] s = False"
| "Formats_Contains (format # fs) s = (if s = format then True else Formats_Contains fs s)"

definition log_Validate :: "logOptions \<Rightarrow> unit result" where
  "log_Validate lo =
     (if \<not> Formats_Contains AvailableFormats (lo_Format lo) then Inl (Msg ''invalid log-format specified'')
      else Inr ())"

lemma Formats_Contains_iff [simp]: "Formats_Contains fs s \<longleftrightarrow> s \<in> set fs"
  by (induction fs) auto

lemma foldl_sep: "foldl (\<lambda>s f. s @ sep @ f) acc fs = acc @ concat (map (\<lambda>f. sep @ f) fs)"
  by (induction fs arbitrary: acc) simp_all

lemma concat_sep: "concat (map (\<lambda>f. sep @ f) (x # xs)) = sep @ Join (x # xs) sep"
proof (induction xs arbitrary: x)
  case (Cons y ys)
  from Cons [of y] show ?case by simp
qed simp

text \<open>The loop that prints the formats is a join, and what a flag accepts passes validation.\<close>

lemma Formats_String_Join: "Formats_String fs = Join fs '', ''"
proof (cases fs)
  case (Cons x xs)
  have "foldl (\<lambda>s format. s @ '', '' @ format) [] fs = '', '' @ Join fs '', ''"
    unfolding Cons foldl_sep concat_sep by simp
  then show ?thesis by (simp add: Formats_String_def TrimPrefix_def HasPrefix_def)
qed (simp add: Formats_String_def TrimPrefix_def HasPrefix_def)

lemma Format_Set_valid: "Format_Set s = Inr f \<Longrightarrow> log_Validate (lo\<lparr>lo_Format := f\<rparr>) = Inr ()"
  by (auto simp: Format_Set_def log_Validate_def AvailableFormats_def split: if_splits)

lemma Format_Set_again: "Format_Set s = Inr f \<Longrightarrow> Format_Set f = Inr f"
  by (auto simp: Format_Set_def FormatJSON_def FormatConsole_def ToLower_def toLowerChar_def Let_def
        of_char_def char_of_def bit_0 split: if_splits)

text \<open>The logger: its level, its encoder, and the settings that are the same for every logger.\<close>

datatype logLevel = InfoLevel | DebugLevel

datatype logEncoder = JSONEncoder | ConsoleEncoder

record logger =
  lg_Level :: logLevel
  lg_Encoder :: logEncoder
  lg_TimeKey :: string
  lg_AddCaller :: bool

definition newLogger :: "bool \<Rightarrow> string \<Rightarrow> logger" where
  "newLogger debug format =
     \<lparr> lg_Level = (if debug then DebugLevel else InfoLevel),
       lg_Encoder = (if format = FormatJSON then JSONEncoder else ConsoleEncoder),
       lg_TimeKey = ''time'', lg_AddCaller = True \<rparr>"

definition NewFromOptions :: "logOptions \<Rightarrow> logger" where
  "NewFromOptions lo = newLogger (lo_Debug lo) (lo_Format lo)"

definition newDefaultLogger :: logger where
  "newDefaultLogger = newLogger False FormatJSON"

text \<open>Without flags the process logs like the default logger, and for valid options the encoder tells the format.\<close>

lemma NewFromOptions_default: "NewFromOptions NewDefaultLogOptions = newDefaultLogger"
  by (simp add: NewFromOptions_def NewDefaultLogOptions_def newDefaultLogger_def)

lemma NewFromOptions_inj:
  "log_Validate a = Inr () \<Longrightarrow> log_Validate b = Inr () \<Longrightarrow> NewFromOptions a = NewFromOptions b \<longleftrightarrow> a = b"
  by (cases a; cases b)
     (auto simp: NewFromOptions_def newLogger_def log_Validate_def AvailableFormats_def FormatJSON_def FormatConsole_def
       split: if_splits)

section \<open>Sets as flags\<close>

text \<open>
  The order in which a Go set is enumerated is the argument \<open>order\<close> of \<open>setFlag_String\<close>. The conversion
  to \<open>sort.StringSlice\<close> in that function sorts nothing.
\<close>

definition setFlag_String :: "string list \<Rightarrow> string" where
  "setFlag_String order = Join order '',''"

definition setFlag_Set :: "string \<Rightarrow> string fset" where
  "setFlag_Set value =
     (if value \<noteq> [] then
        foldl (\<lambda>s val. let val = TrimSpace val in if val \<noteq> [] then finsert val s else s) {||}
          (Split (CHR '','') value)
      else {||})"

record ControllerRunOptions =
  cro_MetricsAddr :: string
  cro_HealthAddr :: string
  cro_EnableLeaderElection :: bool
  cro_LeaderElectionWorkspace :: string
  cro_LeaderElectionNamespace :: string
  cro_WorkerCount :: int
  cro_EnabledControllers :: "string fset"
  cro_DisabledControllers :: "string fset"

definition NewDefaultRunOptions :: "int \<Rightarrow> ControllerRunOptions" where
  "NewDefaultRunOptions portIndex = \<lparr>
     cro_MetricsAddr = ''127.0.0.1:8'' @ showInt portIndex @ ''85'',
     cro_HealthAddr = ''127.0.0.1:8'' @ showInt portIndex @ ''86'',
     cro_EnableLeaderElection = True, cro_LeaderElectionWorkspace = ''root'',
     cro_LeaderElectionNamespace = ''default'', cro_WorkerCount = 4,
     cro_EnabledControllers = {||}, cro_DisabledControllers = {||} \<rparr>"

definition EffectiveControllers :: "ControllerRunOptions \<Rightarrow> string fset \<Rightarrow> string fset" where
  "EffectiveControllers opts allControllerNames =
     (if cro_EnabledControllers opts \<noteq> {||} then cro_EnabledControllers opts
      else if cro_DisabledControllers opts \<noteq> {||}
        then allControllerNames |-| cro_DisabledControllers opts
      else allControllerNames)"

lemma setFlag_fold:
  "foldl (\<lambda>s val. let val = TrimSpace val in if val \<noteq> [] then finsert val s else s) acc xs =
     acc |\<union>| fset_of_list (filter (\<lambda>v. v \<noteq> []) (map TrimSpace xs))"
  by (induction xs arbitrary: acc) (auto simp: Let_def)

text \<open>A name as a flag value can carry it.\<close>

definition flagName :: "string \<Rightarrow> bool" where
  "flagName s \<longleftrightarrow> s \<noteq> [] \<and> CHR '','' \<notin> set s \<and> TrimSpace s = s"

lemma Join_ne: "xs \<noteq> [] \<Longrightarrow> \<forall>x \<in> set xs. x \<noteq> [] \<Longrightarrow> Join xs sep \<noteq> []"
  by (induction xs sep rule: Join.induct) auto

text \<open>
  A set that is printed, in whatever order, and read back as a flag is the same set, if its
  elements are non-empty names without commas and without white space around them.
\<close>

theorem setFlag_roundtrip:
  assumes "\<forall>s \<in> set order. flagName s"
  shows "setFlag_Set (setFlag_String order) = fset_of_list order"
proof (cases "order = []")
  case False
  have names: "\<forall>s \<in> set order. s \<noteq> [] \<and> CHR '','' \<notin> set s" "map TrimSpace order = order"
    using assms by (auto simp: flagName_def intro: map_idI)
  then have "filter (\<lambda>v. v \<noteq> []) order = order" by (simp add: filter_id_conv)
  with False names show ?thesis
    by (simp add: setFlag_Set_def setFlag_String_def Split_Join Join_ne setFlag_fold)
qed (simp add: setFlag_Set_def setFlag_String_def)

section \<open>The options of the agent\<close>

record Options =
  opt_KcpKubeconfig :: string
  opt_Namespace :: string
  opt_EnableLeaderElection :: bool
  opt_AgentName :: string
  opt_APIExportEndpointSliceRef :: string
  opt_PublishedResourceSelectorString :: string
  opt_PublishedResourceSelector :: "selector option"
  opt_KubeconfigHostOverride :: string
  opt_KubeconfigCAFileOverride :: string
  opt_LogOptions :: logOptions
  opt_MetricsAddr :: string
  opt_HealthAddr :: string
  opt_DisabledControllers :: "string list"
  opt_EnableServerSideApply :: bool

text \<open>
  Libraries: \<open>fl_IsDNS1035Label\<close> gives the violations of the label syntax, \<open>fl_Parse\<close> is
  \<open>labels.Parse\<close>, \<open>fl_ParseBool\<close> and \<open>fl_ReadCSV\<close> are the value parsers of \<open>pflag\<close>.
\<close>

record flagLib =
  fl_IsDNS1035Label :: "string \<Rightarrow> string list"
  fl_Parse :: "string \<Rightarrow> unit + selector"
  fl_ParseBool :: "string \<Rightarrow> unit + bool"
  fl_ReadCSV :: "string \<Rightarrow> unit + string list"

definition availableControllers :: "string fset" where
  "availableControllers = {|''apiexport'', ''apiresourceschema'', ''sync''|}"

definition NewOptions :: Options where
  "NewOptions = \<lparr> opt_KcpKubeconfig = [], opt_Namespace = [], opt_EnableLeaderElection = False,
     opt_AgentName = [], opt_APIExportEndpointSliceRef = [], opt_PublishedResourceSelectorString = [],
     opt_PublishedResourceSelector = Some Everything, opt_KubeconfigHostOverride = [],
     opt_KubeconfigCAFileOverride = [], opt_LogOptions = NewDefaultLogOptions,
     opt_MetricsAddr = ''127.0.0.1:8085'', opt_HealthAddr = [], opt_DisabledControllers = [],
     opt_EnableServerSideApply = False \<rparr>"

text \<open>
  One flag of the command line. The first value of a list flag replaces the default, every further
  one is appended; \<open>changed\<close> are the list flags seen so far.
\<close>

definition flagErr :: "string \<Rightarrow> unit + 'a \<Rightarrow> 'a result" where
  "flagErr flag r = (case r of Inl _ \<Rightarrow> Inl (Msg (''invalid argument for --'' @ flag)) | Inr x \<Rightarrow> Inr x)"

definition AddFlags :: "flagLib \<Rightarrow> string \<Rightarrow> string \<Rightarrow> Options \<times> bool \<Rightarrow> (Options \<times> bool) result" where
  "AddFlags L flag value = (\<lambda>(opts, changed).
     if flag = ''log-debug'' then
       bindR (flagErr flag (fl_ParseBool L value)) (\<lambda>b.
         Inr (opts\<lparr>opt_LogOptions := (opt_LogOptions opts)\<lparr>lo_Debug := b\<rparr>\<rparr>, changed))
     else if flag = ''log-format'' then
       bindR (Format_Set value) (\<lambda>f.
         Inr (opts\<lparr>opt_LogOptions := (opt_LogOptions opts)\<lparr>lo_Format := f\<rparr>\<rparr>, changed))
     else if flag = ''kcp-kubeconfig'' then Inr (opts\<lparr>opt_KcpKubeconfig := value\<rparr>, changed)
     else if flag = ''namespace'' then Inr (opts\<lparr>opt_Namespace := value\<rparr>, changed)
     else if flag = ''agent-name'' then Inr (opts\<lparr>opt_AgentName := value\<rparr>, changed)
     else if flag = ''apiexportendpointslice-ref'' then
       Inr (opts\<lparr>opt_APIExportEndpointSliceRef := value\<rparr>, changed)
     else if flag = ''published-resource-selector'' then
       Inr (opts\<lparr>opt_PublishedResourceSelectorString := value\<rparr>, changed)
     else if flag = ''enable-leader-election'' then
       bindR (flagErr flag (fl_ParseBool L value)) (\<lambda>b.
         Inr (opts\<lparr>opt_EnableLeaderElection := b\<rparr>, changed))
     else if flag = ''kubeconfig-host-override'' then
       Inr (opts\<lparr>opt_KubeconfigHostOverride := value\<rparr>, changed)
     else if flag = ''kubeconfig-ca-file-override'' then
       Inr (opts\<lparr>opt_KubeconfigCAFileOverride := value\<rparr>, changed)
     else if flag = ''metrics-address'' then Inr (opts\<lparr>opt_MetricsAddr := value\<rparr>, changed)
     else if flag = ''health-address'' then Inr (opts\<lparr>opt_HealthAddr := value\<rparr>, changed)
     else if flag = ''disabled-controllers'' then
       bindR (flagErr flag (fl_ReadCSV L value)) (\<lambda>names.
         Inr (opts\<lparr>opt_DisabledControllers :=
                (if changed then opt_DisabledControllers opts @ names else names)\<rparr>, True))
     else if flag = ''enable-server-side-apply'' then
       bindR (flagErr flag (fl_ParseBool L value)) (\<lambda>b.
         Inr (opts\<lparr>opt_EnableServerSideApply := b\<rparr>, changed))
     else Inl (Msg ''unknown flag''))"

fun parseFlags :: "flagLib \<Rightarrow> (string \<times> string) list \<Rightarrow> Options \<times> bool \<Rightarrow> Options result" where
  "parseFlags L [] st = Inr (fst st)"
| "parseFlags L ((flag, value) # args) st = bindR (AddFlags L flag value st) (parseFlags L args)"

definition unknownControllers :: "Options \<Rightarrow> string fset" where
  "unknownControllers opts = fset_of_list (opt_DisabledControllers opts) |-| availableControllers"

definition Validate :: "flagLib \<Rightarrow> Options \<Rightarrow> gerror list + unit" where
  "Validate L opts = NewAggregate (
     (case log_Validate (opt_LogOptions opts) of Inl e \<Rightarrow> [e] | Inr _ \<Rightarrow> []) @
     (if opt_Namespace opts = [] then [Msg ''--namespace is required''] else []) @
     (if opt_AgentName opts \<noteq> [] \<and> fl_IsDNS1035Label L (opt_AgentName opts) \<noteq> []
        then [Msg ''--agent-name is invalid''] else []) @
     (if opt_APIExportEndpointSliceRef opts = []
        then [Msg ''--apiexportendpointslice-ref is required''] else []) @
     (if opt_KcpKubeconfig opts = [] then [Msg ''--kcp-kubeconfig is required''] else []) @
     (let s = opt_PublishedResourceSelectorString opts in
      if s \<noteq> [] then
        (case fl_Parse L s of
           Inl _ \<Rightarrow> [Wrapped ''invalid --published-resource-selector'' (Msg ''parse'')]
         | Inr _ \<Rightarrow> [])
      else []) @
     (if unknownControllers opts \<noteq> {||} then [Msg ''unknown controller(s)''] else []))"

definition Complete :: "flagLib \<Rightarrow> Options \<Rightarrow> (gerror list + unit) \<times> Options" where
  "Complete L opts =
     (let opts = (if opt_AgentName opts = []
                  then opts\<lparr>opt_AgentName := opt_APIExportEndpointSliceRef opts @ ''-syncagent''\<rparr>
                  else opts);
          s = opt_PublishedResourceSelectorString opts
      in if s \<noteq> [] then
           (case fl_Parse L s of
              Inl _ \<Rightarrow>
                (NewAggregate [Wrapped ''invalid --published-resource-selector'' (Msg ''parse'')],
                 opts\<lparr>opt_PublishedResourceSelector := None\<rparr>)
            | Inr sel \<Rightarrow> (NewAggregate [], opts\<lparr>opt_PublishedResourceSelector := Some sel\<rparr>))
         else (NewAggregate [], opts))"

section \<open>What validated options are\<close>

lemma log_Validate_iff: "log_Validate lo = Inr u \<longleftrightarrow> lo_Format lo \<in> set AvailableFormats"
  by (simp add: log_Validate_def)

lemma Validate_iff:
  "Validate L opts = Inr u \<longleftrightarrow>
     lo_Format (opt_LogOptions opts) \<in> set AvailableFormats \<and> opt_Namespace opts \<noteq> [] \<and>
     (opt_AgentName opts \<noteq> [] \<longrightarrow> fl_IsDNS1035Label L (opt_AgentName opts) = []) \<and>
     opt_APIExportEndpointSliceRef opts \<noteq> [] \<and> opt_KcpKubeconfig opts \<noteq> [] \<and>
     (opt_PublishedResourceSelectorString opts \<noteq> [] \<longrightarrow>
        (\<exists>sel. fl_Parse L (opt_PublishedResourceSelectorString opts) = Inr sel)) \<and>
     fset_of_list (opt_DisabledControllers opts) |\<subseteq>| availableControllers"
proof -
  have "(case log_Validate (opt_LogOptions opts) of Inl e \<Rightarrow> [e] | Inr _ \<Rightarrow> []) = [] \<longleftrightarrow>
      lo_Format (opt_LogOptions opts) \<in> set AvailableFormats"
    using log_Validate_iff [of "opt_LogOptions opts" "()"] by (auto split: sum.splits)
  moreover have "unknownControllers opts \<noteq> {||} \<longleftrightarrow>
      \<not> fset_of_list (opt_DisabledControllers opts) |\<subseteq>| availableControllers"
    by (auto simp: unknownControllers_def)
  ultimately show ?thesis
    by (auto simp: Validate_def Let_def split: sum.splits)
qed

text \<open>What the rest of the agent takes for granted of its options.\<close>

definition completeOptions :: "flagLib \<Rightarrow> Options \<Rightarrow> bool" where
  "completeOptions L opts \<longleftrightarrow>
     opt_AgentName opts \<noteq> [] \<and> opt_Namespace opts \<noteq> [] \<and> opt_APIExportEndpointSliceRef opts \<noteq> [] \<and>
     opt_KcpKubeconfig opts \<noteq> [] \<and>
     opt_PublishedResourceSelector opts =
       Some (if opt_PublishedResourceSelectorString opts = [] then Everything
             else projr (fl_Parse L (opt_PublishedResourceSelectorString opts))) \<and>
     set (opt_DisabledControllers opts) \<subseteq> {''apiexport'', ''apiresourceschema'', ''sync''}"

lemma AddFlags_selector:
  "AddFlags L flag value st = Inr st' \<Longrightarrow>
     opt_PublishedResourceSelector (fst st') = opt_PublishedResourceSelector (fst st)"
  by (cases st) (auto simp: AddFlags_def bindR_eq_Inr split: if_splits)

lemma parseFlags_selector:
  "parseFlags L args st = Inr opts \<Longrightarrow>
     opt_PublishedResourceSelector opts = opt_PublishedResourceSelector (fst st)"
  by (induction L args st rule: parseFlags.induct) (fastforce simp: bindR_eq_Inr dest: AddFlags_selector)+

lemma Complete_fields:
  "opt_AgentName (snd (Complete L opts)) =
     (if opt_AgentName opts = [] then opt_APIExportEndpointSliceRef opts @ ''-syncagent''
      else opt_AgentName opts)"
  "opt_Namespace (snd (Complete L opts)) = opt_Namespace opts"
  "opt_APIExportEndpointSliceRef (snd (Complete L opts)) = opt_APIExportEndpointSliceRef opts"
  "opt_KcpKubeconfig (snd (Complete L opts)) = opt_KcpKubeconfig opts"
  "opt_PublishedResourceSelectorString (snd (Complete L opts)) = opt_PublishedResourceSelectorString opts"
  "opt_DisabledControllers (snd (Complete L opts)) = opt_DisabledControllers opts"
  "opt_LogOptions (snd (Complete L opts)) = opt_LogOptions opts"
  by (auto simp: Complete_def Let_def split: sum.splits)

lemma Complete_selector:
  "opt_PublishedResourceSelectorString opts = [] \<or>
     fl_Parse L (opt_PublishedResourceSelectorString opts) = Inr sel \<Longrightarrow>
   fst (Complete L opts) = Inr () \<and>
   opt_PublishedResourceSelector (snd (Complete L opts)) =
     (if opt_PublishedResourceSelectorString opts = [] then opt_PublishedResourceSelector opts else Some sel)"
  by (auto simp: Complete_def Let_def)

lemma Validate_Complete:
  assumes "Validate L opts = Inr ()" "opt_PublishedResourceSelector opts = Some Everything"
  shows "fst (Complete L opts) = Inr () \<and> completeOptions L (snd (Complete L opts))"
proof -
  note v = assms(1) [unfolded Validate_iff]
  then obtain sel where sel: "opt_PublishedResourceSelectorString opts = [] \<or>
      fl_Parse L (opt_PublishedResourceSelectorString opts) = Inr sel" by blast
  note completed = Complete_selector [OF sel]
  have "set (opt_DisabledControllers opts) \<subseteq> {''apiexport'', ''apiresourceschema'', ''sync''}"
    using v by (auto simp: availableControllers_def less_eq_fset.rep_eq fset_of_list.rep_eq)
  with v sel completed assms(2) show ?thesis
    by (auto simp: completeOptions_def Complete_fields)
qed

text \<open>
  Options that pass validation are complete. Whatever flags are given, if they parse and validate,
  completion does not fail, and afterwards agent name, namespace, endpoint slice and kubeconfig are
  set, the selector is the parsed one or everything, and only existing controllers are disabled.
\<close>

theorem validated_options_complete:
  assumes "parseFlags L args (NewOptions, False) = Inr opts" "Validate L opts = Inr ()"
  shows "\<exists>opts'. Complete L opts = (Inr (), opts') \<and> completeOptions L opts'"
proof -
  have "opt_PublishedResourceSelector opts = Some Everything"
    using parseFlags_selector [OF assms(1)] by (simp add: NewOptions_def)
  from Validate_Complete [OF assms(2) this] show ?thesis by (metis prod.collapse)
qed

definition exampleFlags :: flagLib where
  "exampleFlags = \<lparr> fl_IsDNS1035Label = (\<lambda>s. if 63 < length s then [''too long''] else []),
     fl_Parse = (\<lambda>s. if s = ''team=a'' then Inr (SelectorFromSet (fmupd ''team'' ''a'' fmempty)) else Inl ()),
     fl_ParseBool = (\<lambda>s. if s = ''true'' then Inr True else if s = ''false'' then Inr False else Inl ()),
     fl_ReadCSV = (\<lambda>s. Inr (Split (CHR '','') s)) \<rparr>"

definition exampleArgs :: "(string \<times> string) list" where
  "exampleArgs = [(''namespace'', ''kcp''), (''apiexportendpointslice-ref'', ''example''),
     (''kcp-kubeconfig'', ''kcp.conf''), (''published-resource-selector'', ''team=a''),
     (''disabled-controllers'', ''sync'')]"

definition exampleOptions :: Options where
  "exampleOptions = NewOptions\<lparr>opt_Namespace := ''kcp'', opt_APIExportEndpointSliceRef := ''example'',
     opt_KcpKubeconfig := ''kcp.conf'', opt_PublishedResourceSelectorString := ''team=a'',
     opt_DisabledControllers := [''sync'']\<rparr>"

lemma exampleArgs_parse: "parseFlags exampleFlags exampleArgs (NewOptions, False) = Inr exampleOptions"
  by (simp add: exampleArgs_def AddFlags_def exampleFlags_def flagErr_def NewOptions_def exampleOptions_def)

lemma exampleOptions_valid: "Validate exampleFlags exampleOptions = Inr ()"
  by (simp add: Validate_iff exampleOptions_def NewOptions_def NewDefaultLogOptions_def AvailableFormats_def
        exampleFlags_def availableControllers_def)

theorem validated_options_complete_witness:
  "\<exists>opts'. Complete exampleFlags exampleOptions = (Inr (), opts') \<and> completeOptions exampleFlags opts'"
  by (rule validated_options_complete [OF exampleArgs_parse exampleOptions_valid])


lemma exampleFlags_label: "fl_IsDNS1035Label exampleFlags s = [] \<Longrightarrow> length s \<le> 63"
  by (simp add: exampleFlags_def split: if_splits)


end
