(* ===== verification/API_Types.thy ===== *)
theory API_Types
  imports Kube_Types
begin

text \<open>
  The PublishedResource API (\<open>sdk/apis/syncagent/v1alpha1/published_resource.go\<close>): one record per
  struct, one field per field. An optional struct (a Go pointer) is an \<open>option\<close>; an optional string is
  empty when absent, as the code tests it. The \<open>Selector\<close> of a related object is reached through a
  pointer that several reconciliations share and that the code writes through, so it is an address
  into a store of selectors (theory \<open>Client\<close>), not a value.
\<close>

definition PlaceholderRemoteClusterName :: string where
  "PlaceholderRemoteClusterName = ''$remoteClusterName''"

definition PlaceholderRemoteNamespace :: string where
  "PlaceholderRemoteNamespace = ''$remoteNamespace''"

definition PlaceholderRemoteNamespaceHash :: string where
  "PlaceholderRemoteNamespaceHash = ''$remoteNamespaceHash''"

definition PlaceholderRemoteName :: string where
  "PlaceholderRemoteName = ''$remoteName''"

definition PlaceholderRemoteNameHash :: string where
  "PlaceholderRemoteNameHash = ''$remoteNameHash''"

record SourceResourceDescriptor =
  srd_APIGroup :: string
  srd_Version :: string
  srd_Versions :: "string list"
  srd_Kind :: string

record ResourceFilter =
  flt_Namespace :: "LabelSelector option"
  flt_Resource :: "LabelSelector option"

record ResourceNaming =
  rn_Name :: string
  rn_Namespace :: string

datatype ResourceScope = ScopeUnset | ClusterScoped | NamespaceScoped

record ResourceProjection =
  rp_Group :: string
  rp_Version :: string
  rp_Versions :: labels
  rp_Scope :: ResourceScope
  rp_Kind :: string
  rp_Plural :: string
  rp_ShortNames :: "string list option"
  rp_Categories :: "string list option"

record ResourceDeleteMutation =
  rdm_Path :: string

record ResourceRegexMutation =
  rrm_Path :: string
  rrm_Pattern :: string
  rrm_Replacement :: string

record ResourceTemplateMutation =
  rtm_Path :: string
  rtm_Template :: string

record ResourceCELMutation =
  rcm_Path :: string
  rcm_Expression :: string

record ResourceMutation =
  rm_Delete :: "ResourceDeleteMutation option"
  rm_Regex :: "ResourceRegexMutation option"
  rm_Template :: "ResourceTemplateMutation option"
  rm_CEL :: "ResourceCELMutation option"

record ResourceMutationSpec =
  rms_Spec :: "ResourceMutation list"
  rms_Status :: "ResourceMutation list"

datatype RelatedResourceOrigin = OriginService | OriginKcp

text \<open>\<open>PolicyEmpty\<close> is the zero value: the field was left out.\<close>

datatype RelatedResourceCleanupPolicy =
    PolicyEmpty
  | CleanupOrphan
  | CleanupOnPrimaryDeletion
  | CleanupMatchOrigin

record RegularExpression =
  re_Pattern :: string
  re_Replacement :: string

record TemplateExpression =
  te_Template :: string

record RelatedResourceSelectorRewrite =
  rw_Regex :: "RegularExpression option"
  rw_Template :: "TemplateExpression option"

record RelatedResourceObjectReference =
  ref_Path :: string
  ref_Regex :: "RegularExpression option"

record RelatedResourceObjectSelector =
  ros_LabelSelector :: LabelSelector
  ros_Rewrite :: RelatedResourceSelectorRewrite

type_synonym selptr = nat

record RelatedResourceObjectSpec =
  os_Selector :: "selptr option"
  os_Reference :: "RelatedResourceObjectReference option"
  os_Template :: "TemplateExpression option"

record RelatedResourceObject =
  ro_Spec :: RelatedResourceObjectSpec
  ro_Namespace :: "RelatedResourceObjectSpec option"

record RelatedResourceProjection =
  rrp_Group :: string
  rrp_Version :: string
  rrp_Resource :: string

record RelatedResourceWatch =
  rw_ByOwner :: bool
  rw_BySelector :: "LabelSelector option"

record RelatedResourceSpec =
  rr_Identifier :: string
  rr_Origin :: RelatedResourceOrigin
  rr_Group :: string
  rr_Version :: string
  rr_Resource :: string
  rr_Kind :: string
  rr_IdentityHash :: string
  rr_Cleanup :: bool
  rr_CleanupPolicy :: RelatedResourceCleanupPolicy
  rr_Projection :: "RelatedResourceProjection option"
  rr_Object :: RelatedResourceObject
  rr_Mutation :: "ResourceMutationSpec option"
  rr_Watch :: "RelatedResourceWatch option"
  rr_SyncStatus :: bool

record SynchronizationSpec =
  sync_Enabled :: bool

record PublishedResourceSpec =
  prs_Resource :: SourceResourceDescriptor
  prs_Filter :: "ResourceFilter option"
  prs_Naming :: "ResourceNaming option"
  prs_EnableWorkspacePaths :: bool
  prs_Projection :: "ResourceProjection option"
  prs_Mutation :: "ResourceMutationSpec option"
  prs_Related :: "RelatedResourceSpec list"
  prs_Synchronization :: "SynchronizationSpec option"

record PublishedResource =
  pr_Name :: string
  pr_UID :: string
  pr_ResourceVersion :: string
  pr_DeletionTimestamp :: "string option"
  pr_Labels :: "labels option"
  pr_Spec :: PublishedResourceSpec
  pr_ResourceSchemaName :: string

text \<open>The effective cleanup policy of a related resource.\<close>

definition EffectiveCleanupPolicy :: "RelatedResourceSpec \<Rightarrow> RelatedResourceCleanupPolicy" where
  "EffectiveCleanupPolicy r =
     (if rr_CleanupPolicy r \<noteq> PolicyEmpty then rr_CleanupPolicy r
      else if rr_Cleanup r then CleanupOnPrimaryDeletion
      else CleanupOrphan)"

lemma EffectiveCleanupPolicy_set: "EffectiveCleanupPolicy r \<noteq> PolicyEmpty"
  by (simp add: EffectiveCleanupPolicy_def)

section \<open>Plain values\<close>

text \<open>
  A published resource and a related resource in which everything optional is left out: the base of
  the concrete configurations in the other theories.
\<close>

definition plainRelated :: RelatedResourceSpec where
  "plainRelated = \<lparr> rr_Identifier = ''creds'', rr_Origin = OriginKcp, rr_Group = [], rr_Version = ''v1'',
     rr_Resource = ''secrets'', rr_Kind = [], rr_IdentityHash = [], rr_Cleanup = False,
     rr_CleanupPolicy = PolicyEmpty, rr_Projection = None,
     rr_Object = \<lparr> ro_Spec = \<lparr> os_Selector = None, os_Reference = None, os_Template = None \<rparr>,
       ro_Namespace = None \<rparr>,
     rr_Mutation = None, rr_Watch = None, rr_SyncStatus = False \<rparr>"

definition plainSpec :: PublishedResourceSpec where
  "plainSpec = \<lparr> prs_Resource = \<lparr> srd_APIGroup = ''example.com'', srd_Version = ''v1'', srd_Versions = [],
       srd_Kind = ''Claim'' \<rparr>,
     prs_Filter = None, prs_Naming = None, prs_EnableWorkspacePaths = False, prs_Projection = None,
     prs_Mutation = None, prs_Related = [], prs_Synchronization = None \<rparr>"

definition plainResource :: PublishedResource where
  "plainResource = \<lparr> pr_Name = ''publish-claims'', pr_UID = ''uid'', pr_ResourceVersion = ''1'',
     pr_DeletionTimestamp = None, pr_Labels = None, pr_Spec = plainSpec, pr_ResourceSchemaName = [] \<rparr>"

end
