(* ===== verification/Client.thy ===== *)
theory Client
  imports API_Types
begin

text \<open>
  The interfaces the program runs against. Everything outside the repository (the API servers of both
  clusters, the JSON, regular expression, template, CEL and digest libraries) is a field of the
  record \<open>env\<close>, an argument of every definition that uses it; the theorems hold for every value of
  it, or under the laws they name. The state of the servers has an abstract type \<open>'s\<close>.

  A reconciliation is a function on \<open>'s world\<close>: the server state, the sequence of requests sent so
  far, and the store of the label selectors that are reached through pointers. The second half of
  the theory is a small program logic over that request sequence.
\<close>

section \<open>Clients and requests\<close>

text \<open>
  The four endpoints: the cached clients of the service cluster (local) and of the kcp workspace
  (remote), and their uncached readers. \<open>LiveReadClient\<close> is the struct of \<open>syncer_related.go\<close>: it
  embeds a client and overrides \<open>Get\<close> and \<open>List\<close> with a reader.
\<close>

datatype client =
    LocalClient
  | RemoteClient
  | LocalAPIReader
  | RemoteAPIReader
  | LiveReadClient client client

fun readTarget :: "client \<Rightarrow> client" where
  "readTarget (LiveReadClient c r) = readTarget r"
| "readTarget c = c"

fun baseTarget :: "client \<Rightarrow> client" where
  "baseTarget (LiveReadClient c r) = baseTarget c"
| "baseTarget c = c"

datatype patch = RawPatch string | MergeFrom unstructured

datatype call =
    CGet client string string nsname
  | CList client string string selector string "nat option"
  | CCreate client unstructured
  | CUpdate client unstructured
  | CPatch client unstructured patch
  | CDelete client unstructured deletionPropagation
  | CStatusUpdate client unstructured
  | CApply client unstructured string
  | CGetSecret client nsname
  | CCreateSecret client secret
  | CUpdateSecret client secret
  | CGetNamespace client string
  | CListNamespaces client selector
  | CCreateNamespace client string
  | CKindFor client groupVersionResource
  | CEvent "unstructured option" string string

text \<open>A request that changes nothing on a server.\<close>

fun isRead :: "call \<Rightarrow> bool" where
  "isRead (CGet _ _ _ _) = True"
| "isRead (CList _ _ _ _ _ _) = True"
| "isRead (CGetSecret _ _) = True"
| "isRead (CGetNamespace _ _) = True"
| "isRead (CListNamespaces _ _) = True"
| "isRead (CKindFor _ _) = True"
| "isRead _ = False"

fun isDelete :: "call \<Rightarrow> bool" where
  "isDelete (CDelete _ _ _) = True"
| "isDelete _ = False"

section \<open>The environment\<close>

text \<open>What \<open>gjson.Get\<close> reports of a path.\<close>

record gjsonResult =
  gj_Exists :: bool
  gj_IsArray :: bool
  gj_Array :: "string list"
  gj_String :: string
  gj_Value :: json

text \<open>The data a template is rendered with; one constructor per context struct of \<open>templating\<close>.\<close>

datatype templateData =
    LocalObjectNamingContext unstructured string string
  | RelatedObjectContext RelatedResourceOrigin unstructured string string
  | RelatedObjectLabelContext unstructured unstructured string string
  | RelatedObjectLabelRewriteContext string unstructured unstructured "unstructured option" string string
  | TemplateMutationContext gjsonResult unstructured "unstructured option"

text \<open>
  A CEL value as the transformer sees it: a list or a map whose conversion gives its elements or
  fails, or anything else with the outcome of its native conversion. A map key converts to a string
  or fails.
\<close>

datatype celval =
    CelList "celval list"
  | CelMap "((unit + string) \<times> celval) list"
  | CelInvalid
  | CelOther "unit + json"

record 's env =
  api_Get :: "client \<Rightarrow> string \<Rightarrow> string \<Rightarrow> nsname \<Rightarrow> 's \<Rightarrow> (apierr + unstructured) \<times> 's"
  api_List :: "client \<Rightarrow> string \<Rightarrow> string \<Rightarrow> selector \<Rightarrow> string \<Rightarrow> nat option \<Rightarrow> 's \<Rightarrow>
                 (apierr + unstructured list) \<times> 's"
  api_Create :: "client \<Rightarrow> unstructured \<Rightarrow> 's \<Rightarrow> (apierr + unstructured) \<times> 's"
  api_Update :: "client \<Rightarrow> unstructured \<Rightarrow> 's \<Rightarrow> (apierr + unstructured) \<times> 's"
  api_Patch :: "client \<Rightarrow> unstructured \<Rightarrow> patch \<Rightarrow> 's \<Rightarrow> (apierr + unstructured) \<times> 's"
  api_Delete :: "client \<Rightarrow> unstructured \<Rightarrow> deletionPropagation \<Rightarrow> 's \<Rightarrow> (apierr + unit) \<times> 's"
  api_StatusUpdate :: "client \<Rightarrow> unstructured \<Rightarrow> 's \<Rightarrow> (apierr + unstructured) \<times> 's"
  api_Apply :: "client \<Rightarrow> unstructured \<Rightarrow> string \<Rightarrow> 's \<Rightarrow> (apierr + unstructured) \<times> 's"
  api_GetSecret :: "client \<Rightarrow> nsname \<Rightarrow> 's \<Rightarrow> (apierr + secret) \<times> 's"
  api_CreateSecret :: "client \<Rightarrow> secret \<Rightarrow> 's \<Rightarrow> (apierr + secret) \<times> 's"
  api_UpdateSecret :: "client \<Rightarrow> secret \<Rightarrow> 's \<Rightarrow> (apierr + secret) \<times> 's"
  api_GetNamespace :: "client \<Rightarrow> string \<Rightarrow> 's \<Rightarrow> (apierr + kubeNamespace) \<times> 's"
  api_ListNamespaces :: "client \<Rightarrow> selector \<Rightarrow> 's \<Rightarrow> (apierr + kubeNamespace list) \<times> 's"
  api_CreateNamespace :: "client \<Rightarrow> string \<Rightarrow> 's \<Rightarrow> (apierr + unit) \<times> 's"
  api_KindFor :: "client \<Rightarrow> groupVersionResource \<Rightarrow> 's \<Rightarrow> (apierr + groupVersionKind) \<times> 's"
  go_choose :: "'s \<Rightarrow> nat \<times> 's"
  marshalJSON :: "unstructured \<Rightarrow> unit + string"
  unmarshalJSON :: "string \<Rightarrow> unit + unstructured"
  createMergePatchLib :: "string \<Rightarrow> string \<Rightarrow> unit + string"
  semanticEqualLabels :: "labels option \<Rightarrow> labels option \<Rightarrow> bool"
  semanticEqualJSON :: "json \<Rightarrow> json \<Rightarrow> bool"
  pathJSON :: "string \<Rightarrow> string"
  gvString :: "string \<Rightarrow> string \<Rightarrow> string"
  nnString :: "nsname \<Rightarrow> string"
  compareKubeAwareVersionStrings :: "string \<Rightarrow> string \<Rightarrow> int"
  asSelector :: "LabelSelector \<Rightarrow> unit + selector"
  gjsonGet :: "string \<Rightarrow> string \<Rightarrow> gjsonResult"
  sjsonSet :: "string \<Rightarrow> string \<Rightarrow> json \<Rightarrow> unit + string"
  sjsonDelete :: "string \<Rightarrow> string \<Rightarrow> unit + string"
  regexpCompile :: "string \<Rightarrow> unit + unit"
  regexpReplaceAll :: "string \<Rightarrow> string \<Rightarrow> string \<Rightarrow> string"
  templateParse :: "string \<Rightarrow> unit + unit"
  templateExecute :: "string \<Rightarrow> templateData \<Rightarrow> unit + string"
  htmlTemplateParse :: "string \<Rightarrow> unit + unit"
  htmlTemplateExecute :: "string \<Rightarrow> templateData \<Rightarrow> unit + string"
  celCompile :: "string \<Rightarrow> unit + unit"
  celEval :: "string \<Rightarrow> json \<Rightarrow> unstructured \<Rightarrow> unstructured option \<Rightarrow> unit + celval"
  encodeJSON :: "unstructured \<Rightarrow> unit + string"
  decodeJSON :: "string \<Rightarrow> unit + unstructured"
  sha1 :: "string \<Rightarrow> string"
  sha3_256 :: "string \<Rightarrow> string"

text \<open>A library call that can fail: its own error text is not modelled, only that it failed.\<close>

definition lib :: "string \<Rightarrow> unit + 'a \<Rightarrow> 'a result" where
  "lib what r = (case r of Inl _ \<Rightarrow> Inl (Msg what) | Inr x \<Rightarrow> Inr x)"

lemma lib_eq_Inr [simp]: "lib what r = Inr x \<longleftrightarrow> r = Inr x"
  by (cases r) (simp_all add: lib_def)

lemma lib_Inr [simp]: "lib what (Inr x) = Inr x"
  by (simp add: lib_def)

section \<open>The world and the requests on it\<close>

record 's world =
  server :: 's
  trace :: "call list"
  selectors :: "selptr \<Rightarrow> RelatedResourceObjectSelector"

type_synonym ('s, 'a) prog = "('s world, 'a) go"

definition request :: "call \<Rightarrow> ('s \<Rightarrow> (apierr + 'a) \<times> 's) \<Rightarrow> ('s, 'a) prog" where
  "request c f w =
     (case f (server w) of
        (r, s') \<Rightarrow>
          (case r of Inl e \<Rightarrow> Inl (ApiErr e) | Inr x \<Rightarrow> Inr x,
           w\<lparr>server := s', trace := trace w @ [c]\<rparr>))"

definition cGet :: "'s env \<Rightarrow> client \<Rightarrow> string \<Rightarrow> string \<Rightarrow> nsname \<Rightarrow> ('s, unstructured) prog" where
  "cGet E c av k key = request (CGet (readTarget c) av k key) (api_Get E (readTarget c) av k key)"

definition cList :: "'s env \<Rightarrow> client \<Rightarrow> string \<Rightarrow> string \<Rightarrow> selector \<Rightarrow> string \<Rightarrow> nat option \<Rightarrow>
    ('s, unstructured list) prog" where
  "cList E c av k sel ns lim =
     request (CList (readTarget c) av k sel ns lim) (api_List E (readTarget c) av k sel ns lim)"

definition cCreate :: "'s env \<Rightarrow> client \<Rightarrow> unstructured \<Rightarrow> ('s, unstructured) prog" where
  "cCreate E c obj = request (CCreate (baseTarget c) obj) (api_Create E (baseTarget c) obj)"

definition cUpdate :: "'s env \<Rightarrow> client \<Rightarrow> unstructured \<Rightarrow> ('s, unstructured) prog" where
  "cUpdate E c obj = request (CUpdate (baseTarget c) obj) (api_Update E (baseTarget c) obj)"

definition cPatch :: "'s env \<Rightarrow> client \<Rightarrow> unstructured \<Rightarrow> patch \<Rightarrow> ('s, unstructured) prog" where
  "cPatch E c obj p = request (CPatch (baseTarget c) obj p) (api_Patch E (baseTarget c) obj p)"

definition cDelete :: "'s env \<Rightarrow> client \<Rightarrow> unstructured \<Rightarrow> deletionPropagation \<Rightarrow> ('s, unit) prog" where
  "cDelete E c obj pol = request (CDelete (baseTarget c) obj pol) (api_Delete E (baseTarget c) obj pol)"

definition cStatusUpdate :: "'s env \<Rightarrow> client \<Rightarrow> unstructured \<Rightarrow> ('s, unstructured) prog" where
  "cStatusUpdate E c obj =
     request (CStatusUpdate (baseTarget c) obj) (api_StatusUpdate E (baseTarget c) obj)"

definition cApply :: "'s env \<Rightarrow> client \<Rightarrow> unstructured \<Rightarrow> string \<Rightarrow> ('s, unstructured) prog" where
  "cApply E c obj owner =
     request (CApply (baseTarget c) obj owner) (api_Apply E (baseTarget c) obj owner)"

definition cGetSecret :: "'s env \<Rightarrow> client \<Rightarrow> nsname \<Rightarrow> ('s, secret) prog" where
  "cGetSecret E c key = request (CGetSecret (readTarget c) key) (api_GetSecret E (readTarget c) key)"

definition cCreateSecret :: "'s env \<Rightarrow> client \<Rightarrow> secret \<Rightarrow> ('s, secret) prog" where
  "cCreateSecret E c sec =
     request (CCreateSecret (baseTarget c) sec) (api_CreateSecret E (baseTarget c) sec)"

definition cUpdateSecret :: "'s env \<Rightarrow> client \<Rightarrow> secret \<Rightarrow> ('s, secret) prog" where
  "cUpdateSecret E c sec =
     request (CUpdateSecret (baseTarget c) sec) (api_UpdateSecret E (baseTarget c) sec)"

definition cGetNamespace :: "'s env \<Rightarrow> client \<Rightarrow> string \<Rightarrow> ('s, kubeNamespace) prog" where
  "cGetNamespace E c n =
     request (CGetNamespace (readTarget c) n) (api_GetNamespace E (readTarget c) n)"

definition cListNamespaces :: "'s env \<Rightarrow> client \<Rightarrow> selector \<Rightarrow> ('s, kubeNamespace list) prog" where
  "cListNamespaces E c sel =
     request (CListNamespaces (readTarget c) sel) (api_ListNamespaces E (readTarget c) sel)"

definition cCreateNamespace :: "'s env \<Rightarrow> client \<Rightarrow> string \<Rightarrow> ('s, unit) prog" where
  "cCreateNamespace E c n =
     request (CCreateNamespace (baseTarget c) n) (api_CreateNamespace E (baseTarget c) n)"

definition cKindFor :: "'s env \<Rightarrow> client \<Rightarrow> groupVersionResource \<Rightarrow> ('s, groupVersionKind) prog" where
  "cKindFor E c gvr = request (CKindFor (baseTarget c) gvr) (api_KindFor E (baseTarget c) gvr)"

definition event :: "unstructured option \<Rightarrow> string \<Rightarrow> string \<Rightarrow> ('s, unit) prog" where
  "event obj typ reason w = (Inr (), w\<lparr>trace := trace w @ [CEvent obj typ reason]\<rparr>)"

definition loadSelector :: "selptr \<Rightarrow> ('s, RelatedResourceObjectSelector) prog" where
  "loadSelector p w = (Inr (selectors w p), w)"

definition storeSelector :: "selptr \<Rightarrow> RelatedResourceObjectSelector \<Rightarrow> ('s, unit) prog" where
  "storeSelector p v w = (Inr (), w\<lparr>selectors := (selectors w)(p := v)\<rparr>)"

lemmas client_defs =
  cGet_def cList_def cCreate_def cUpdate_def cPatch_def cDelete_def cStatusUpdate_def cApply_def
  cGetSecret_def cCreateSecret_def cUpdateSecret_def cGetNamespace_def cListNamespaces_def
  cCreateNamespace_def cKindFor_def

text \<open>
  Ranging over a Go map visits the keys in an order the language leaves open. The order is drawn
  from the environment: at every step one of the remaining keys, so every permutation is possible
  and nothing else is.
\<close>

definition takeAt :: "nat \<Rightarrow> 'a list \<Rightarrow> 'a list" where
  "takeAt n xs = take n xs @ drop (Suc n) xs"

lemma length_takeAt: "n < length xs \<Longrightarrow> length (takeAt n xs) < length xs"
  by (simp add: takeAt_def)

function shuffle :: "('s \<Rightarrow> nat \<times> 's) \<Rightarrow> 'a list \<Rightarrow> 's \<Rightarrow> 'a list \<times> 's" where
  "shuffle ch xs s =
     (if xs = [] then ([], s)
      else (case ch s of
              (n, s') \<Rightarrow>
                (case shuffle ch (takeAt (n mod length xs) xs) s' of
                   (ys, s'') \<Rightarrow> (xs ! (n mod length xs) # ys, s''))))"
  by pat_completeness auto
termination
  by (relation "measure (\<lambda>(_, xs, _). length xs)")
     (auto intro: length_takeAt)

declare shuffle.simps [simp del]

lemma mset_takeAt: "n < length xs \<Longrightarrow> add_mset (xs ! n) (mset (takeAt n xs)) = mset xs"
  by (metis id_take_nth_drop mset_append mset.simps(2) takeAt_def union_mset_add_mset_right)

lemma mset_shuffle: "mset (fst (shuffle ch xs s)) = mset xs"
proof (induction ch xs s rule: shuffle.induct)
  case (1 ch xs s)
  show ?case
  proof (cases "xs = []")
    case False
    then have "fst (ch s) mod length xs < length xs" by simp
    with False 1 [OF False] show ?thesis
      by (subst shuffle.simps) (auto split: prod.splits simp: mset_takeAt)
  qed (simp add: shuffle.simps)
qed

definition rangeMap :: "'s env \<Rightarrow> (string, 'v) fmap \<Rightarrow> ('s, (string \<times> 'v) list) prog" where
  "rangeMap E m w =
     (case shuffle (go_choose E) (sorted_list_of_fmap m) (server w) of
        (kvs, s') \<Rightarrow> (Inr kvs, w\<lparr>server := s'\<rparr>))"

section \<open>An empty environment\<close>

text \<open>
  A pair of clusters on which nothing is found and libraries that accept nothing: the base of the
  concrete environments in the other theories, which replace the fields they need.
\<close>

definition noServer :: "'s env" where
  "noServer = \<lparr>
    api_Get = (\<lambda>_ _ _ _ s. (Inl NotFound, s)), api_List = (\<lambda>_ _ _ _ _ _ s. (Inl NotFound, s)),
    api_Create = (\<lambda>_ _ s. (Inl NotFound, s)), api_Update = (\<lambda>_ _ s. (Inl NotFound, s)),
    api_Patch = (\<lambda>_ _ _ s. (Inl NotFound, s)), api_Delete = (\<lambda>_ _ _ s. (Inl NotFound, s)),
    api_StatusUpdate = (\<lambda>_ _ s. (Inl NotFound, s)), api_Apply = (\<lambda>_ _ _ s. (Inl NotFound, s)),
    api_GetSecret = (\<lambda>_ _ s. (Inl NotFound, s)), api_CreateSecret = (\<lambda>_ _ s. (Inl NotFound, s)),
    api_UpdateSecret = (\<lambda>_ _ s. (Inl NotFound, s)), api_GetNamespace = (\<lambda>_ _ s. (Inl NotFound, s)),
    api_ListNamespaces = (\<lambda>_ _ s. (Inl NotFound, s)), api_CreateNamespace = (\<lambda>_ _ s. (Inl NotFound, s)),
    api_KindFor = (\<lambda>_ _ s. (Inl NotFound, s)), go_choose = (\<lambda>s. (0, s)), marshalJSON = (\<lambda>_. Inl ()),
    unmarshalJSON = (\<lambda>_. Inl ()), createMergePatchLib = (\<lambda>_ _. Inl ()), semanticEqualLabels = (=), semanticEqualJSON = (=),
    pathJSON = jsonString, gvString = (\<lambda>g v. if g = [] then v else g @ ''/'' @ v), nnString = (\<lambda>n. nn_Namespace n @ ''/'' @ nn_Name n),
    compareKubeAwareVersionStrings = (\<lambda>_ _. 0), asSelector = (\<lambda>l. Inr (FromLabelSelector l)),
    gjsonGet = (\<lambda>_ _. \<lparr> gj_Exists = False, gj_IsArray = False, gj_Array = [], gj_String = [], gj_Value = JNull \<rparr>),
    sjsonSet = (\<lambda>_ _ _. Inl ()), sjsonDelete = (\<lambda>_ _. Inl ()), regexpCompile = (\<lambda>_. Inl ()),
    regexpReplaceAll = (\<lambda>_ x _. x), templateParse = (\<lambda>_. Inl ()), templateExecute = (\<lambda>_ _. Inl ()),
    htmlTemplateParse = (\<lambda>_. Inl ()), htmlTemplateExecute = (\<lambda>_ _. Inl ()), celCompile = (\<lambda>_. Inl ()),
    celEval = (\<lambda>_ _ _ _. Inl ()), encodeJSON = (\<lambda>_. Inl ()), decodeJSON = (\<lambda>_. Inl ()), sha1 = (\<lambda>x. x),
    sha3_256 = (\<lambda>x. x) \<rparr>"

definition noSelectors :: "selptr \<Rightarrow> RelatedResourceObjectSelector" where
  "noSelectors = (\<lambda>_. \<lparr> ros_LabelSelector = \<lparr> ls_MatchLabels = fmempty, ls_MatchExpressions = [] \<rparr>,
     ros_Rewrite = \<lparr> rw_Regex = None, rw_Template = None \<rparr> \<rparr>)"

end
