(* ===== verification/Trace_Logic.thy ===== *)
theory Trace_Logic
  imports Client
begin

text \<open>
  A program logic over the request sequence. \<open>emits P m\<close> says that from every world, whatever the
  servers answer and whether or not \<open>m\<close> fails, \<open>m\<close> only appends requests that satisfy \<open>P\<close> to the
  trace. The rules go through the program text; where a later request depends on an earlier result,
  the rule for sequencing hands over that the result was \<open>yield\<close>ed.
\<close>

named_theorems emits_intros

definition emits :: "(call \<Rightarrow> bool) \<Rightarrow> ('s, 'a) prog \<Rightarrow> bool" where
  "emits P m \<longleftrightarrow> (\<forall>w. \<exists>cs. trace (snd (m w)) = trace w @ cs \<and> list_all P cs)"

definition yields :: "('s, 'a) prog \<Rightarrow> 'a \<Rightarrow> bool" where
  "yields m x \<longleftrightarrow> (\<exists>w w'. m w = (Inr x, w'))"

lemma emitsI: "(\<And>w. \<exists>cs. trace (snd (m w)) = trace w @ cs \<and> list_all P cs) \<Longrightarrow> emits P m"
  by (simp add: emits_def)

lemma emitsE:
  assumes "emits P m" "m w = (r, w')"
  obtains cs where "trace w' = trace w @ cs" "list_all P cs"
  using assms unfolding emits_def by (metis snd_conv)

lemma emits_pure: "(\<And>w. trace (snd (m w)) = trace w) \<Longrightarrow> emits P m"
  by (rule emitsI) simp

lemma emits_basic [emits_intros]:
  "emits P (ok x)" "emits P (fail e)" "emits P (liftE r)"
  "emits P (loadSelector p)" "emits P (storeSelector p v)" "emits P (rangeMap E m)"
  by (simp_all add: emits_pure go_simps loadSelector_def storeSelector_def rangeMap_def
        split: prod.splits)

lemma emits_request [emits_intros]: "P c \<Longrightarrow> emits P (request c f)"
  by (rule emitsI) (auto simp: request_def split: prod.splits)

lemma emits_event [emits_intros]: "P (CEvent obj typ reason) \<Longrightarrow> emits P (event obj typ reason)"
  by (rule emitsI) (simp add: event_def)

lemma emits_attempt [emits_intros]:
  assumes m: "emits P m" and k: "\<And>r. emits P (k r)"
  shows "emits P (attempt m k)"
proof (rule emitsI)
  fix w
  obtain r w1 where r: "m w = (r, w1)" by force
  from m r obtain cs where cs: "trace w1 = trace w @ cs" "list_all P cs" by (rule emitsE)
  obtain r' w2 where r': "k r w1 = (r', w2)" by force
  from k r' obtain cs' where cs': "trace w2 = trace w1 @ cs'" "list_all P cs'" by (rule emitsE)
  have "trace (snd (attempt m k w)) = trace w @ cs \<or>
        trace (snd (attempt m k w)) = trace w @ (cs @ cs')"
    using r r' cs cs' by (cases r) (simp_all add: go_simps)
  with cs cs' show "\<exists>cs. trace (snd (attempt m k w)) = trace w @ cs \<and> list_all P cs"
    by (metis list_all_append)
qed

lemma emits_bindE:
  assumes m: "emits P m" and k: "\<And>x. yields m x \<Longrightarrow> emits P (k x)"
  shows "emits P (bindE m k)"
proof (rule emitsI)
  fix w
  obtain r w1 where r: "m w = (r, w1)" by force
  from m r obtain cs where cs: "trace w1 = trace w @ cs" "list_all P cs" by (rule emitsE)
  show "\<exists>cs. trace (snd (bindE m k w)) = trace w @ cs \<and> list_all P cs"
  proof (cases r)
    case (Inl e)
    with r cs show ?thesis by (simp add: go_simps)
  next
    case (Inr x)
    obtain r' w2 where r': "k x w1 = (r', w2)" by force
    from r Inr have "yields m x" by (auto simp: yields_def)
    from k [OF this] r' obtain cs' where "trace w2 = trace w1 @ cs'" "list_all P cs'" by (rule emitsE)
    with r Inr r' cs show ?thesis by (intro exI [of _ "cs @ cs'"]) (simp add: go_simps)
  qed
qed

lemma checkE_bindE_trace: "snd (checkE msg m k w) = snd (bindE m k w)"
  by (simp add: go_simps split: prod.splits sum.splits)

lemma emits_checkE:
  assumes "emits P m" "\<And>x. yields m x \<Longrightarrow> emits P (k x)"
  shows "emits P (checkE msg m k)"
  using emits_bindE [OF assms] by (simp add: emits_def checkE_bindE_trace)

lemma emits_bindE_any [emits_intros]:
  "emits P m \<Longrightarrow> (\<And>x. emits P (k x)) \<Longrightarrow> emits P (bindE m k)"
  by (rule emits_bindE)

lemma emits_checkE_any [emits_intros]:
  "emits P m \<Longrightarrow> (\<And>x. emits P (k x)) \<Longrightarrow> emits P (checkE msg m k)"
  by (rule emits_checkE)

lemma emits_if [emits_intros]:
  "(b \<Longrightarrow> emits P m) \<Longrightarrow> (\<not> b \<Longrightarrow> emits P n) \<Longrightarrow> emits P (if b then m else n)"
  by simp

lemma emits_case_option [emits_intros]:
  "(x = None \<Longrightarrow> emits P m) \<Longrightarrow> (\<And>y. x = Some y \<Longrightarrow> emits P (n y)) \<Longrightarrow>
     emits P (case x of None \<Rightarrow> m | Some y \<Rightarrow> n y)"
  by (cases x) simp_all

lemma emits_case_sum [emits_intros]:
  "(\<And>y. x = Inl y \<Longrightarrow> emits P (m y)) \<Longrightarrow> (\<And>y. x = Inr y \<Longrightarrow> emits P (n y)) \<Longrightarrow>
     emits P (case x of Inl y \<Rightarrow> m y | Inr y \<Rightarrow> n y)"
  by (cases x) simp_all

lemma emits_case_prod [emits_intros]:
  "(\<And>y z. x = (y, z) \<Longrightarrow> emits P (m y z)) \<Longrightarrow> emits P (case x of (y, z) \<Rightarrow> m y z)"
  by (cases x) simp_all

lemma emits_Let [emits_intros]: "emits P (m x) \<Longrightarrow> emits P (let y = x in m y)"
  by simp

lemma emits_weaken: "emits P m \<Longrightarrow> (\<And>c. P c \<Longrightarrow> Q c) \<Longrightarrow> emits Q m"
  unfolding emits_def by (metis (mono_tags, lifting) list.pred_mono_strong)

text \<open>What a trace says about the run of \<open>m\<close> from \<open>w\<close>: the requests it sent.\<close>

definition sent :: "('s, 'a) prog \<Rightarrow> 's world \<Rightarrow> call list" where
  "sent m w = drop (length (trace w)) (trace (snd (m w)))"

lemma emits_sent: "emits P m \<Longrightarrow> list_all P (sent m w)"
  unfolding emits_def sent_def by (metis append_eq_conv_conj)

lemma emits_set_sent: "emits P m \<Longrightarrow> c \<in> set (sent m w) \<Longrightarrow> P c"
  using emits_sent [of P m w] by (simp add: list_all_iff)

section \<open>Request policies\<close>

text \<open>
  The interface between a syncing routine and what it is allowed to request. Every policy allows
  reads and events; the client lemmas lift that to the request primitives, and each syncer theory
  adds the writes its own routines need.
\<close>

locale call_policy =
  fixes allow :: "call \<Rightarrow> bool"
  assumes allow_read: "isRead c \<Longrightarrow> allow c"
    and allow_event: "allow (CEvent obj typ reason)"
begin

lemma emits_reads:
  "emits allow (cGet E c av k key)" "emits allow (cList E c av k sel ns lim)"
  "emits allow (cGetSecret E c key)" "emits allow (cGetNamespace E c n)"
  "emits allow (cListNamespaces E c sel)" "emits allow (cKindFor E c gvr)"
  "emits allow (event obj typ reason)"
  by (simp_all add: client_defs emits_request emits_event allow_read allow_event)

end

definition readsOnly :: "call \<Rightarrow> bool" where
  "readsOnly c \<longleftrightarrow> isRead c \<or> (\<exists>obj typ reason. c = CEvent obj typ reason)"

interpretation ro: call_policy readsOnly
  by unfold_locales (auto simp: readsOnly_def)

end
