(* ===== verification/Metadata.thy ===== *)
theory Metadata
  imports Trace_Logic
begin

text \<open>
  The metadata layer of package \<open>sync\<close>: digests (\<open>crypto/hash.go\<close>), the label and annotation names
  (\<open>types.go\<close>), linking a copy to its original (\<open>meta.go\<close>), the metadata filter and its repair
  (\<open>metadata.go\<close>), the request context (\<open>context.go\<close>) and the deletion policy
  (\<open>deletion_policy.go\<close>).
\<close>

section \<open>Digests\<close>

text \<open>
  \<open>Hash\<close> takes a value of any type: text and bytes are hashed as they are, everything else through
  its JSON encoding, to which the encoder appends a newline. \<open>HashJSON\<close> carries that encoding.
\<close>

datatype hashInput = HashString string | HashBytes string | HashJSON string

fun hashBytes :: "hashInput \<Rightarrow> string" where
  "hashBytes (HashString s) = s"
| "hashBytes (HashBytes s) = s"
| "hashBytes (HashJSON t) = t @ [CHR 0x0A]"

definition Hash :: "'s env \<Rightarrow> hashInput \<Rightarrow> string" where
  "Hash E d = hexEncode (sha1 E (hashBytes d))"

definition ShortHash :: "'s env \<Rightarrow> hashInput \<Rightarrow> string" where
  "ShortHash E d = take 20 (Hash E d)"

section \<open>Names\<close>

definition deletionFinalizer :: string where
  "deletionFinalizer = ''syncagent.kcp.io/cleanup''"

definition remoteObjectClusterLabel :: string where
  "remoteObjectClusterLabel = ''syncagent.kcp.io/remote-object-cluster''"

definition remoteObjectNamespaceHashLabel :: string where
  "remoteObjectNamespaceHashLabel = ''syncagent.kcp.io/remote-object-namespace-hash''"

definition remoteObjectNameHashLabel :: string where
  "remoteObjectNameHashLabel = ''syncagent.kcp.io/remote-object-name-hash''"

definition remoteObjectNamespaceAnnotation :: string where
  "remoteObjectNamespaceAnnotation = ''syncagent.kcp.io/remote-object-namespace''"

definition remoteObjectNameAnnotation :: string where
  "remoteObjectNameAnnotation = ''syncagent.kcp.io/remote-object-name''"

definition remoteObjectWorkspacePathAnnotation :: string where
  "remoteObjectWorkspacePathAnnotation = ''syncagent.kcp.io/remote-object-workspace-path''"

definition agentNameLabel :: string where
  "agentNameLabel = ''syncagent.kcp.io/agent-name''"

definition objectStateLabelName :: string where
  "objectStateLabelName = ''syncagent.kcp.io/object-state''"

definition objectStateLabelValue :: string where
  "objectStateLabelValue = ''true''"

definition relatedObjectAnnotationPrefix :: string where
  "relatedObjectAnnotationPrefix = ''related-resources.syncagent.kcp.io/''"

definition relatedOwnerLabel :: string where
  "relatedOwnerLabel = ''syncagent.kcp.io/related-owner''"

definition relatedIdentifierLabel :: string where
  "relatedIdentifierLabel = ''syncagent.kcp.io/related-identifier''"

definition relatedPrimaryNamespaceAnnotation :: string where
  "relatedPrimaryNamespaceAnnotation = ''syncagent.kcp.io/related-primary-namespace''"

definition relatedPrimaryNameAnnotation :: string where
  "relatedPrimaryNameAnnotation = ''syncagent.kcp.io/related-primary-name''"

definition deletionPropagationPolicyAnnotation :: string where
  "deletionPropagationPolicyAnnotation = ''syncagent.kcp.io/deletion-propagation-policy''"

lemmas name_defs =
  remoteObjectClusterLabel_def remoteObjectNamespaceHashLabel_def remoteObjectNameHashLabel_def
  remoteObjectNamespaceAnnotation_def remoteObjectNameAnnotation_def
  remoteObjectWorkspacePathAnnotation_def agentNameLabel_def objectStateLabelName_def
  relatedObjectAnnotationPrefix_def relatedOwnerLabel_def relatedIdentifierLabel_def
  relatedPrimaryNamespaceAnnotation_def relatedPrimaryNameAnnotation_def
  deletionPropagationPolicyAnnotation_def

definition OwnedBy :: "unstructured \<Rightarrow> string \<Rightarrow> bool" where
  "OwnedBy obj agentName \<longleftrightarrow> mapGet (orEmpty (oLabels obj)) agentNameLabel = agentName"

section \<open>The request context\<close>

record syncContext =
  ctx_Cluster :: "string option"
  ctx_WorkspacePath :: "string option"
  ctx_Recorder :: bool

definition WithClusterName :: "syncContext \<Rightarrow> string \<Rightarrow> syncContext" where
  "WithClusterName ctx c = ctx\<lparr>ctx_Cluster := Some c\<rparr>"

definition clusterFromContext :: "syncContext \<Rightarrow> string" where
  "clusterFromContext ctx = (case ctx_Cluster ctx of None \<Rightarrow> [] | Some c \<Rightarrow> c)"

definition WithWorkspacePath :: "syncContext \<Rightarrow> string \<Rightarrow> syncContext" where
  "WithWorkspacePath ctx p = ctx\<lparr>ctx_WorkspacePath := Some p\<rparr>"

definition workspacePathFromContext :: "syncContext \<Rightarrow> string" where
  "workspacePathFromContext ctx = (case ctx_WorkspacePath ctx of None \<Rightarrow> [] | Some p \<Rightarrow> p)"

definition WithEventRecorder :: "syncContext \<Rightarrow> syncContext" where
  "WithEventRecorder ctx = ctx\<lparr>ctx_Recorder := True\<rparr>"

definition recorderFromContext :: "syncContext \<Rightarrow> bool" where
  "recorderFromContext ctx = ctx_Recorder ctx"

section \<open>Deletion policy\<close>

definition deletionPropagationPolicy :: "unstructured \<Rightarrow> deletionPropagation" where
  "deletionPropagationPolicy obj =
     (let v = mapGet (orEmpty (oAnnotations obj)) deletionPropagationPolicyAnnotation in
      if v = ''foreground'' then DeletePropagationForeground
      else if v = ''orphan'' then DeletePropagationOrphan
      else DeletePropagationBackground)"

definition relatedDeletionPropagationPolicy ::
    "RelatedResourceOrigin \<Rightarrow> unstructured \<Rightarrow> deletionPropagation" where
  "relatedDeletionPropagationPolicy origin obj =
     (if origin \<noteq> OriginKcp then DeletePropagationBackground else deletionPropagationPolicy obj)"

definition normalizeDeletionPropagationPolicy :: "deletionPropagation \<Rightarrow> deletionPropagation" where
  "normalizeDeletionPropagationPolicy p =
     (case p of
        DeletePropagationForeground \<Rightarrow> p
      | DeletePropagationOrphan \<Rightarrow> p
      | _ \<Rightarrow> DeletePropagationBackground)"

lemma normalize_deletionPropagationPolicy [simp]:
  "normalizeDeletionPropagationPolicy (deletionPropagationPolicy obj) = deletionPropagationPolicy obj"
  by (simp add: normalizeDeletionPropagationPolicy_def deletionPropagationPolicy_def Let_def)

section \<open>Object keys and provenance labels\<close>

definition ensureLabels :: "unstructured \<Rightarrow> labels \<Rightarrow> unstructured" where
  "ensureLabels obj desired = obj\<lparr>oLabels := Some (orEmpty (oLabels obj) ++\<^sub>f desired)\<rparr>"

definition ensureAnnotations :: "unstructured \<Rightarrow> labels \<Rightarrow> unstructured" where
  "ensureAnnotations obj desired =
     obj\<lparr>oAnnotations := Some (orEmpty (oAnnotations obj) ++\<^sub>f desired)\<rparr>"

text \<open>
  Both finalizer operations work on the set of finalizers and write it back sorted; \<open>original\<close> is the
  copy the merge patch is computed against. The returned object is the server's answer.
\<close>

definition ensureFinalizer :: "'s env \<Rightarrow> client \<Rightarrow> unstructured \<Rightarrow> ('s, bool \<times> unstructured) prog" where
  "ensureFinalizer E c obj =
     (if deletionFinalizer \<in> set (oFinalizers obj) then ok (False, obj)
      else
        let obj' = obj\<lparr>oFinalizers := sort (remdups (deletionFinalizer # oFinalizers obj))\<rparr> in
        bindE (cPatch E c obj' (MergeFrom obj)) (\<lambda>res. ok (True, res)))"

definition removeFinalizer :: "'s env \<Rightarrow> client \<Rightarrow> unstructured \<Rightarrow> ('s, bool \<times> unstructured) prog" where
  "removeFinalizer E c obj =
     (if deletionFinalizer \<notin> set (oFinalizers obj) then ok (False, obj)
      else
        let obj' = obj\<lparr>oFinalizers :=
              sort (remdups (removeAll deletionFinalizer (oFinalizers obj)))\<rparr> in
        bindE (cPatch E c obj' (MergeFrom obj)) (\<lambda>res. ok (True, res)))"

record objectKey =
  ok_ClusterName :: string
  ok_WorkspacePath :: string
  ok_Namespace :: string
  ok_Name :: string

definition newObjectKey :: "unstructured \<Rightarrow> string \<Rightarrow> string \<Rightarrow> objectKey" where
  "newObjectKey obj clusterName workspacePath =
     \<lparr> ok_ClusterName = clusterName, ok_WorkspacePath = workspacePath,
       ok_Namespace = oNamespace obj, ok_Name = oName obj \<rparr>"

definition objectKey_String :: "objectKey \<Rightarrow> string" where
  "objectKey_String k =
     (let r = ok_Name k;
          r = (if ok_Namespace k \<noteq> [] then ok_Namespace k @ ''/'' @ r else r)
      in if ok_ClusterName k \<noteq> [] then ok_ClusterName k @ ''|'' @ r else r)"

text \<open>The JSON of an object key, in the order of its fields.\<close>

definition objectKey_JSON :: "'s env \<Rightarrow> objectKey \<Rightarrow> string" where
  "objectKey_JSON E k = jsonObject
     [(''ClusterName'', jsonString (ok_ClusterName k)),
      (''WorkspacePath'', pathJSON E (ok_WorkspacePath k)),
      (''Namespace'', jsonString (ok_Namespace k)),
      (''Name'', jsonString (ok_Name k))]"

definition objectKey_Key :: "'s env \<Rightarrow> objectKey \<Rightarrow> string" where
  "objectKey_Key E k = Hash E (HashJSON (objectKey_JSON E k))"

definition objectKey_Labels :: "'s env \<Rightarrow> objectKey \<Rightarrow> labels" where
  "objectKey_Labels E k =
     (let s = fmupd remoteObjectNameHashLabel (Hash E (HashString (ok_Name k)))
                (fmupd remoteObjectClusterLabel (ok_ClusterName k) fmempty)
      in if ok_Namespace k \<noteq> []
         then fmupd remoteObjectNamespaceHashLabel (Hash E (HashString (ok_Namespace k))) s
         else s)"

definition objectKey_Annotations :: "objectKey \<Rightarrow> labels" where
  "objectKey_Annotations k =
     (let s = fmupd remoteObjectNameAnnotation (ok_Name k) fmempty;
          s = (if ok_Namespace k \<noteq> []
               then fmupd remoteObjectNamespaceAnnotation (ok_Namespace k) s else s)
      in if ok_WorkspacePath k \<noteq> []
         then fmupd remoteObjectWorkspacePathAnnotation (ok_WorkspacePath k) s else s)"

definition relatedOwnerHash :: "'s env \<Rightarrow> string \<Rightarrow> string \<Rightarrow> string \<Rightarrow> string \<Rightarrow> string" where
  "relatedOwnerHash E clusterName publishedResourceName namespace name =
     Hash E (HashString (Join [clusterName, publishedResourceName, namespace, name] [CHR 0x00]))"

definition relatedCopyLabels ::
    "'s env \<Rightarrow> unstructured \<Rightarrow> string \<Rightarrow> string \<Rightarrow> string \<Rightarrow> string \<Rightarrow> labels" where
  "relatedCopyLabels E primary clusterName publishedResourceName identifier agentName =
     (let s = fmupd relatedIdentifierLabel identifier
                (fmupd relatedOwnerLabel
                   (relatedOwnerHash E clusterName publishedResourceName
                      (oNamespace primary) (oName primary)) fmempty)
      in if agentName \<noteq> [] then fmupd agentNameLabel agentName s else s)"

definition relatedCopyAnnotations :: "unstructured \<Rightarrow> labels" where
  "relatedCopyAnnotations primary =
     (let s = fmupd relatedPrimaryNameAnnotation (oName primary) fmempty
      in if oNamespace primary \<noteq> []
         then fmupd relatedPrimaryNamespaceAnnotation (oNamespace primary) s else s)"

definition relatedCopySelector ::
    "'s env \<Rightarrow> unstructured \<Rightarrow> string \<Rightarrow> string \<Rightarrow> string \<Rightarrow> string \<Rightarrow> selector" where
  "relatedCopySelector E primary clusterName publishedResourceName identifier agentName =
     SelectorFromSet (relatedCopyLabels E primary clusterName publishedResourceName identifier agentName)"

section \<open>The metadata filter\<close>

definition unsyncableLabels :: "string list" where
  "unsyncableLabels =
     [remoteObjectClusterLabel, remoteObjectNamespaceHashLabel, remoteObjectNameHashLabel]"

definition unsyncableAnnotations :: "string list" where
  "unsyncableAnnotations =
     [''kcp.io/cluster'', ''kubectl.kubernetes.io/last-applied-configuration'',
      deletionPropagationPolicyAnnotation, remoteObjectNamespaceAnnotation,
      remoteObjectNameAnnotation, remoteObjectWorkspacePathAnnotation]"

definition filterLabels :: "labels \<Rightarrow> string list \<Rightarrow> labels" where
  "filterLabels original forbidList = fmfilter (\<lambda>k. k \<notin> set forbidList) original"

definition filterUnsyncableLabels :: "labels \<Rightarrow> labels" where
  "filterUnsyncableLabels original =
     fmfilter (\<lambda>k. \<not> HasPrefix k ''claimed.internal.apis.kcp.io/'')
       (filterLabels original unsyncableLabels)"

definition filterUnsyncableAnnotations :: "labels \<Rightarrow> labels" where
  "filterUnsyncableAnnotations original =
     fmfilter (\<lambda>k. \<not> HasPrefix k relatedObjectAnnotationPrefix)
       (filterLabels original unsyncableAnnotations)"

text \<open>
  \<open>setNestedMapOmitempty\<close> on \<open>metadata.labels\<close> or \<open>metadata.annotations\<close>: an empty map removes the
  field. Setting the field fails only if \<open>metadata\<close> is not a JSON object, which the object type
  rules out, so the stripping functions are total.
\<close>

definition setNestedMapOmitempty :: "labels \<Rightarrow> labels option" where
  "setNestedMapOmitempty value = (if value = fmempty then None else Some value)"

definition stripAnnotations :: "unstructured \<Rightarrow> unstructured" where
  "stripAnnotations obj =
     (case oAnnotations obj of
        None \<Rightarrow> obj
      | Some a \<Rightarrow> obj\<lparr>oAnnotations := setNestedMapOmitempty (filterUnsyncableAnnotations a)\<rparr>)"

definition stripLabels :: "unstructured \<Rightarrow> unstructured" where
  "stripLabels obj =
     (case oLabels obj of
        None \<Rightarrow> obj
      | Some l \<Rightarrow> obj\<lparr>oLabels := setNestedMapOmitempty (filterUnsyncableLabels l)\<rparr>)"

definition stripMetadata :: "unstructured \<Rightarrow> unstructured" where
  "stripMetadata obj = stripLabels (stripAnnotations
     (obj\<lparr>oCreationTimestamp := None, oFinalizers := [], oGeneration := 0, oOwnerReferences := [],
          oResourceVersion := [], oManagedFields := [], oUID := [], oSelfLink := []\<rparr>))"

record clusterRequest =
  cr_ClusterName :: string
  cr_Name :: nsname

definition RemoteNameForLocalObject :: "unstructured \<Rightarrow> clusterRequest option" where
  "RemoteNameForLocalObject localObj =
     (let clusterName = mapGet (orEmpty (oLabels localObj)) remoteObjectClusterLabel;
          namespace = mapGet (orEmpty (oAnnotations localObj)) remoteObjectNamespaceAnnotation;
          name = mapGet (orEmpty (oAnnotations localObj)) remoteObjectNameAnnotation
      in if clusterName = [] \<or> name = [] then None
         else Some \<lparr> cr_ClusterName = clusterName,
                     cr_Name = \<lparr> nn_Namespace = namespace, nn_Name = name \<rparr> \<rparr>)"

text \<open>The desired entries that the destination lacks or has with another value.\<close>

definition missingFrom :: "labels option \<Rightarrow> labels \<Rightarrow> labels" where
  "missingFrom dest desired =
     fmfilter (\<lambda>k. fmlookup (orEmpty dest) k \<noteq> fmlookup desired k) desired"

definition addMissing :: "labels option \<Rightarrow> labels \<Rightarrow> labels option" where
  "addMissing source missing =
     (if missing = fmempty then source else Some (orEmpty source ++\<^sub>f missing))"

definition threeWayDiffMetadata ::
    "unstructured \<Rightarrow> unstructured \<Rightarrow> labels \<Rightarrow> labels \<Rightarrow> unstructured" where
  "threeWayDiffMetadata sourceObj destObj desiredLabels desiredAnnotations =
     sourceObj\<lparr>oLabels := addMissing (oLabels sourceObj) (missingFrom (oLabels destObj) desiredLabels),
               oAnnotations := addMissing (oAnnotations sourceObj)
                 (missingFrom (oAnnotations destObj) desiredAnnotations)\<rparr>"

section \<open>Facts about the filter\<close>

text \<open>
  The contract of a metadata filter, as its callers use it: an entry is either dropped because of its
  key or kept unchanged. Both filters of \<open>metadata.go\<close> are instances.
\<close>

locale metadata_filter =
  fixes filt :: "labels \<Rightarrow> labels" and drops :: "string \<Rightarrow> bool"
  assumes lookup_filt: "fmlookup (filt m) k = (if drops k then None else fmlookup m k)"
begin

lemma filt_idem: "filt (filt m) = filt m"
  by (rule fmap_ext) (simp add: lookup_filt)

lemma filt_empty: "filt fmempty = fmempty"
  by (rule fmap_ext) (simp add: lookup_filt)

lemma filt_add: "filt (m ++\<^sub>f n) = filt m ++\<^sub>f filt n"
proof (rule fmap_ext)
  have dom: "k |\<in>| fmdom (filt n) \<longleftrightarrow> k |\<in>| fmdom n \<and> \<not> drops k" for k
    by (auto simp: fmlookup_dom_iff lookup_filt)
  show "fmlookup (filt (m ++\<^sub>f n)) k = fmlookup (filt m ++\<^sub>f filt n) k" for k
    by (simp add: lookup_filt dom)
qed

lemma filt_dropped: "(\<And>k. k |\<in>| fmdom m \<Longrightarrow> drops k) \<Longrightarrow> filt m = fmempty"
  by (rule fmap_ext) (metis fmdom_notD fmempty_lookup lookup_filt)

lemma filt_kept: "(\<And>k. k |\<in>| fmdom m \<Longrightarrow> \<not> drops k) \<Longrightarrow> filt m = m"
  by (rule fmap_ext) (metis fmdom_notD lookup_filt)

lemma orEmpty_setNested: "orEmpty (setNestedMapOmitempty (filt m)) = filt m"
  by (simp add: setNestedMapOmitempty_def)

lemma strip_once:
  "(case setNestedMapOmitempty (filt m) of None \<Rightarrow> None | Some l \<Rightarrow> setNestedMapOmitempty (filt l)) =
     setNestedMapOmitempty (filt m)"
  by (simp add: setNestedMapOmitempty_def filt_idem)

end

definition dropsLabel :: "string \<Rightarrow> bool" where
  "dropsLabel k \<longleftrightarrow> k \<in> set unsyncableLabels \<or> HasPrefix k ''claimed.internal.apis.kcp.io/''"

definition dropsAnnotation :: "string \<Rightarrow> bool" where
  "dropsAnnotation k \<longleftrightarrow> k \<in> set unsyncableAnnotations \<or> HasPrefix k relatedObjectAnnotationPrefix"

interpretation lf: metadata_filter filterUnsyncableLabels dropsLabel
  by unfold_locales (simp add: filterUnsyncableLabels_def filterLabels_def dropsLabel_def)

interpretation af: metadata_filter filterUnsyncableAnnotations dropsAnnotation
  by unfold_locales (simp add: filterUnsyncableAnnotations_def filterLabels_def dropsAnnotation_def)

lemma stripMetadata_fields [meta_simps]:
  "orEmpty (oLabels (stripMetadata obj)) = filterUnsyncableLabels (orEmpty (oLabels obj))"
  "orEmpty (oAnnotations (stripMetadata obj)) = filterUnsyncableAnnotations (orEmpty (oAnnotations obj))"
  "oName (stripMetadata obj) = oName obj" "oNamespace (stripMetadata obj) = oNamespace obj"
  "oAPIVersion (stripMetadata obj) = oAPIVersion obj" "oKind (stripMetadata obj) = oKind obj"
  "oContent (stripMetadata obj) = oContent obj" "oFinalizers (stripMetadata obj) = []"
  "oResourceVersion (stripMetadata obj) = []" "oUID (stripMetadata obj) = []"
  "oDeletionTimestamp (stripMetadata obj) = oDeletionTimestamp obj"
  by (simp_all add: stripMetadata_def stripLabels_def stripAnnotations_def lf.orEmpty_setNested
        af.orEmpty_setNested lf.filt_empty af.filt_empty split: option.split)

lemma stripMetadata_stripMetadata: "stripMetadata (stripMetadata obj) = stripMetadata obj"
  by (cases "oLabels obj"; cases "oAnnotations obj")
     (auto simp: stripMetadata_def stripLabels_def stripAnnotations_def setNestedMapOmitempty_def
        lf.filt_idem af.filt_idem split: option.splits)

lemma ensureLabels_fields [meta_simps]:
  "oLabels (ensureLabels obj l) = Some (orEmpty (oLabels obj) ++\<^sub>f l)"
  "oAnnotations (ensureLabels obj l) = oAnnotations obj"
  "oName (ensureLabels obj l) = oName obj" "oNamespace (ensureLabels obj l) = oNamespace obj"
  "oDeletionTimestamp (ensureLabels obj l) = oDeletionTimestamp obj"
  "oFinalizers (ensureLabels obj l) = oFinalizers obj" "oContent (ensureLabels obj l) = oContent obj"
  by (simp_all add: ensureLabels_def)

lemma ensureAnnotations_fields [meta_simps]:
  "oAnnotations (ensureAnnotations obj l) = Some (orEmpty (oAnnotations obj) ++\<^sub>f l)"
  "oLabels (ensureAnnotations obj l) = oLabels obj"
  "oName (ensureAnnotations obj l) = oName obj" "oNamespace (ensureAnnotations obj l) = oNamespace obj"
  "oDeletionTimestamp (ensureAnnotations obj l) = oDeletionTimestamp obj"
  "oFinalizers (ensureAnnotations obj l) = oFinalizers obj"
  "oContent (ensureAnnotations obj l) = oContent obj"
  by (simp_all add: ensureAnnotations_def)

text \<open>The identification metadata of a key is itself never synced.\<close>

lemma filter_key_metadata:
  "filterUnsyncableLabels (objectKey_Labels E k) = fmempty"
  "filterUnsyncableAnnotations (objectKey_Annotations k) = fmempty"
  by (rule lf.filt_dropped; auto simp: objectKey_Labels_def Let_def dropsLabel_def unsyncableLabels_def
        split: if_splits)
     (rule af.filt_dropped; auto simp: objectKey_Annotations_def Let_def dropsAnnotation_def
        unsyncableAnnotations_def split: if_splits)

section \<open>Linking a copy to its original\<close>

text \<open>What every creation path puts on a destination object when it links it to a source key.\<close>

definition link :: "'s env \<Rightarrow> objectKey \<Rightarrow> unstructured \<Rightarrow> unstructured" where
  "link E k obj = ensureAnnotations (ensureLabels obj (objectKey_Labels E k)) (objectKey_Annotations k)"

lemma link_fields [meta_simps]:
  "orEmpty (oLabels (link E k obj)) = orEmpty (oLabels obj) ++\<^sub>f objectKey_Labels E k"
  "orEmpty (oAnnotations (link E k obj)) = orEmpty (oAnnotations obj) ++\<^sub>f objectKey_Annotations k"
  by (simp_all add: link_def meta_simps)

lemma key_metadata_get [meta_simps]:
  "mapGet (objectKey_Labels E k) remoteObjectClusterLabel = ok_ClusterName k"
  "mapGet (objectKey_Annotations k) remoteObjectNameAnnotation = ok_Name k"
  "mapGet (objectKey_Annotations k) remoteObjectNamespaceAnnotation = ok_Namespace k"
  "remoteObjectClusterLabel |\<in>| fmdom (objectKey_Labels E k)"
  "remoteObjectNameAnnotation |\<in>| fmdom (objectKey_Annotations k)"
  "remoteObjectNamespaceAnnotation |\<in>| fmdom (objectKey_Annotations k) \<longleftrightarrow> ok_Namespace k \<noteq> []"
  by (simp_all add: objectKey_Labels_def objectKey_Annotations_def Let_def name_defs)

lemma stripped_has_no_namespace [meta_simps]:
  "mapGet (filterUnsyncableAnnotations m) remoteObjectNamespaceAnnotation = []"
  by (simp add: mapGet_def af.lookup_filt dropsAnnotation_def unsyncableAnnotations_def)

lemma RemoteName_link:
  "cluster \<noteq> [] \<Longrightarrow> oName src \<noteq> [] \<Longrightarrow>
     RemoteNameForLocalObject (link E (newObjectKey src cluster path) (stripMetadata dst)) =
       Some \<lparr> cr_ClusterName = cluster,
              cr_Name = \<lparr> nn_Namespace = oNamespace src, nn_Name = oName src \<rparr> \<rparr>"
  by (auto simp: RemoteNameForLocalObject_def Let_def meta_simps mapGet_add newObjectKey_def)

lemma stripMetadata_eq:
  "stripMetadata obj = obj\<lparr>oCreationTimestamp := None, oFinalizers := [], oGeneration := 0,
     oOwnerReferences := [], oResourceVersion := [], oManagedFields := [], oUID := [], oSelfLink := [],
     oAnnotations := setNestedMapOmitempty (filterUnsyncableAnnotations (orEmpty (oAnnotations obj))),
     oLabels := setNestedMapOmitempty (filterUnsyncableLabels (orEmpty (oLabels obj)))\<rparr>"
  by (cases "oLabels obj"; cases "oAnnotations obj")
     (simp_all add: stripMetadata_def stripLabels_def stripAnnotations_def lf.filt_empty af.filt_empty
        setNestedMapOmitempty_def)

lemma link_more: "link E k obj = obj\<lparr>oLabels := Some (orEmpty (oLabels obj) ++\<^sub>f objectKey_Labels E k),
    oAnnotations := Some (orEmpty (oAnnotations obj) ++\<^sub>f objectKey_Annotations k)\<rparr>"
  by (simp add: link_def ensureLabels_def ensureAnnotations_def)

lemma stripMetadata_of_link: "stripMetadata (link E k obj) = stripMetadata obj"
  by (simp add: stripMetadata_eq link_more lf.filt_add af.filt_add filter_key_metadata)

text \<open>
  Finding the way back: an object that was stripped of its metadata and linked to a source
  object leads \<open>RemoteNameForLocalObject\<close> to exactly that source's cluster, namespace and name, also
  when the source is cluster-scoped and the object carried a stale namespace annotation before.
\<close>

theorem RemoteNameForLocalObject_link:
  assumes "cluster \<noteq> []" "oName src \<noteq> []"
  shows "RemoteNameForLocalObject (link E (newObjectKey src cluster path) (stripMetadata dst)) =
           Some \<lparr> cr_ClusterName = cluster,
                  cr_Name = \<lparr> nn_Namespace = oNamespace src, nn_Name = oName src \<rparr> \<rparr>"
  using assms by (rule RemoteName_link)

theorem RemoteNameForLocalObject_link_witness:
  "RemoteNameForLocalObject (link (noServer :: unit env)
     (newObjectKey (emptyObject\<lparr>oName := ''db''\<rparr>) ''c1'' [])
     (stripMetadata (emptyObject\<lparr>oAnnotations :=
        Some (fmupd remoteObjectNamespaceAnnotation ''stale'' fmempty)\<rparr>))) =
   Some \<lparr> cr_ClusterName = ''c1'', cr_Name = \<lparr> nn_Namespace = [], nn_Name = ''db'' \<rparr> \<rparr>"
  by (subst RemoteNameForLocalObject_link) (simp_all add: emptyObject_def)

text \<open>
  Linking leaves no trace in what is synced: stripping a linked object gives exactly what
  stripping the object without the link gives, and stripping again changes nothing. So the
  identification metadata never travels into a last-known state or into a further copy.
\<close>

theorem stripMetadata_link:
  "stripMetadata (link E k obj) = stripMetadata obj \<and>
   stripMetadata (stripMetadata obj) = stripMetadata obj"
  by (simp add: stripMetadata_of_link stripMetadata_stripMetadata)

section \<open>Repairing broken metadata\<close>

lemma fmsubset_lookup: "m \<subseteq>\<^sub>f n \<longleftrightarrow> (\<forall>k v. fmlookup m k = Some v \<longrightarrow> fmlookup n k = Some v)"
  by (auto simp: fmsubset_alt_def fmpred_iff)

lemma missingFrom_empty: "missingFrom dest desired = fmempty \<longleftrightarrow> desired \<subseteq>\<^sub>f orEmpty dest"
proof
  assume "missingFrom dest desired = fmempty"
  then have none: "fmlookup (missingFrom dest desired) k = None" for k by simp
  show "desired \<subseteq>\<^sub>f orEmpty dest"
    unfolding fmsubset_lookup
  proof (intro allI impI)
    fix k v
    assume "fmlookup desired k = Some v"
    with none [of k] show "fmlookup (orEmpty dest) k = Some v"
      by (auto simp: missingFrom_def split: if_splits)
  qed
next
  assume "desired \<subseteq>\<^sub>f orEmpty dest"
  then show "missingFrom dest desired = fmempty"
    by (intro fmap_ext) (auto simp: missingFrom_def fmsubset_lookup option.expand)
qed

lemma orEmpty_addMissing: "orEmpty (addMissing src m) = orEmpty src ++\<^sub>f m"
  by (simp add: addMissing_def)

lemma missingFrom_repairs:
  assumes "\<And>k. k |\<in>| fmdom desired \<Longrightarrow> fmlookup src k = None"
  shows "desired \<subseteq>\<^sub>f orEmpty dest ++\<^sub>f (src ++\<^sub>f missingFrom dest desired)"
  unfolding fmsubset_lookup
proof (intro allI impI)
  fix k v
  assume k: "fmlookup desired k = Some v"
  then have "fmlookup src k = None" using assms by (simp add: fmlookup_dom_iff)
  with k show "fmlookup (orEmpty dest ++\<^sub>f (src ++\<^sub>f missingFrom dest desired)) k = Some v"
    by (auto simp: missingFrom_def fmlookup_dom_iff)
qed

lemma addMissing_id: "addMissing src m = src \<longleftrightarrow> m \<subseteq>\<^sub>f orEmpty src \<and> (src = None \<longrightarrow> m = fmempty)"
proof (cases "m = fmempty")
  case False
  have "orEmpty src ++\<^sub>f m = orEmpty src \<longleftrightarrow> m \<subseteq>\<^sub>f orEmpty src"
  proof
    assume "orEmpty src ++\<^sub>f m = orEmpty src"
    then have "fmlookup (orEmpty src ++\<^sub>f m) k = fmlookup (orEmpty src) k" for k by simp
    then show "m \<subseteq>\<^sub>f orEmpty src"
      by (auto simp: fmsubset_lookup fmlookup_dom_iff) (metis fmdomI)
  qed (auto intro!: fmap_ext simp: fmsubset_lookup fmlookup_dom_iff)
  with False show ?thesis by (cases src) (auto simp: addMissing_def)
qed (simp add: addMissing_def fmsubset_lookup)

lemma stripped_label_None:
  "k |\<in>| fmdom (objectKey_Labels E key) \<Longrightarrow> fmlookup (orEmpty (oLabels (stripMetadata obj))) k = None"
  by (auto simp: meta_simps lf.lookup_filt dropsLabel_def unsyncableLabels_def objectKey_Labels_def Let_def
        split: if_splits)

lemma stripped_annotation_None:
  "k |\<in>| fmdom (objectKey_Annotations key) \<Longrightarrow>
     fmlookup (orEmpty (oAnnotations (stripMetadata obj))) k = None"
  by (auto simp: meta_simps af.lookup_filt dropsAnnotation_def unsyncableAnnotations_def
        objectKey_Annotations_def Let_def split: if_splits)

lemma addMissing_stripped:
  assumes "\<And>k. k |\<in>| fmdom desired \<Longrightarrow> fmlookup (orEmpty src) k = None"
  shows "addMissing src (missingFrom dest desired) = src \<longleftrightarrow> desired \<subseteq>\<^sub>f orEmpty dest"
proof -
  have "missingFrom dest desired \<subseteq>\<^sub>f orEmpty src \<longleftrightarrow> missingFrom dest desired = fmempty"
  proof
    assume sub: "missingFrom dest desired \<subseteq>\<^sub>f orEmpty src"
    show "missingFrom dest desired = fmempty"
    proof (rule fmap_ext)
      fix k
      show "fmlookup (missingFrom dest desired) k = fmlookup fmempty k"
        using sub assms [of k]
        by (cases "fmlookup (missingFrom dest desired) k")
           (auto simp: fmsubset_lookup missingFrom_def fmlookup_dom_iff split: if_splits)
    qed
  qed (simp add: fmsubset_lookup)
  then show ?thesis by (auto simp: addMissing_id missingFrom_empty)
qed

lemma filter_missing:
  "filterUnsyncableLabels (missingFrom dst (objectKey_Labels E key)) = fmempty"
  "filterUnsyncableAnnotations (missingFrom dst' (objectKey_Annotations key)) = fmempty"
  by (rule lf.filt_dropped; auto simp: missingFrom_def objectKey_Labels_def Let_def dropsLabel_def
        unsyncableLabels_def split: if_splits)
     (rule af.filt_dropped; auto simp: missingFrom_def objectKey_Annotations_def Let_def
        dropsAnnotation_def unsyncableAnnotations_def split: if_splits)

lemma stripMetadata_threeWayDiff:
  "stripMetadata (threeWayDiffMetadata src dst (objectKey_Labels E key) (objectKey_Annotations key)) =
     stripMetadata src"
  by (simp add: stripMetadata_eq threeWayDiffMetadata_def orEmpty_addMissing lf.filt_add af.filt_add
        filter_missing)

lemma threeWayDiffMetadata_id:
  "threeWayDiffMetadata src dst l a = src \<longleftrightarrow>
     addMissing (oLabels src) (missingFrom (oLabels dst) l) = oLabels src \<and>
     addMissing (oAnnotations src) (missingFrom (oAnnotations dst) a) = oAnnotations src"
  by (cases src) (auto simp: threeWayDiffMetadata_def)

lemma key_repairs:
  "objectKey_Labels E key \<subseteq>\<^sub>f
     orEmpty dst ++\<^sub>f (orEmpty (oLabels (stripMetadata src)) ++\<^sub>f missingFrom dst (objectKey_Labels E key))"
  "objectKey_Annotations key \<subseteq>\<^sub>f
     orEmpty dst ++\<^sub>f (orEmpty (oAnnotations (stripMetadata src)) ++\<^sub>f
       missingFrom dst (objectKey_Annotations key))"
  "addMissing (oLabels (stripMetadata src)) (missingFrom dst (objectKey_Labels E key)) =
     oLabels (stripMetadata src) \<longleftrightarrow> objectKey_Labels E key \<subseteq>\<^sub>f orEmpty dst"
  "addMissing (oAnnotations (stripMetadata src)) (missingFrom dst (objectKey_Annotations key)) =
     oAnnotations (stripMetadata src) \<longleftrightarrow> objectKey_Annotations key \<subseteq>\<^sub>f orEmpty dst"
  by (rule missingFrom_repairs addMissing_stripped; (erule stripped_label_None | erule stripped_annotation_None))+

text \<open>
  The three-way repair of identification metadata. Merging the adjusted source over the
  destination gives the destination every identification label and annotation of the source key;
  the adjustment is invisible in the stripped object, so it never reaches the last-known state; and
  the source is left untouched exactly when the destination's metadata was already right, so an
  intact object causes no patch.
\<close>

theorem threeWayDiffMetadata_repairs:
  "let L = objectKey_Labels E key; A = objectKey_Annotations key;
       s = threeWayDiffMetadata (stripMetadata src) dst L A in
   L \<subseteq>\<^sub>f orEmpty (oLabels dst) ++\<^sub>f orEmpty (oLabels s) \<and>
   A \<subseteq>\<^sub>f orEmpty (oAnnotations dst) ++\<^sub>f orEmpty (oAnnotations s) \<and>
   stripMetadata s = stripMetadata src \<and>
   (s = stripMetadata src \<longleftrightarrow> L \<subseteq>\<^sub>f orEmpty (oLabels dst) \<and> A \<subseteq>\<^sub>f orEmpty (oAnnotations dst))"
  unfolding Let_def threeWayDiffMetadata_id stripMetadata_threeWayDiff
  by (simp add: threeWayDiffMetadata_def orEmpty_addMissing stripMetadata_stripMetadata key_repairs
        del: fmadd_assoc)

section \<open>Provenance of related copies\<close>

lemma relatedOwner_input_eq:
  assumes "CHR 0x00 \<notin> set c" "CHR 0x00 \<notin> set p" "CHR 0x00 \<notin> set ns"
    "CHR 0x00 \<notin> set c'" "CHR 0x00 \<notin> set p'" "CHR 0x00 \<notin> set ns'"
  shows "Join [c, p, ns, n] [CHR 0x00] = Join [c', p', ns', n'] [CHR 0x00] \<longleftrightarrow>
           c = c' \<and> p = p' \<and> ns = ns' \<and> n = n'"
  using assms by (simp add: sep_append_eq)

lemma relatedCopyLabels_dom_get:
  "mapGet (relatedCopyLabels E p c pr i a) relatedOwnerLabel = relatedOwnerHash E c pr (oNamespace p) (oName p)"
  "mapGet (relatedCopyLabels E p c pr i a) relatedIdentifierLabel = i"
  "relatedOwnerLabel |\<in>| fmdom (relatedCopyLabels E p c pr i a)"
  "relatedIdentifierLabel |\<in>| fmdom (relatedCopyLabels E p c pr i a)"
  by (simp_all add: relatedCopyLabels_def Let_def name_defs)

lemma fmsubset_mapGet: "m \<subseteq>\<^sub>f n \<Longrightarrow> k |\<in>| fmdom m \<Longrightarrow> mapGet n k = mapGet m k"
  by (auto simp: fmsubset_lookup mapGet_def fmlookup_dom_iff)

text \<open>
  C31. Provenance is exact. The labels stamped for one owner (logical cluster, PublishedResource,
  namespace and name of the primary, none of which contains a NUL byte) and identifier are found by
  the selector built for another owner and identifier of the same agent if and only if owner and
  identifier are the same. The only assumption on SHA-1 is that the two inputs at hand do not
  collide; the NUL separator is what makes the inputs differ.
\<close>

theorem relatedCopySelector_exact:
  fixes E :: "'s env"
  assumes nul: "\<forall>s \<in> {c, pr, oNamespace p, c', pr', oNamespace p'}. CHR 0x00 \<notin> set s"
    and sha1: "\<forall>x \<in> {Join [c, pr, oNamespace p, oName p] [CHR 0x00]}.
               \<forall>y \<in> {Join [c', pr', oNamespace p', oName p'] [CHR 0x00]}.
                 sha1 E x = sha1 E y \<longrightarrow> x = y"
  shows "case relatedCopySelector E p' c' pr' i' a of
           SelectorFromSet sel \<Rightarrow>
             sel \<subseteq>\<^sub>f relatedCopyLabels E p c pr i a \<longleftrightarrow>
               c = c' \<and> pr = pr' \<and> oNamespace p = oNamespace p' \<and> oName p = oName p' \<and> i = i'
         | _ \<Rightarrow> False"
proof -
  let ?l = "relatedCopyLabels E p c pr i a" and ?l' = "relatedCopyLabels E p' c' pr' i' a"
  let ?same = "c = c' \<and> pr = pr' \<and> oNamespace p = oNamespace p' \<and> oName p = oName p'"
  have hash: "relatedOwnerHash E c pr (oNamespace p) (oName p) =
      relatedOwnerHash E c' pr' (oNamespace p') (oName p') \<longleftrightarrow> ?same"
    using sha1 nul relatedOwner_input_eq [of c pr "oNamespace p" c' pr' "oNamespace p'" "oName p" "oName p'"]
    by (auto simp: relatedOwnerHash_def Hash_def)
  have "?l' \<subseteq>\<^sub>f ?l \<longleftrightarrow> ?same \<and> i = i'"
  proof
    assume sub: "?l' \<subseteq>\<^sub>f ?l"
    show "?same \<and> i = i'"
      using fmsubset_mapGet [OF sub, of relatedOwnerLabel]
        fmsubset_mapGet [OF sub, of relatedIdentifierLabel] hash
      by (simp add: relatedCopyLabels_dom_get)
  next
    assume "?same \<and> i = i'"
    then have "?l = ?l'" by (simp add: relatedCopyLabels_def)
    then show "?l' \<subseteq>\<^sub>f ?l" by (simp add: fmsubset_lookup)
  qed
  then show ?thesis by (simp add: relatedCopySelector_def)
qed

theorem relatedCopySelector_exact_witness:
  "let E = (noServer :: unit env)\<lparr>sha1 := (\<lambda>x. x)\<rparr>;
       p = emptyObject\<lparr>oNamespace := ''team'', oName := ''db''\<rparr>;
       p' = emptyObject\<lparr>oNamespace := [], oName := ''teamdb''\<rparr>
   in case relatedCopySelector E p' ''c1'' ''pr'' ''creds'' ''agent'' of
        SelectorFromSet sel \<Rightarrow> \<not> sel \<subseteq>\<^sub>f relatedCopyLabels E p ''c1'' ''pr'' ''creds'' ''agent''
      | _ \<Rightarrow> False"
  using relatedCopySelector_exact
    [of "''c1''" "''pr''" "emptyObject\<lparr>oNamespace := ''team'', oName := ''db''\<rparr>"
        "''c1''" "''pr''" "emptyObject\<lparr>oNamespace := [], oName := ''teamdb''\<rparr>"
        "(noServer :: unit env)\<lparr>sha1 := (\<lambda>x. x)\<rparr>" "''creds''" "''agent''" "''creds''"]
  by (simp add: emptyObject_def relatedCopySelector_def)

end
