(* ===== verification/Templating.thy ===== *)
theory Templating
  imports Metadata
begin

text \<open>
  Package \<open>sync/templating\<close>: rendering, the digest functions offered to templates, and the name of a
  local object. Parsing and executing a template is the business of \<open>text/template\<close> and a parameter
  of the model; the legacy placeholder scheme is plain string replacement and modelled in full.
\<close>

definition Render :: "'s env \<Rightarrow> string \<Rightarrow> templateData \<Rightarrow> string result" where
  "Render E tpl data =
     bindR (wrapErr ''failed to parse'' (lib ''template'' (templateParse E tpl))) (\<lambda>_.
     bindR (wrapErr ''failed to evaluate'' (lib ''template'' (templateExecute E tpl data))) (\<lambda>out.
     Inr (TrimSpace out)))"

definition sha3sum :: "'s env \<Rightarrow> string \<Rightarrow> string" where
  "sha3sum E input = hexEncode (sha3_256 E input)"

definition sha3short :: "'s env \<Rightarrow> string \<Rightarrow> int list \<Rightarrow> string result" where
  "sha3short E input lengths =
     (case lengths of
        _ # _ # _ \<Rightarrow>
          Inl (Msg (''sha3short: expected at most one length argument, got '' @
                    showNat (List.length lengths)))
      | _ \<Rightarrow>
          let len = (case lengths of [] \<Rightarrow> 20 | l # _ \<Rightarrow> l) in
          if len \<le> 0 then Inl (Msg (''sha3short: invalid length '' @ showInt len))
          else
            let hash = sha3sum E input;
                len = (if len > int (List.length hash) then int (List.length hash) else len)
            in Inr (take (nat len) hash))"

text \<open>
  The contexts of \<open>related.go\<close> and \<open>naming.go\<close>; the constructors of \<^typ>\<open>templateData\<close> are their
  structs, a logical cluster and a path are their strings.
\<close>

definition NewRelatedObjectContext ::
    "unstructured \<Rightarrow> RelatedResourceOrigin \<Rightarrow> string \<Rightarrow> string \<Rightarrow> templateData" where
  "NewRelatedObjectContext object side clusterName clusterPath =
     RelatedObjectContext side object clusterName clusterPath"

definition NewRelatedObjectLabelContext ::
    "unstructured \<Rightarrow> unstructured \<Rightarrow> string \<Rightarrow> string \<Rightarrow> templateData" where
  "NewRelatedObjectLabelContext localObject remoteObject clusterName clusterPath =
     RelatedObjectLabelContext localObject remoteObject clusterName clusterPath"

definition NewRelatedObjectLabelRewriteContext ::
    "string \<Rightarrow> unstructured \<Rightarrow> unstructured \<Rightarrow> unstructured option \<Rightarrow> string \<Rightarrow> string \<Rightarrow> templateData" where
  "NewRelatedObjectLabelRewriteContext val localObject remoteObject relatedObject clusterName clusterPath =
     RelatedObjectLabelRewriteContext val localObject remoteObject relatedObject clusterName clusterPath"

definition newLocalObjectNamingContext :: "unstructured \<Rightarrow> string \<Rightarrow> string \<Rightarrow> templateData" where
  "newLocalObjectNamingContext object clusterName workspacePath =
     LocalObjectNamingContext object clusterName workspacePath"

definition defaultNamingScheme :: ResourceNaming where
  "defaultNamingScheme = \<lparr>
     rn_Name = ''{{ .Object.metadata.namespace | sha3short }}-{{ .Object.metadata.name | sha3short }}'',
     rn_Namespace = ''{{ .ClusterName }}'' \<rparr>"

text \<open>The legacy placeholders in the order the replacer is given them.\<close>

definition legacyReplacements :: "'s env \<Rightarrow> unstructured \<Rightarrow> string \<Rightarrow> (string \<times> string) list" where
  "legacyReplacements E object clusterName =
     [(PlaceholderRemoteClusterName, clusterName),
      (PlaceholderRemoteNamespaceHash, ShortHash E (HashString (oNamespace object))),
      (PlaceholderRemoteNamespace, oNamespace object),
      (PlaceholderRemoteNameHash, ShortHash E (HashString (oName object))),
      (PlaceholderRemoteName, oName object)]"

definition generateLocalObjectIdentifier ::
    "'s env \<Rightarrow> string \<Rightarrow> unstructured \<Rightarrow> string \<Rightarrow> string \<Rightarrow> string result" where
  "generateLocalObjectIdentifier E pattern object clusterName workspacePath =
     (if Contains pattern ''{{''
      then Render E pattern (newLocalObjectNamingContext object clusterName workspacePath)
      else Inr (replaceAll (legacyReplacements E object clusterName) pattern))"

definition GenerateLocalObjectName ::
    "'s env \<Rightarrow> PublishedResource \<Rightarrow> unstructured \<Rightarrow> string \<Rightarrow> string \<Rightarrow> nsname result" where
  "GenerateLocalObjectName E pr object clusterName workspacePath =
     (let naming = (case prs_Naming (pr_Spec pr) of
                      None \<Rightarrow> \<lparr> rn_Name = [], rn_Namespace = [] \<rparr> | Some n \<Rightarrow> n);
          nsPattern = (if rn_Namespace naming = [] then rn_Namespace defaultNamingScheme
                       else rn_Namespace naming);
          namePattern = (if rn_Name naming = [] then rn_Name defaultNamingScheme else rn_Name naming)
      in bindR (wrapErr ''invalid namespace naming''
                  (generateLocalObjectIdentifier E nsPattern object clusterName workspacePath)) (\<lambda>ns.
         bindR (wrapErr ''invalid name naming''
                  (generateLocalObjectIdentifier E namePattern object clusterName workspacePath)) (\<lambda>n.
         Inr \<lparr> nn_Namespace = ns, nn_Name = n \<rparr>)))"

section \<open>Digest functions\<close>

text \<open>
  \<open>sha3short\<close> with at most one length argument, and that one positive, succeeds and gives a
  prefix of the full digest of the requested length, 20 by default and never more than the 64
  hexadecimal digits there are; every other argument list is an error.
\<close>

theorem sha3short_spec:
  "case sha3short E input lengths of
     Inr h \<Rightarrow>
       List.length lengths \<le> 1 \<and> (\<forall>l \<in> set lengths. 0 < l) \<and>
       h = take (case lengths of [] \<Rightarrow> 20 | l # _ \<Rightarrow> nat l) (sha3sum E input) \<and>
       List.length h = min (case lengths of [] \<Rightarrow> 20 | l # _ \<Rightarrow> nat l) (2 * List.length (sha3_256 E input))
   | Inl e \<Rightarrow> 1 < List.length lengths \<or> (\<exists>l \<in> set lengths. l \<le> 0)"
  by (auto simp: sha3short_def sha3sum_def Let_def min_def split: list.splits)

theorem sha3short_spec_witness:
  "sha3short ((noServer :: unit env)\<lparr>sha3_256 := (\<lambda>x. x)\<rparr>) ''ab'' [3] = Inr ''616''"
  using sha3short_spec [where E = "(noServer :: unit env)\<lparr>sha3_256 := (\<lambda>x. x)\<rparr>" and input = "''ab''"
        and lengths = "[3]"]
  by (simp add: sha3short_def sha3sum_def hexEncode_def hexByte_def hexDigit_def Let_def char_of_def
        of_char_def bit_0)

section \<open>The legacy naming scheme\<close>

text \<open>A legacy pattern as its author means it: literal text and placeholders.\<close>

datatype piece = Lit string | ClusterName | NamespaceHash | Namespace | NameHash | Name

fun pieceText :: "piece \<Rightarrow> string" where
  "pieceText (Lit s) = s"
| "pieceText ClusterName = PlaceholderRemoteClusterName"
| "pieceText NamespaceHash = PlaceholderRemoteNamespaceHash"
| "pieceText Namespace = PlaceholderRemoteNamespace"
| "pieceText NameHash = PlaceholderRemoteNameHash"
| "pieceText Name = PlaceholderRemoteName"

fun pieceValue :: "'s env \<Rightarrow> unstructured \<Rightarrow> string \<Rightarrow> piece \<Rightarrow> string" where
  "pieceValue E obj c (Lit s) = s"
| "pieceValue E obj c ClusterName = c"
| "pieceValue E obj c NamespaceHash = ShortHash E (HashString (oNamespace obj))"
| "pieceValue E obj c Namespace = oNamespace obj"
| "pieceValue E obj c NameHash = ShortHash E (HashString (oName obj))"
| "pieceValue E obj c Name = oName obj"

definition patternText :: "piece list \<Rightarrow> string" where
  "patternText ps = concat (map pieceText ps)"

text \<open>
  No literal has a dollar sign, and none continues a placeholder to a longer one.
\<close>

fun unambiguous :: "piece list \<Rightarrow> bool" where
  "unambiguous [] = True"
| "unambiguous (Lit s # ps) = (CHR ''$'' \<notin> set s \<and> unambiguous ps)"
| "unambiguous (Namespace # ps) = (\<not> HasPrefix (patternText ps) ''Hash'' \<and> unambiguous ps)"
| "unambiguous (Name # ps) =
     (\<not> HasPrefix (patternText ps) ''Hash'' \<and> \<not> HasPrefix (patternText ps) ''space'' \<and> unambiguous ps)"
| "unambiguous (_ # ps) = unambiguous ps"

lemmas placeholder_defs =
  PlaceholderRemoteClusterName_def PlaceholderRemoteNamespace_def PlaceholderRemoteNamespaceHash_def
  PlaceholderRemoteName_def PlaceholderRemoteNameHash_def

lemma HasPrefix_space: "HasPrefix s ''spaceHash'' \<Longrightarrow> HasPrefix s ''space''"
  by (auto simp: HasPrefix_iff)

lemma firstMatch_literal: "a \<noteq> CHR ''$'' \<Longrightarrow> firstMatch (legacyReplacements E obj c) (a # s) = None"
  by (simp add: legacyReplacements_def placeholder_defs str_simps)

lemma replaceAll_Lit:
  "CHR ''$'' \<notin> set s \<Longrightarrow> replaceAll (legacyReplacements E obj c) (s @ rest) =
     s @ replaceAll (legacyReplacements E obj c) rest"
  by (induction s) (auto simp: firstMatch_literal)

lemma replaceAll_placeholder:
  assumes "unambiguous (p # ps)" "\<nexists>s. p = Lit s"
  shows "replaceAll (legacyReplacements E obj c) (pieceText p @ patternText ps) =
           pieceValue E obj c p @ replaceAll (legacyReplacements E obj c) (patternText ps)"
  using assms HasPrefix_space [of "patternText ps"]
  by (cases p) (auto simp: legacyReplacements_def placeholder_defs str_simps)

lemma replaceAll_pieces:
  "unambiguous ps \<Longrightarrow> replaceAll (legacyReplacements E obj c) (patternText ps) =
     concat (map (pieceValue E obj c) ps)"
proof (induction ps)
  case Nil
  then show ?case by (simp add: patternText_def)
next
  case (Cons p ps)
  have u: "unambiguous ps" using Cons.prems by (cases p) auto
  have split: "patternText (p # ps) = pieceText p @ patternText ps" by (simp add: patternText_def)
  show ?case
  proof (cases "\<exists>s. p = Lit s")
    case True
    with Cons u split show ?thesis by (auto simp: replaceAll_Lit)
  next
    case False
    with Cons u split show ?thesis by (simp add: replaceAll_placeholder)
  qed
qed

text \<open>
  The legacy scheme means what it says. A pattern without template braces, made of literal text
  and placeholders, is rendered piece by piece: every placeholder by its value, and \<open>$remoteNameHash\<close>
  and \<open>$remoteNamespaceHash\<close> by their digests and never by a name followed by \<open>Hash\<close>. This is what
  the order of the replacer's arguments is for.
\<close>

theorem generateLocalObjectIdentifier_legacy:
  assumes "unambiguous ps" "\<not> Contains (patternText ps) ''{{''"
  shows "generateLocalObjectIdentifier E (patternText ps) obj c path =
           Inr (concat (map (pieceValue E obj c) ps))"
  using assms by (simp add: generateLocalObjectIdentifier_def replaceAll_pieces)

theorem generateLocalObjectIdentifier_legacy_witness:
  "let E = (noServer :: unit env)\<lparr>sha1 := (\<lambda>x. x)\<rparr>;
       obj = emptyObject\<lparr>oNamespace := ''ns'', oName := ''db''\<rparr>
   in generateLocalObjectIdentifier E ''$remoteNamespaceHash-$remoteName'' obj ''c1'' [] = Inr ''6e73-db''"
  using generateLocalObjectIdentifier_legacy
    [where ps = "[NamespaceHash, Lit ''-'', Name]" and E = "(noServer :: unit env)\<lparr>sha1 := (\<lambda>x. x)\<rparr>"
       and obj = "emptyObject\<lparr>oNamespace := ''ns'', oName := ''db''\<rparr>" and c = "''c1''" and path = "[]"]
  by (simp add: patternText_def placeholder_defs str_simps emptyObject_def ShortHash_def Hash_def
        hexEncode_def hexByte_def hexDigit_def Let_def char_of_def of_char_def bit_0)

end
