(* ===== verification/State_Store.thy ===== *)
theory State_Store
  imports Templating
begin

text \<open>
  The last-known-state store (\<open>sync/state_store.go\<close>): snapshots of source objects, kept per primary
  object in one Secret on the service cluster. The backend's effect on that Secret is a pure
  key-value store (\<open>secretLookup\<close>, \<open>secretStore\<close>); the requests around it are shown to implement it on
  every server that stores what it is sent.
\<close>

record syncSide =
  clusterName :: string
  workspacePath :: string
  client :: client
  object :: "unstructured option"

section \<open>Snapshots\<close>

definition removeFields :: "string list \<Rightarrow> unstructured \<Rightarrow> unstructured" where
  "removeFields keys obj = obj\<lparr>oContent := fold fmdrop keys (oContent obj)\<rparr>"

definition snapshotObject :: "'s env \<Rightarrow> unstructured \<Rightarrow> string list \<Rightarrow> string result" where
  "snapshotObject E obj subresources =
     bindR (lib ''marshal'' (marshalJSON E (removeFields subresources (stripMetadata obj)))) (\<lambda>m.
     Inr (TrimSpace m))"

section \<open>The Kubernetes backend\<close>

record kubernetesBackend =
  kb_secretName :: nsname
  kb_labels :: labels
  kb_stateCluster :: syncSide

text \<open>The JSON encoder sorts the keys of a map.\<close>

definition hashObject :: "'s env \<Rightarrow> unstructured \<Rightarrow> string" where
  "hashObject E obj = ShortHash E (HashJSON (jsonObject
     [(''apiVersion'', jsonString (oAPIVersion obj)), (''kind'', jsonString (oKind obj)),
      (''name'', jsonString (oName obj)), (''namespace'', jsonString (oNamespace obj))]))"

definition newKubernetesBackend ::
    "'s env \<Rightarrow> string \<Rightarrow> unstructured \<Rightarrow> string \<Rightarrow> string \<Rightarrow> syncSide \<Rightarrow> kubernetesBackend" where
  "newKubernetesBackend E namespace primaryObject primaryCluster primaryPath stateCluster =
     \<lparr> kb_secretName =
         \<lparr> nn_Namespace = namespace,
           nn_Name = ''obj-state-'' @ primaryCluster @ ''-'' @ hashObject E primaryObject \<rparr>,
       kb_labels = fmupd objectStateLabelName objectStateLabelValue
         (objectKey_Labels E (newObjectKey primaryObject primaryCluster primaryPath)),
       kb_stateCluster = stateCluster \<rparr>"

definition sourceKey :: "'s env \<Rightarrow> unstructured \<Rightarrow> string \<Rightarrow> string" where
  "sourceKey E obj cluster = objectKey_Key E (newObjectKey obj cluster [])"

definition secretLookup :: "secret option \<Rightarrow> string \<Rightarrow> string option" where
  "secretLookup sec key = (case sec of None \<Rightarrow> None | Some s \<Rightarrow> fmlookup (orEmpty (sec_Data s)) key)"

definition secretStore :: "kubernetesBackend \<Rightarrow> secret option \<Rightarrow> string \<Rightarrow> string \<Rightarrow> secret" where
  "secretStore b sec key data =
     (let s = (case sec of None \<Rightarrow> emptySecret | Some s \<Rightarrow> s);
          s = s\<lparr>sec_Data := Some (fmupd key data (orEmpty (sec_Data s))), sec_Labels := Some (kb_labels b)\<rparr>
      in if sec_Namespace s = []
         then s\<lparr>sec_Name := nn_Name (kb_secretName b), sec_Namespace := nn_Namespace (kb_secretName b)\<rparr>
         else s)"

text \<open>Reading the Secret: an absent one reads as the zero value, every other error is returned.\<close>

definition fetchSecret :: "'s env \<Rightarrow> kubernetesBackend \<Rightarrow> ('s, secret option) prog" where
  "fetchSecret E b =
     attempt (cGetSecret E (client (kb_stateCluster b)) (kb_secretName b)) (\<lambda>r.
       case r of
         Inr s \<Rightarrow> ok (Some s)
       | Inl e \<Rightarrow> if IsNotFound e then ok None else fail e)"

definition backend_Get :: "'s env \<Rightarrow> kubernetesBackend \<Rightarrow> unstructured \<Rightarrow> string \<Rightarrow> ('s, string) prog" where
  "backend_Get E b obj cluster =
     bindE (fetchSecret E b) (\<lambda>sec.
       ok (case secretLookup sec (sourceKey E obj cluster) of None \<Rightarrow> [] | Some data \<Rightarrow> data))"

definition backend_Put ::
    "'s env \<Rightarrow> kubernetesBackend \<Rightarrow> unstructured \<Rightarrow> string \<Rightarrow> string \<Rightarrow> ('s, unit) prog" where
  "backend_Put E b obj cluster data =
     bindE (fetchSecret E b) (\<lambda>sec.
       let new = secretStore b sec (sourceKey E obj cluster) data;
           exists = (case sec of None \<Rightarrow> False | Some s \<Rightarrow> sec_Namespace s \<noteq> [])
       in bindE (if exists then cUpdateSecret E (client (kb_stateCluster b)) new
                 else cCreateSecret E (client (kb_stateCluster b)) new) (\<lambda>_. ok ()))"

section \<open>The object state store\<close>

definition store_Get ::
    "'s env \<Rightarrow> kubernetesBackend \<Rightarrow> unstructured \<Rightarrow> string \<Rightarrow> ('s, unstructured option) prog" where
  "store_Get E b obj cluster =
     bindE (backend_Get E b obj cluster) (\<lambda>data.
       ok (case unmarshalJSON E data of Inl _ \<Rightarrow> None | Inr lastKnown \<Rightarrow> Some lastKnown))"

definition store_Put ::
    "'s env \<Rightarrow> kubernetesBackend \<Rightarrow> unstructured \<Rightarrow> string \<Rightarrow> string list \<Rightarrow> ('s, unit) prog" where
  "store_Put E b obj cluster subresources =
     bindE (liftE (snapshotObject E obj subresources)) (\<lambda>encoded.
       backend_Put E b obj cluster encoded)"

section \<open>The store as a map\<close>

text \<open>
  The contract of the \<open>backend\<close> interface: a get after puts returns the last data put under the key.
  Instance: the Secret's data under \<open>secretLookup\<close> and \<open>secretStore\<close>.
\<close>

locale key_value_store =
  fixes lookup :: "'st \<Rightarrow> 'k \<Rightarrow> 'v option" and store :: "'st \<Rightarrow> 'k \<Rightarrow> 'v \<Rightarrow> 'st"
  assumes lookup_store: "lookup (store st k v) k' = (if k' = k then Some v else lookup st k')"
begin

definition storeAll :: "'st \<Rightarrow> ('k \<times> 'v) list \<Rightarrow> 'st" where
  "storeAll st kvs = fold (\<lambda>(k, v) st. store st k v) kvs st"

lemma lookup_storeAll:
  "lookup (storeAll st kvs) k = (case map_of (rev kvs) k of Some v \<Rightarrow> Some v | None \<Rightarrow> lookup st k)"
  by (induction kvs arbitrary: st)
     (auto simp: storeAll_def lookup_store map_add_def split: option.splits)

lemma store_overwrite: "lookup (store (store st k v) k v') k = Some v'"
  by (simp add: lookup_store)

end

interpretation kv: key_value_store secretLookup "\<lambda>sec key data. Some (secretStore b sec key data)" for b
  by unfold_locales (auto simp: secretLookup_def secretStore_def emptySecret_def Let_def split: option.splits)

section \<open>The requests implement the map\<close>

text \<open>
  What the store relies on of the API server that holds the Secret: \<open>view\<close> is the stored Secret; a
  Get returns it or reports NotFound and changes nothing; a Create of an absent Secret and an Update
  of a present one are accepted and store the data and the name that were sent.
\<close>

definition storesSecrets :: "'s env \<Rightarrow> kubernetesBackend \<Rightarrow> ('s \<Rightarrow> secret option) \<Rightarrow> bool" where
  "storesSecrets E b view \<longleftrightarrow>
     (let c = client (kb_stateCluster b); n = kb_secretName b in
      nn_Namespace n \<noteq> [] \<and>
      (\<forall>s. api_GetSecret E (readTarget c) n s =
             (case view s of None \<Rightarrow> Inl NotFound | Some sec \<Rightarrow> Inr sec, s)) \<and>
      (\<forall>s sec. view s = Some sec \<longrightarrow> sec_Namespace sec = nn_Namespace n) \<and>
      (\<forall>s sec. view s = None \<longrightarrow> sec_Namespace sec = nn_Namespace n \<longrightarrow> sec_Name sec = nn_Name n \<longrightarrow>
         (\<exists>r s' stored. api_CreateSecret E (baseTarget c) sec s = (Inr r, s') \<and>
            view s' = Some stored \<and> sec_Data stored = sec_Data sec)) \<and>
      (\<forall>s old sec. view s = Some old \<longrightarrow> sec_Namespace sec = sec_Namespace old \<longrightarrow>
         sec_Name sec = sec_Name old \<longrightarrow>
         (\<exists>r s' stored. api_UpdateSecret E (baseTarget c) sec s = (Inr r, s') \<and>
            view s' = Some stored \<and> sec_Data stored = sec_Data sec)))"

lemma storesSecrets_Create:
  assumes "storesSecrets E b view" "view s = None" "sec_Namespace sec = nn_Namespace (kb_secretName b)"
    "sec_Name sec = nn_Name (kb_secretName b)"
  shows "\<exists>r s' stored. api_CreateSecret E (baseTarget (client (kb_stateCluster b))) sec s = (Inr r, s') \<and>
    view s' = Some stored \<and> sec_Data stored = sec_Data sec"
  using assms by (simp add: storesSecrets_def Let_def)

lemma storesSecrets_Update:
  assumes "storesSecrets E b view" "view s = Some old" "sec_Namespace sec = sec_Namespace old"
    "sec_Name sec = sec_Name old"
  shows "\<exists>r s' stored. api_UpdateSecret E (baseTarget (client (kb_stateCluster b))) sec s = (Inr r, s') \<and>
    view s' = Some stored \<and> sec_Data stored = sec_Data sec"
  using assms by (simp add: storesSecrets_def Let_def)

lemma fetchSecret_view:
  assumes "storesSecrets E b view"
  shows "\<exists>t. fetchSecret E b w = (Inr (view (server w)), w\<lparr>trace := t\<rparr>)"
proof -
  have "api_GetSecret E (readTarget (client (kb_stateCluster b))) (kb_secretName b) (server w) =
      (case view (server w) of None \<Rightarrow> Inl NotFound | Some sec \<Rightarrow> Inr sec, server w)"
    using assms by (simp add: storesSecrets_def Let_def)
  then show ?thesis
    by (auto simp: fetchSecret_def cGetSecret_def request_def go_simps split: option.splits)
qed

lemma backend_Get_view:
  assumes "storesSecrets E b view"
  shows "\<exists>t. backend_Get E b obj c w =
    (Inr (case secretLookup (view (server w)) (sourceKey E obj c) of None \<Rightarrow> [] | Some d \<Rightarrow> d),
     w\<lparr>trace := t\<rparr>)"
  using fetchSecret_view [OF assms, of w] by (auto simp: backend_Get_def go_simps)

lemma secretLookup_data: "sec_Data s = sec_Data s' \<Longrightarrow> secretLookup (Some s) = secretLookup (Some s')"
  by (simp add: secretLookup_def fun_eq_iff)

lemma secretStore_fields:
  "sec_Namespace (secretStore b None k d) = nn_Namespace (kb_secretName b)"
  "sec_Name (secretStore b None k d) = nn_Name (kb_secretName b)"
  "sec_Namespace s \<noteq> [] \<Longrightarrow> sec_Namespace (secretStore b (Some s) k d) = sec_Namespace s"
  "sec_Namespace s \<noteq> [] \<Longrightarrow> sec_Name (secretStore b (Some s) k d) = sec_Name s"
  by (simp_all add: secretStore_def emptySecret_def Let_def)

lemma backend_Put_view:
  assumes laws: "storesSecrets E b view"
  shows "\<exists>w'. backend_Put E b obj c d w = (Inr (), w') \<and>
    secretLookup (view (server w')) =
      secretLookup (Some (secretStore b (view (server w)) (sourceKey E obj c) d))"
proof -
  let ?new = "secretStore b (view (server w)) (sourceKey E obj c) d"
  let ?c = "baseTarget (client (kb_stateCluster b))"
  obtain t where fetch: "fetchSecret E b w = (Inr (view (server w)), w\<lparr>trace := t\<rparr>)"
    using fetchSecret_view [OF laws] by blast
  show ?thesis
  proof (cases "view (server w)")
    case None
    then obtain r s' stored where "api_CreateSecret E ?c ?new (server w) = (Inr r, s')"
        "view s' = Some stored" "sec_Data stored = sec_Data ?new"
      using storesSecrets_Create [OF laws None, of ?new] by (auto simp: secretStore_fields)
    with None fetch secretLookup_data [of stored ?new] show ?thesis
      by (simp add: backend_Put_def cCreateSecret_def request_def go_simps Let_def)
  next
    case (Some old)
    then have ns: "sec_Namespace old \<noteq> []" using laws by (auto simp: storesSecrets_def Let_def)
    then obtain r s' stored where "api_UpdateSecret E ?c ?new (server w) = (Inr r, s')"
        "view s' = Some stored" "sec_Data stored = sec_Data ?new"
      using storesSecrets_Update [OF laws Some, of ?new] Some by (auto simp: secretStore_fields)
    with Some ns fetch secretLookup_data [of stored ?new] show ?thesis
      by (simp add: backend_Put_def cUpdateSecret_def request_def go_simps Let_def)
  qed
qed

text \<open>What the JSON codec promises: a stripped object survives encoding, trimming and decoding.\<close>

definition jsonRoundTrip :: "'s env \<Rightarrow> unstructured \<Rightarrow> bool" where
  "jsonRoundTrip E obj \<longleftrightarrow>
     (case marshalJSON E obj of
        Inl _ \<Rightarrow> False
      | Inr t \<Rightarrow> unmarshalJSON E (TrimSpace t) = Inr obj)"

lemma store_Get_view:
  assumes "storesSecrets E b view"
  shows "fst (store_Get E b obj c w) =
    Inr (case unmarshalJSON E
           (case secretLookup (view (server w)) (sourceKey E obj c) of None \<Rightarrow> [] | Some d \<Rightarrow> d) of
           Inl _ \<Rightarrow> None | Inr o' \<Rightarrow> Some o')"
  using backend_Get_view [OF assms, of obj c w] by (auto simp: store_Get_def go_simps)

lemma store_Put_view:
  assumes laws: "storesSecrets E b view"
    and json: "jsonRoundTrip E (removeFields subs (stripMetadata obj))"
  shows "\<exists>w' d. store_Put E b obj c subs w = (Inr (), w') \<and>
    unmarshalJSON E d = Inr (removeFields subs (stripMetadata obj)) \<and>
    secretLookup (view (server w')) =
      secretLookup (Some (secretStore b (view (server w)) (sourceKey E obj c) d))"
proof -
  obtain t where t: "marshalJSON E (removeFields subs (stripMetadata obj)) = Inr t"
      "unmarshalJSON E (TrimSpace t) = Inr (removeFields subs (stripMetadata obj))"
    using json by (auto simp: jsonRoundTrip_def split: sum.splits)
  with backend_Put_view [OF laws, of obj c "TrimSpace t" w] show ?thesis
    by (auto simp: store_Put_def snapshotObject_def go_simps)
qed

text \<open>
  One put: afterwards the store returns the object's snapshot for every object with the same key, and
  for every other key exactly what it returned before.
\<close>

lemma store_Get_after_Put:
  assumes laws: "storesSecrets E b view"
    and json: "jsonRoundTrip E (removeFields subs (stripMetadata obj))"
  shows "\<exists>w'. store_Put E b obj c subs w = (Inr (), w') \<and>
    (\<forall>obj' c'. fst (store_Get E b obj' c' w') =
       (if sourceKey E obj' c' = sourceKey E obj c
        then Inr (Some (removeFields subs (stripMetadata obj)))
        else fst (store_Get E b obj' c' w)))"
proof -
  obtain w' d where put: "store_Put E b obj c subs w = (Inr (), w')"
    and d: "unmarshalJSON E d = Inr (removeFields subs (stripMetadata obj))"
    and view: "secretLookup (view (server w')) =
      secretLookup (Some (secretStore b (view (server w)) (sourceKey E obj c) d))"
    using store_Put_view [OF assms] by blast
  have "fst (store_Get E b obj' c' w') =
      (if sourceKey E obj' c' = sourceKey E obj c
       then Inr (Some (removeFields subs (stripMetadata obj))) else fst (store_Get E b obj' c' w))"
    for obj' c'
    unfolding store_Get_view [OF laws] view kv.lookup_store by (simp add: d)
  with put show ?thesis by blast
qed

text \<open>
  What the store promises: a finite map from keys to snapshots (the object without cluster-specific
  metadata and without its subresources). \<open>storePuts\<close> runs puts one after the other on the server,
  \<open>snapshots\<close> is their effect on the map.
\<close>

fun storePuts :: "'s env \<Rightarrow> kubernetesBackend \<Rightarrow> (unstructured \<times> string \<times> string list) list \<Rightarrow> ('s, unit) prog" where
  "storePuts E b [] = ok ()"
| "storePuts E b ((obj, c, subs) # puts) = bindE (store_Put E b obj c subs) (\<lambda>_. storePuts E b puts)"

fun snapshots ::
    "'s env \<Rightarrow> (unstructured \<times> string \<times> string list) list \<Rightarrow> (string, unstructured) fmap \<Rightarrow> (string, unstructured) fmap" where
  "snapshots E [] m = m"
| "snapshots E ((obj, c, subs) # puts) m =
     snapshots E puts (fmupd (sourceKey E obj c) (removeFields subs (stripMetadata obj)) m)"

text \<open>The state of the server represents the map \<open>m\<close> on top of what a former state \<open>w\<close> answers.\<close>

definition represents :: "'s env \<Rightarrow> kubernetesBackend \<Rightarrow> 's world \<Rightarrow> 's world \<Rightarrow> (string, unstructured) fmap \<Rightarrow> bool" where
  "represents E b w v m \<longleftrightarrow>
     (\<forall>obj c. fst (store_Get E b obj c v) =
        (case fmlookup m (sourceKey E obj c) of Some s \<Rightarrow> Inr (Some s) | None \<Rightarrow> fst (store_Get E b obj c w)))"

lemma store_Put_represents:
  assumes "storesSecrets E b view" "jsonRoundTrip E (removeFields subs (stripMetadata obj))" "represents E b w v m"
  shows "\<exists>v'. store_Put E b obj c subs v = (Inr (), v') \<and>
    represents E b w v' (fmupd (sourceKey E obj c) (removeFields subs (stripMetadata obj)) m)"
proof -
  obtain v' where "store_Put E b obj c subs v = (Inr (), v')"
    "\<forall>obj' c'. fst (store_Get E b obj' c' v') =
       (if sourceKey E obj' c' = sourceKey E obj c
        then Inr (Some (removeFields subs (stripMetadata obj))) else fst (store_Get E b obj' c' v))"
    using store_Get_after_Put [OF assms(1,2)] by blast
  with assms(3) show ?thesis by (auto simp: represents_def)
qed

lemma storePuts_represents:
  assumes "storesSecrets E b view" "represents E b w v m"
    "\<forall>(obj, c, subs) \<in> set puts. jsonRoundTrip E (removeFields subs (stripMetadata obj))"
  shows "\<exists>v'. storePuts E b puts v = (Inr (), v') \<and> represents E b w v' (snapshots E puts m)"
  using assms(2,3)
proof (induction puts arbitrary: v m)
  case (Cons p puts)
  obtain obj c subs where p: "p = (obj, c, subs)" by (cases p)
  obtain v1 where v1: "store_Put E b obj c subs v = (Inr (), v1)"
    "represents E b w v1 (fmupd (sourceKey E obj c) (removeFields subs (stripMetadata obj)) m)"
    using store_Put_represents [OF assms(1) _ Cons.prems(1), of subs obj c] Cons.prems(2) p by auto
  with Cons.IH [OF v1(2)] Cons.prems(2) show ?case by (auto simp: p bindE_eval)
qed (simp add: go_eval)

text \<open>
  C8. The state store implements a finite map. On every server that stores Secrets, any sequence of
  objects can be remembered, and afterwards the store answers, for every object, with the snapshot
  that was put last under its key, and where none was put as it did before: the requests and the
  Secret refine the updates of a map.
\<close>

theorem store_refines_map:
  assumes "storesSecrets E b view"
    and "\<forall>(obj, c, subs) \<in> set puts. jsonRoundTrip E (removeFields subs (stripMetadata obj))"
  shows "\<exists>w'. storePuts E b puts w = (Inr (), w') \<and> represents E b w w' (snapshots E puts fmempty)"
  by (rule storePuts_represents [OF assms(1) _ assms(2)]) (simp add: represents_def)

text \<open>
  A server that holds a single Secret and a codec that keeps kind and name, for concrete runs.
\<close>

definition memoryView :: "secret option \<Rightarrow> secret option" where
  "memoryView s = (case s of None \<Rightarrow> None | Some x \<Rightarrow> if sec_Namespace x = ''kcp'' then Some x else None)"

definition memorySecrets :: "secret option env" where
  "memorySecrets = noServer\<lparr>
     api_GetSecret := \<lambda>c n s. (case memoryView s of None \<Rightarrow> Inl NotFound | Some x \<Rightarrow> Inr x, s),
     api_CreateSecret := \<lambda>c sec s. (Inr sec, Some sec),
     api_UpdateSecret := \<lambda>c sec s. (Inr sec, Some sec),
     marshalJSON := \<lambda>o'. Inr (oKind o' @ ''/'' @ oName o'),
     unmarshalJSON := \<lambda>t. (case cutAt CHR ''/'' t of
        (k, Some n) \<Rightarrow> Inr (emptyObject\<lparr>oKind := k, oName := n\<rparr>) | _ \<Rightarrow> Inl ()),
     createMergePatchLib := \<lambda>a b. Inr (if a = b then ''{}'' else b),
     semanticEqualLabels := \<lambda>a b. orEmpty a = orEmpty b, semanticEqualJSON := \<lambda>a b. a = b,
     sha1 := \<lambda>x. x, pathJSON := jsonString\<rparr>"

definition memoryBackend :: kubernetesBackend where
  "memoryBackend = newKubernetesBackend memorySecrets ''kcp'' emptyObject ''c1'' []
     \<lparr> clusterName = [], workspacePath = [], client = LocalClient, object = None \<rparr>"

definition memoryWorld :: "secret option world" where
  "memoryWorld = \<lparr> server = None, trace = [], selectors = noSelectors \<rparr>"

lemma storesSecrets_memory: "storesSecrets memorySecrets memoryBackend memoryView"
  by (auto simp: storesSecrets_def memorySecrets_def memoryBackend_def newKubernetesBackend_def
        memoryView_def split: option.splits)

lemma jsonRoundTrip_memory:
  "jsonRoundTrip memorySecrets (removeFields [] (stripMetadata (emptyObject\<lparr>oKind := ''Secret'', oName := ''db''\<rparr>)))"
  "jsonRoundTrip memorySecrets (removeFields [] (stripMetadata (emptyObject\<lparr>oKind := ''Claim'', oName := ''db''\<rparr>)))"
  by (simp_all add: jsonRoundTrip_def memorySecrets_def removeFields_def stripMetadata_eq emptyObject_def
        TrimSpace_def isSpace_def lf.filt_empty af.filt_empty setNestedMapOmitempty_def)

theorem store_refines_map_witness:
  "\<exists>w'. storePuts memorySecrets memoryBackend
       [(emptyObject\<lparr>oKind := ''Secret'', oName := ''db''\<rparr>, ''c1'', []), (emptyObject\<lparr>oKind := ''Claim'', oName := ''db''\<rparr>, ''c1'', [])]
       memoryWorld = (Inr (), w') \<and>
     fst (store_Get memorySecrets memoryBackend (emptyObject\<lparr>oKind := ''Claim'', oName := ''db''\<rparr>) ''c1'' w') =
       Inr (Some (removeFields [] (stripMetadata (emptyObject\<lparr>oKind := ''Claim'', oName := ''db''\<rparr>))))"
proof -
  let ?puts = "[(emptyObject\<lparr>oKind := ''Secret'', oName := ''db''\<rparr>, ''c1'', []),
    (emptyObject\<lparr>oKind := ''Claim'', oName := ''db''\<rparr>, ''c1'', [])]"
  have "\<forall>(obj, c, subs) \<in> set ?puts. jsonRoundTrip memorySecrets (removeFields subs (stripMetadata obj))"
    using jsonRoundTrip_memory by simp
  from store_refines_map [OF storesSecrets_memory this, of memoryWorld] show ?thesis
    by (auto simp: represents_def)
qed

lemma sourceKey_kind:
  "oNamespace o1 = oNamespace o2 \<Longrightarrow> oName o1 = oName o2 \<Longrightarrow> sourceKey E o1 c = sourceKey E o2 c"
  by (simp add: sourceKey_def newObjectKey_def)

text \<open>
  The key of a snapshot has no kind in it. Two objects of one cluster with the same namespace and
  name share one entry of the primary's Secret even when they are of different kinds, such as a
  primary object and a related Secret named after it: after both were remembered, the last-known
  state returned for the first is the snapshot of the second.
\<close>

theorem store_kind_collision:
  assumes laws: "storesSecrets E b view"
    and json: "jsonRoundTrip E (removeFields subs (stripMetadata primary))"
      "jsonRoundTrip E (removeFields subs' (stripMetadata related))"
    and same: "oNamespace primary = oNamespace related" "oName primary = oName related"
  shows "\<exists>w1 w2. store_Put E b primary c subs w = (Inr (), w1) \<and>
           store_Put E b related c subs' w1 = (Inr (), w2) \<and>
           fst (store_Get E b primary c w2) = Inr (Some (removeFields subs' (stripMetadata related)))"
proof -
  obtain w1 d where w1: "store_Put E b primary c subs w = (Inr (), w1)"
    using store_Put_view [OF laws json(1)] by blast
  obtain w2 d' where w2: "store_Put E b related c subs' w1 = (Inr (), w2)"
    and d': "unmarshalJSON E d' = Inr (removeFields subs' (stripMetadata related))"
    and view: "secretLookup (view (server w2)) =
      secretLookup (Some (secretStore b (view (server w1)) (sourceKey E related c) d'))"
    using store_Put_view [OF laws json(2)] by blast
  have "fst (store_Get E b primary c w2) = Inr (Some (removeFields subs' (stripMetadata related)))"
    unfolding store_Get_view [OF laws] view kv.lookup_store sourceKey_kind [OF same] by (simp add: d')
  with w1 w2 show ?thesis by blast
qed

theorem store_kind_collision_witness:
  "\<exists>w1 w2. store_Put memorySecrets memoryBackend (emptyObject\<lparr>oKind := ''Claim'', oName := ''db''\<rparr>)
       ''c1'' [] memoryWorld = (Inr (), w1) \<and>
     store_Put memorySecrets memoryBackend (emptyObject\<lparr>oKind := ''Secret'', oName := ''db''\<rparr>)
       ''c1'' [] w1 = (Inr (), w2) \<and>
     fst (store_Get memorySecrets memoryBackend (emptyObject\<lparr>oKind := ''Claim'', oName := ''db''\<rparr>) ''c1'' w2) =
       Inr (Some (removeFields [] (stripMetadata (emptyObject\<lparr>oKind := ''Secret'', oName := ''db''\<rparr>))))"
  by (rule store_kind_collision [OF storesSecrets_memory jsonRoundTrip_memory(2,1)])
     (simp_all add: emptyObject_def)

end
