(* ===== verification/Mutation.thy ===== *)
theory Mutation
  imports State_Store
begin

text \<open>
  Packages \<open>mutation\<close> and \<open>mutation/transformer\<close>: the rules of a PublishedResource are compiled once
  into a list of transformers and then applied in order to the JSON form or to the object itself.
  The libraries that read and write JSON paths, match regular expressions, execute templates and
  evaluate CEL are parameters.
\<close>

section \<open>Transformers\<close>

text \<open>
  A compiled rule. A regular expression is compiled unless its pattern is empty; \<open>RegexT\<close> records
  the rule and whether it was.
\<close>

datatype transformer =
    DeleteT ResourceDeleteMutation
  | RegexT ResourceRegexMutation bool
  | TemplateT string string
  | CELT string string

definition EncodeObject :: "'s env \<Rightarrow> unstructured option \<Rightarrow> string result" where
  "EncodeObject E obj =
     (case obj of
        None \<Rightarrow> Inl (Panic ''nil pointer dereference'')
      | Some o' \<Rightarrow> lib ''json.Marshal'' (encodeJSON E o'))"

definition DecodeObject :: "'s env \<Rightarrow> string \<Rightarrow> unstructured result" where
  "DecodeObject E encoded = lib ''json.Unmarshal'' (decodeJSON E encoded)"

definition NewDelete :: "ResourceDeleteMutation \<Rightarrow> transformer result" where
  "NewDelete mut = Inr (DeleteT mut)"

definition deleteTransformer_ApplyJSON :: "'s env \<Rightarrow> ResourceDeleteMutation \<Rightarrow> string \<Rightarrow> string result" where
  "deleteTransformer_ApplyJSON E mut toMutate =
     wrapErr (''failed to delete value @ '' @ rdm_Path mut)
       (lib ''sjson.Delete'' (sjsonDelete E toMutate (rdm_Path mut)))"

definition NewRegex :: "'s env \<Rightarrow> ResourceRegexMutation \<Rightarrow> transformer result" where
  "NewRegex E mut =
     (if rrm_Pattern mut \<noteq> []
      then bindR (wrapErr ''invalid pattern'' (lib ''regexp.Compile'' (regexpCompile E (rrm_Pattern mut))))
             (\<lambda>_. Inr (RegexT mut True))
      else Inr (RegexT mut False))"

definition regexTransformer_ApplyJSON ::
    "'s env \<Rightarrow> ResourceRegexMutation \<Rightarrow> bool \<Rightarrow> string \<Rightarrow> string result" where
  "regexTransformer_ApplyJSON E mut compiled toMutate =
     (if \<not> compiled
      then lib ''sjson.Set'' (sjsonSet E toMutate (rrm_Path mut) (JStr (rrm_Replacement mut)))
      else
        let strVal = gj_String (gjsonGet E toMutate (rrm_Path mut));
            replacement = regexpReplaceAll E (rrm_Pattern mut) strVal (rrm_Replacement mut)
        in lib ''sjson.Set'' (sjsonSet E toMutate (rrm_Path mut) (JStr replacement)))"

definition NewTemplate :: "'s env \<Rightarrow> ResourceTemplateMutation \<Rightarrow> transformer result" where
  "NewTemplate E mut =
     bindR (wrapErr ''failed to parse template''
              (lib ''template'' (htmlTemplateParse E (rtm_Template mut)))) (\<lambda>_.
     Inr (TemplateT (rtm_Path mut) (rtm_Template mut)))"

definition templateTransformer_Apply ::
    "'s env \<Rightarrow> string \<Rightarrow> string \<Rightarrow> unstructured \<Rightarrow> unstructured option \<Rightarrow> unstructured result" where
  "templateTransformer_Apply E path tpl toMutate otherObj =
     bindR (wrapErr ''failed to JSON encode object'' (EncodeObject E (Some toMutate))) (\<lambda>encoded.
     let ctx = TemplateMutationContext (gjsonGet E encoded path) toMutate otherObj in
     bindR (wrapErr ''failed to execute template''
              (lib ''template'' (htmlTemplateExecute E tpl ctx))) (\<lambda>out.
     let replacement = TrimSpace out in
     bindR (wrapErr ''failed to set updated value''
              (lib ''sjson.Set'' (sjsonSet E encoded path (JStr replacement)))) (\<lambda>updated.
     DecodeObject E updated)))"

definition NewCEL :: "'s env \<Rightarrow> ResourceCELMutation \<Rightarrow> transformer result" where
  "NewCEL E mut =
     bindR (wrapErr ''failed to compile CEL expression''
              (lib ''cel'' (celCompile E (rcm_Expression mut)))) (\<lambda>_.
     Inr (CELT (rcm_Path mut) (rcm_Expression mut)))"

fun celToNative :: "celval \<Rightarrow> json result"
  and celListToNative :: "celval list \<Rightarrow> json list result"
  and celMapToNative :: "((unit + string) \<times> celval) list \<Rightarrow> (string, json) fmap \<Rightarrow>
        (string, json) fmap result" where
  "celToNative (CelList items) = bindR (celListToNative items) (\<lambda>xs. Inr (JArr xs))"
| "celToNative (CelMap entries) = bindR (celMapToNative entries fmempty) (\<lambda>m. Inr (JObj m))"
| "celToNative CelInvalid = Inl (Msg ''unsupported conversion'')"
| "celToNative (CelOther v) = lib ''unsupported conversion'' v"
| "celListToNative [] = Inr []"
| "celListToNative (x # xs) =
     bindR (celToNative x) (\<lambda>y. bindR (celListToNative xs) (\<lambda>ys. Inr (y # ys)))"
| "celMapToNative [] result = Inr result"
| "celMapToNative ((key, item) # es) result =
     bindR (lib ''unsupported conversion'' key) (\<lambda>k.
     bindR (celToNative item) (\<lambda>v.
     celMapToNative es (fmupd k v result)))"

definition celTransformer_Apply ::
    "'s env \<Rightarrow> string \<Rightarrow> string \<Rightarrow> unstructured \<Rightarrow> unstructured option \<Rightarrow> unstructured result" where
  "celTransformer_Apply E path expr toMutate otherObj =
     bindR (wrapErr ''failed to JSON encode object'' (EncodeObject E (Some toMutate))) (\<lambda>encoded.
     let current = gjsonGet E encoded path in
     bindR (wrapErr ''failed to evaluate CEL expression''
              (lib ''cel'' (celEval E expr (gj_Value current) toMutate otherObj))) (\<lambda>out.
     bindR (wrapErr ''failed to convert CEL result to native value'' (celToNative out)) (\<lambda>val.
     bindR (wrapErr ''failed to set updated value''
              (lib ''sjson.Set'' (sjsonSet E encoded path val))) (\<lambda>updated.
     DecodeObject E updated))))"

section \<open>The aggregate transformer\<close>

text \<open>The JSON transformers work on the encoded object, the other two on the object.\<close>

definition applyEncoded ::
    "'s env \<Rightarrow> (string \<Rightarrow> string result) \<Rightarrow> unstructured \<Rightarrow> unstructured option \<Rightarrow> unstructured result" where
  "applyEncoded E f toMutate otherObj =
     bindR (wrapErr ''failed to JSON encode object'' (EncodeObject E (Some toMutate))) (\<lambda>encodedToMutate.
     bindR (wrapErr ''failed to JSON encode object'' (EncodeObject E otherObj)) (\<lambda>encodedOtherObj.
     bindR (f encodedToMutate) (\<lambda>mutated.
     DecodeObject E mutated)))"

fun transformer_Apply ::
    "'s env \<Rightarrow> transformer \<Rightarrow> unstructured \<Rightarrow> unstructured option \<Rightarrow> unstructured result" where
  "transformer_Apply E (TemplateT path tpl) obj other = templateTransformer_Apply E path tpl obj other"
| "transformer_Apply E (CELT path expr) obj other = celTransformer_Apply E path expr obj other"
| "transformer_Apply E (DeleteT mut) obj other =
     applyEncoded E (deleteTransformer_ApplyJSON E mut) obj other"
| "transformer_Apply E (RegexT mut compiled) obj other =
     applyEncoded E (regexTransformer_ApplyJSON E mut compiled) obj other"

fun AggregateTransformer_Apply ::
    "'s env \<Rightarrow> transformer list \<Rightarrow> unstructured \<Rightarrow> unstructured option \<Rightarrow> unstructured result" where
  "AggregateTransformer_Apply E [] toMutate otherObj = Inr toMutate"
| "AggregateTransformer_Apply E (t # ts) toMutate otherObj =
     bindR (transformer_Apply E t toMutate otherObj) (\<lambda>toMutate'.
     AggregateTransformer_Apply E ts toMutate' otherObj)"

section \<open>The mutator\<close>

record mutator =
  mut_spec :: "transformer list"
  mut_status :: "transformer list"

definition newTransformer :: "'s env \<Rightarrow> ResourceMutation \<Rightarrow> transformer result" where
  "newTransformer E mut =
     (case rm_Delete mut of Some d \<Rightarrow> NewDelete d
      | None \<Rightarrow>
     (case rm_Regex mut of Some r \<Rightarrow> NewRegex E r
      | None \<Rightarrow>
     (case rm_Template mut of Some t \<Rightarrow> NewTemplate E t
      | None \<Rightarrow>
     (case rm_CEL mut of Some c \<Rightarrow> NewCEL E c
      | None \<Rightarrow> Inl (Msg ''no valid mutation mechanism provided'')))))"

fun createAggregatedTransformer :: "'s env \<Rightarrow> ResourceMutation list \<Rightarrow> transformer list result" where
  "createAggregatedTransformer E [] = Inr []"
| "createAggregatedTransformer E (mut # muts) =
     bindR (newTransformer E mut) (\<lambda>t.
     bindR (createAggregatedTransformer E muts) (\<lambda>ts.
     Inr (t # ts)))"

definition NewMutator :: "'s env \<Rightarrow> ResourceMutationSpec option \<Rightarrow> mutator option result" where
  "NewMutator E spec =
     (case spec of
        None \<Rightarrow> Inr None
      | Some sp \<Rightarrow>
          bindR (wrapErr ''cannot create transformer for spec''
                   (createAggregatedTransformer E (rms_Spec sp))) (\<lambda>specAgg.
          bindR (wrapErr ''cannot create transformer for status''
                   (createAggregatedTransformer E (rms_Status sp))) (\<lambda>statusAgg.
          Inr (Some \<lparr> mut_spec = specAgg, mut_status = statusAgg \<rparr>))))"

definition MutateSpec ::
    "'s env \<Rightarrow> mutator option \<Rightarrow> unstructured \<Rightarrow> unstructured option \<Rightarrow> unstructured result" where
  "MutateSpec E m toMutate otherObj =
     (case m of None \<Rightarrow> Inr toMutate
      | Some m \<Rightarrow> AggregateTransformer_Apply E (mut_spec m) toMutate otherObj)"

definition MutateStatus ::
    "'s env \<Rightarrow> mutator option \<Rightarrow> unstructured \<Rightarrow> unstructured option \<Rightarrow> unstructured result" where
  "MutateStatus E m toMutate otherObj =
     (case m of None \<Rightarrow> Inr toMutate
      | Some m \<Rightarrow> AggregateTransformer_Apply E (mut_status m) toMutate otherObj)"

section \<open>Compiled rules mean their rules\<close>

text \<open>The reference: each rule is compiled when it is reached and applied to the result so far.\<close>

fun runRules ::
    "'s env \<Rightarrow> ResourceMutation list \<Rightarrow> unstructured \<Rightarrow> unstructured option \<Rightarrow> unstructured result" where
  "runRules E [] obj other = Inr obj"
| "runRules E (r # rs) obj other =
     bindR (newTransformer E r) (\<lambda>t.
     bindR (transformer_Apply E t obj other) (\<lambda>obj'.
     runRules E rs obj' other))"

lemma createAggregatedTransformer_runs:
  "createAggregatedTransformer E rs = Inr ts \<Longrightarrow>
     AggregateTransformer_Apply E ts obj other = runRules E rs obj other"
proof (induction rs arbitrary: ts obj)
  case (Cons r rs)
  then obtain t ts' where t: "newTransformer E r = Inr t" "createAggregatedTransformer E rs = Inr ts'"
      "ts = t # ts'"
    by (auto simp: bindR_eq_Inr)
  then show ?case by (cases "transformer_Apply E t obj other") (simp_all add: Cons.IH)
qed simp

lemma createAggregatedTransformer_Inr:
  "(\<exists>ts. createAggregatedTransformer E rs = Inr ts) \<longleftrightarrow> (\<forall>r \<in> set rs. \<exists>t. newTransformer E r = Inr t)"
  by (induction rs) (auto simp: bindR_eq_Inr)

lemma wrapErr_Inr_iff: "(\<exists>x. wrapErr msg r = Inr x) \<longleftrightarrow> (\<exists>x. r = Inr x)"
  by simp

lemma bindR_Inr_iff:
  "(\<exists>y. bindR r k = Inr y) \<longleftrightarrow> (\<exists>x. r = Inr x \<and> (\<exists>y. k x = Inr y))"
  by (auto simp: bindR_eq_Inr)

text \<open>
  C25. Compiling the mutation rules ahead of time changes nothing but when errors show. The mutator
  can be built if and only if every rule of both lists is valid on its own, and a mutator that was
  built transforms specs and statuses exactly as running the rules one after the other, each on the
  result of the one before.
\<close>

theorem NewMutator_correct:
  "(\<exists>m. NewMutator E (Some sp) = Inr m) =
     (\<forall>r \<in> set (rms_Spec sp @ rms_Status sp). \<exists>t. newTransformer E r = Inr t) \<and>
   (\<forall>m obj other. NewMutator E (Some sp) = Inr m \<longrightarrow>
      MutateSpec E m obj other = runRules E (rms_Spec sp) obj other \<and>
      MutateStatus E m obj other = runRules E (rms_Status sp) obj other)"
proof (intro conjI allI impI)
  show "(\<exists>m. NewMutator E (Some sp) = Inr m) =
     (\<forall>r \<in> set (rms_Spec sp @ rms_Status sp). \<exists>t. newTransformer E r = Inr t)"
    using createAggregatedTransformer_Inr [of E "rms_Spec sp"]
      createAggregatedTransformer_Inr [of E "rms_Status sp"]
    by (auto simp: NewMutator_def bindR_eq_Inr)
next
  fix m obj other
  assume "NewMutator E (Some sp) = Inr m"
  then obtain a b where "createAggregatedTransformer E (rms_Spec sp) = Inr a"
      "createAggregatedTransformer E (rms_Status sp) = Inr b"
      "m = Some \<lparr> mut_spec = a, mut_status = b \<rparr>"
    by (auto simp: NewMutator_def bindR_eq_Inr)
  then show "MutateSpec E m obj other = runRules E (rms_Spec sp) obj other"
      "MutateStatus E m obj other = runRules E (rms_Status sp) obj other"
    by (simp_all add: MutateSpec_def MutateStatus_def createAggregatedTransformer_runs)
qed

theorem NewMutator_correct_witness:
  "let E = (noServer :: unit env)\<lparr>encodeJSON := (\<lambda>o'. Inr (oName o')), sjsonDelete := (\<lambda>t p. Inr (t @ p)),
             decodeJSON := (\<lambda>t. Inr (emptyObject\<lparr>oName := t\<rparr>))\<rparr>;
       del = \<lambda>p. \<lparr> rm_Delete = Some \<lparr> rdm_Path = p \<rparr>, rm_Regex = None, rm_Template = None, rm_CEL = None \<rparr>;
       sp = \<lparr> rms_Spec = [del ''a'', del ''b''], rms_Status = [] \<rparr>
   in \<exists>m. NewMutator E (Some sp) = Inr m \<and>
        MutateSpec E m emptyObject (Some emptyObject) = Inr (emptyObject\<lparr>oName := ''ab''\<rparr>)"
proof -
  let ?E = "(noServer :: unit env)\<lparr>encodeJSON := (\<lambda>o'. Inr (oName o')), sjsonDelete := (\<lambda>t p. Inr (t @ p)),
             decodeJSON := (\<lambda>t. Inr (emptyObject\<lparr>oName := t\<rparr>))\<rparr>"
  let ?del = "\<lambda>p. \<lparr> rm_Delete = Some \<lparr> rdm_Path = p \<rparr>, rm_Regex = None, rm_Template = None, rm_CEL = None \<rparr>"
  let ?sp = "\<lparr> rms_Spec = [?del ''a'', ?del ''b''], rms_Status = [] \<rparr>"
  obtain m where m: "NewMutator ?E (Some ?sp) = Inr m"
    using NewMutator_correct [of ?E ?sp] by (auto simp: newTransformer_def NewDelete_def)
  have "MutateSpec ?E m emptyObject (Some emptyObject) = Inr (emptyObject\<lparr>oName := ''ab''\<rparr>)"
    using NewMutator_correct [of ?E ?sp] m
    by (simp add: newTransformer_def NewDelete_def applyEncoded_def EncodeObject_def DecodeObject_def
          deleteTransformer_ApplyJSON_def wrapErr_def emptyObject_def)
  with m show ?thesis by (auto simp: Let_def)
qed

section \<open>No panics\<close>

definition noPanic :: "'a result \<Rightarrow> bool" where
  "noPanic r \<longleftrightarrow> (\<forall>e. r = Inl e \<longrightarrow> \<not> isPanic e)"

lemma noPanic_rules:
  "noPanic (Inr x)" "\<not> isPanic e \<Longrightarrow> noPanic (Inl e)" "noPanic (lib what l)"
  "noPanic r \<Longrightarrow> noPanic (wrapErr msg r)"
  "noPanic r \<Longrightarrow> (\<And>x. noPanic (k x)) \<Longrightarrow> noPanic (bindR r k)"
  by (cases l; cases r; simp add: noPanic_def lib_def wrapErr_def; blast)+

lemma noPanic_cel:
  "noPanic (celToNative v)" "noPanic (celListToNative vs)" "noPanic (celMapToNative es m)"
  by (induction v and vs and es m rule: celToNative_celListToNative_celMapToNative.induct)
     (auto intro!: noPanic_rules)

lemma noPanic_transformer: "noPanic (transformer_Apply E t obj (Some other))"
  by (cases t)
     (auto intro!: noPanic_rules noPanic_cel simp: templateTransformer_Apply_def celTransformer_Apply_def
        applyEncoded_def deleteTransformer_ApplyJSON_def regexTransformer_ApplyJSON_def EncodeObject_def
        DecodeObject_def Let_def)

lemma noPanic_aggregate: "noPanic (AggregateTransformer_Apply E ts obj (Some other))"
  by (induction ts arbitrary: obj) (auto intro!: noPanic_rules noPanic_transformer)

text \<open>
  Mutation never panics as long as there is an object of the other side: whatever the rules and
  the libraries do, the outcome is an object or an error. Without one, the first delete rule on an
  encodable object dereferences a nil pointer.
\<close>

theorem mutation_panics_only_without_other:
  "noPanic (MutateSpec E m obj (Some other)) \<and> noPanic (MutateStatus E m obj (Some other)) \<and>
   (\<forall>t d ts. encodeJSON E obj = Inr t \<longrightarrow>
      \<not> noPanic (MutateSpec E (Some \<lparr> mut_spec = DeleteT d # ts, mut_status = [] \<rparr>) obj None))"
  by (auto simp: MutateSpec_def MutateStatus_def applyEncoded_def EncodeObject_def wrapErr_def noPanic_def
        split: option.split) (metis noPanic_aggregate noPanic_def)+

theorem mutation_panics_only_without_other_witness:
  "\<not> noPanic (MutateSpec ((noServer :: unit env)\<lparr>encodeJSON := (\<lambda>_. Inr ''x'')\<rparr>)
       (Some \<lparr> mut_spec = [DeleteT \<lparr> rdm_Path = ''spec'' \<rparr>], mut_status = [] \<rparr>) emptyObject None)"
  using mutation_panics_only_without_other
    [of "(noServer :: unit env)\<lparr>encodeJSON := (\<lambda>_. Inr ''x'')\<rparr>" None emptyObject emptyObject]
  by simp

end
