(* ===== verification/Projection.thy ===== *)
theory Projection
  imports Mutation
begin

text \<open>
  Package \<open>projection\<close>: which versions of a CRD are published, under which names, and which resource a
  related resource refers to on either side. A CRD is a record of the fields this repository reads or
  writes (\<open>crd_Meta\<close> is the object metadata other than name, annotations and generation); what is passed
  through untouched is kept in \<open>crd_Rest\<close> and \<open>ver_Rest\<close>. A nil pointer is \<open>JNull\<close>.
\<close>

record crdVersion =
  ver_Name :: string
  ver_Served :: bool
  ver_Storage :: bool
  ver_StatusSubresource :: bool
  ver_ScaleSubresource :: bool
  ver_Schema :: json
  ver_Rest :: json

record crdNames =
  nam_Plural :: string
  nam_Singular :: string
  nam_ShortNames :: "string list"
  nam_Kind :: string
  nam_ListKind :: string
  nam_Categories :: "string list"

record crd =
  crd_Name :: string
  crd_Annotations :: "labels option"
  crd_Generation :: int
  crd_Meta :: "(string, json) fmap"
  crd_Group :: string
  crd_Names :: crdNames
  crd_Scope :: ResourceScope
  crd_Versions :: "crdVersion list"
  crd_Conversion :: json
  crd_Conditions :: "json list"
  crd_Rest :: json

definition plainCRD :: crd where
  "plainCRD = \<lparr> crd_Name = ''claims.example.com'', crd_Annotations = None,
     crd_Generation = 1, crd_Meta = fmempty, crd_Group = ''example.com'',
     crd_Names = \<lparr> nam_Plural = ''claims'', nam_Singular = ''claim'', nam_ShortNames = [], nam_Kind = ''Claim'',
       nam_ListKind = ''ClaimList'', nam_Categories = [] \<rparr>,
     crd_Scope = NamespaceScoped,
     crd_Versions = [\<lparr> ver_Name = ''v1'', ver_Served = True, ver_Storage = True, ver_StatusSubresource = True,
       ver_ScaleSubresource = False, ver_Schema = JNull, ver_Rest = JNull \<rparr>],
     crd_Conversion = JNull, crd_Conditions = [], crd_Rest = JNull \<rparr>"

section \<open>Kinds and versions\<close>

definition PublishedResourceSourceGK :: "PublishedResource \<Rightarrow> groupKind" where
  "PublishedResourceSourceGK pubRes =
     \<lparr> gk_Group = srd_APIGroup (prs_Resource (pr_Spec pubRes)),
       gk_Kind = srd_Kind (prs_Resource (pr_Spec pubRes)) \<rparr>"

fun storageVersionOf :: "crdVersion list \<Rightarrow> string" where
  "storageVersionOf [] = []"
| "storageVersionOf (v # vs) = (if ver_Storage v then ver_Name v else storageVersionOf vs)"

definition getStorageVersion :: "crd \<Rightarrow> string" where
  "getStorageVersion c = storageVersionOf (crd_Versions c)"

definition PublishedResourceSourceGVK :: "crd \<Rightarrow> PublishedResource \<Rightarrow> groupVersionKind result" where
  "PublishedResourceSourceGVK c pubRes =
     (if getStorageVersion c = [] then Inl (Msg ''CRD does not contain a storage version'')
      else
        let sourceGV = PublishedResourceSourceGK pubRes in
        Inr \<lparr> gvk_Group = gk_Group sourceGV, gvk_Version = getStorageVersion c,
              gvk_Kind = gk_Kind sourceGV \<rparr>)"

definition wantedVersion :: "SourceResourceDescriptor \<Rightarrow> string \<Rightarrow> bool" where
  "wantedVersion src name =
     (if srd_Version src \<noteq> [] then name = srd_Version src
      else if srd_Versions src \<noteq> [] then name \<in> set (srd_Versions src)
      else True)"

definition stripUnwantedVersions :: "crd \<Rightarrow> PublishedResource \<Rightarrow> crd result" where
  "stripUnwantedVersions c pubRes =
     (let src = prs_Resource (pr_Spec pubRes) in
      if srd_Version src \<noteq> [] \<and> srd_Versions src \<noteq> []
      then Inl (Msg ''cannot configure both .version and .versions in as the source of a PublishedResource'')
      else
        let c = c\<lparr>crd_Versions := filter (\<lambda>v. wantedVersion src (ver_Name v)) (crd_Versions c)\<rparr> in
        if crd_Versions c = []
        then Inl (Msg (if srd_Version src \<noteq> [] then ''CRD does not contain version '' @ srd_Version src
                       else if srd_Versions src \<noteq> [] then ''CRD does not contain any of versions''
                       else ''CRD contains no versions''))
        else Inr c)"

fun latestServed :: "nat \<Rightarrow> nat option \<Rightarrow> crdVersion list \<Rightarrow> nat option" where
  "latestServed i latest [] = latest"
| "latestServed i latest (v # vs) = latestServed (Suc i) (if ver_Served v then Some i else latest) vs"

definition adjustStorageVersion :: "crd \<Rightarrow> crd result" where
  "adjustStorageVersion c =
     (let vs = crd_Versions c; hasStorage = list_ex ver_Storage vs in
      case latestServed 0 None vs of
        None \<Rightarrow> Inl (Msg ''no CRD version selected that is marked as served'')
      | Some i \<Rightarrow>
          if \<not> hasStorage then Inr (c\<lparr>crd_Versions := vs[i := (vs ! i)\<lparr>ver_Storage := True\<rparr>]\<rparr>)
          else Inr c)"

definition renameVersion :: "labels \<Rightarrow> crdVersion \<Rightarrow> crdVersion" where
  "renameVersion m v = (if mapGet m (ver_Name v) \<noteq> [] then v\<lparr>ver_Name := mapGet m (ver_Name v)\<rparr> else v)"

definition projectCRDVersions :: "'s env \<Rightarrow> crd \<Rightarrow> PublishedResource \<Rightarrow> crd result" where
  "projectCRDVersions E c pubRes =
     (case prs_Projection (pr_Spec pubRes) of
        None \<Rightarrow> Inr c
      | Some proj \<Rightarrow>
          if rp_Version proj \<noteq> []
          then (case crd_Versions c of
                  [v] \<Rightarrow> Inr (c\<lparr>crd_Versions := [v\<lparr>ver_Name := rp_Version proj\<rparr>]\<rparr>)
                | vs \<Rightarrow> Inl (Msg (''cannot project CRD version to a single version because it contains '' @
                                 showNat (length vs) @ '' versions'')))
          else if rp_Versions proj \<noteq> fmempty
          then
            let vs = map (renameVersion (rp_Versions proj)) (crd_Versions c) in
            if \<not> distinct (map ver_Name vs)
            then Inl (Msg ''CRD contains multiple entries after applying mutation rules'')
            else Inr (c\<lparr>crd_Versions :=
                   SortStableFunc (\<lambda>a b. compareKubeAwareVersionStrings E (ver_Name a) (ver_Name b)) vs\<rparr>)
          else Inr c)"

definition projectCRDNames :: "crd \<Rightarrow> PublishedResource \<Rightarrow> crd result" where
  "projectCRDNames c pubRes =
     (case prs_Projection (pr_Spec pubRes) of
        None \<Rightarrow> Inr c
      | Some proj \<Rightarrow>
          let c = (if rp_Group proj \<noteq> [] then c\<lparr>crd_Group := rp_Group proj\<rparr> else c);
              n = crd_Names c;
              n = (if rp_Kind proj \<noteq> []
                   then n\<lparr>nam_Kind := rp_Kind proj, nam_ListKind := rp_Kind proj @ ''List'',
                          nam_Singular := ToLower (rp_Kind proj),
                          nam_Plural := ToLower (rp_Kind proj) @ ''s''\<rparr>
                   else n);
              n = (if rp_Plural proj \<noteq> [] then n\<lparr>nam_Plural := rp_Plural proj\<rparr> else n);
              c = (if rp_Scope proj \<noteq> ScopeUnset then c\<lparr>crd_Scope := rp_Scope proj\<rparr> else c);
              n = (case rp_Categories proj of None \<Rightarrow> n | Some cs \<Rightarrow> n\<lparr>nam_Categories := cs\<rparr>);
              n = (case rp_ShortNames proj of None \<Rightarrow> n | Some ss \<Rightarrow> n\<lparr>nam_ShortNames := ss\<rparr>)
          in Inr (c\<lparr>crd_Names := n, crd_Name := nam_Plural n @ ''.'' @ crd_Group c\<rparr>))"

definition ProjectCRD :: "'s env \<Rightarrow> crd \<Rightarrow> PublishedResource \<Rightarrow> crd result" where
  "ProjectCRD E c pubRes =
     bindR (stripUnwantedVersions c pubRes) (\<lambda>result.
     bindR (adjustStorageVersion result) (\<lambda>result.
     bindR (projectCRDVersions E result pubRes) (\<lambda>result.
     projectCRDNames result pubRes)))"

definition PublishedResourceProjectedGVK ::
    "'s env \<Rightarrow> crd \<Rightarrow> PublishedResource \<Rightarrow> groupVersionKind result" where
  "PublishedResourceProjectedGVK E originalCRD pubRes =
     bindR (wrapErr ''failed to project CRD'' (ProjectCRD E originalCRD pubRes)) (\<lambda>projectedCRD.
     let storageVersion = getStorageVersion projectedCRD in
     if storageVersion = [] then Inl (Msg ''projected CRD does not contain a storage version'')
     else Inr \<lparr> gvk_Group = crd_Group projectedCRD, gvk_Version = storageVersion,
                gvk_Kind = nam_Kind (crd_Names projectedCRD) \<rparr>)"

section \<open>Related resources\<close>

definition RelatedResourceGVR :: "RelatedResourceSpec \<Rightarrow> groupVersionResource" where
  "RelatedResourceGVR rr =
     (if rr_Kind rr = ''ConfigMap''
      then \<lparr> gvr_Group = [], gvr_Version = ''v1'', gvr_Resource = ''configmaps'' \<rparr>
      else if rr_Kind rr = ''Secret''
      then \<lparr> gvr_Group = [], gvr_Version = ''v1'', gvr_Resource = ''secrets'' \<rparr>
      else \<lparr> gvr_Group = rr_Group rr, gvr_Version = rr_Version rr, gvr_Resource = rr_Resource rr \<rparr>)"

definition RelatedResourceProjectedGVR :: "RelatedResourceSpec \<Rightarrow> groupVersionResource" where
  "RelatedResourceProjectedGVR rr =
     (let g = RelatedResourceGVR rr in
      case rr_Projection rr of
        None \<Rightarrow> g
      | Some p \<Rightarrow>
          \<lparr> gvr_Group = (if rrp_Group p \<noteq> [] then rrp_Group p else gvr_Group g),
            gvr_Version = (if rrp_Version p \<noteq> [] then rrp_Version p else gvr_Version g),
            gvr_Resource = (if rrp_Resource p \<noteq> [] then rrp_Resource p else gvr_Resource g) \<rparr>)"

definition RelatedResourceKcpGVR :: "RelatedResourceSpec \<Rightarrow> groupVersionResource" where
  "RelatedResourceKcpGVR rr =
     (if rr_Origin rr = OriginKcp then RelatedResourceGVR rr else RelatedResourceProjectedGVR rr)"

definition RelatedResourceServiceGVK :: "RelatedResourceSpec \<Rightarrow> groupVersionResource" where
  "RelatedResourceServiceGVK rr =
     (if rr_Origin rr = OriginService then RelatedResourceGVR rr else RelatedResourceProjectedGVR rr)"

section \<open>What a projection succeeds on and what it gives\<close>

lemma latestServed_None: "latestServed i None vs = None \<longleftrightarrow> \<not> list_ex ver_Served vs"
proof -
  have "latestServed i l vs = None \<longleftrightarrow> l = None \<and> \<not> list_ex ver_Served vs" for l
    by (induction vs arbitrary: i l) auto
  then show ?thesis by simp
qed

lemma latestServed_Some:
  "latestServed i l vs = Some k \<Longrightarrow>
     l = Some k \<and> \<not> list_ex ver_Served vs \<or> i \<le> k \<and> k < i + length vs \<and> ver_Served (vs ! (k - i)) \<and>
     \<not> list_ex ver_Served (drop (Suc (k - i)) vs)"
proof (induction vs arbitrary: i l)
  case (Cons v vs)
  show ?case
  proof (cases "list_ex ver_Served vs")
    case True
    with Cons.IH [of "Suc i" "if ver_Served v then Some i else l"] Cons.prems
    have k: "Suc i \<le> k" "k < Suc i + length vs" "ver_Served (vs ! (k - Suc i))"
        "\<not> list_ex ver_Served (drop (Suc (k - Suc i)) vs)"
      by simp_all
    then have "k - i = Suc (k - Suc i)" by simp
    with k show ?thesis by simp
  next
    case False
    then have "latestServed j m vs = m" for j m
      by (induction vs arbitrary: j m) auto
    with Cons.prems False show ?thesis by (auto split: if_splits)
  qed
qed simp

text \<open>The versions that are left after selection, with a storage version chosen if there is none.\<close>

definition chosenVersions :: "PublishedResource \<Rightarrow> crdVersion list \<Rightarrow> crdVersion list" where
  "chosenVersions pubRes vs =
     filter (\<lambda>v. wantedVersion (prs_Resource (pr_Spec pubRes)) (ver_Name v)) vs"

definition withStorage :: "crdVersion list \<Rightarrow> crdVersion list" where
  "withStorage vs =
     (if list_ex ver_Storage vs then vs
      else case latestServed 0 None vs of None \<Rightarrow> vs | Some i \<Rightarrow> vs[i := (vs ! i)\<lparr>ver_Storage := True\<rparr>])"

lemma length_withStorage [simp]: "length (withStorage vs) = length vs"
  by (simp add: withStorage_def split: option.split)

lemma map_name_withStorage [simp]: "map ver_Name (withStorage vs) = map ver_Name vs"
  by (auto simp: withStorage_def map_update list_update_same_conv dest!: latestServed_Some split: option.split)

lemma storage_withStorage:
  assumes "list_ex ver_Served vs"
  shows "list_ex ver_Storage (withStorage vs)"
proof (cases "list_ex ver_Storage vs")
  case False
  obtain i where i: "latestServed 0 None vs = Some i"
    using assms latestServed_None [of 0 vs] by (cases "latestServed 0 None vs") auto
  then have "i < length vs" using latestServed_Some [OF i] by auto
  with False i show ?thesis
    by (auto simp: withStorage_def list_ex_iff intro!: bexI [of _ "(vs ! i)\<lparr>ver_Storage := True\<rparr>"] set_update_memI)
qed (simp add: withStorage_def)

lemma strip_adjust:
  "bindR (stripUnwantedVersions c pubRes) adjustStorageVersion = Inr c' \<longleftrightarrow>
     (srd_Version (prs_Resource (pr_Spec pubRes)) = [] \<or> srd_Versions (prs_Resource (pr_Spec pubRes)) = []) \<and>
     list_ex ver_Served (chosenVersions pubRes (crd_Versions c)) \<and>
     c' = c\<lparr>crd_Versions := withStorage (chosenVersions pubRes (crd_Versions c))\<rparr>"
  using latestServed_None [of 0 "chosenVersions pubRes (crd_Versions c)"]
  by (auto simp: stripUnwantedVersions_def adjustStorageVersion_def chosenVersions_def[symmetric] Let_def
        withStorage_def split: option.splits if_splits)

text \<open>The name a version is published under.\<close>

definition projectedName :: "PublishedResource \<Rightarrow> string \<Rightarrow> string" where
  "projectedName pubRes n =
     (case prs_Projection (pr_Spec pubRes) of
        None \<Rightarrow> n
      | Some p \<Rightarrow>
          if rp_Version p \<noteq> [] then rp_Version p
          else if mapGet (rp_Versions p) n \<noteq> [] then mapGet (rp_Versions p) n else n)"

definition renamed :: "PublishedResource \<Rightarrow> crdVersion \<Rightarrow> crdVersion" where
  "renamed pubRes v = v\<lparr>ver_Name := projectedName pubRes (ver_Name v)\<rparr>"

text \<open>Everything of a version besides its name and its storage flag.\<close>

definition versionBody :: "crdVersion \<Rightarrow> crdVersion" where
  "versionBody v = v\<lparr>ver_Name := [], ver_Storage := False\<rparr>"

lemma renameVersion_eq: "renameVersion m v = v\<lparr>ver_Name := if mapGet m (ver_Name v) \<noteq> [] then mapGet m (ver_Name v) else ver_Name v\<rparr>"
  by (simp add: renameVersion_def)

lemma renamed_cases:
  "prs_Projection (pr_Spec pubRes) = None \<Longrightarrow> renamed pubRes = (\<lambda>v. v)"
  "prs_Projection (pr_Spec pubRes) = Some p \<Longrightarrow> rp_Version p = [] \<Longrightarrow>
     renamed pubRes = renameVersion (rp_Versions p)"
  "renameVersion fmempty = (\<lambda>v. v)"
  by (auto simp: renamed_def projectedName_def renameVersion_eq fun_eq_iff)

lemma projectCRDVersions_Inr:
  assumes "projectCRDVersions E c pubRes = Inr c'"
  shows "mset (crd_Versions c') = mset (map (renamed pubRes) (crd_Versions c))"
    and "c' = c\<lparr>crd_Versions := crd_Versions c'\<rparr>"
  using assms
  by (auto simp: projectCRDVersions_def renamed_cases Let_def renamed_def [of pubRes] projectedName_def
        split: option.splits if_splits list.splits)

lemma projectCRDVersions_ok:
  "(\<exists>c'. projectCRDVersions E c pubRes = Inr c') \<longleftrightarrow>
     (case prs_Projection (pr_Spec pubRes) of
        None \<Rightarrow> True
      | Some p \<Rightarrow>
          if rp_Version p \<noteq> [] then length (crd_Versions c) = 1
          else if rp_Versions p \<noteq> fmempty
          then distinct (map (projectedName pubRes) (map ver_Name (crd_Versions c))) else True)"
proof (cases "prs_Projection (pr_Spec pubRes)")
  case None
  then show ?thesis by (simp add: projectCRDVersions_def)
next
  case (Some p)
  have names: "rp_Version p = [] \<Longrightarrow>
      map ver_Name (map (renameVersion (rp_Versions p)) vs) = map (projectedName pubRes) (map ver_Name vs)" for vs
    using Some by (simp add: projectedName_def renameVersion_eq)
  show ?thesis
    using names [of "crd_Versions c"] Some
    by (auto simp: projectCRDVersions_def Let_def simp del: map_map split: list.splits)
qed

lemma renamed_fields [simp]:
  "ver_Name (renamed pubRes v) = projectedName pubRes (ver_Name v)"
  "versionBody (renamed pubRes v) = versionBody v"
  "ver_Served (renamed pubRes v) = ver_Served v" "ver_Storage (renamed pubRes v) = ver_Storage v"
  by (simp_all add: renamed_def versionBody_def)

lemma map_body_withStorage: "map versionBody (withStorage vs) = map versionBody vs"
  by (auto simp: withStorage_def map_update list_update_same_conv versionBody_def
        dest!: latestServed_Some split: option.split)

lemma projectCRDNames_versions:
  "\<exists>c'. projectCRDNames c pubRes = Inr c' \<and> crd_Versions c' = crd_Versions c"
  by (auto simp: projectCRDNames_def Let_def split: option.split)

lemma ProjectCRD_Inr:
  assumes "ProjectCRD E c pubRes = Inr c'"
  shows "list_ex ver_Served (chosenVersions pubRes (crd_Versions c))"
    and "mset (crd_Versions c') =
           mset (map (renamed pubRes) (withStorage (chosenVersions pubRes (crd_Versions c))))"
proof -
  obtain c1 c2 where c1: "bindR (stripUnwantedVersions c pubRes) adjustStorageVersion = Inr c1"
    and c2: "projectCRDVersions E c1 pubRes = Inr c2" and c': "projectCRDNames c2 pubRes = Inr c'"
    using assms by (auto simp: ProjectCRD_def bindR_eq_Inr)
  show "list_ex ver_Served (chosenVersions pubRes (crd_Versions c))"
    using c1 by (simp add: strip_adjust)
  have "crd_Versions c' = crd_Versions c2" using projectCRDNames_versions [of c2 pubRes] c' by auto
  then show "mset (crd_Versions c') =
      mset (map (renamed pubRes) (withStorage (chosenVersions pubRes (crd_Versions c))))"
    using projectCRDVersions_Inr(1) [OF c2] c1 by (simp add: strip_adjust)
qed

text \<open>
  C27. When a projection succeeds. \<open>ProjectCRD\<close> gives a CRD exactly if the source does not name both a
  version and a list of versions, one of the chosen versions is served, and the requested renaming is
  possible: to a single version name only if a single version was chosen, by a version map only if
  the new names are pairwise different.
\<close>

theorem ProjectCRD_succeeds_iff:
  "(\<exists>c'. ProjectCRD E c pubRes = Inr c') \<longleftrightarrow>
     (let src = prs_Resource (pr_Spec pubRes); vs = chosenVersions pubRes (crd_Versions c) in
      (srd_Version src = [] \<or> srd_Versions src = []) \<and>
      list_ex ver_Served vs \<and>
      (case prs_Projection (pr_Spec pubRes) of
         None \<Rightarrow> True
       | Some p \<Rightarrow>
           if rp_Version p \<noteq> [] then length vs = 1
           else if rp_Versions p \<noteq> fmempty then distinct (map (projectedName pubRes) (map ver_Name vs))
           else True))"
proof -
  have "ProjectCRD E c pubRes =
      bindR (bindR (stripUnwantedVersions c pubRes) adjustStorageVersion) (\<lambda>c1.
      bindR (projectCRDVersions E c1 pubRes) (\<lambda>c2. projectCRDNames c2 pubRes))"
    by (cases "stripUnwantedVersions c pubRes") (simp_all add: ProjectCRD_def)
  then have "(\<exists>c'. ProjectCRD E c pubRes = Inr c') \<longleftrightarrow>
      (\<exists>c1. bindR (stripUnwantedVersions c pubRes) adjustStorageVersion = Inr c1 \<and>
         (\<exists>c2. projectCRDVersions E c1 pubRes = Inr c2))"
    using projectCRDNames_versions by (auto simp: bindR_eq_Inr) blast+
  then show ?thesis
    by (cases "prs_Projection (pr_Spec pubRes)")
       (simp_all add: strip_adjust projectCRDVersions_ok Let_def del: map_map)
qed

lemma list_ex_iff_map: "list_ex f xs \<longleftrightarrow> True \<in> set (map f xs)"
  by (auto simp: list_ex_iff)

lemma length_filter_size: "length (filter f xs) = size {#b \<in># mset (map f xs). b#}"
  by (induction xs) simp_all

lemma length_filter_mset:
  "mset (map f xs) = mset (map g ys) \<Longrightarrow> length (filter f xs) = length (filter g ys)"
  by (simp only: length_filter_size)

lemma length_filter_twice: "length (filter P (filter Q xs)) \<le> length (filter P xs)"
  by (induction xs) auto

lemma served_withStorage: "list_ex ver_Served (withStorage vs) = list_ex ver_Served vs"
proof -
  have "map ver_Served (withStorage vs) = map ver_Served vs"
    by (auto simp: withStorage_def map_update list_update_same_conv dest!: latestServed_Some split: option.split)
  then show ?thesis by (simp only: list_ex_iff_map)
qed

lemma count_storage_withStorage:
  assumes "list_ex ver_Served vs" "length (filter ver_Storage vs) \<le> 1"
  shows "length (filter ver_Storage (withStorage vs)) = 1"
proof (cases "list_ex ver_Storage vs")
  case True
  then have "filter ver_Storage vs \<noteq> []" by (simp add: filter_empty_conv list_ex_iff)
  with True assms(2) show ?thesis by (simp add: withStorage_def le_Suc_eq)
next
  case False
  obtain i where i: "latestServed 0 None vs = Some i"
    using assms latestServed_None [of 0 vs] by (cases "latestServed 0 None vs") auto
  then have len: "i < length vs" using latestServed_Some [OF i] by auto
  have "filter ver_Storage (take i vs) = []" "filter ver_Storage (drop (Suc i) vs) = []"
    using False by (auto simp: filter_empty_conv list_ex_iff dest: in_set_takeD in_set_dropD)
  with False i len show ?thesis by (simp add: withStorage_def upd_conv_take_nth_drop)
qed

text \<open>
  C26. What a projection gives. The published versions are exactly the chosen ones under their
  projected names, each with its schema, subresources and served flag untouched; at least one is
  served and one is the storage version, exactly one if the source CRD did not have several. So the
  projected GVK always has a version to name.
\<close>

theorem ProjectCRD_versions:
  assumes "ProjectCRD E c pubRes = Inr c'"
  shows "mset (map ver_Name (crd_Versions c')) =
           mset (map (projectedName pubRes) (map ver_Name (chosenVersions pubRes (crd_Versions c)))) \<and>
         mset (map versionBody (crd_Versions c')) =
           mset (map versionBody (chosenVersions pubRes (crd_Versions c))) \<and>
         list_ex ver_Served (crd_Versions c') \<and> list_ex ver_Storage (crd_Versions c') \<and>
         (length (filter ver_Storage (crd_Versions c)) \<le> 1 \<longrightarrow>
            length (filter ver_Storage (crd_Versions c')) = 1)"
proof (intro conjI impI)
  let ?vs = "chosenVersions pubRes (crd_Versions c)"
  note served = ProjectCRD_Inr(1) [OF assms] and vs' = ProjectCRD_Inr(2) [OF assms]
  have img: "mset (map f (crd_Versions c')) = mset (map (\<lambda>v. f (renamed pubRes v)) (withStorage ?vs))"
    for f :: "crdVersion \<Rightarrow> 'b"
    using vs' by (simp add: image_mset.compositionality comp_def)
  have names: "map (\<lambda>v. ver_Name (renamed pubRes v)) (withStorage ?vs) =
      map (projectedName pubRes) (map ver_Name (withStorage ?vs))" by (simp del: map_name_withStorage)
  show "mset (map ver_Name (crd_Versions c')) = mset (map (projectedName pubRes) (map ver_Name ?vs))"
    by (simp only: img [of ver_Name] names map_name_withStorage)
  show "mset (map versionBody (crd_Versions c')) = mset (map versionBody ?vs)"
    using img [of versionBody] by (simp only: renamed_fields map_body_withStorage)
  have "list_ex f (crd_Versions c') = list_ex (\<lambda>v. f (renamed pubRes v)) (withStorage ?vs)" for f
    using mset_eq_setD [OF img [of f]] by (simp only: list_ex_iff_map)
  then show "list_ex ver_Served (crd_Versions c')" "list_ex ver_Storage (crd_Versions c')"
    using storage_withStorage [OF served] served by (simp_all add: served_withStorage)
  assume "length (filter ver_Storage (crd_Versions c)) \<le> 1"
  then have "length (filter ver_Storage ?vs) \<le> 1"
    unfolding chosenVersions_def by (rule le_trans [OF length_filter_twice])
  from count_storage_withStorage [OF served this]
  show "length (filter ver_Storage (crd_Versions c')) = 1"
    using length_filter_mset [OF img [of ver_Storage]] by simp
qed

theorem ProjectCRD_versions_witness:
  "let v = \<lambda>n. \<lparr> ver_Name = n, ver_Served = True, ver_Storage = (n = ''v2''), ver_StatusSubresource = True,
                 ver_ScaleSubresource = False, ver_Schema = JNull, ver_Rest = JNull \<rparr>;
       c = plainCRD\<lparr>crd_Versions := [v ''v1'', v ''v2'']\<rparr>;
       pr = plainResource\<lparr>pr_Spec := plainSpec\<lparr>
              prs_Resource := \<lparr> srd_APIGroup = [], srd_Version = ''v1'', srd_Versions = [], srd_Kind = [] \<rparr>,
              prs_Projection := None\<rparr>\<rparr>
   in \<exists>c'. ProjectCRD (noServer :: unit env) c pr = Inr c' \<and> length (filter ver_Storage (crd_Versions c')) = 1"
proof -
  let ?v = "\<lambda>n. \<lparr> ver_Name = n, ver_Served = True, ver_Storage = (n = ''v2''), ver_StatusSubresource = True,
                 ver_ScaleSubresource = False, ver_Schema = JNull, ver_Rest = JNull \<rparr>"
  let ?c = "plainCRD\<lparr>crd_Versions := [?v ''v1'', ?v ''v2'']\<rparr>"
  let ?pr = "plainResource\<lparr>pr_Spec := plainSpec\<lparr>
              prs_Resource := \<lparr> srd_APIGroup = [], srd_Version = ''v1'', srd_Versions = [], srd_Kind = [] \<rparr>,
              prs_Projection := None\<rparr>\<rparr>"
  obtain c' where c': "ProjectCRD (noServer :: unit env) ?c ?pr = Inr c'"
    by (simp add: ProjectCRD_def stripUnwantedVersions_def adjustStorageVersion_def wantedVersion_def
          projectCRDVersions_def projectCRDNames_def Let_def)
  have "length (filter ver_Storage (crd_Versions ?c)) \<le> 1" by simp
  with ProjectCRD_versions [OF c'] have "length (filter ver_Storage (crd_Versions c')) = 1" by blast
  with c' show ?thesis unfolding Let_def by blast
qed

end
