(* ===== verification/Discovery.thy ===== *)
theory Discovery
  imports Projection
begin

text \<open>
  Package \<open>discovery\<close>: finding the CRD behind a resource of the service cluster, from the CRD itself or
  from the discovery and OpenAPI documents of a built-in resource, and probing the endpoints of the
  virtual workspace for a resource. The answers of the API servers and the Kubernetes libraries are
  fields of \<open>discoveryLib\<close>: one value per call the code makes. The version \<open>ver_Schema\<close> of a CRD is the
  OpenAPI schema inside the validation struct, \<open>JNull\<close> if either pointer is nil.
\<close>

section \<open>Documents and libraries\<close>

record apiResource =
  ar_Name :: string
  ar_SingularName :: string
  ar_Namespaced :: bool
  ar_Kind :: string
  ar_ShortNames :: "string list"
  ar_Categories :: "string list"

record apiResourceList =
  arl_GroupVersion :: string
  arl_Resources :: "apiResource list"

text \<open>
  \<open>d_Models\<close> is the lookup in the OpenAPI models followed by the conversion: no model, a failed
  conversion, or the schema. \<open>d_UnsortedList\<close> is the order in which Go happens to enumerate a set.
\<close>

record discoveryLib =
  d_ServerGroupsAndResources :: "apierr + apiResourceList list"
  d_ServerPreferredResources :: "apierr + apiResourceList list"
  d_GetCRD :: "string \<Rightarrow> apierr + crd"
  d_NonStructural :: "crd \<Rightarrow> bool"
  d_OpenAPISchema :: "apierr + unit"
  d_NewOpenAPIData :: "unit + unit"
  d_GetModelsByGKV :: "unit + unit"
  d_Models :: "groupVersionKind \<Rightarrow> (unit + json) option"
  d_ParseGroupVersion :: "string \<Rightarrow> unit + (string \<times> string)"
  d_SetDefaults :: "crd \<Rightarrow> crd"
  d_IsProtectedCommunityGroup :: "string \<Rightarrow> bool"
  d_KubeAPIApprovedAnnotation :: string
  d_UnsortedList :: "string fset \<Rightarrow> string list"
  d_GetEndpointSlice :: "string \<Rightarrow> apierr + string list"
  d_NewDiscoveryClient :: "string \<Rightarrow> unit + unit"
  d_Discover :: "string \<Rightarrow> apierr + apiResourceList list"

definition api :: "apierr + 'a \<Rightarrow> 'a result" where
  "api r = (case r of Inl e \<Rightarrow> Inl (ApiErr e) | Inr x \<Rightarrow> Inr x)"

lemma api_simps [simp]: "api (Inl e) = Inl (ApiErr e)" "api (Inr x) = Inr x"
  by (simp_all add: api_def)

lemma api_eq_Inr [simp]: "api r = Inr x \<longleftrightarrow> r = Inr x"
  by (cases r) simp_all

section \<open>Scanning the discovery documents\<close>

text \<open>
  What the scan collects: the main resource (the last one found wins), the versions in which the kind
  occurs, and the subresources per version.
\<close>

record scanned =
  sc_Resource :: "apiResource option"
  sc_Versions :: "string fset"
  sc_Subresources :: "(string, string fset) fmap"

definition emptyScan :: scanned where
  "emptyScan = \<lparr> sc_Resource = None, sc_Versions = {||}, sc_Subresources = fmempty \<rparr>"

definition subresourceOf :: "apiResource \<Rightarrow> string" where
  "subresourceOf res =
     (case cutAt CHR ''/'' (ar_Name res) of (_, None) \<Rightarrow> [] | (_, Some sub) \<Rightarrow> sub)"

definition subresourcesIn :: "(string, string fset) fmap \<Rightarrow> string \<Rightarrow> string fset" where
  "subresourcesIn m v = (case fmlookup m v of None \<Rightarrow> {||} | Some l \<Rightarrow> l)"

definition scanResource :: "string \<Rightarrow> string \<Rightarrow> apiResource \<Rightarrow> scanned \<Rightarrow> scanned" where
  "scanResource kind version res sc =
     (if ar_Kind res \<noteq> kind then sc
      else
        let sub = subresourceOf res;
            sc = (if sub = [] then sc\<lparr>sc_Resource := Some res\<rparr>
                  else sc\<lparr>sc_Subresources :=
                         fmupd version (finsert sub (subresourcesIn (sc_Subresources sc) version)) (sc_Subresources sc)\<rparr>)
        in sc\<lparr>sc_Versions := finsert version (sc_Versions sc)\<rparr>)"

fun scanLists :: "discoveryLib \<Rightarrow> groupKind \<Rightarrow> apiResourceList list \<Rightarrow> scanned \<Rightarrow> scanned result" where
  "scanLists D gk [] sc = Inr sc"
| "scanLists D gk (resList # rest) sc =
     bindR (wrapErr ''invalid API group version reported by Kubernetes''
              (lib ''group version'' (d_ParseGroupVersion D (arl_GroupVersion resList)))) (\<lambda>(g, v).
     scanLists D gk rest
       (if g \<noteq> gk_Group gk then sc else fold (scanResource (gk_Kind gk) v) (arl_Resources resList) sc))"

section \<open>A CRD that exists\<close>

definition emptySchema :: json where
  "emptySchema = JObj (fmupd ''type'' (JStr ''object'')
     (fmupd ''x-kubernetes-preserve-unknown-fields'' (JBool True) fmempty))"

definition noneConversion :: json where
  "noneConversion = JObj (fmupd ''strategy'' (JStr ''None'') fmempty)"

definition filterAnnotations :: "discoveryLib \<Rightarrow> labels option \<Rightarrow> labels" where
  "filterAnnotations D ann = fmfilter (\<lambda>k. k \<in> set [d_KubeAPIApprovedAnnotation D]) (orEmpty ann)"

definition fillSchemas :: "crd \<Rightarrow> crd" where
  "fillSchemas c = c\<lparr>crd_Versions :=
     map (\<lambda>v. if ver_Schema v = JNull then v\<lparr>ver_Schema := emptySchema\<rparr> else v) (crd_Versions c)\<rparr>"

definition cleanCRD :: "discoveryLib \<Rightarrow> crd \<Rightarrow> crd" where
  "cleanCRD D c =
     (if d_NonStructural D c then fillSchemas c else c)
       \<lparr>crd_Annotations := Some (filterAnnotations D (crd_Annotations c)), crd_Meta := fmempty,
        crd_Conditions := [], crd_Conversion := noneConversion\<rparr>"

section \<open>A CRD from the OpenAPI schema\<close>

fun findPreferred :: "discoveryLib \<Rightarrow> string \<Rightarrow> string \<Rightarrow> apiResourceList list \<Rightarrow> string result" where
  "findPreferred D grp name [] = Inr []"
| "findPreferred D grp name (resList # rest) =
     bindR (wrapErr ''invalid API group version reported by Kubernetes''
              (lib ''group version'' (d_ParseGroupVersion D (arl_GroupVersion resList)))) (\<lambda>(g, v).
     if g = grp \<and> list_ex (\<lambda>res. ar_Name res = name) (arl_Resources resList) then Inr v
     else findPreferred D grp name rest)"

definition getPreferredVersion :: "discoveryLib \<Rightarrow> string \<Rightarrow> string \<Rightarrow> string result" where
  "getPreferredVersion D grp name = bindR (api (d_ServerPreferredResources D)) (findPreferred D grp name)"

fun versionsFromModels ::
    "discoveryLib \<Rightarrow> groupKind \<Rightarrow> (string, string fset) fmap \<Rightarrow> string \<Rightarrow> string list \<Rightarrow> crdVersion list result" where
  "versionsFromModels D gk subs preferred [] = Inr []"
| "versionsFromModels D gk subs preferred (version # rest) =
     (case d_Models D \<lparr> gvk_Group = gk_Group gk, gvk_Version = version, gvk_Kind = gk_Kind gk \<rparr> of
        None \<Rightarrow> Inl (Msg ''no models'')
      | Some converted \<Rightarrow>
          bindR (lib ''conversion'' converted) (\<lambda>schema.
          bindR (versionsFromModels D gk subs preferred rest) (\<lambda>vs.
          Inr (\<lparr> ver_Name = version, ver_Served = True, ver_Storage = (version = preferred),
                 ver_StatusSubresource = (''status'' |\<in>| subresourcesIn subs version),
                 ver_ScaleSubresource = (''scale'' |\<in>| subresourcesIn subs version),
                 ver_Schema = schema, ver_Rest = JNull \<rparr> # vs))))"

definition sortVersions :: "'s env \<Rightarrow> discoveryLib \<Rightarrow> string fset \<Rightarrow> string list" where
  "sortVersions E D vs = SortStableFunc (compareKubeAwareVersionStrings E) (d_UnsortedList D vs)"

definition crdFromOpenAPI ::
    "'s env \<Rightarrow> discoveryLib \<Rightarrow> groupKind \<Rightarrow> string \<Rightarrow> apiResource \<Rightarrow> scanned \<Rightarrow> crd result" where
  "crdFromOpenAPI E D gk crdName resource sc =
     bindR (api (d_OpenAPISchema D)) (\<lambda>_.
     bindR (getPreferredVersion D (gk_Group gk) (ar_Name resource)) (\<lambda>preferredVersion.
     if preferredVersion = []
     then Inl (Msg ''cannot determine storage version because no preferred version exists in the schema'')
     else
       bindR (lib ''openapi'' (d_NewOpenAPIData D)) (\<lambda>_.
       bindR (lib ''models'' (d_GetModelsByGKV D)) (\<lambda>_.
       bindR (versionsFromModels D gk (sc_Subresources sc) preferredVersion (sortVersions E D (sc_Versions sc))) (\<lambda>vs.
       let out = d_SetDefaults D
             \<lparr> crd_Name = crdName, crd_Annotations = None, crd_Generation = 0, crd_Meta = fmempty,
               crd_Group = gk_Group gk,
               crd_Names = \<lparr> nam_Plural = ar_Name resource, nam_Singular = ar_SingularName resource,
                 nam_ShortNames = ar_ShortNames resource, nam_Kind = ar_Kind resource, nam_ListKind = [],
                 nam_Categories = ar_Categories resource \<rparr>,
               crd_Scope = (if ar_Namespaced resource then NamespaceScoped else ClusterScoped),
               crd_Versions = vs, crd_Conversion = JNull, crd_Conditions = [], crd_Rest = JNull \<rparr>
       in Inr (if d_IsProtectedCommunityGroup D (gk_Group gk)
               then out\<lparr>crd_Annotations := Some (fmupd (d_KubeAPIApprovedAnnotation D)
                      ''https://github.com/kcp-dev/kubernetes/pull/4'' fmempty)\<rparr>
               else out))))))"

section \<open>Retrieving a CRD\<close>

definition RetrieveCRD :: "'s env \<Rightarrow> discoveryLib \<Rightarrow> groupKind \<Rightarrow> crd result" where
  "RetrieveCRD E D gk =
     bindR (api (d_ServerGroupsAndResources D)) (\<lambda>resourceLists.
     bindR (scanLists D gk resourceLists emptyScan) (\<lambda>sc.
     case sc_Resource sc of
       None \<Rightarrow> Inl (Msg ''could not find the kind in APIs'')
     | Some resource \<Rightarrow>
         let crdName = ar_Name resource @ (if gk_Group gk = [] then ''.core'' else ''.'' @ gk_Group gk) in
         (case d_GetCRD D crdName of
            Inr c \<Rightarrow> Inr (cleanCRD D c)
          | Inl e \<Rightarrow>
              if e \<noteq> NotFound then Inl (ApiErr e) else crdFromOpenAPI E D gk crdName resource sc)))"

definition ProjectPublishedResource :: "'s env \<Rightarrow> discoveryLib \<Rightarrow> PublishedResource \<Rightarrow> crd result" where
  "ProjectPublishedResource E D pubRes =
     bindR (wrapErr ''failed to discover resource defined in PublishedResource''
              (RetrieveCRD E D (PublishedResourceSourceGK pubRes))) (\<lambda>c.
     wrapErr ''failed to apply projection rules'' (ProjectCRD E c pubRes))"

definition ProjectPublishedResourceGVK :: "'s env \<Rightarrow> discoveryLib \<Rightarrow> PublishedResource \<Rightarrow> groupVersionKind result" where
  "ProjectPublishedResourceGVK E D pubRes =
     bindR (wrapErr ''failed to discover resource defined in PublishedResource''
              (RetrieveCRD E D (PublishedResourceSourceGK pubRes))) (\<lambda>c.
     PublishedResourceProjectedGVK E c pubRes)"

section \<open>Probing the virtual workspace\<close>

text \<open>
  A prober knows the name of an endpoint slice, whose URLs \<open>d_GetEndpointSlice\<close> reads; \<open>d_Discover\<close> is the
  discovery document (or the failure) of one host.
\<close>

record ResourceProber =
  rp_name :: string

type_synonym matchFunc = "string \<Rightarrow> string \<Rightarrow> string \<Rightarrow> string \<Rightarrow> bool"

fun hasInLists :: "discoveryLib \<Rightarrow> matchFunc \<Rightarrow> apiResourceList list \<Rightarrow> bool result" where
  "hasInLists D matches [] = Inr False"
| "hasInLists D matches (resList # rest) =
     bindR (wrapErr ''invalid API group version reported by Kubernetes''
              (lib ''group version'' (d_ParseGroupVersion D (arl_GroupVersion resList)))) (\<lambda>(g, v).
     if list_ex (\<lambda>res. matches g v (ar_Name res) (ar_Kind res)) (arl_Resources resList) then Inr True
     else hasInLists D matches rest)"

definition hasAPIThingInEndpoint :: "discoveryLib \<Rightarrow> matchFunc \<Rightarrow> string \<Rightarrow> bool result" where
  "hasAPIThingInEndpoint D matches endpoint =
     (let host = endpoint @ ''/clusters/*'' in
      bindR (wrapErr ''failed to create discovery client'' (lib ''client'' (d_NewDiscoveryClient D host))) (\<lambda>_.
      bindR (wrapErr ''failed to discover APIs'' (api (d_Discover D host))) (hasInLists D matches)))"

fun hasInEndpoints :: "discoveryLib \<Rightarrow> matchFunc \<Rightarrow> string list \<Rightarrow> bool result" where
  "hasInEndpoints D matches [] = Inr True"
| "hasInEndpoints D matches (endpoint # rest) =
     bindR (hasAPIThingInEndpoint D matches endpoint) (\<lambda>has.
     if \<not> has then Inr False else hasInEndpoints D matches rest)"

definition hasAPIThing :: "discoveryLib \<Rightarrow> ResourceProber \<Rightarrow> matchFunc \<Rightarrow> bool result" where
  "hasAPIThing D p matches =
     bindR (wrapErr ''failed to get APIExportEndpointSlice'' (api (d_GetEndpointSlice D (rp_name p))))
       (hasInEndpoints D matches)"

definition HasGVR :: "discoveryLib \<Rightarrow> ResourceProber \<Rightarrow> groupVersionResource \<Rightarrow> bool result" where
  "HasGVR D p gvr =
     hasAPIThing D p (\<lambda>g v r _. g = gvr_Group gvr \<and> v = gvr_Version gvr \<and> r = gvr_Resource gvr)"

definition HasGVK :: "discoveryLib \<Rightarrow> ResourceProber \<Rightarrow> groupVersionKind \<Rightarrow> bool result" where
  "HasGVK D p gvk =
     hasAPIThing D p (\<lambda>g v _ k. g = gvk_Group gvk \<and> v = gvk_Version gvk \<and> k = gvk_Kind gvk)"

section \<open>What a scan finds\<close>

text \<open>The documents list \<open>res\<close> under \<open>version\<close> of the group.\<close>

definition listed :: "discoveryLib \<Rightarrow> string \<Rightarrow> apiResourceList list \<Rightarrow> string \<Rightarrow> apiResource \<Rightarrow> bool" where
  "listed D grp ls version res \<longleftrightarrow>
     (\<exists>l \<in> set ls. d_ParseGroupVersion D (arl_GroupVersion l) = Inr (grp, version) \<and> res \<in> set (arl_Resources l))"

lemma listed_Nil [simp]: "\<not> listed D grp [] v r"
  by (simp add: listed_def)

lemma listed_Cons:
  "listed D grp (l # ls) v r \<longleftrightarrow>
     d_ParseGroupVersion D (arl_GroupVersion l) = Inr (grp, v) \<and> r \<in> set (arl_Resources l) \<or> listed D grp ls v r"
  by (auto simp: listed_def)

lemma subresourcesIn_fmupd [simp]:
  "subresourcesIn (fmupd v l m) w = (if w = v then l else subresourcesIn m w)"
  by (simp add: subresourcesIn_def)

lemma subresourcesIn_empty [simp]: "subresourcesIn fmempty v = {||}"
  by (simp add: subresourcesIn_def)

lemma scanResource_versions [simp]:
  "sc_Versions (scanResource kind v r sc) =
     (if ar_Kind r = kind then finsert v (sc_Versions sc) else sc_Versions sc)"
  by (simp add: scanResource_def Let_def)

lemma scanResource_subresources:
  "sub |\<in>| subresourcesIn (sc_Subresources (scanResource kind v r sc)) w \<longleftrightarrow>
     sub |\<in>| subresourcesIn (sc_Subresources sc) w \<or>
     ar_Kind r = kind \<and> w = v \<and> subresourceOf r = sub \<and> sub \<noteq> []"
  by (auto simp: scanResource_def Let_def)

lemma fold_scanResource_versions:
  "fset (sc_Versions (fold (scanResource kind v) rs sc)) =
     fset (sc_Versions sc) \<union> {v |r. r \<in> set rs \<and> ar_Kind r = kind}"
  by (induction rs arbitrary: sc) auto

lemma fold_scanResource_subresources:
  "sub |\<in>| subresourcesIn (sc_Subresources (fold (scanResource kind v) rs sc)) w \<longleftrightarrow>
     sub |\<in>| subresourcesIn (sc_Subresources sc) w \<or>
     w = v \<and> sub \<noteq> [] \<and> (\<exists>r \<in> set rs. ar_Kind r = kind \<and> subresourceOf r = sub)"
  by (induction rs arbitrary: sc) (auto simp: scanResource_subresources)

lemma scanLists_Cons_Inr:
  assumes "scanLists D gk (l # ls) sc = Inr sc'"
  obtains g v where "d_ParseGroupVersion D (arl_GroupVersion l) = Inr (g, v)"
    "scanLists D gk ls (if g \<noteq> gk_Group gk then sc else fold (scanResource (gk_Kind gk) v) (arl_Resources l) sc) = Inr sc'"
  using assms by (auto simp: bindR_eq_Inr)

lemma scanLists_versions:
  "scanLists D gk ls sc = Inr sc' \<Longrightarrow>
     fset (sc_Versions sc') =
       fset (sc_Versions sc) \<union> {v. \<exists>r. listed D (gk_Group gk) ls v r \<and> ar_Kind r = gk_Kind gk}"
proof (induction ls arbitrary: sc)
  case (Cons l ls)
  from Cons.prems show ?case
    by (rule scanLists_Cons_Inr)
       (drule Cons.IH, auto simp: listed_Cons fold_scanResource_versions split: if_splits)
qed simp

lemma scanLists_subresources:
  "scanLists D gk ls sc = Inr sc' \<Longrightarrow>
     sub |\<in>| subresourcesIn (sc_Subresources sc') v \<longleftrightarrow>
       sub |\<in>| subresourcesIn (sc_Subresources sc) v \<or>
       sub \<noteq> [] \<and> (\<exists>r. listed D (gk_Group gk) ls v r \<and> ar_Kind r = gk_Kind gk \<and> subresourceOf r = sub)"
proof (induction ls arbitrary: sc)
  case (Cons l ls)
  from Cons.prems show ?case
    by (rule scanLists_Cons_Inr)
       (drule Cons.IH, auto simp: listed_Cons fold_scanResource_subresources split: if_splits)
qed simp

lemma versionsFromModels_names:
  "versionsFromModels D gk subs preferred vs = Inr out \<Longrightarrow> map ver_Name out = vs"
  by (induction vs arbitrary: out) (auto simp: bindR_eq_Inr split: option.splits)

lemma versionsFromModels_version:
  "versionsFromModels D gk subs preferred vs = Inr out \<Longrightarrow> v \<in> set out \<Longrightarrow>
     ver_Served v \<and> (ver_Storage v \<longleftrightarrow> ver_Name v = preferred) \<and>
     (ver_StatusSubresource v \<longleftrightarrow> ''status'' |\<in>| subresourcesIn subs (ver_Name v)) \<and>
     (ver_ScaleSubresource v \<longleftrightarrow> ''scale'' |\<in>| subresourcesIn subs (ver_Name v)) \<and>
     d_Models D \<lparr> gvk_Group = gk_Group gk, gvk_Version = ver_Name v, gvk_Kind = gk_Kind gk \<rparr> =
       Some (Inr (ver_Schema v))"
proof (induction vs arbitrary: out)
  case (Cons version vs)
  from Cons.prems(1) obtain schema rest where *:
    "d_Models D \<lparr> gvk_Group = gk_Group gk, gvk_Version = version, gvk_Kind = gk_Kind gk \<rparr> = Some (Inr schema)"
    "versionsFromModels D gk subs preferred vs = Inr rest"
    "out = \<lparr> ver_Name = version, ver_Served = True, ver_Storage = (version = preferred),
       ver_StatusSubresource = (''status'' |\<in>| subresourcesIn subs version),
       ver_ScaleSubresource = (''scale'' |\<in>| subresourcesIn subs version),
       ver_Schema = schema, ver_Rest = JNull \<rparr> # rest"
    by (auto simp: bindR_eq_Inr split: option.splits)
  show ?case
  proof (cases "v \<in> set rest")
    case False
    with Cons.prems(2) *(3) have "v = hd out" by simp
    with *(1,3) show ?thesis by simp
  qed (rule Cons.IH [OF *(2)])
qed simp

text \<open>A CRD that did not exist was built from the documents.\<close>

lemma RetrieveCRD_built:
  assumes "RetrieveCRD E D gk = Inr c" "\<And>n. d_GetCRD D n = Inl NotFound"
    and "\<And>o'. crd_Versions (d_SetDefaults D o') = crd_Versions o'"
    and "d_ServerGroupsAndResources D = Inr ls"
  obtains sc and r :: apiResource and preferred where
    "scanLists D gk ls emptyScan = Inr sc"
    "getPreferredVersion D (gk_Group gk) (ar_Name r) = Inr preferred"
    "versionsFromModels D gk (sc_Subresources sc) preferred (sortVersions E D (sc_Versions sc)) = Inr (crd_Versions c)"
proof -
  from assms(1,4) obtain sc where a: "scanLists D gk ls emptyScan = Inr sc"
    by (auto simp: RetrieveCRD_def bindR_eq_Inr)
  with assms(1,2,4) obtain r where r: "sc_Resource sc = Some r"
    by (auto simp: RetrieveCRD_def split: option.splits)
  from a r assms(1,2,4) obtain n where "crdFromOpenAPI E D gk n r sc = Inr c"
    by (auto simp: RetrieveCRD_def Let_def)
  then obtain preferred vs where p: "getPreferredVersion D (gk_Group gk) (ar_Name r) = Inr preferred"
    "versionsFromModels D gk (sc_Subresources sc) preferred (sortVersions E D (sc_Versions sc)) = Inr vs"
    "crd_Versions c = vs"
    by (auto simp: crdFromOpenAPI_def Let_def bindR_eq_Inr assms(3) split: if_splits)
  show thesis by (rule that [of sc r preferred]) (use a p in simp_all)
qed

text \<open>A cluster with deployments, the way Kubernetes lists them.\<close>

definition exampleDiscovery :: discoveryLib where
  "exampleDiscovery =
     \<lparr> d_ServerGroupsAndResources = Inr
         [\<lparr> arl_GroupVersion = ''apps/v1'', arl_Resources =
            [\<lparr> ar_Name = ''deployments'', ar_SingularName = ''deployment'', ar_Namespaced = True,
               ar_Kind = ''Deployment'', ar_ShortNames = [], ar_Categories = [] \<rparr>,
             \<lparr> ar_Name = ''deployments/scale'', ar_SingularName = [], ar_Namespaced = True,
               ar_Kind = ''Scale'', ar_ShortNames = [], ar_Categories = [] \<rparr>,
             \<lparr> ar_Name = ''deployments/status'', ar_SingularName = [], ar_Namespaced = True,
               ar_Kind = ''Deployment'', ar_ShortNames = [], ar_Categories = [] \<rparr>] \<rparr>],
       d_ServerPreferredResources = Inr
         [\<lparr> arl_GroupVersion = ''apps/v1'', arl_Resources =
            [\<lparr> ar_Name = ''deployments'', ar_SingularName = ''deployment'', ar_Namespaced = True,
               ar_Kind = ''Deployment'', ar_ShortNames = [], ar_Categories = [] \<rparr>] \<rparr>],
       d_GetCRD = (\<lambda>_. Inl NotFound), d_NonStructural = (\<lambda>_. False),
       d_OpenAPISchema = Inr (), d_NewOpenAPIData = Inr (), d_GetModelsByGKV = Inr (),
       d_Models = (\<lambda>_. Some (Inr emptySchema)),
       d_ParseGroupVersion = (\<lambda>gv. case cutAt CHR ''/'' gv of (v, None) \<Rightarrow> Inr ([], v) | (g, Some v) \<Rightarrow> Inr (g, v)),
       d_SetDefaults = (\<lambda>c. c), d_IsProtectedCommunityGroup = (\<lambda>_. False),
       d_KubeAPIApprovedAnnotation = ''api-approved.kubernetes.io'',
       d_UnsortedList = (\<lambda>s. sorted_list_of_fset s),
       d_GetEndpointSlice = (\<lambda>_. Inr [''https://shard'']), d_NewDiscoveryClient = (\<lambda>_. Inr ()),
       d_Discover = (\<lambda>_. Inr [\<lparr> arl_GroupVersion = ''apps/v1'', arl_Resources =
            [\<lparr> ar_Name = ''deployments'', ar_SingularName = ''deployment'', ar_Namespaced = True,
               ar_Kind = ''Deployment'', ar_ShortNames = [], ar_Categories = [] \<rparr>] \<rparr>]) \<rparr>"

lemma exampleDiscovery_retrieves:
  "\<exists>c. RetrieveCRD noServer exampleDiscovery \<lparr> gk_Group = ''apps'', gk_Kind = ''Deployment'' \<rparr> = Inr c"
  by (simp add: RetrieveCRD_def exampleDiscovery_def emptyScan_def scanResource_def subresourceOf_def Let_def
      crdFromOpenAPI_def getPreferredVersion_def sortVersions_def wrapErr_def go_simps
      sorted_list_of_fset.rep_eq)


lemma exampleDiscovery_laws:
  "d_GetCRD exampleDiscovery n = Inl NotFound" "crd_Versions (d_SetDefaults exampleDiscovery c) = crd_Versions c"
  "set (d_UnsortedList exampleDiscovery s) = fset s \<and> distinct (d_UnsortedList exampleDiscovery s)"
  "comparator (compareKubeAwareVersionStrings noServer)"
  by (simp_all add: exampleDiscovery_def comparator_def noServer_def sorted_list_of_fset.rep_eq)


text \<open>
  The scale subresource of a resource without a CRD is lost: the scan only looks at entries of the
  resource's own kind, while Kubernetes lists every scale subresource under the kind Scale.
\<close>

theorem RetrieveCRD_without_scale:
  assumes "RetrieveCRD E D gk = Inr c" "d_ServerGroupsAndResources D = Inr ls" "\<And>n. d_GetCRD D n = Inl NotFound"
    and "\<And>o'. crd_Versions (d_SetDefaults D o') = crd_Versions o'"
    and "\<And>v r. listed D (gk_Group gk) ls v r \<Longrightarrow> subresourceOf r = ''scale'' \<Longrightarrow> ar_Kind r = ''Scale''"
    and "gk_Kind gk \<noteq> ''Scale''"
  shows "\<forall>v \<in> set (crd_Versions c). \<not> ver_ScaleSubresource v"
proof -
  obtain sc preferred where b: "scanLists D gk ls emptyScan = Inr sc"
    "versionsFromModels D gk (sc_Subresources sc) preferred (sortVersions E D (sc_Versions sc)) = Inr (crd_Versions c)"
    by (rule RetrieveCRD_built [OF assms(1,3,4,2)]) blast
  then show ?thesis
    using versionsFromModels_version [OF b(2)] scanLists_subresources [OF b(1), of "''scale''"] assms(5,6)
    by (auto simp: emptyScan_def)
qed

theorem RetrieveCRD_without_scale_witness:
  "\<exists>c. RetrieveCRD (noServer :: unit env) exampleDiscovery \<lparr> gk_Group = ''apps'', gk_Kind = ''Deployment'' \<rparr> = Inr c \<and>
     (\<forall>v \<in> set (crd_Versions c). \<not> ver_ScaleSubresource v)"
proof -
  obtain ls where ls: "d_ServerGroupsAndResources exampleDiscovery = Inr ls" by (simp add: exampleDiscovery_def)
  have "ar_Kind r = ''Scale''" if "listed exampleDiscovery ''apps'' ls v r" "subresourceOf r = ''scale''" for v r
    using that ls by (auto simp: exampleDiscovery_def listed_def subresourceOf_def)
  moreover obtain c where "RetrieveCRD (noServer :: unit env) exampleDiscovery \<lparr> gk_Group = ''apps'', gk_Kind = ''Deployment'' \<rparr> = Inr c"
    using exampleDiscovery_retrieves by metis
  ultimately show ?thesis
    using RetrieveCRD_without_scale [OF _ ls exampleDiscovery_laws(1,2),
        of "noServer :: unit env" "\<lparr> gk_Group = ''apps'', gk_Kind = ''Deployment'' \<rparr>" c] by auto
qed

section \<open>Probing\<close>

text \<open>
  A document of an endpoint lists the thing, and no earlier entry of the documents is malformed.
\<close>

definition wellFormed :: "discoveryLib \<Rightarrow> apiResourceList \<Rightarrow> bool" where
  "wellFormed D l \<longleftrightarrow> (\<exists>gv. d_ParseGroupVersion D (arl_GroupVersion l) = Inr gv)"

definition offers :: "discoveryLib \<Rightarrow> matchFunc \<Rightarrow> apiResourceList \<Rightarrow> bool" where
  "offers D matches l \<longleftrightarrow>
     (\<exists>g v. d_ParseGroupVersion D (arl_GroupVersion l) = Inr (g, v) \<and>
        (\<exists>res \<in> set (arl_Resources l). matches g v (ar_Name res) (ar_Kind res)))"

definition servedBy :: "discoveryLib \<Rightarrow> matchFunc \<Rightarrow> string \<Rightarrow> bool" where
  "servedBy D matches endpoint \<longleftrightarrow>
     d_NewDiscoveryClient D (endpoint @ ''/clusters/*'') = Inr () \<and>
     (\<exists>before l after. d_Discover D (endpoint @ ''/clusters/*'') = Inr (before @ l # after) \<and>
        list_all (wellFormed D) before \<and> offers D matches l)"

lemma hasInLists_Cons_True:
  "hasInLists D matches (l # ls) = Inr True \<longleftrightarrow>
     offers D matches l \<or> wellFormed D l \<and> hasInLists D matches ls = Inr True"
  by (auto simp: bindR_eq_Inr offers_def wellFormed_def list_ex_iff split: if_splits)

lemma hasInLists_found:
  "list_all (wellFormed D) before \<Longrightarrow> offers D matches l \<Longrightarrow> hasInLists D matches (before @ l # after) = Inr True"
  by (induction before) (simp_all only: append.simps hasInLists_Cons_True list.pred_inject simp_thms)

lemma hasInLists_True:
  "hasInLists D matches ls = Inr True \<Longrightarrow>
     \<exists>before l after. ls = before @ l # after \<and> list_all (wellFormed D) before \<and> offers D matches l"
proof (induction ls)
  case (Cons l ls)
  then consider "offers D matches l" | "wellFormed D l" "hasInLists D matches ls = Inr True"
    by (auto simp only: hasInLists_Cons_True)
  then show ?case
  proof cases
    case 1
    then show ?thesis by (metis append_Nil list.pred_inject(1))
  next
    case 2
    from Cons.IH [OF 2(2)] obtain before m after where
      "ls = before @ m # after" "list_all (wellFormed D) before" "offers D matches m" by auto
    with 2(1) have "l # ls = (l # before) @ m # after \<and> list_all (wellFormed D) (l # before) \<and> offers D matches m"
      by simp
    then show ?thesis by blast
  qed
qed simp

lemma hasInLists_iff:
  "hasInLists D matches ls = Inr True \<longleftrightarrow>
     (\<exists>before l after. ls = before @ l # after \<and> list_all (wellFormed D) before \<and> offers D matches l)"
  by (metis hasInLists_found hasInLists_True)

lemma hasAPIThingInEndpoint_iff: "hasAPIThingInEndpoint D matches e = Inr True \<longleftrightarrow> servedBy D matches e"
  by (auto simp: hasAPIThingInEndpoint_def Let_def bindR_eq_Inr hasInLists_iff servedBy_def)

lemma hasInEndpoints_iff: "hasInEndpoints D matches es = Inr True \<longleftrightarrow> (\<forall>e \<in> set es. servedBy D matches e)"
  by (induction es) (auto simp: bindR_eq_Inr hasAPIThingInEndpoint_iff [symmetric])

text \<open>
  A kind is reported as present exactly when the endpoint slice can be read and every one of its
  endpoints lists the kind; an endpoint slice without endpoints reports every kind as present.
\<close>

theorem HasGVK_iff:
  "HasGVK D p gvk = Inr True \<longleftrightarrow>
     (\<exists>es. d_GetEndpointSlice D (rp_name p) = Inr es \<and>
        (\<forall>e \<in> set es. servedBy D
           (\<lambda>g v r k. g = gvk_Group gvk \<and> v = gvk_Version gvk \<and> k = gvk_Kind gvk) e))"
  by (simp add: HasGVK_def hasAPIThing_def bindR_eq_Inr hasInEndpoints_iff)

theorem HasGVK_iff_witness:
  "servedBy exampleDiscovery (\<lambda>g v r k. g = ''apps'' \<and> v = ''v1'' \<and> k = ''Deployment'') ''https://shard''"
proof -
  let ?p = "\<lparr> rp_name = ''slice'' \<rparr>"
  let ?gvk = "\<lparr> gvk_Group = ''apps'', gvk_Version = ''v1'', gvk_Kind = ''Deployment'' \<rparr>"
  have "HasGVK exampleDiscovery ?p ?gvk = Inr True"
    by (simp add: HasGVK_def hasAPIThing_def hasAPIThingInEndpoint_def exampleDiscovery_def wrapErr_def)
  then show ?thesis
    using HasGVK_iff [of exampleDiscovery ?p ?gvk] by (simp add: exampleDiscovery_def)
qed

section \<open>An example\<close>

text \<open>Deployments published from the example cluster.\<close>

definition publishDeployments :: PublishedResource where
  "publishDeployments = plainResource\<lparr>pr_ResourceSchemaName := ''v1.deployments.apps'',
     pr_Spec := plainSpec\<lparr>prs_Resource := \<lparr> srd_APIGroup = ''apps'', srd_Version = ''v1'', srd_Versions = [],
       srd_Kind = ''Deployment'' \<rparr>\<rparr>\<rparr>"

lemmas example_eval = RetrieveCRD_def exampleDiscovery_def emptyScan_def scanResource_def subresourceOf_def
  crdFromOpenAPI_def getPreferredVersion_def sortVersions_def wrapErr_def sorted_list_of_fset.rep_eq
  publishDeployments_def plainSpec_def plainResource_def PublishedResourceSourceGK_def
  PublishedResourceSourceGVK_def PublishedResourceProjectedGVK_def ProjectCRD_def stripUnwantedVersions_def
  adjustStorageVersion_def projectCRDVersions_def projectCRDNames_def wantedVersion_def getStorageVersion_def
  ProjectPublishedResource_def ProjectPublishedResourceGVK_def HasGVK_def hasAPIThing_def hasAPIThingInEndpoint_def

lemma example_projected: "\<exists>c. ProjectPublishedResource noServer exampleDiscovery publishDeployments = Inr c"
  by (simp add: example_eval Let_def)

end
