(* ===== verification/Resource_Schema.thy ===== *)
theory Resource_Schema
  imports Discovery
begin

text \<open>
  The APIResourceSchema controller (\<open>controller/apiresourceschema\<close> and \<open>kcp/apiresourceschema.go\<close>): one
  immutable schema object in kcp for every state of the projected CRD of a PublishedResource, named
  after a hash of that state, and its name in the status of the PublishedResource.
\<close>

section \<open>Names\<close>

definition AgentNameAnnotation :: string where
  "AgentNameAnnotation = ''syncagent.kcp.io/agent-name''"

definition AgentNameLabel :: string where
  "AgentNameLabel = ''syncagent.kcp.io/agent-name''"

definition SourceGenerationAnnotation :: string where
  "SourceGenerationAnnotation = ''syncagent.kcp.io/source-generation''"

text \<open>
  Libraries: \<open>sl_SpecJSON\<close> is the JSON encoding of the spec of a CRD, \<open>sl_CRDToAPIResourceSchema\<close> the
  conversion that kcp provides.
\<close>

record arsSpec =
  as_Group :: string
  as_Names :: crdNames
  as_Scope :: ResourceScope
  as_Versions :: "json list"

record schemaLib =
  sl_SpecJSON :: "crd \<Rightarrow> string"
  sl_CRDToAPIResourceSchema :: "crd \<Rightarrow> unit + arsSpec"
  sl_NewClient :: "unit + unit"

record APIResourceSchema =
  ars_Name :: string
  ars_Annotations :: "labels option"
  ars_Labels :: "labels option"
  ars_Spec :: arsSpec
  ars_Conversion :: json
  ars_Rest :: json

definition GetAPIResourceSchemaName :: "'s env \<Rightarrow> schemaLib \<Rightarrow> crd \<Rightarrow> string" where
  "GetAPIResourceSchemaName E S c =
     (let c = c\<lparr>crd_Conversion := JNull\<rparr>;
          checksum = Hash E (HashJSON (sl_SpecJSON S c))
      in ''v'' @ take 8 checksum @ ''.'' @ nam_Plural (crd_Names c) @ ''.'' @ crd_Group c)"

definition CreateAPIResourceSchema :: "schemaLib \<Rightarrow> crd \<Rightarrow> string \<Rightarrow> string \<Rightarrow> APIResourceSchema result" where
  "CreateAPIResourceSchema S c name agentName =
     bindR (wrapErr ''failed to convert CRD'' (lib ''convert'' (sl_CRDToAPIResourceSchema S c))) (\<lambda>converted.
     Inr \<lparr> ars_Name = name,
           ars_Annotations = Some (fmupd AgentNameAnnotation agentName
             (fmupd SourceGenerationAnnotation (showInt (crd_Generation c)) fmempty)),
           ars_Labels = Some (fmupd AgentNameLabel agentName fmempty),
           ars_Spec = converted,
           ars_Conversion = (if 1 < length (as_Versions converted) then noneConversion else JNull),
           ars_Rest = JNull \<rparr>)"

section \<open>The controller\<close>

datatype schemaCall =
    SGet string
  | SCreate APIResourceSchema
  | SUpdate APIResourceSchema
  | SPatchStatus PublishedResource
  | SEvent PublishedResource string string

text \<open>The API servers of this controller, on a state of their own, and the history of requests.\<close>

record 's schemaServer =
  ss_GetPublishedResource :: "nsname \<Rightarrow> 's \<Rightarrow> (apierr + PublishedResource) \<times> 's"
  ss_ListPublishedResources :: "selector \<Rightarrow> 's \<Rightarrow> (apierr + PublishedResource list) \<times> 's"
  ss_Get :: "string \<Rightarrow> 's \<Rightarrow> (apierr + APIResourceSchema) \<times> 's"
  ss_Create :: "APIResourceSchema \<Rightarrow> 's \<Rightarrow> (apierr + unit) \<times> 's"
  ss_Update :: "APIResourceSchema \<Rightarrow> 's \<Rightarrow> (apierr + unit) \<times> 's"
  ss_PatchStatus :: "PublishedResource \<Rightarrow> 's \<Rightarrow> (apierr + unit) \<times> 's"

record 's schemaWorld =
  sw_server :: 's
  sw_calls :: "schemaCall list"

type_synonym ('s, 'a) schemaProg = "('s schemaWorld, 'a) go"

definition sread :: "('s \<Rightarrow> (apierr + 'a) \<times> 's) \<Rightarrow> ('s, 'a) schemaProg" where
  "sread f w = (case f (sw_server w) of (r, s) \<Rightarrow> (api r, w\<lparr>sw_server := s\<rparr>))"

definition srequest :: "schemaCall \<Rightarrow> ('s \<Rightarrow> (apierr + 'a) \<times> 's) \<Rightarrow> ('s, 'a) schemaProg" where
  "srequest c f w = sread f (w\<lparr>sw_calls := sw_calls w @ [c]\<rparr>)"

definition sevent :: "PublishedResource \<Rightarrow> string \<Rightarrow> string \<Rightarrow> ('s, unit) schemaProg" where
  "sevent pubRes kind reason w = (Inr (), w\<lparr>sw_calls := sw_calls w @ [SEvent pubRes kind reason]\<rparr>)"

record schemaReconciler =
  rc_agentName :: string
  rc_prFilter :: selector

definition fixAgentMetadata :: "string \<Rightarrow> APIResourceSchema \<Rightarrow> APIResourceSchema" where
  "fixAgentMetadata agentName ars =
     ars\<lparr>ars_Labels := Some (fmupd AgentNameLabel agentName (orEmpty (ars_Labels ars))),
         ars_Annotations := Some (fmupd AgentNameAnnotation agentName (orEmpty (ars_Annotations ars)))\<rparr>"

definition validAgentMetadata :: "string \<Rightarrow> APIResourceSchema \<Rightarrow> bool" where
  "validAgentMetadata agentName ars \<longleftrightarrow>
     mapGet (orEmpty (ars_Annotations ars)) AgentNameAnnotation = agentName \<and>
     mapGet (orEmpty (ars_Labels ars)) AgentNameLabel = agentName"

definition ensureSchema ::
    "'s schemaServer \<Rightarrow> schemaLib \<Rightarrow> schemaReconciler \<Rightarrow> crd \<Rightarrow> string \<Rightarrow> ('s, unit) schemaProg" where
  "ensureSchema W S r projectedCRD arsName =
     attempt (srequest (SGet arsName) (ss_Get W arsName)) (\<lambda>res.
       case res of
         Inl e \<Rightarrow>
           if IsNotFound e then
             checkE ''failed to construct APIResourceSchema''
               (liftE (CreateAPIResourceSchema S projectedCRD arsName (rc_agentName r))) (\<lambda>ars.
             checkE ''failed to create APIResourceSchema'' (srequest (SCreate ars) (ss_Create W ars)) ok)
           else fail (Wrapped ''failed to check for APIResourceSchema'' e)
       | Inr ars \<Rightarrow>
           if validAgentMetadata (rc_agentName r) ars then ok ()
           else
             let ars = fixAgentMetadata (rc_agentName r) ars in
             checkE ''failed to update APIResourceSchema'' (srequest (SUpdate ars) (ss_Update W ars)) ok)"

definition recordSchemaName ::
    "'s schemaServer \<Rightarrow> PublishedResource \<Rightarrow> string \<Rightarrow> ('s, PublishedResource) schemaProg" where
  "recordSchemaName W pubResource arsName =
     (if pr_ResourceSchemaName pubResource \<noteq> arsName then
        let original = pubResource; pubResource = pubResource\<lparr>pr_ResourceSchemaName := arsName\<rparr> in
        if original \<noteq> pubResource then
          checkE ''failed to update PublishedResource status''
            (srequest (SPatchStatus pubResource) (ss_PatchStatus W pubResource)) (\<lambda>_. ok pubResource)
        else ok pubResource
      else ok pubResource)"

definition reconcileSchema ::
    "'e env \<Rightarrow> discoveryLib \<Rightarrow> 's schemaServer \<Rightarrow> schemaLib \<Rightarrow> schemaReconciler \<Rightarrow> PublishedResource \<Rightarrow>
     ('s, PublishedResource) schemaProg" where
  "reconcileSchema E D W S r pubResource =
     checkE ''failed to create discovery client'' (liftE (lib ''client'' (sl_NewClient S))) (\<lambda>_.
     checkE ''failed to apply projection rules'' (liftE (ProjectPublishedResource E D pubResource)) (\<lambda>projectedCRD.
     let arsName = GetAPIResourceSchemaName E S projectedCRD in
     bindE (ensureSchema W S r projectedCRD arsName) (\<lambda>_.
     recordSchemaName W pubResource arsName)))"

text \<open>The whole reconciliation: a resource in deletion is left alone, an error becomes an event.\<close>

definition schemaReconcile ::
    "'e env \<Rightarrow> discoveryLib \<Rightarrow> 's schemaServer \<Rightarrow> schemaLib \<Rightarrow> schemaReconciler \<Rightarrow> nsname \<Rightarrow> ('s, unit) schemaProg" where
  "schemaReconcile E D W S r name =
     attempt (sread (ss_GetPublishedResource W name)) (\<lambda>got.
       case got of
         Inl e \<Rightarrow> if IsNotFound e then ok () else fail e
       | Inr pubResource \<Rightarrow>
           if pr_DeletionTimestamp pubResource \<noteq> None then ok ()
           else
             attempt (reconcileSchema E D W S r pubResource) (\<lambda>res.
               case res of
                 Inl e \<Rightarrow> bindE (sevent pubResource ''Warning'' ''ReconcilingError'') (\<lambda>_. fail e)
               | Inr _ \<Rightarrow> ok ()))"

definition enqueueMatchingPublishedResources ::
    "'s schemaServer \<Rightarrow> schemaReconciler \<Rightarrow> crd \<Rightarrow> ('s, nsname list) schemaProg" where
  "enqueueMatchingPublishedResources W r c =
     attempt (sread (ss_ListPublishedResources W (rc_prFilter r))) (\<lambda>res.
       case res of
         Inl _ \<Rightarrow> ok []
       | Inr items \<Rightarrow>
           ok (map (\<lambda>pr. \<lparr> nn_Namespace = [], nn_Name = pr_Name pr \<rparr>)
                 (filter (\<lambda>pr. srd_APIGroup (prs_Resource (pr_Spec pr)) = crd_Group c \<and>
                               srd_Kind (prs_Resource (pr_Spec pr)) = nam_Kind (crd_Names c)) items)))"

section \<open>What kcp promises\<close>

text \<open>No schema object disappears or changes its spec.\<close>

definition schemasKept ::
    "('s \<Rightarrow> string \<Rightarrow> APIResourceSchema option) \<Rightarrow> 's \<Rightarrow> 's \<Rightarrow> bool" where
  "schemasKept view s s' \<longleftrightarrow>
     (\<forall>n a. view s n = Some a \<longrightarrow> (\<exists>a'. view s' n = Some a' \<and> ars_Spec a' = ars_Spec a))"

lemma schemasKept_refl [simp]: "schemasKept view s s"
  by (simp add: schemasKept_def)

text \<open>Only the object named \<open>n\<close> may differ, and on success it is there with the agent's name on it.\<close>

definition schemaEnsured ::
    "('s \<Rightarrow> string \<Rightarrow> APIResourceSchema option) \<Rightarrow> string \<Rightarrow> string \<Rightarrow> 's \<Rightarrow> 's \<Rightarrow> unit result \<Rightarrow> bool" where
  "schemaEnsured view agentName n s s' res \<longleftrightarrow>
     schemasKept view s s' \<and> (\<forall>m. m \<noteq> n \<longrightarrow> view s' m = view s m) \<and>
     (res = Inr () \<longrightarrow> (\<exists>a. view s' n = Some a \<and> validAgentMetadata agentName a))"

lemma schemaEnsured_put:
  assumes "checkE msg (srequest call f) ok w = (res, w')"
    and "\<And>s'. f (sw_server w) = (Inr (), s') \<Longrightarrow> view s' = (view (sw_server w))(n \<mapsto> a)"
    and "\<And>e s'. f (sw_server w) = (Inl e, s') \<Longrightarrow> view s' = view (sw_server w)"
    and "validAgentMetadata agentName a" "\<And>b. view (sw_server w) n = Some b \<Longrightarrow> ars_Spec a = ars_Spec b"
  shows "schemaEnsured view agentName n (sw_server w) (sw_server w') res"
proof -
  obtain r s' where f: "f (sw_server w) = (r, s')" by (cases "f (sw_server w)")
  have w': "sw_server w' = s'" "res = Inr () \<longleftrightarrow> r = Inr ()"
    using assms(1) f by (cases r; auto simp: go_simps srequest_def sread_def split: if_splits)+
  show ?thesis
  proof (cases r)
    case (Inl e)
    then show ?thesis using f w' assms(3) by (simp add: schemaEnsured_def schemasKept_def)
  next
    case (Inr x)
    then show ?thesis using f w' assms(2,4,5) by (auto simp: schemaEnsured_def schemasKept_def)
  qed
qed

lemma CreateAPIResourceSchema_Inr:
  assumes "CreateAPIResourceSchema S c n agentName = Inr a"
  shows "ars_Name a = n" "validAgentMetadata agentName a"
  using assms by (auto simp: CreateAPIResourceSchema_def bindR_eq_Inr validAgentMetadata_def)

lemma fixAgentMetadata_fields [simp]:
  "ars_Name (fixAgentMetadata agentName a) = ars_Name a" "ars_Spec (fixAgentMetadata agentName a) = ars_Spec a"
  "validAgentMetadata agentName (fixAgentMetadata agentName a)"
  by (simp_all add: fixAgentMetadata_def validAgentMetadata_def)

text \<open>
  The schema objects of a server as the controller can rely on them: reading gives the stored object
  and changes nothing; a successful creation stores the new object; a successful update replaces the object of that name; the status of a PublishedResource is elsewhere.
  A failed request changes nothing.
\<close>

locale schema_store =
  fixes W :: "'s schemaServer" and view :: "'s \<Rightarrow> string \<Rightarrow> APIResourceSchema option"
  assumes get: "ss_Get W n s = (r, s') \<Longrightarrow> s' = s \<and> (\<forall>a. r = Inr a \<longrightarrow> view s n = Some a \<and> ars_Name a = n) \<and>
      (r = Inl NotFound \<longrightarrow> view s n = None)"
    and get_stored: "view s n = Some a \<Longrightarrow> fst (ss_Get W n s) = Inr a"
    and create: "ss_Create W a s = (Inr (), s') \<Longrightarrow> view s' = (view s)(ars_Name a \<mapsto> a)"
    and create_failed: "ss_Create W a s = (Inl e, s') \<Longrightarrow> view s' = view s"
    and update: "ss_Update W a s = (Inr (), s') \<Longrightarrow> view s' = (view s)(ars_Name a \<mapsto> a)"
    and update_failed: "ss_Update W a s = (Inl e, s') \<Longrightarrow> view s' = view s"
    and patch: "ss_PatchStatus W q s = (x, s') \<Longrightarrow> view s' = view s"
begin

lemma ensureSchema_exists:
  assumes "view (sw_server w) n = Some a" "validAgentMetadata (rc_agentName r) a"
  shows "ensureSchema W S r c n w = (Inr (), w\<lparr>sw_calls := sw_calls w @ [SGet n]\<rparr>)"
proof -
  obtain s' where "ss_Get W n (sw_server w) = (Inr a, s')" using get_stored [OF assms(1)] by (metis prod.collapse)
  moreover from this have "s' = sw_server w" using get by blast
  ultimately show ?thesis
    using assms(2) by (simp add: ensureSchema_def go_simps srequest_def sread_def)
qed

lemma ensureSchema_read:
  "ss_Get W n (sw_server w) = (got, s1) \<Longrightarrow>
     ensureSchema W S r c n w =
       (let w1 = w\<lparr>sw_calls := sw_calls w @ [SGet n]\<rparr> in
        case got of
          Inl e \<Rightarrow>
            if e = NotFound then
              checkE ''failed to construct APIResourceSchema''
                (liftE (CreateAPIResourceSchema S c n (rc_agentName r))) (\<lambda>ars.
              checkE ''failed to create APIResourceSchema'' (srequest (SCreate ars) (ss_Create W ars)) ok) w1
            else (Inl (Wrapped ''failed to check for APIResourceSchema'' (ApiErr e)), w1)
        | Inr ars \<Rightarrow>
            if validAgentMetadata (rc_agentName r) ars then (Inr (), w1)
            else checkE ''failed to update APIResourceSchema''
              (srequest (SUpdate (fixAgentMetadata (rc_agentName r) ars)) (ss_Update W (fixAgentMetadata (rc_agentName r) ars))) ok w1)"
  using get [of n "sw_server w" got s1]
  by (simp add: ensureSchema_def attempt_eval go_eval srequest_def sread_def Let_def split: sum.splits)

lemma ensureSchema_ensured:
  assumes "ensureSchema W S r c n w = (res, w')"
  shows "schemaEnsured view (rc_agentName r) n (sw_server w) (sw_server w') res"
proof -
  obtain got s1 where g: "ss_Get W n (sw_server w) = (got, s1)" by (cases "ss_Get W n (sw_server w)")
  let ?w = "w\<lparr>sw_calls := sw_calls w @ [SGet n]\<rparr>"
  note read = assms [unfolded ensureSchema_read [OF g] Let_def]
  show ?thesis
  proof (cases got)
    case (Inr a)
    then have a: "view (sw_server w) n = Some a" "ars_Name a = n" using get [OF g] by simp_all
    show ?thesis
    proof (cases "validAgentMetadata (rc_agentName r) a")
      case True
      with read Inr a show ?thesis by (auto simp: schemaEnsured_def)
    next
      case False
      with read Inr have "checkE ''failed to update APIResourceSchema''
          (srequest (SUpdate (fixAgentMetadata (rc_agentName r) a)) (ss_Update W (fixAgentMetadata (rc_agentName r) a))) ok ?w =
          (res, w')" by simp
      from schemaEnsured_put [OF this, of view n "fixAgentMetadata (rc_agentName r) a"] show ?thesis
        using a update update_failed by auto
    qed
  next
    case (Inl e)
    show ?thesis
    proof (cases "e = NotFound")
      case False
      with read Inl show ?thesis by (auto simp: schemaEnsured_def)
    next
      case True
      then have none: "view (sw_server w) n = None" using get [OF g] Inl by simp
      show ?thesis
      proof (cases "CreateAPIResourceSchema S c n (rc_agentName r)")
        case (Inl e')
        with read True \<open>got = Inl e\<close> show ?thesis by (auto simp: schemaEnsured_def go_simps split: if_splits)
      next
        case (Inr a)
        with read True \<open>got = Inl e\<close> have
          "checkE ''failed to create APIResourceSchema'' (srequest (SCreate a) (ss_Create W a)) ok ?w = (res, w')" by simp
        from schemaEnsured_put [OF this, of view n a] show ?thesis
          using CreateAPIResourceSchema_Inr [OF Inr] create create_failed none by auto
      qed
    qed
  qed
qed

lemma recordSchemaName_effect:
  assumes "recordSchemaName W p n w = (res, w')"
  shows "view (sw_server w') = view (sw_server w)" "res = Inr q \<Longrightarrow> q = p\<lparr>pr_ResourceSchemaName := n\<rparr>"
proof -
  obtain r s' where f: "ss_PatchStatus W (p\<lparr>pr_ResourceSchemaName := n\<rparr>) (sw_server w) = (r, s')"
    by (cases "ss_PatchStatus W (p\<lparr>pr_ResourceSchemaName := n\<rparr>) (sw_server w)")
  show "view (sw_server w') = view (sw_server w)"
    using assms f patch [OF f]
    by (cases r) (auto simp: recordSchemaName_def Let_def go_simps srequest_def sread_def split: if_splits)
  show "res = Inr q \<Longrightarrow> q = p\<lparr>pr_ResourceSchemaName := n\<rparr>"
    using assms f by (cases r) (auto simp: recordSchemaName_def Let_def go_simps srequest_def sread_def split: if_splits)
qed

lemma recordSchemaName_idle:
  "pr_ResourceSchemaName p = n \<Longrightarrow> recordSchemaName W p n w = (Inr p, w)"
  by (simp add: recordSchemaName_def go_simps)

end

section \<open>A server in memory\<close>

definition memorySchemas :: "(string, APIResourceSchema) fmap schemaServer" where
  "memorySchemas =
     \<lparr> ss_GetPublishedResource = (\<lambda>_ s. (Inl NotFound, s)), ss_ListPublishedResources = (\<lambda>_ s. (Inr [], s)),
       ss_Get = (\<lambda>n s. (case fmlookup s n of None \<Rightarrow> Inl NotFound | Some a \<Rightarrow> Inr (a\<lparr>ars_Name := n\<rparr>), s)),
       ss_Create = (\<lambda>a s. if ars_Name a |\<in>| fmdom s then (Inl AlreadyExists, s) else (Inr (), fmupd (ars_Name a) a s)),
       ss_Update = (\<lambda>a s. if ars_Name a |\<in>| fmdom s then (Inr (), fmupd (ars_Name a) a s) else (Inl NotFound, s)),
       ss_PatchStatus = (\<lambda>_ s. (Inr (), s)) \<rparr>"

definition memorySchemaView :: "(string, APIResourceSchema) fmap \<Rightarrow> string \<Rightarrow> APIResourceSchema option" where
  "memorySchemaView s n = map_option (\<lambda>a. a\<lparr>ars_Name := n\<rparr>) (fmlookup s n)"

lemma memorySchemaView_fmupd: "memorySchemaView (fmupd (ars_Name a) a s) = (memorySchemaView s)(ars_Name a \<mapsto> a)"
  by (auto simp: memorySchemaView_def fun_eq_iff)

interpretation memory_schemas: schema_store memorySchemas memorySchemaView
  by unfold_locales
     (auto simp: memorySchemas_def memorySchemaView_fmupd memorySchemaView_def fmdom_notD split: option.splits if_splits)

section \<open>Theorems\<close>

lemma ProjectPublishedResource_status [simp]:
  "ProjectPublishedResource E D (p\<lparr>pr_ResourceSchemaName := n\<rparr>) = ProjectPublishedResource E D p"
  by (simp add: ProjectPublishedResource_def PublishedResourceSourceGK_def ProjectCRD_def stripUnwantedVersions_def
      projectCRDVersions_def projectCRDNames_def)

lemma reconcileSchema_projected:
  assumes "reconcileSchema E D W S r p w = (Inr q, w')"
  obtains c where "sl_NewClient S = Inr ()" "ProjectPublishedResource E D p = Inr c"
  using assms
  by (cases "sl_NewClient S"; cases "ProjectPublishedResource E D p")
     (auto simp: reconcileSchema_def go_simps lib_def split: if_splits)

lemma reconcileSchema_run:
  assumes "sl_NewClient S = Inr ()" "ProjectPublishedResource E D p = Inr c"
  shows "reconcileSchema E D W S r p =
     bindE (ensureSchema W S r c (GetAPIResourceSchemaName E S c)) (\<lambda>_.
     recordSchemaName W p (GetAPIResourceSchemaName E S c))"
  using assms by (simp add: reconcileSchema_def Let_def)

text \<open>
  C20. The schema objects in kcp are immutable as far as the agent is concerned: a reconciliation, also
  one that fails, removes none and changes the spec of none. When it succeeds, the name in the status
  is the one of the projected CRD, and a schema object of that name exists and carries the name of
  the agent.
\<close>

theorem schemas_are_immutable:
  assumes "schema_store W view" "reconcileSchema E D W S r p w = (res, w')"
  shows "schemasKept view (sw_server w) (sw_server w') \<and>
     (\<forall>q. res = Inr q \<longrightarrow>
        (\<exists>c a. ProjectPublishedResource E D p = Inr c \<and>
           q = p\<lparr>pr_ResourceSchemaName := GetAPIResourceSchemaName E S c\<rparr> \<and>
           view (sw_server w') (GetAPIResourceSchemaName E S c) = Some a \<and> validAgentMetadata (rc_agentName r) a))"
proof (cases "sl_NewClient S = Inr () \<and> (\<exists>c. ProjectPublishedResource E D p = Inr c)")
  case False
  then have "w' = w \<and> isl res"
    using assms(2)
    by (cases "sl_NewClient S"; cases "ProjectPublishedResource E D p") (auto simp: reconcileSchema_def go_simps lib_def split: if_splits)
  then show ?thesis by auto
next
  case True
  then obtain c where c: "sl_NewClient S = Inr ()" "ProjectPublishedResource E D p = Inr c" by blast
  let ?n = "GetAPIResourceSchemaName E S c"
  obtain res1 w1 where e: "ensureSchema W S r c ?n w = (res1, w1)" by (cases "ensureSchema W S r c ?n w")
  note ensured = schema_store.ensureSchema_ensured [OF assms(1) e, unfolded schemaEnsured_def]
  show ?thesis
  proof (cases res1)
    case (Inl err)
    with assms(2) e ensured show ?thesis by (auto simp: reconcileSchema_run [OF c] go_simps)
  next
    case (Inr x)
    then have rec: "recordSchemaName W p ?n w1 = (res, w')"
      using assms(2) e by (simp add: reconcileSchema_run [OF c] go_simps)
    note effect = schema_store.recordSchemaName_effect [OF assms(1) rec]
    from ensured Inr show ?thesis
      by (auto simp: schemasKept_def effect(1) c(2) dest: effect(2))
  qed
qed


definition exampleSchemaLib :: schemaLib where
  "exampleSchemaLib = \<lparr> sl_SpecJSON = crd_Name,
     sl_CRDToAPIResourceSchema = (\<lambda>c. Inr \<lparr> as_Group = crd_Group c, as_Names = crd_Names c, as_Scope = crd_Scope c,
       as_Versions = map ver_Schema (crd_Versions c) \<rparr>),
     sl_NewClient = Inr () \<rparr>"

definition exampleSchemaReconciler :: schemaReconciler where
  "exampleSchemaReconciler = \<lparr> rc_agentName = ''agent'',
     rc_prFilter = FromLabelSelector \<lparr> ls_MatchLabels = fmempty, ls_MatchExpressions = [] \<rparr> \<rparr>"

lemma example_first_pass:
  "\<exists>q w'. reconcileSchema (noServer :: unit env) exampleDiscovery memorySchemas exampleSchemaLib exampleSchemaReconciler
    publishDeployments \<lparr> sw_server = fmempty, sw_calls = [] \<rparr> = (Inr q, w')"
proof -
  obtain c where c: "ProjectPublishedResource (noServer :: unit env) exampleDiscovery publishDeployments = Inr c"
    using example_projected by blast
  let ?n = "GetAPIResourceSchemaName (noServer :: unit env) exampleSchemaLib c"
  have new: "sl_NewClient exampleSchemaLib = Inr ()" by (simp add: exampleSchemaLib_def)
  obtain a where a: "CreateAPIResourceSchema exampleSchemaLib c ?n (rc_agentName exampleSchemaReconciler) = Inr a"
    by (simp add: CreateAPIResourceSchema_def exampleSchemaLib_def wrapErr_def)
  show ?thesis
    unfolding reconcileSchema_run [OF new c]
    by (simp add: ensureSchema_def recordSchemaName_def Let_def go_simps srequest_def sread_def memorySchemas_def a)
qed

theorem schemas_are_immutable_witness:
  "\<exists>q w' c a. reconcileSchema (noServer :: unit env) exampleDiscovery memorySchemas exampleSchemaLib exampleSchemaReconciler
     publishDeployments \<lparr> sw_server = fmempty, sw_calls = [] \<rparr> = (Inr q, w') \<and>
     memorySchemaView (sw_server w') (GetAPIResourceSchemaName (noServer :: unit env) exampleSchemaLib c) = Some a"
proof -
  obtain q w' where p: "reconcileSchema (noServer :: unit env) exampleDiscovery memorySchemas exampleSchemaLib
      exampleSchemaReconciler publishDeployments \<lparr> sw_server = fmempty, sw_calls = [] \<rparr> = (Inr q, w')"
    using example_first_pass by blast
  from schemas_are_immutable [OF memory_schemas.schema_store_axioms p] p show ?thesis by blast
qed


end
