(* ===== verification/API_Export.thy ===== *)
theory API_Export
  imports Resource_Schema
begin

text \<open>
  The APIExport controller (\<open>controller/apiexport\<close>): which resource schemas the APIExport in kcp lists and
  which permission claims it has.
\<close>

section \<open>Data\<close>

record permissionClaim =
  pcl_Group :: string
  pcl_Resource :: string
  pcl_IdentityHash :: string

definition claimString :: "permissionClaim \<Rightarrow> string" where
  "claimString c = (if pcl_Group c = [] then pcl_Resource c else pcl_Group c @ ''/'' @ pcl_Resource c)"

text \<open>The claims as they are in an APIExport.\<close>

record exportClaim =
  xc_Group :: string
  xc_Resource :: string
  xc_All :: bool
  xc_ResourceSelector :: "json list"
  xc_IdentityHash :: string

record apiExport =
  ae_Name :: string
  ae_Annotations :: "labels option"
  ae_LatestResourceSchemas :: "string list"
  ae_PermissionClaims :: "exportClaim list"
  ae_Rest :: json

record exportEvent =
  ev_Type :: string
  ev_Reason :: string
  ev_Items :: string

text \<open>The enumeration of sets and the unstable sort of Go, whose results are not determined.\<close>

record exportLib =
  x_UnsortedSchemas :: "string fset \<Rightarrow> string list"
  x_UnsortedClaims :: "permissionClaim fset \<Rightarrow> permissionClaim list"
  x_SortSchemas :: "(string \<Rightarrow> string \<Rightarrow> int) \<Rightarrow> string list \<Rightarrow> string list"
  x_SortClaims :: "(exportClaim \<Rightarrow> exportClaim \<Rightarrow> int) \<Rightarrow> exportClaim list \<Rightarrow> exportClaim list"

section \<open>Schema names\<close>

definition parseSchemaName :: "string \<Rightarrow> groupVersionResource result" where
  "parseSchemaName name =
     (case SplitN CHR ''.'' 3 name of
        [version, resource, grp] \<Rightarrow> Inr \<lparr> gvr_Group = grp, gvr_Version = version, gvr_Resource = resource \<rparr>
      | _ \<Rightarrow> Inl (Msg ''invalid schema name, must consist of version.resource.group''))"

definition groupResourceString :: "groupResource \<Rightarrow> string" where
  "groupResourceString gr = (if gr_Group gr = [] then gr_Resource gr else gr_Resource gr @ ''.'' @ gr_Group gr)"

text \<open>A name that cannot be parsed counts as the empty resource.\<close>

definition parseResourceGroup :: "string \<Rightarrow> string" where
  "parseResourceGroup name =
     (case parseSchemaName name of Inl _ \<Rightarrow> [] | Inr gvr \<Rightarrow> groupResourceString (GroupResource gvr))"

definition mergeResourceSchemas :: "exportLib \<Rightarrow> string list \<Rightarrow> string fset \<Rightarrow> string list" where
  "mergeResourceSchemas X existing configured =
     (let result = x_UnsortedSchemas X configured;
          knownResources = fset_of_list (map parseResourceGroup result);
          result = result @ filter (\<lambda>name. parseResourceGroup name |\<notin>| knownResources) existing
      in x_SortSchemas X (compareBy parseResourceGroup) result)"

definition createSchemaEvents :: "string list \<Rightarrow> string list \<Rightarrow> exportEvent list" where
  "createSchemaEvents oldSchemas newSchemas =
     (let oldSet = fset_of_list oldSchemas;
          newSet = fset_of_list newSchemas;
          added = sorted_list_of_fset (newSet |-| oldSet);
          removed = sorted_list_of_fset (oldSet |-| newSet)
      in (if added \<noteq> [] then [\<lparr> ev_Type = ''Normal'', ev_Reason = ''AddingResourceSchemas'',
             ev_Items = Join added '', '' \<rparr>] else []) @
         (if removed \<noteq> [] then [\<lparr> ev_Type = ''Warning'', ev_Reason = ''RemovingResourceSchemas'',
             ev_Items = Join removed '', '' \<rparr>] else []))"

section \<open>The APIExport\<close>

definition compareClaims :: "permissionClaim \<Rightarrow> permissionClaim \<Rightarrow> int" where
  "compareClaims a b =
     (if pcl_Group a \<noteq> pcl_Group b then Compare (pcl_Group a) (pcl_Group b)
      else Compare (pcl_Resource a) (pcl_Resource b))"

definition compareExportClaims :: "exportClaim \<Rightarrow> exportClaim \<Rightarrow> int" where
  "compareExportClaims a b =
     (if xc_Group a \<noteq> xc_Group b then Compare (xc_Group a) (xc_Group b)
      else if xc_Resource a \<noteq> xc_Resource b then Compare (xc_Resource a) (xc_Resource b) else 0)"

definition existingClaims :: "exportClaim list \<Rightarrow> permissionClaim fset" where
  "existingClaims cs = fset_of_list
     (map (\<lambda>c. \<lparr> pcl_Group = xc_Group c, pcl_Resource = xc_Resource c, pcl_IdentityHash = xc_IdentityHash c \<rparr>)
        (filter (\<lambda>c. xc_All c \<and> xc_ResourceSelector c = []) cs))"

definition toExportClaim :: "permissionClaim \<Rightarrow> exportClaim" where
  "toExportClaim c = \<lparr> xc_Group = pcl_Group c, xc_Resource = pcl_Resource c, xc_All = True,
     xc_ResourceSelector = [], xc_IdentityHash = pcl_IdentityHash c \<rparr>"

definition createAPIExportReconciler ::
    "exportLib \<Rightarrow> string fset \<Rightarrow> permissionClaim fset \<Rightarrow> string \<Rightarrow> apiExport \<Rightarrow> apiExport \<times> exportEvent list" where
  "createAPIExportReconciler X availableResourceSchemas claimedResourceKinds agentName existing =
     (let newSchemas = mergeResourceSchemas X (ae_LatestResourceSchemas existing) availableResourceSchemas;
          schemaEvents = createSchemaEvents (ae_LatestResourceSchemas existing) newSchemas;
          missingClaims = claimedResourceKinds |-| existingClaims (ae_PermissionClaims existing);
          claimsToAdd = SortStableFunc compareClaims (x_UnsortedClaims X missingClaims);
          claims = ae_PermissionClaims existing @ map toExportClaim claimsToAdd;
          claimEvents = (if missingClaims \<noteq> {||} then [\<lparr> ev_Type = ''Normal'', ev_Reason = ''AddingPermissionClaims'',
            ev_Items = Join (map claimString claimsToAdd) '', '' \<rparr>] else [])
      in (existing\<lparr>ae_Annotations := Some (fmupd AgentNameAnnotation agentName (orEmpty (ae_Annotations existing))),
                   ae_LatestResourceSchemas := newSchemas,
                   ae_PermissionClaims := x_SortClaims X compareExportClaims claims\<rparr>,
          schemaEvents @ claimEvents))"

section \<open>Required claims\<close>

definition namespacesClaim :: permissionClaim where
  "namespacesClaim = \<lparr> pcl_Group = [], pcl_Resource = ''namespaces'', pcl_IdentityHash = [] \<rparr>"

definition logicalClustersClaim :: permissionClaim where
  "logicalClustersClaim = \<lparr> pcl_Group = ''core.kcp.io'', pcl_Resource = ''logicalclusters'', pcl_IdentityHash = [] \<rparr>"

definition eventsClaim :: permissionClaim where
  "eventsClaim = \<lparr> pcl_Group = [], pcl_Resource = ''events'', pcl_IdentityHash = [] \<rparr>"

definition relatedClaim :: "RelatedResourceSpec \<Rightarrow> permissionClaim" where
  "relatedClaim rr = \<lparr> pcl_Group = gvr_Group (RelatedResourceKcpGVR rr),
     pcl_Resource = gvr_Resource (RelatedResourceKcpGVR rr), pcl_IdentityHash = rr_IdentityHash rr \<rparr>"

definition claimRelated ::
    "groupResource fset \<Rightarrow> RelatedResourceSpec \<Rightarrow> permissionClaim fset \<Rightarrow> permissionClaim fset" where
  "claimRelated ourOwnResources rr claimed =
     (let claimed = finsert namespacesClaim claimed
      in if GroupResource (RelatedResourceKcpGVR rr) |\<notin>| ourOwnResources
         then finsert (relatedClaim rr) claimed else claimed)"

definition claimResource ::
    "groupResource fset \<Rightarrow> PublishedResource \<Rightarrow> permissionClaim fset \<Rightarrow> permissionClaim fset" where
  "claimResource ourOwnResources pubResource claimed =
     (let claimed = (case prs_Filter (pr_Spec pubResource) of
            None \<Rightarrow> claimed
          | Some flt \<Rightarrow> if flt_Namespace flt \<noteq> None then finsert namespacesClaim claimed else claimed);
          claimed = (if prs_EnableWorkspacePaths (pr_Spec pubResource) then finsert logicalClustersClaim claimed else claimed)
      in fold (claimRelated ourOwnResources) (prs_Related (pr_Spec pubResource)) claimed)"

definition requiredClaims :: "groupResource fset \<Rightarrow> PublishedResource list \<Rightarrow> permissionClaim fset" where
  "requiredClaims ourOwnResources items =
     finsert eventsClaim (fold (claimResource ourOwnResources) items {||})"

section \<open>The controller\<close>

definition getSchemaName :: "'e env \<Rightarrow> discoveryLib \<Rightarrow> schemaLib \<Rightarrow> PublishedResource \<Rightarrow> string result" where
  "getSchemaName E D S pubRes =
     (if pr_ResourceSchemaName pubRes \<noteq> [] then Inr (pr_ResourceSchemaName pubRes)
      else
        bindR (wrapErr ''failed to apply projection rules'' (ProjectPublishedResource E D pubRes)) (\<lambda>projectedCRD.
        Inr (GetAPIResourceSchemaName E S projectedCRD)))"

text \<open>The names of the schemas that are ready, and of all.\<close>

fun schemaNames ::
    "'e env \<Rightarrow> discoveryLib \<Rightarrow> schemaLib \<Rightarrow> PublishedResource list \<Rightarrow> (string fset \<times> string fset) result" where
  "schemaNames E D S [] = Inr ({||}, {||})"
| "schemaNames E D S (pubResource # rest) =
     bindR (wrapErr ''failed to determine schema name for PublishedResource'' (getSchemaName E D S pubResource)) (\<lambda>name.
     bindR (schemaNames E D S rest) (\<lambda>(ready, all).
     Inr (if pr_ResourceSchemaName pubResource \<noteq> [] then finsert name ready else ready, finsert name all)))"

fun ownResources :: "string list \<Rightarrow> groupResource fset result" where
  "ownResources [] = Inr {||}"
| "ownResources (name # rest) =
     bindR (wrapErr ''failed to assemble own resources'' (parseSchemaName name)) (\<lambda>gvr.
     bindR (ownResources rest) (\<lambda>ours. Inr (finsert (GroupResource gvr) ours)))"

definition desiredExport ::
    "'e env \<Rightarrow> discoveryLib \<Rightarrow> schemaLib \<Rightarrow> exportLib \<Rightarrow> PublishedResource list \<Rightarrow> apiExport \<Rightarrow>
     (string fset \<times> permissionClaim fset) result" where
  "desiredExport E D S X items export =
     bindR (schemaNames E D S items) (\<lambda>(ready, all).
     bindR (ownResources (mergeResourceSchemas X (ae_LatestResourceSchemas export) all)) (\<lambda>ours.
     Inr (ready, requiredClaims ours items)))"

text \<open>
  \<open>ensure\<close> is \<open>EnsureNamedObject\<close> of the reconciling library: it applies the function to the object it
  finds (\<open>None\<close> if there is none) and stores the result.
\<close>

type_synonym 'w ensureFunc =
  "string \<Rightarrow> (apiExport option \<Rightarrow> apiExport \<times> exportEvent list) \<Rightarrow> ('w, unit) go"

definition emptyExport :: apiExport where
  "emptyExport = \<lparr> ae_Name = [], ae_Annotations = None, ae_LatestResourceSchemas = [], ae_PermissionClaims = [],
     ae_Rest = JNull \<rparr>"

definition APIExportObjectWrapper ::
    "(apiExport \<Rightarrow> apiExport \<times> exportEvent list) \<Rightarrow> apiExport option \<Rightarrow> apiExport \<times> exportEvent list" where
  "APIExportObjectWrapper rec existing = (case existing of Some e \<Rightarrow> rec e | None \<Rightarrow> rec emptyExport)"

fun ReconcileAPIExports ::
    "'w ensureFunc \<Rightarrow> (string \<times> (apiExport \<Rightarrow> apiExport \<times> exportEvent list)) list \<Rightarrow> ('w, unit) go" where
  "ReconcileAPIExports ensure [] = ok ()"
| "ReconcileAPIExports ensure ((name, rec) # rest) =
     checkE ''failed to ensure APIExport'' (ensure name (APIExportObjectWrapper rec)) (\<lambda>_.
     ReconcileAPIExports ensure rest)"

record exportReconciler =
  er_agentName :: string
  er_apiExportName :: string

definition reconcileExport ::
    "'e env \<Rightarrow> discoveryLib \<Rightarrow> schemaLib \<Rightarrow> exportLib \<Rightarrow> 'w ensureFunc \<Rightarrow> apierr + PublishedResource list \<Rightarrow>
     exportReconciler \<Rightarrow> apiExport \<Rightarrow> ('w, unit) go" where
  "reconcileExport E D S X ensure answer r export =
     checkE ''failed to list PublishedResources'' (liftE (api answer)) (\<lambda>items.
     bindE (liftE (desiredExport E D S X items export)) (\<lambda>(ready, claimed).
     checkE ''failed to reconcile APIExport''
       (ReconcileAPIExports ensure
          [(er_apiExportName r, createAPIExportReconciler X ready claimed (er_agentName r))]) ok))"

definition exportReconcile ::
    "'e env \<Rightarrow> discoveryLib \<Rightarrow> schemaLib \<Rightarrow> exportLib \<Rightarrow> 'w ensureFunc \<Rightarrow> apierr + apiExport \<Rightarrow>
     apierr + PublishedResource list \<Rightarrow> exportReconciler \<Rightarrow> ('w, unit) go" where
  "exportReconcile E D S X ensure got answer r =
     (case got of
        Inl e \<Rightarrow> if e = NotFound then ok () else fail (ApiErr e)
      | Inr export \<Rightarrow> reconcileExport E D S X ensure answer r export)"

section \<open>Sorting and enumerating\<close>

text \<open>
  What Go documents of \<open>slices.SortFunc\<close>: the result is a permutation of the input in ascending order, if
  the comparator is a strict weak ordering; the order of equal elements is not determined.
\<close>

locale sort_func =
  fixes sortf :: "('a \<Rightarrow> 'a \<Rightarrow> int) \<Rightarrow> 'a list \<Rightarrow> 'a list"
  assumes sort_mset: "mset (sortf cmp xs) = mset xs"
    and sort_sorted: "comparator cmp \<Longrightarrow> sorted_wrt (\<lambda>a b. cmp a b \<le> 0) (sortf cmp xs)"
begin

lemma sort_set: "set (sortf cmp xs) = set xs"
  by (metis set_mset_mset sort_mset)

text \<open>With distinct keys there is only one result.\<close>

lemma sort_unique:
  assumes "distinct xs" "inj_on f (set xs)"
  shows "sortf (compareBy f) xs = sort_key f xs"
proof (rule map_sorted_distinct_set_unique)
  have "sorted_wrt (\<lambda>a b. compareBy f a b \<le> 0) (sortf (compareBy f) xs)"
    by (rule sort_sorted) (rule by_key.comparator_axioms)
  then show "sorted (map f (sortf (compareBy f) xs))"
    by (simp add: sorted_map compareBy_def Compare_def)
       (erule sorted_wrt_mono_rel [rotated], auto split: if_splits)
  show "distinct (map f (sortf (compareBy f) xs))"
    using assms by (simp add: distinct_map sort_set) (metis mset_eq_imp_distinct_iff sort_mset)
qed (use assms in \<open>simp_all add: distinct_map sort_set\<close>)

end

interpretation stable_sort: sort_func SortStableFunc
  by unfold_locales (simp_all add: comparator.sorted_SortStableFunc)

text \<open>The libraries of the controller keep these contracts.\<close>

locale export_lib =
  fixes X :: exportLib
  assumes schemas_set: "set (x_UnsortedSchemas X s) = fset s" and schemas_distinct: "distinct (x_UnsortedSchemas X s)"
    and claims_set: "set (x_UnsortedClaims X c) = fset c" and claims_distinct: "distinct (x_UnsortedClaims X c)"
    and sort_schemas: "sort_func (x_SortSchemas X)" and sort_claims: "sort_func (x_SortClaims X)"
begin

lemma set_merge:
  "set (mergeResourceSchemas X existing configured) =
     fset configured \<union> {s \<in> set existing. parseResourceGroup s \<notin> parseResourceGroup ` fset configured}"
  by (auto simp: mergeResourceSchemas_def Let_def sort_func.sort_set [OF sort_schemas] schemas_set fset_of_list.rep_eq)

lemma sorted_merge: "sorted_wrt (\<lambda>a b. parseResourceGroup a \<le> parseResourceGroup b) (mergeResourceSchemas X existing configured)"
proof -
  have "sorted_wrt (\<lambda>a b. compareBy parseResourceGroup a b \<le> 0) (mergeResourceSchemas X existing configured)"
    unfolding mergeResourceSchemas_def Let_def
    by (rule sort_func.sort_sorted [OF sort_schemas]) (rule by_key.comparator_axioms)
  then show ?thesis
    by (rule sorted_wrt_mono_rel [rotated]) (auto simp: compareBy_def Compare_def split: if_splits)
qed

lemma distinct_merge:
  assumes "inj_on parseResourceGroup (fset configured)" "distinct (map parseResourceGroup existing)"
  shows "distinct (map parseResourceGroup (mergeResourceSchemas X existing configured))"
proof -
  let ?rs = "x_UnsortedSchemas X configured @ filter (\<lambda>name. parseResourceGroup name |\<notin>|
      fset_of_list (map parseResourceGroup (x_UnsortedSchemas X configured))) existing"
  have "distinct (map parseResourceGroup ?rs)"
  proof -
    have "distinct (map parseResourceGroup (x_UnsortedSchemas X configured))"
      using assms(1) schemas_distinct by (simp add: distinct_map schemas_set)
    moreover have "distinct (map parseResourceGroup (filter P existing))" for P
      using assms(2) by (rule distinct_map_filter)
    ultimately show ?thesis by (simp only: map_append distinct_append) (auto simp: fset_of_list.rep_eq image_iff)
  qed
  moreover have "mset (mergeResourceSchemas X existing configured) = mset ?rs"
    by (simp only: mergeResourceSchemas_def Let_def sort_func.sort_mset [OF sort_schemas])
  ultimately show ?thesis by (metis mset_eq_imp_distinct_iff mset_map)
qed

end

text \<open>A list of names with one name per resource is determined by its elements, once it is sorted.\<close>

lemma sorted_names_unique:
  assumes "sorted_wrt (\<lambda>a b. parseResourceGroup a \<le> parseResourceGroup b) xs"
    "sorted_wrt (\<lambda>a b. parseResourceGroup a \<le> parseResourceGroup b) ys"
    "distinct (map parseResourceGroup xs)" "distinct (map parseResourceGroup ys)" "set xs = set ys"
  shows "xs = ys"
  using assms by (intro map_sorted_distinct_set_unique [of parseResourceGroup]) (simp_all add: sorted_map distinct_map)

text \<open>
  C19. Merging the configured resource schemas into an APIExport keeps exactly the configured ones and the
  existing ones of other resources. If there is one configured and one existing schema per resource,
  the list does not depend on the order in which Go enumerates the set or on how its sort treats equal
  elements, and merging again changes nothing, so the APIExport is not rewritten over and over.
\<close>

theorem mergeResourceSchemas_stable:
  assumes "export_lib X" "export_lib Y"
    and "inj_on parseResourceGroup (fset configured)" "distinct (map parseResourceGroup existing)"
  shows "set (mergeResourceSchemas X existing configured) =
       fset configured \<union> {s \<in> set existing. parseResourceGroup s \<notin> parseResourceGroup ` fset configured} \<and>
     mergeResourceSchemas Y existing configured = mergeResourceSchemas X existing configured \<and>
     mergeResourceSchemas Y (mergeResourceSchemas X existing configured) configured =
       mergeResourceSchemas X existing configured"
proof -
  note set = export_lib.set_merge [OF assms(1)] export_lib.set_merge [OF assms(2)]
  note sorted = export_lib.sorted_merge [OF assms(1)] export_lib.sorted_merge [OF assms(2)]
  note dist = export_lib.distinct_merge [OF assms(1,3)] export_lib.distinct_merge [OF assms(2,3)]
  have "mergeResourceSchemas Y existing configured = mergeResourceSchemas X existing configured"
    by (rule sorted_names_unique [OF sorted(2,1) dist(2,1)]) (simp_all add: assms(4) set)
  moreover have "mergeResourceSchemas Y (mergeResourceSchemas X existing configured) configured =
      mergeResourceSchemas X existing configured"
    by (rule sorted_names_unique [OF sorted(2,1) dist(2,1)]) (auto simp: assms(4) dist(1) set)
  ultimately show ?thesis by (simp add: set)
qed

text \<open>A library that enumerates in lexicographic order.\<close>

definition claimFields :: "permissionClaim \<Rightarrow> string list" where
  "claimFields c = [pcl_Group c, pcl_Resource c, pcl_IdentityHash c]"

definition claimOfFields :: "string list \<Rightarrow> permissionClaim" where
  "claimOfFields fs = \<lparr> pcl_Group = fs ! 0, pcl_Resource = fs ! 1, pcl_IdentityHash = fs ! 2 \<rparr>"

lemma claimOfFields [simp]: "claimOfFields (claimFields c) = c"
  by (simp add: claimFields_def claimOfFields_def)

definition exampleExportLib :: exportLib where
  "exampleExportLib = \<lparr> x_UnsortedSchemas = sorted_list_of_fset,
     x_UnsortedClaims = (\<lambda>s. map claimOfFields (sorted_list_of_fset (claimFields |`| s))),
     x_SortSchemas = SortStableFunc, x_SortClaims = SortStableFunc \<rparr>"

lemma exampleExportLib: "export_lib exampleExportLib"
proof -
  have "inj_on claimOfFields (claimFields ` A)" for A by (rule inj_onI) auto
  then show ?thesis
    by unfold_locales
       (simp_all add: exampleExportLib_def sorted_list_of_fset.rep_eq comparator.sorted_SortStableFunc distinct_map image_image)
qed

theorem mergeResourceSchemas_stable_witness:
  "mergeResourceSchemas exampleExportLib
     (mergeResourceSchemas exampleExportLib [''v1.a.g''] {|''v2.b.g''|}) {|''v2.b.g''|} =
   mergeResourceSchemas exampleExportLib [''v1.a.g''] {|''v2.b.g''|}"
  using mergeResourceSchemas_stable [OF exampleExportLib exampleExportLib, of "{|''v2.b.g''|}" "[''v1.a.g'']"] by simp

section \<open>Claims\<close>

lemma compareExportClaims_comparator: "comparator compareExportClaims"
  by unfold_locales (auto simp: compareExportClaims_def Compare_def split: if_splits)

text \<open>The claim is in the APIExport, for all objects.\<close>

definition claimedIn :: "permissionClaim \<Rightarrow> exportClaim list \<Rightarrow> bool" where
  "claimedIn c cs \<longleftrightarrow> c |\<in>| existingClaims cs"

lemma existingClaims_mset: "mset xs = mset ys \<Longrightarrow> existingClaims xs = existingClaims ys"
  by (metis (no_types, lifting) existingClaims_def fset_inject fset_of_list.rep_eq mset_filter mset_map set_mset_mset)

lemma existingClaims_append [simp]: "existingClaims (xs @ ys) = existingClaims xs |\<union>| existingClaims ys"
  by (simp add: existingClaims_def)

lemma existingClaims_toExportClaim [simp]: "existingClaims (map toExportClaim cs) = fset_of_list cs"
proof -
  have "\<lparr> pcl_Group = xc_Group (toExportClaim c), pcl_Resource = xc_Resource (toExportClaim c),
      pcl_IdentityHash = xc_IdentityHash (toExportClaim c) \<rparr> = c" for c
    by (simp add: toExportClaim_def)
  moreover have "filter (\<lambda>c. xc_All c \<and> xc_ResourceSelector c = []) (map toExportClaim cs) = map toExportClaim cs"
    by (simp add: filter_id_conv toExportClaim_def)
  ultimately show ?thesis by (simp add: existingClaims_def comp_def)
qed

context export_lib
begin

lemma claims_after:
  assumes "createAPIExportReconciler X schemas claimed agentName existing = (new, events)"
  shows "\<exists>added. set added = fset (claimed |-| existingClaims (ae_PermissionClaims existing)) \<and> distinct added \<and>
     mset (ae_PermissionClaims new) = mset (ae_PermissionClaims existing) + mset (map toExportClaim added)"
proof (intro exI conjI)
  let ?missing = "claimed |-| existingClaims (ae_PermissionClaims existing)"
  let ?added = "SortStableFunc compareClaims (x_UnsortedClaims X ?missing)"
  show "set ?added = fset ?missing" by (simp add: claims_set)
  show "distinct ?added" using claims_distinct by (metis mset_SortStableFunc mset_eq_imp_distinct_iff)
  show "mset (ae_PermissionClaims new) = mset (ae_PermissionClaims existing) + mset (map toExportClaim ?added)"
    using assms by (auto simp: createAPIExportReconciler_def Let_def sort_func.sort_mset [OF sort_claims])
qed

end


section \<open>Required claims\<close>

text \<open>
  C30. Exactly these claims are required: events; namespaces, if some resource has a namespace filter or
  related resources; logical clusters, if some resource wants workspace paths; and every related
  resource, as it is called in kcp and with its identity, that is not one of the resources of the
  APIExport itself.
\<close>

theorem requiredClaims_exact:
  "c |\<in>| requiredClaims ours items \<longleftrightarrow>
     c = eventsClaim \<or>
     c = namespacesClaim \<and> (\<exists>p \<in> set items. prs_Related (pr_Spec p) \<noteq> [] \<or>
        (\<exists>flt. prs_Filter (pr_Spec p) = Some flt \<and> flt_Namespace flt \<noteq> None)) \<or>
     c = logicalClustersClaim \<and> (\<exists>p \<in> set items. prs_EnableWorkspacePaths (pr_Spec p)) \<or>
     (\<exists>p \<in> set items. \<exists>rr \<in> set (prs_Related (pr_Spec p)).
        GroupResource (RelatedResourceKcpGVR rr) |\<notin>| ours \<and> c = relatedClaim rr)"
proof -
  have related: "c |\<in>| fold (claimRelated ours) rrs claimed \<longleftrightarrow>
      c |\<in>| claimed \<or> c = namespacesClaim \<and> rrs \<noteq> [] \<or>
      (\<exists>rr \<in> set rrs. GroupResource (RelatedResourceKcpGVR rr) |\<notin>| ours \<and> c = relatedClaim rr)" for rrs claimed
    by (induction rrs arbitrary: claimed) (auto simp: claimRelated_def Let_def)
  have "c |\<in>| fold (claimResource ours) items claimed \<longleftrightarrow> c |\<in>| claimed \<or>
     c = namespacesClaim \<and> (\<exists>p \<in> set items. prs_Related (pr_Spec p) \<noteq> [] \<or>
        (\<exists>flt. prs_Filter (pr_Spec p) = Some flt \<and> flt_Namespace flt \<noteq> None)) \<or>
     c = logicalClustersClaim \<and> (\<exists>p \<in> set items. prs_EnableWorkspacePaths (pr_Spec p)) \<or>
     (\<exists>p \<in> set items. \<exists>rr \<in> set (prs_Related (pr_Spec p)).
        GroupResource (RelatedResourceKcpGVR rr) |\<notin>| ours \<and> c = relatedClaim rr)" for claimed
  proof (induction items arbitrary: claimed)
    case (Cons p items)
    have "c |\<in>| claimResource ours p claimed \<longleftrightarrow> c |\<in>| claimed \<or>
      c = namespacesClaim \<and> (prs_Related (pr_Spec p) \<noteq> [] \<or>
        (\<exists>flt. prs_Filter (pr_Spec p) = Some flt \<and> flt_Namespace flt \<noteq> None)) \<or>
      c = logicalClustersClaim \<and> prs_EnableWorkspacePaths (pr_Spec p) \<or>
      (\<exists>rr \<in> set (prs_Related (pr_Spec p)). GroupResource (RelatedResourceKcpGVR rr) |\<notin>| ours \<and> c = relatedClaim rr)"
      by (auto simp: claimResource_def Let_def related split: option.split)
    with Cons.IH [of "claimResource ours p claimed"] show ?case
      by (simp only: fold.simps comp_apply list.set bex_simps) blast
  qed simp
  then show ?thesis by (simp add: requiredClaims_def)
qed

theorem requiredClaims_exact_witness:
  "namespacesClaim |\<in>| requiredClaims {||} [publishDeployments\<lparr>pr_Spec := plainSpec\<lparr>prs_Related := [plainRelated]\<rparr>\<rparr>]"
  by (simp add: requiredClaims_exact)


section \<open>Names of schemas\<close>

lemma cutAt_append: "c \<notin> set a \<Longrightarrow> cutAt c (a @ c # b) = (a, Some b)"
  by (induction a) auto

lemma hexDigit_dot: "d < 16 \<Longrightarrow> hexDigit d \<noteq> CHR ''.''"
  by (auto simp: hexDigit_def char_of_eq_iff take_bit_eq_mod)

lemma hexEncode_dot: "CHR ''.'' \<notin> set (hexEncode s)"
proof -
  have "CHR ''.'' \<notin> set (hexByte c)" for c
  proof -
    have "(of_char c :: nat) < 256" by (rule nat_of_char_less_256)
    then have "(of_char c :: nat) div 16 < 16" by (intro less_mult_imp_div_less) linarith
    then show ?thesis
      using hexDigit_dot [of "of_char c div 16"] hexDigit_dot [of "of_char c mod 16"] by (auto simp: hexByte_def Let_def)
  qed
  then show ?thesis by (auto simp: hexEncode_def)
qed

text \<open>
  C29. The name that is given to a schema object is the name the APIExport controller can take apart: its
  parts are the resource and the group of the projected CRD, whatever the group, also the empty one.
\<close>

theorem parseSchemaName_GetAPIResourceSchemaName:
  assumes "CHR ''.'' \<notin> set (nam_Plural (crd_Names c))"
  shows "\<exists>v. parseSchemaName (GetAPIResourceSchemaName E S c) =
     Inr \<lparr> gvr_Group = crd_Group c, gvr_Version = v, gvr_Resource = nam_Plural (crd_Names c) \<rparr>"
proof -
  let ?v = "CHR ''v'' # take 8 (Hash E (HashJSON (sl_SpecJSON S (c\<lparr>crd_Conversion := JNull\<rparr>))))"
  have v: "CHR ''.'' \<notin> set ?v"
    using hexEncode_dot by (auto simp: Hash_def dest: in_set_takeD)
  have "GetAPIResourceSchemaName E S c = ?v @ CHR ''.'' # (nam_Plural (crd_Names c) @ CHR ''.'' # crd_Group c)"
    by (simp add: GetAPIResourceSchemaName_def Let_def)
  then have "SplitN CHR ''.'' 3 (GetAPIResourceSchemaName E S c) = [?v, nam_Plural (crd_Names c), crd_Group c]"
    by (simp only: numeral_3_eq_3 SplitN.simps cutAt_append [OF v] cutAt_append [OF assms] prod.case option.case)
  then show ?thesis by (simp add: parseSchemaName_def)
qed

theorem parseSchemaName_GetAPIResourceSchemaName_witness:
  "\<exists>v. parseSchemaName (GetAPIResourceSchemaName (noServer :: unit env) exampleSchemaLib plainCRD) =
     Inr \<lparr> gvr_Group = ''example.com'', gvr_Version = v, gvr_Resource = ''claims'' \<rparr>"
  using parseSchemaName_GetAPIResourceSchemaName [of plainCRD "noServer :: unit env" exampleSchemaLib]
  by (simp add: plainCRD_def)

end
