(* ===== verification/Sync_Endpoint.thy ===== *)
theory Sync_Endpoint
  imports API_Export
begin

text \<open>
  Where the agent connects to (\<open>../cmd/api-syncagent/kcp.go\<close>, \<open>kubeconfig/check.go\<close>): the endpoint
  slice given on the command line, the APIExport it refers to, possibly in another workspace, the
  rewriting of the kcp URL for that workspace, and the connections to both.
\<close>

section \<open>The regular expression for workspaces in URLs\<close>

text \<open>
  \<open>clusterFinder\<close> is \<open>/clusters/([^/]+)\<close>. A match at the start of a string exists iff the string starts
  with the literal and another character, not a slash, follows; the group is then as long as
  possible. \<open>FindSubmatch\<close> is the leftmost match, as the text before it, the group and the rest.
\<close>

definition clustersPrefix :: string where
  "clustersPrefix = ''/clusters/''"

definition clusterAt :: "string \<Rightarrow> bool" where
  "clusterAt s \<longleftrightarrow> HasPrefix s clustersPrefix \<and> 10 < length s \<and> s ! 10 \<noteq> CHR ''/''"

fun FindSubmatch :: "string \<Rightarrow> (string \<times> string \<times> string) option" where
  "FindSubmatch [] = None"
| "FindSubmatch (c # cs) =
     (if clusterAt (c # cs)
      then let s = drop 10 (c # cs)
           in Some ([], takeWhile (\<lambda>x. x \<noteq> CHR ''/'') s, dropWhile (\<lambda>x. x \<noteq> CHR ''/'') s)
      else (case FindSubmatch cs of
              None \<Rightarrow> None
            | Some (before, name, rest) \<Rightarrow> Some (c # before, name, rest)))"

lemma length_clustersPrefix [simp]: "length clustersPrefix = 10"
  by (simp add: clustersPrefix_def)

lemma clusterAt_take: "clusterAt s \<longleftrightarrow> clusterAt (take 11 s)"
  by (simp add: clusterAt_def HasPrefix_def min_def)

lemma clusterAt_iff:
  "clusterAt s \<longleftrightarrow> (\<exists>c r. s = clustersPrefix @ c # r \<and> c \<noteq> CHR ''/'')"
proof
  assume l: "clusterAt s"
  then obtain t where "s = clustersPrefix @ t" by (auto simp: clusterAt_def HasPrefix_iff)
  with l show "\<exists>c r. s = clustersPrefix @ c # r \<and> c \<noteq> CHR ''/''"
    by (cases t) (auto simp: clusterAt_def nth_append)
qed (auto simp: clusterAt_def nth_append)

text \<open>What the group can be: a non-empty string without slashes, up to the next slash or the end.\<close>

definition segment :: "string \<Rightarrow> bool" where
  "segment s \<longleftrightarrow> s \<noteq> [] \<and> CHR ''/'' \<notin> set s"

lemma clusterAt_segment: "segment n \<Longrightarrow> clusterAt (clustersPrefix @ n @ r)"
  by (cases n) (auto simp: clusterAt_iff segment_def)

lemma FindSubmatch_here:
  "segment n \<Longrightarrow> r = [] \<or> hd r = CHR ''/'' \<Longrightarrow> FindSubmatch (clustersPrefix @ n @ r) = Some ([], n, r)"
proof -
  assume n: "segment n" and r: "r = [] \<or> hd r = CHR ''/''"
  obtain c cs where c: "clustersPrefix @ n @ r = c # cs" by (simp add: clustersPrefix_def)
  have "clusterAt (c # cs)" using clusterAt_segment [OF n, of r] c by simp
  moreover have "drop 10 (c # cs) = n @ r" unfolding c [symmetric] by simp
  moreover have "takeWhile (\<lambda>x. x \<noteq> CHR ''/'') (n @ r) = n" "dropWhile (\<lambda>x. x \<noteq> CHR ''/'') (n @ r) = r"
    using n r by (cases r; auto simp: segment_def takeWhile_append dropWhile_append3)+
  ultimately show ?thesis unfolding c by (simp del: drop_Suc_Cons add: Let_def)
qed

text \<open>
  A match decomposes the string, and stays the leftmost match when the group is replaced: whatever
  starts earlier is decided by the text that is kept.
\<close>

lemma FindSubmatch_Some:
  "FindSubmatch s = Some (p, n, r) \<Longrightarrow>
     s = p @ clustersPrefix @ n @ r \<and> segment n \<and> (r = [] \<or> hd r = CHR ''/'') \<and>
     (\<forall>d. segment d \<longrightarrow> FindSubmatch (p @ clustersPrefix @ d @ r) = Some (p, d, r))"
proof (induction s arbitrary: p)
  case (Cons c cs)
  show ?case
  proof (cases "clusterAt (c # cs)")
    case True
    then obtain x t where t: "c # cs = clustersPrefix @ x # t" "x \<noteq> CHR ''/''"
      unfolding clusterAt_iff by blast
    then have "drop 10 (c # cs) = x # t" by simp
    with True Cons.prems have pnr: "p = []" "n = takeWhile (\<lambda>y. y \<noteq> CHR ''/'') (x # t)"
        "r = dropWhile (\<lambda>y. y \<noteq> CHR ''/'') (x # t)"
      by (auto simp del: drop_Suc_Cons simp: Let_def)
    have n: "segment n" unfolding pnr using t(2) set_takeWhileD [of "CHR ''/''"] by (auto simp: segment_def)
    have r: "r = [] \<or> hd r = CHR ''/''" unfolding pnr using hd_dropWhile by blast
    have "x # t = n @ r" unfolding pnr by (metis takeWhile_dropWhile_id)
    with n r t(1) pnr(1) FindSubmatch_here show ?thesis by simp
  next
    case False
    with Cons.prems obtain p' where p: "p = c # p'" and rec: "FindSubmatch cs = Some (p', n, r)"
      by (auto split: option.splits)
    note ih = Cons.IH [OF rec]
    have "FindSubmatch (p @ clustersPrefix @ d @ r) = Some (p, d, r)" if d: "segment d" for d
    proof -
      have "take 11 (p @ clustersPrefix @ d @ r) = take 11 (p @ clustersPrefix @ n @ r)" for d n
        by (simp add: p)
      with False ih p have "\<not> clusterAt (p @ clustersPrefix @ d @ r)"
        using clusterAt_take [of "p @ clustersPrefix @ d @ r"] clusterAt_take [of "c # cs"] by simp
      with ih d p show ?thesis by simp
    qed
    with ih p show ?thesis by simp
  qed
qed simp

lemma FindSubmatch_less: "FindSubmatch s = Some (p, n, r) \<Longrightarrow> length r < length s"
  using FindSubmatch_Some [of s p n r] by auto

text \<open>All matches, and the replacement of all of them; \<open>repl\<close> gives the replacement of a match.\<close>

function FindAllStringSubmatch :: "string \<Rightarrow> string list" where
  "FindAllStringSubmatch s =
     (case FindSubmatch s of None \<Rightarrow> [] | Some (before, name, rest) \<Rightarrow> name # FindAllStringSubmatch rest)"
  by pat_completeness auto
termination
  by (relation "measure length") (auto simp: FindSubmatch_less)

function replaceMatches :: "(string \<Rightarrow> string) \<Rightarrow> string \<Rightarrow> string" where
  "replaceMatches repl s =
     (case FindSubmatch s of
        None \<Rightarrow> s
      | Some (before, name, rest) \<Rightarrow> before @ repl name @ replaceMatches repl rest)"
  by pat_completeness auto
termination
  by (relation "measure (\<lambda>(repl, s). length s)") (auto simp: FindSubmatch_less)

declare FindAllStringSubmatch.simps [simp del] replaceMatches.simps [simp del]

text \<open>
  \<open>Regexp.Expand\<close>: in the replacement, \<open>$name\<close> and \<open>${name}\<close> stand for a submatch, \<open>$$\<close> for a dollar
  sign. \<open>extractName\<close> reads a name after a dollar sign; of the numbers, 0 is the match and 1 the group,
  and all other names are unknown and empty. Names are of ASCII characters here.
\<close>

definition isWordChar :: "char \<Rightarrow> bool" where
  "isWordChar c \<longleftrightarrow>
     (let n = of_char c :: nat in
      (48 \<le> n \<and> n \<le> 57) \<or> (65 \<le> n \<and> n \<le> 90) \<or> n = 95 \<or> (97 \<le> n \<and> n \<le> 122))"

definition extractName :: "string \<Rightarrow> (string \<times> string) option" where
  "extractName s =
     (let brace = (s \<noteq> [] \<and> hd s = CHR ''{'');
          s = (if brace then tl s else s);
          name = takeWhile isWordChar s;
          rest = dropWhile isWordChar s
      in if name = [] then None
         else if brace then
           (if rest \<noteq> [] \<and> hd rest = CHR ''}'' then Some (name, tl rest) else None)
         else Some (name, rest))"

definition submatch :: "string \<Rightarrow> string \<Rightarrow> string" where
  "submatch grp name =
     (if name = ''0'' then clustersPrefix @ grp else if name = ''1'' then grp else [])"

lemma extractName_less: "extractName s = Some (name, rest) \<Longrightarrow> length rest < Suc (length s)"
  using length_dropWhile_le [of isWordChar s] length_dropWhile_le [of isWordChar "tl s"]
  by (auto simp: extractName_def Let_def split: if_splits)

lemma cutAt_less: "cutAt c s = (a, Some b) \<Longrightarrow> length b < length s"
  by (induction s arbitrary: a) (auto split: if_splits prod.splits)

function expand :: "string \<Rightarrow> string \<Rightarrow> string" where
  "expand grp template =
     (case cutAt (CHR ''$'') template of
        (before, None) \<Rightarrow> before
      | (before, Some after) \<Rightarrow>
          (if after \<noteq> [] \<and> hd after = CHR ''$'' then before @ CHR ''$'' # expand grp (tl after)
           else (case extractName after of
                   None \<Rightarrow> before @ CHR ''$'' # expand grp after
                 | Some (name, rest) \<Rightarrow> before @ submatch grp name @ expand grp rest)))"
  by pat_completeness auto
termination
  by (relation "measure (\<lambda>(grp, template). length template)")
     (fastforce dest: cutAt_less [OF sym] cutAt_less extractName_less)+

declare expand.simps [simp del]

definition ReplaceAllString :: "string \<Rightarrow> string \<Rightarrow> string" where
  "ReplaceAllString src repl = replaceMatches (\<lambda>grp. expand grp repl) src"

lemma cutAt_absent: "c \<notin> set s \<Longrightarrow> cutAt c s = (s, None)"
  by (induction s) auto

lemma expand_plain: "CHR ''$'' \<notin> set template \<Longrightarrow> expand grp template = template"
  by (simp add: expand.simps [of grp template] cutAt_absent)

text \<open>Exactly one workspace in the string: the leftmost match, and none after it.\<close>

lemma FindAll_Nil: "FindAllStringSubmatch s = [] \<longleftrightarrow> FindSubmatch s = None"
  by (auto simp: FindAllStringSubmatch.simps [of s] split: option.splits)

lemma FindAll_single:
  "FindAllStringSubmatch s = [n] \<longleftrightarrow> (\<exists>p r. FindSubmatch s = Some (p, n, r) \<and> FindSubmatch r = None)"
  by (auto simp: FindAllStringSubmatch.simps [of s] FindAll_Nil split: option.splits prod.splits)

lemma ReplaceAll_single:
  assumes "FindSubmatch s = Some (p, n, r)" "FindSubmatch r = None" "CHR ''$'' \<notin> set d"
  shows "ReplaceAllString s (clustersPrefix @ d) = p @ clustersPrefix @ d @ r"
proof -
  have "CHR ''$'' \<notin> set (clustersPrefix @ d)" using assms(3) by (simp add: clustersPrefix_def)
  with assms(1,2) show ?thesis
    by (simp add: ReplaceAllString_def replaceMatches.simps [of _ s] replaceMatches.simps [of _ r] expand_plain)
qed

section \<open>Rewriting the URL\<close>

record restConfig =
  cfg_Host :: string
  cfg_CAData :: string
  cfg_CAFile :: string
  cfg_Rest :: json

definition kubeconfig_Validate :: "restConfig option \<Rightarrow> unit result" where
  "kubeconfig_Validate cfg =
     (case cfg of
        None \<Rightarrow> Inl (Msg ''no kubeconfig was found. Have you set current-context?'')
      | Some c \<Rightarrow>
          if \<not> Contains (cfg_Host c) ''/clusters/''
          then Inl (Msg ''kcp kubeconfig does not point to a specific workspace'')
          else Inr ())"

definition retargetRestConfig :: "restConfig \<Rightarrow> string \<Rightarrow> restConfig result" where
  "retargetRestConfig cfg destination =
     (if destination = [] then Inr cfg
      else
        let matches = FindAllStringSubmatch (cfg_Host cfg) in
        if matches = [] then Inl (Msg ''URL must point to a cluster/workspace'')
        else if 1 < length matches
          then Inl (Msg ''invalid URL: URL contains more than one cluster path'')
        else if hd matches = destination then Inr cfg
        else
          let newCluster = ''/clusters/'' @ destination
          in Inr (cfg\<lparr>cfg_Host := ReplaceAllString (cfg_Host cfg) newCluster\<rparr>))"

text \<open>The URL names exactly the workspace \<open>n\<close>, between \<open>p\<close> and \<open>r\<close>.\<close>

definition pointsTo :: "string \<Rightarrow> string \<Rightarrow> string \<Rightarrow> string \<Rightarrow> bool" where
  "pointsTo host p n r \<longleftrightarrow> FindSubmatch host = Some (p, n, r) \<and> FindSubmatch r = None"

lemma pointsTo_FindAll: "pointsTo host p n r \<Longrightarrow> FindAllStringSubmatch host = [n]"
  by (auto simp: FindAll_single pointsTo_def)

lemma pointsTo_host: "pointsTo host p n r \<Longrightarrow> host = p @ ''/clusters/'' @ n @ r \<and> segment n"
  using FindSubmatch_Some [of host p n r] by (simp add: pointsTo_def clustersPrefix_def)

lemma pointsTo_replaced: "pointsTo host p n r \<Longrightarrow> segment d \<Longrightarrow> pointsTo (p @ ''/clusters/'' @ d @ r) p d r"
  using FindSubmatch_Some [of host p n r] by (simp add: pointsTo_def clustersPrefix_def)

lemma retarget_eq:
  assumes "pointsTo (cfg_Host cfg) p n r" "d \<noteq> []" "CHR ''$'' \<notin> set d"
  shows "retargetRestConfig cfg d = Inr (cfg\<lparr>cfg_Host := p @ ''/clusters/'' @ d @ r\<rparr>)"
proof (cases "n = d")
  case True
  with assms pointsTo_FindAll [OF assms(1)] pointsTo_host [OF assms(1)] show ?thesis
    by (simp add: retargetRestConfig_def)
next
  case False
  have "ReplaceAllString (cfg_Host cfg) (clustersPrefix @ d) = p @ clustersPrefix @ d @ r"
    using assms(1,3) ReplaceAll_single by (simp add: pointsTo_def)
  with False assms(2) pointsTo_FindAll [OF assms(1)] show ?thesis
    by (simp add: retargetRestConfig_def clustersPrefix_def)
qed

lemma length_one: "xs \<noteq> [] \<Longrightarrow> \<not> Suc 0 < length xs \<Longrightarrow> \<exists>x. xs = [x]"
  by (cases xs) auto

lemma retarget_Inr_pointsTo:
  assumes "retargetRestConfig cfg d = Inr cfg'" "d \<noteq> []"
  shows "\<exists>p n r. pointsTo (cfg_Host cfg) p n r"
proof -
  have "FindAllStringSubmatch (cfg_Host cfg) \<noteq> []" "\<not> Suc 0 < length (FindAllStringSubmatch (cfg_Host cfg))"
    using assms by (auto simp: retargetRestConfig_def Let_def split: if_splits)
  from length_one [OF this] show ?thesis by (auto simp: FindAll_single pointsTo_def)
qed

text \<open>
  C17. Retargeting a URL replaces its workspace and nothing else. It succeeds for a destination exactly
  when the URL names one workspace; the new URL then names exactly the destination, around it the text
  is the same, the other connection settings are untouched, and retargeting the result to the
  original workspace gives the original configuration back.
\<close>

theorem retarget_roundtrip:
  assumes d: "segment d" "CHR ''$'' \<notin> set d" and host: "CHR ''$'' \<notin> set (cfg_Host cfg)"
  shows "((\<exists>cfg'. retargetRestConfig cfg d = Inr cfg') \<longleftrightarrow> (\<exists>n. FindAllStringSubmatch (cfg_Host cfg) = [n])) \<and>
    (\<forall>cfg'. retargetRestConfig cfg d = Inr cfg' \<longrightarrow>
       (\<exists>p n r. cfg_Host cfg = p @ ''/clusters/'' @ n @ r \<and>
          cfg' = cfg\<lparr>cfg_Host := p @ ''/clusters/'' @ d @ r\<rparr> \<and>
          FindAllStringSubmatch (cfg_Host cfg') = [d] \<and> retargetRestConfig cfg' n = Inr cfg))"
proof -
  have ne: "d \<noteq> []" using d(1) by (simp add: segment_def)
  have eq: "retargetRestConfig cfg d = Inr (cfg\<lparr>cfg_Host := p @ ''/clusters/'' @ d @ r\<rparr>)"
    if "pointsTo (cfg_Host cfg) p n r" for p n r
    by (rule retarget_eq [OF that ne d(2)])
  have "retargetRestConfig (cfg\<lparr>cfg_Host := p @ ''/clusters/'' @ d @ r\<rparr>) n = Inr cfg"
    if pt: "pointsTo (cfg_Host cfg) p n r" for p n r
  proof -
    let ?cfg = "cfg\<lparr>cfg_Host := p @ ''/clusters/'' @ d @ r\<rparr>"
    note h = pointsTo_host [OF pt]
    have "CHR ''$'' \<notin> set n" "n \<noteq> []" using host h by (auto simp: segment_def)
    then have "retargetRestConfig ?cfg n = Inr (?cfg\<lparr>cfg_Host := p @ ''/clusters/'' @ n @ r\<rparr>)"
      using pointsTo_replaced [OF pt d(1)] by (intro retarget_eq) simp_all
    moreover have "?cfg\<lparr>cfg_Host := p @ ''/clusters/'' @ n @ r\<rparr> = cfg" using h by (cases cfg) simp
    ultimately show ?thesis by simp
  qed
  note return = this
  have pt: "(\<exists>n. FindAllStringSubmatch (cfg_Host cfg) = [n]) \<longleftrightarrow> (\<exists>p n r. pointsTo (cfg_Host cfg) p n r)"
    by (auto simp: FindAll_single pointsTo_def)
  show ?thesis
  proof (intro conjI allI impI)
    show "(\<exists>cfg'. retargetRestConfig cfg d = Inr cfg') \<longleftrightarrow> (\<exists>n. FindAllStringSubmatch (cfg_Host cfg) = [n])"
      unfolding pt using retarget_Inr_pointsTo ne eq by blast
  next
    fix cfg' assume cfg': "retargetRestConfig cfg d = Inr cfg'"
    then obtain p n r where p: "pointsTo (cfg_Host cfg) p n r" using retarget_Inr_pointsTo ne by blast
    moreover have "cfg' = cfg\<lparr>cfg_Host := p @ ''/clusters/'' @ d @ r\<rparr>" using cfg' eq [OF p] by simp
    ultimately show "\<exists>p n r. cfg_Host cfg = p @ ''/clusters/'' @ n @ r \<and>
          cfg' = cfg\<lparr>cfg_Host := p @ ''/clusters/'' @ d @ r\<rparr> \<and>
          FindAllStringSubmatch (cfg_Host cfg') = [d] \<and> retargetRestConfig cfg' n = Inr cfg"
      using pointsTo_host [OF p] pointsTo_FindAll [OF pointsTo_replaced [OF p d(1)]] return [OF p] by auto
  qed
qed

definition exampleConfig :: restConfig where
  "exampleConfig = \<lparr> cfg_Host = ''https://kcp/clusters/root:org'', cfg_CAData = [], cfg_CAFile = [], cfg_Rest = JNull \<rparr>"

lemma exampleConfig_points:
  "pointsTo (cfg_Host exampleConfig) ''https://kcp'' ''root:org'' []"
  by (simp add: pointsTo_def exampleConfig_def clusterAt_def HasPrefix_def clustersPrefix_def Let_def)

theorem retarget_roundtrip_witness:
  "\<exists>cfg'. retargetRestConfig exampleConfig ''root:other'' = Inr cfg' \<and>
     FindAllStringSubmatch (cfg_Host cfg') = [''root:other'']"
proof -
  have "segment ''root:other''" "CHR ''$'' \<notin> set ''root:other''" "CHR ''$'' \<notin> set (cfg_Host exampleConfig)"
    by (simp_all add: segment_def exampleConfig_def)
  from retarget_roundtrip [OF this] pointsTo_FindAll [OF exampleConfig_points] show ?thesis by blast
qed

section \<open>Resolving the endpoint\<close>

text \<open>
  The kcp servers as the start-up code reads them, per connection. \<open>ka_From\<close> is the name of a logical
  cluster and \<open>ka_PathAnnotation\<close> the key of the annotation with its path; a scheme registration, a new
  client and a new cluster connection may fail.
\<close>

record apiExportEndpointSlice =
  ees_Name :: string
  ees_APIExportPath :: string
  ees_APIExportName :: string

record logicalCluster =
  lc_Annotations :: "labels option"

record kcpCluster =
  kc_Config :: "restConfig option"
  kc_Schemes :: "string list"
  kc_ByObject :: "(string \<times> (string \<times> string) list) list"

record 's kcpApi =
  ka_AddToScheme :: "string \<Rightarrow> unit + unit"
  ka_NewClient :: "restConfig \<Rightarrow> unit + unit"
  ka_GetEndpointSlice :: "restConfig \<Rightarrow> string \<Rightarrow> 's \<Rightarrow> (apierr + apiExportEndpointSlice) \<times> 's"
  ka_GetAPIExport :: "restConfig \<Rightarrow> string \<Rightarrow> 's \<Rightarrow> (apierr + apiExport) \<times> 's"
  ka_GetLogicalCluster :: "restConfig \<Rightarrow> string \<Rightarrow> 's \<Rightarrow> (apierr + logicalCluster) \<times> 's"
  ka_From :: "logicalCluster \<Rightarrow> string"
  ka_PathAnnotation :: string
  ka_NewCluster :: "kcpCluster \<Rightarrow> unit + unit"

definition kcpRead :: "('s \<Rightarrow> (apierr + 'a) \<times> 's) \<Rightarrow> ('s, 'a) go" where
  "kcpRead f s = (case f s of (r, s') \<Rightarrow> (api r, s'))"

definition IdentityClusterName :: string where
  "IdentityClusterName = ''cluster''"

record qualifiedCluster =
  qc_Cluster :: string
  qc_Path :: string
  qc_Config :: "restConfig option"

record qualifiedAPIExport = qualifiedCluster +
  qe_APIExport :: apiExport

record qualifiedAPIExportEndpointSlice = qualifiedCluster +
  qs_EndpointSlice :: apiExportEndpointSlice

record syncEndpoint =
  se_APIExport :: qualifiedAPIExport
  se_EndpointSlice :: qualifiedAPIExportEndpointSlice

definition resolveCurrentCluster :: "'s kcpApi \<Rightarrow> restConfig \<Rightarrow> ('s, string \<times> string) go" where
  "resolveCurrentCluster K conn =
     checkE ''failed to resolve current workspace''
       (kcpRead (ka_GetLogicalCluster K conn IdentityClusterName)) (\<lambda>lc.
     ok (ka_From K lc, mapGet (orEmpty (lc_Annotations lc)) (ka_PathAnnotation K)))"

definition resolveAPIExportEndpointSlice ::
    "'s kcpApi \<Rightarrow> restConfig \<Rightarrow> string \<Rightarrow> ('s, qualifiedAPIExportEndpointSlice) go" where
  "resolveAPIExportEndpointSlice K conn ref =
     checkE ''failed to get APIExportEndpointSlice'' (kcpRead (ka_GetEndpointSlice K conn ref)) (\<lambda>endpointSlice.
     checkE ''failed to resolve APIExportEndpointSlice cluster'' (resolveCurrentCluster K conn) (\<lambda>(lcName, lcPath).
     ok \<lparr> qc_Cluster = lcName, qc_Path = lcPath, qc_Config = None, qs_EndpointSlice = endpointSlice \<rparr>))"

definition resolveAPIExport :: "'s kcpApi \<Rightarrow> restConfig \<Rightarrow> string \<Rightarrow> ('s, qualifiedAPIExport) go" where
  "resolveAPIExport K conn ref =
     checkE ''failed to get APIExport'' (kcpRead (ka_GetAPIExport K conn ref)) (\<lambda>apiExport.
     checkE ''failed to resolve APIExport cluster'' (resolveCurrentCluster K conn) (\<lambda>(lcName, lcPath).
     ok \<lparr> qc_Cluster = lcName, qc_Path = lcPath, qc_Config = None, qe_APIExport = apiExport \<rparr>))"

definition addScheme :: "string \<Rightarrow> ('w, unit) go \<Rightarrow> (unit \<Rightarrow> ('w, 'a) go) \<Rightarrow> ('w, 'a) go" where
  "addScheme name = checkE (''failed to register scheme '' @ name)"

definition resolveSyncEndpoint :: "'s kcpApi \<Rightarrow> restConfig \<Rightarrow> string \<Rightarrow> ('s, syncEndpoint) go" where
  "resolveSyncEndpoint K initialRestConfig endpointSliceRef =
     addScheme ''core.kcp.io/v1alpha1'' (liftE (lib ''scheme'' (ka_AddToScheme K ''core.kcp.io/v1alpha1''))) (\<lambda>_.
     addScheme ''apis.kcp.io/v1alpha1'' (liftE (lib ''scheme'' (ka_AddToScheme K ''apis.kcp.io/v1alpha1''))) (\<lambda>_.
     checkE ''failed to create service reader'' (liftE (lib ''client'' (ka_NewClient K initialRestConfig))) (\<lambda>_.
     checkE ''failed to resolve APIExportEndpointSlice''
       (resolveAPIExportEndpointSlice K initialRestConfig endpointSliceRef) (\<lambda>endpointSlice.
     let endpointSlice = endpointSlice\<lparr>qc_Config := Some initialRestConfig\<rparr> in
     checkE ''failed to re-target the given kubeconfig to cluster''
       (liftE (retargetRestConfig initialRestConfig (ees_APIExportPath (qs_EndpointSlice endpointSlice)))) (\<lambda>restConfig.
     checkE ''failed to create service reader'' (liftE (lib ''client'' (ka_NewClient K restConfig))) (\<lambda>_.
     checkE ''failed to resolve APIExport''
       (resolveAPIExport K restConfig (ees_APIExportName (qs_EndpointSlice endpointSlice))) (\<lambda>apiExport.
     let apiExport = apiExport\<lparr>qc_Config := Some restConfig\<rparr> in
     ok \<lparr> se_APIExport = apiExport, se_EndpointSlice = endpointSlice \<rparr>)))))))"

text \<open>The two connections; each cache is restricted to the one object of its kind that is needed.\<close>

definition kcpConnection :: "'s kcpApi \<Rightarrow> restConfig option \<Rightarrow> string \<Rightarrow> string \<Rightarrow> kcpCluster result" where
  "kcpConnection K cfg kind name =
     bindR (wrapErr ''failed to register scheme apis.kcp.io/v1alpha1''
              (lib ''scheme'' (ka_AddToScheme K ''apis.kcp.io/v1alpha1''))) (\<lambda>_.
     bindR (wrapErr ''failed to register scheme core.kcp.io/v1alpha1''
              (lib ''scheme'' (ka_AddToScheme K ''core.kcp.io/v1alpha1''))) (\<lambda>_.
     let conn = \<lparr> kc_Config = cfg, kc_Schemes = [''apis.kcp.io/v1alpha1'', ''core.kcp.io/v1alpha1''],
                  kc_ByObject = [(kind, [(''metadata.name'', name)])] \<rparr>
     in bindR (lib ''cluster'' (ka_NewCluster K conn)) (\<lambda>_. Inr conn)))"

definition setupEndpointKcpCluster :: "'s kcpApi \<Rightarrow> qualifiedAPIExportEndpointSlice \<Rightarrow> kcpCluster result" where
  "setupEndpointKcpCluster K endpointSlice =
     kcpConnection K (qc_Config endpointSlice) ''APIExportEndpointSlice'' (ees_Name (qs_EndpointSlice endpointSlice))"

definition setupManagedKcpCluster :: "'s kcpApi \<Rightarrow> qualifiedAPIExport \<Rightarrow> kcpCluster result" where
  "setupManagedKcpCluster K apiExport =
     kcpConnection K (qc_Config apiExport) ''APIExport'' (ae_Name (qe_APIExport apiExport))"

lemma kcpRead_Inr: "kcpRead f s = (Inr x, s') \<longleftrightarrow> f s = (Inr x, s')"
  by (auto simp: kcpRead_def api_def split: prod.splits sum.splits)

lemma resolveCurrentCluster_Inr:
  "resolveCurrentCluster K conn s = (Inr x, s') \<Longrightarrow>
     \<exists>lc. ka_GetLogicalCluster K conn IdentityClusterName s = (Inr lc, s') \<and> fst x = ka_From K lc"
  by (auto simp: resolveCurrentCluster_def checkE_eq_Inr kcpRead_Inr go_eval)

lemma resolveAPIExportEndpointSlice_Inr:
  assumes "resolveAPIExportEndpointSlice K conn ref s = (Inr x, s')"
  shows "\<exists>s1 lc. ka_GetEndpointSlice K conn ref s = (Inr (qs_EndpointSlice x), s1) \<and>
    ka_GetLogicalCluster K conn IdentityClusterName s1 = (Inr lc, s') \<and> qc_Cluster x = ka_From K lc"
  using assms
  by (auto simp: resolveAPIExportEndpointSlice_def checkE_eq_Inr kcpRead_Inr go_eval
        dest!: resolveCurrentCluster_Inr)

lemma resolveAPIExport_Inr:
  assumes "resolveAPIExport K conn ref s = (Inr x, s')"
  shows "\<exists>s1 lc. ka_GetAPIExport K conn ref s = (Inr (qe_APIExport x), s1) \<and>
    ka_GetLogicalCluster K conn IdentityClusterName s1 = (Inr lc, s') \<and> qc_Cluster x = ka_From K lc"
  using assms
  by (auto simp: resolveAPIExport_def checkE_eq_Inr kcpRead_Inr go_eval dest!: resolveCurrentCluster_Inr)

lemma resolveSyncEndpoint_Inr:
  assumes "resolveSyncEndpoint K cfg ref s = (Inr se, s')"
  shows "\<exists>slice cfg' export s2. resolveAPIExportEndpointSlice K cfg ref s = (Inr slice, s2) \<and>
    retargetRestConfig cfg (ees_APIExportPath (qs_EndpointSlice slice)) = Inr cfg' \<and>
    resolveAPIExport K cfg' (ees_APIExportName (qs_EndpointSlice slice)) s2 = (Inr export, s') \<and>
    se = \<lparr> se_APIExport = export\<lparr>qc_Config := Some cfg'\<rparr>, se_EndpointSlice = slice\<lparr>qc_Config := Some cfg\<rparr> \<rparr>"
  using assms by (auto simp: resolveSyncEndpoint_def addScheme_def checkE_eq_Inr go_eval Let_def)

lemma retarget_workspace:
  assumes "retargetRestConfig cfg d = Inr cfg'" "segment d" "CHR ''$'' \<notin> set d"
  shows "FindAllStringSubmatch (cfg_Host cfg') = [d]" "cfg'\<lparr>cfg_Host := cfg_Host cfg\<rparr> = cfg"
proof -
  have ne: "d \<noteq> []" using assms(2) by (simp add: segment_def)
  then obtain p n r where p: "pointsTo (cfg_Host cfg) p n r" using retarget_Inr_pointsTo assms(1) by blast
  with assms(1) retarget_eq [OF p ne assms(3)] have "cfg' = cfg\<lparr>cfg_Host := p @ ''/clusters/'' @ d @ r\<rparr>" by simp
  with pointsTo_FindAll [OF pointsTo_replaced [OF p assms(2)]]
  show "FindAllStringSubmatch (cfg_Host cfg') = [d]" "cfg'\<lparr>cfg_Host := cfg_Host cfg\<rparr> = cfg" by simp_all
qed

text \<open>
  C16. The endpoint that is resolved belongs together. The slice is the one of the given name, read with
  the given configuration; the export is the one the slice refers to, read with a configuration
  that differs at most in the workspace of the URL, which is the workspace the slice refers to, or
  the one of the slice if it refers to none. The logical clusters are those read over the same two connections.
\<close>

theorem resolveSyncEndpoint_consistent:
  assumes "resolveSyncEndpoint K cfg ref s = (Inr se, s')"
  shows "\<exists>s1 s2 s3 slice export cfg' lc lc'.
    ka_GetEndpointSlice K cfg ref s = (Inr slice, s1) \<and>
    ka_GetLogicalCluster K cfg IdentityClusterName s1 = (Inr lc, s2) \<and>
    retargetRestConfig cfg (ees_APIExportPath slice) = Inr cfg' \<and>
    ka_GetAPIExport K cfg' (ees_APIExportName slice) s2 = (Inr export, s3) \<and>
    ka_GetLogicalCluster K cfg' IdentityClusterName s3 = (Inr lc', s') \<and>
    qs_EndpointSlice (se_EndpointSlice se) = slice \<and> qe_APIExport (se_APIExport se) = export \<and>
    qc_Config (se_EndpointSlice se) = Some cfg \<and> qc_Config (se_APIExport se) = Some cfg' \<and>
    qc_Cluster (se_EndpointSlice se) = ka_From K lc \<and> qc_Cluster (se_APIExport se) = ka_From K lc' \<and>
    (ees_APIExportPath slice = [] \<longrightarrow> cfg' = cfg) \<and>
    (segment (ees_APIExportPath slice) \<and> CHR ''$'' \<notin> set (ees_APIExportPath slice) \<longrightarrow>
       FindAllStringSubmatch (cfg_Host cfg') = [ees_APIExportPath slice] \<and>
       cfg'\<lparr>cfg_Host := cfg_Host cfg\<rparr> = cfg)"
proof -
  obtain slice cfg' export s2 where
    slice: "resolveAPIExportEndpointSlice K cfg ref s = (Inr slice, s2)" and
    cfg': "retargetRestConfig cfg (ees_APIExportPath (qs_EndpointSlice slice)) = Inr cfg'" and
    export: "resolveAPIExport K cfg' (ees_APIExportName (qs_EndpointSlice slice)) s2 = (Inr export, s')" and
    se: "se = \<lparr> se_APIExport = export\<lparr>qc_Config := Some cfg'\<rparr>, se_EndpointSlice = slice\<lparr>qc_Config := Some cfg\<rparr> \<rparr>"
    using resolveSyncEndpoint_Inr [OF assms] by blast
  obtain s1 lc where lc: "ka_GetEndpointSlice K cfg ref s = (Inr (qs_EndpointSlice slice), s1)"
      "ka_GetLogicalCluster K cfg IdentityClusterName s1 = (Inr lc, s2)" "qc_Cluster slice = ka_From K lc"
    using resolveAPIExportEndpointSlice_Inr [OF slice] by blast
  obtain s3 lc' where lc':
      "ka_GetAPIExport K cfg' (ees_APIExportName (qs_EndpointSlice slice)) s2 = (Inr (qe_APIExport export), s3)"
      "ka_GetLogicalCluster K cfg' IdentityClusterName s3 = (Inr lc', s')" "qc_Cluster export = ka_From K lc'"
    using resolveAPIExport_Inr [OF export] by blast
  have no_retarget: "ees_APIExportPath (qs_EndpointSlice slice) = [] \<Longrightarrow> cfg' = cfg"
    using cfg' by (simp add: retargetRestConfig_def)
  show ?thesis
    by (rule exI [of _ s1], rule exI [of _ s2], rule exI [of _ s3], rule exI [of _ "qs_EndpointSlice slice"],
        rule exI [of _ "qe_APIExport export"], rule exI [of _ cfg'], rule exI [of _ lc], rule exI [of _ lc'])
       (intro conjI impI; (simp add: cfg' lc lc' se retarget_workspace(1) [OF cfg'] | elim conjE retarget_workspace(2) [OF cfg'] | rule no_retarget))
qed

definition exampleKcp :: "unit kcpApi" where
  "exampleKcp = \<lparr> ka_AddToScheme = (\<lambda>_. Inr ()), ka_NewClient = (\<lambda>_. Inr ()),
     ka_GetEndpointSlice = (\<lambda>cfg n s. (Inr \<lparr> ees_Name = n, ees_APIExportPath = ''root:other'',
        ees_APIExportName = ''exp'' \<rparr>, s)),
     ka_GetAPIExport = (\<lambda>cfg n s. (Inr (emptyExport\<lparr>ae_Name := n\<rparr>), s)),
     ka_GetLogicalCluster = (\<lambda>cfg n s. (Inr \<lparr> lc_Annotations =
        Some (fmupd ''cluster'' (Join (FindAllStringSubmatch (cfg_Host cfg)) '','') fmempty) \<rparr>, s)),
     ka_From = (\<lambda>lc. mapGet (orEmpty (lc_Annotations lc)) ''cluster''), ka_PathAnnotation = ''path'',
     ka_NewCluster = (\<lambda>_. Inr ()) \<rparr>"

definition otherConfig :: restConfig where
  "otherConfig = exampleConfig\<lparr>cfg_Host := ''https://kcp/clusters/root:other''\<rparr>"

lemma exampleRetarget: "retargetRestConfig exampleConfig ''root:other'' = Inr otherConfig"
  using retarget_eq [OF exampleConfig_points, of "''root:other''"] by (simp add: otherConfig_def)

lemma exampleHosts:
  "FindAllStringSubmatch (cfg_Host exampleConfig) = [''root:org'']"
  "FindAllStringSubmatch (cfg_Host otherConfig) = [''root:other'']"
  using pointsTo_FindAll [OF exampleConfig_points]
    pointsTo_FindAll [OF pointsTo_replaced [OF exampleConfig_points, of "''root:other''"]]
  by (simp_all add: otherConfig_def segment_def)

definition exampleEndpoint :: syncEndpoint where
  "exampleEndpoint = \<lparr>
     se_APIExport = \<lparr> qc_Cluster = ''root:other'', qc_Path = [], qc_Config = Some otherConfig,
       qe_APIExport = emptyExport\<lparr>ae_Name := ''exp''\<rparr> \<rparr>,
     se_EndpointSlice = \<lparr> qc_Cluster = ''root:org'', qc_Path = [], qc_Config = Some exampleConfig,
       qs_EndpointSlice = \<lparr> ees_Name = ''example'', ees_APIExportPath = ''root:other'',
         ees_APIExportName = ''exp'' \<rparr> \<rparr> \<rparr>"

lemma exampleKcp_resolves:
  "resolveSyncEndpoint exampleKcp exampleConfig ''example'' () = (Inr exampleEndpoint, ())"
  by (simp add: resolveSyncEndpoint_def resolveAPIExportEndpointSlice_def resolveAPIExport_def
        resolveCurrentCluster_def addScheme_def exampleKcp_def kcpRead_def api_def go_simps lib_def
        exampleRetarget exampleHosts exampleEndpoint_def Let_def)

theorem resolveSyncEndpoint_consistent_witness:
  "\<exists>cfg'. qc_Config (se_APIExport exampleEndpoint) = Some cfg' \<and>
     FindAllStringSubmatch (cfg_Host cfg') = [''root:other'']"
  using resolveSyncEndpoint_consistent [OF exampleKcp_resolves] by (auto simp: exampleEndpoint_def exampleHosts)

end
