(* ===== verification/Object_Syncer.thy ===== *)
theory Object_Syncer
  imports Projection
begin

text \<open>
  The syncer for one object (\<open>sync/object_syncer.go\<close>). Every handler is written with the requests in
  the order the code sends them. A \<open>syncSide\<close> gives the client and cluster of a side; the object of
  the side is a separate argument, an \<open>unstructured option\<close> where the code tests it against nil.
  Where the code changes an object in place and a later step reads it, the changed object is part of
  the result.
\<close>

datatype syncSideType = syncSideSource | syncSideDestination

record objectSyncer =
  sy_agentName :: string
  sy_destCreator :: "unstructured \<Rightarrow> unstructured result"
  sy_subresources :: "string list"
  sy_syncStatusBack :: bool
  sy_syncStatusForward :: bool
  sy_blockSourceDeletion :: bool
  sy_metadataOnDestination :: bool
  sy_destLabels :: labels
  sy_destAnnotations :: labels
  sy_mutator :: "mutator option"
  sy_stateStore :: kubernetesBackend
  sy_eventObjSide :: syncSideType
  sy_forceDelete :: bool
  sy_deletionPropagationPolicy :: deletionPropagation
  sy_useServerSideApply :: bool

section \<open>Helpers\<close>

text \<open>A context without a recorder makes the event call panic: the recorder is a nil interface.\<close>

definition recordEvent ::
    "syncContext \<Rightarrow> objectSyncer \<Rightarrow> unstructured option \<Rightarrow> unstructured option \<Rightarrow> string \<Rightarrow> string \<Rightarrow>
     ('s, unit) prog" where
  "recordEvent ctx s src dst eventtype reason =
     (if recorderFromContext ctx
      then event (case sy_eventObjSide s of syncSideDestination \<Rightarrow> dst | syncSideSource \<Rightarrow> src)
             eventtype reason
      else fail (Panic ''nil event recorder''))"

definition removeSubresources :: "objectSyncer \<Rightarrow> unstructured \<Rightarrow> unstructured" where
  "removeSubresources s obj = removeFields (sy_subresources s) obj"

definition createMergePatch :: "'s env \<Rightarrow> objectSyncer \<Rightarrow> unstructured \<Rightarrow> unstructured \<Rightarrow> string result" where
  "createMergePatch E s base revision =
     bindR (wrapErr ''failed to marshal base''
              (lib ''marshal'' (marshalJSON E (removeSubresources s base)))) (\<lambda>baseJSON.
     bindR (wrapErr ''failed to marshal revision''
              (lib ''marshal'' (marshalJSON E (removeSubresources s revision)))) (\<lambda>revisionJSON.
     lib ''jsonpatch'' (createMergePatchLib E baseJSON revisionJSON)))"

definition isIrrelevantTopLevelField :: "objectSyncer \<Rightarrow> string \<Rightarrow> bool" where
  "isIrrelevantTopLevelField s fieldName \<longleftrightarrow>
     fieldName = ''kind'' \<or> fieldName = ''apiVersion'' \<or> fieldName = ''metadata'' \<or>
     fieldName \<in> set (sy_subresources s)"

definition labelWithAgent :: "objectSyncer \<Rightarrow> unstructured \<Rightarrow> unstructured" where
  "labelWithAgent s obj =
     (if sy_agentName s \<noteq> [] then ensureLabels obj (fmupd agentNameLabel (sy_agentName s) fmempty) else obj)"

definition ensureDestMetadata :: "objectSyncer \<Rightarrow> unstructured \<Rightarrow> unstructured" where
  "ensureDestMetadata s obj =
     (let obj = (if sy_destLabels s \<noteq> fmempty then ensureLabels obj (sy_destLabels s) else obj)
      in if sy_destAnnotations s \<noteq> fmempty then ensureAnnotations obj (sy_destAnnotations s) else obj)"

definition fieldManager :: "objectSyncer \<Rightarrow> string" where
  "fieldManager s =
     (if sy_agentName s = [] then ''api-syncagent'' else ''api-syncagent/'' @ sy_agentName s)"

definition contentGet :: "unstructured \<Rightarrow> string \<Rightarrow> json" where
  "contentGet obj k = (case fmlookup (oContent obj) k of None \<Rightarrow> JNull | Some v \<Rightarrow> v)"

definition contentSet :: "unstructured \<Rightarrow> string \<Rightarrow> json \<Rightarrow> unstructured" where
  "contentSet obj k v = obj\<lparr>oContent := fmupd k v (oContent obj)\<rparr>"

definition keyOf :: "unstructured \<Rightarrow> nsname" where
  "keyOf obj = \<lparr> nn_Namespace = oNamespace obj, nn_Name = oName obj \<rparr>"

section \<open>Deletion\<close>

definition handleDeletion ::
    "'s env \<Rightarrow> syncContext \<Rightarrow> objectSyncer \<Rightarrow> syncSide \<Rightarrow> unstructured \<Rightarrow> syncSide \<Rightarrow> unstructured option \<Rightarrow>
     ('s, bool \<times> unstructured) prog" where
  "handleDeletion E ctx s source src dest dst =
     (if \<not> sy_blockSourceDeletion s then ok (False, src)
      else case dst of
        Some d \<Rightarrow>
          bindE (if oDeletionTimestamp d = None
                 then bindE (recordEvent ctx s (Some src) (Some d) ''Normal'' ''ObjectCleanup'') (\<lambda>_.
                      checkE ''failed to delete destination object''
                        (cDelete E (client dest) d
                           (normalizeDeletionPropagationPolicy (sy_deletionPropagationPolicy s))) ok)
                 else ok ()) (\<lambda>_.
          ok (True, src))
      | None \<Rightarrow>
          checkE ''failed to remove cleanup finalizer from source object''
            (removeFinalizer E (client source) src) (\<lambda>(updated, src').
          bindE (if updated then recordEvent ctx s (Some src') None ''Normal'' ''ObjectDeleted'' else ok ())
            (\<lambda>_. ok (updated, src'))))"

section \<open>Mutation\<close>

definition applyMutations ::
    "'s env \<Rightarrow> objectSyncer \<Rightarrow> unstructured \<Rightarrow> unstructured option \<Rightarrow>
     (unstructured \<times> unstructured option) result" where
  "applyMutations E s src dst =
     (case sy_mutator s of
        None \<Rightarrow> Inr (src, dst)
      | Some m \<Rightarrow>
          bindR (case dst of
                   Some d \<Rightarrow> Inr d
                 | None \<Rightarrow> wrapErr ''failed to create destination object'' (sy_destCreator s src)) (\<lambda>destObject.
          bindR (wrapErr ''failed to apply spec mutation rules''
                   (MutateSpec E (Some m) src (Some destObject))) (\<lambda>sourceObj.
          case dst of
            None \<Rightarrow> Inr (sourceObj, None)
          | Some d \<Rightarrow>
              bindR (wrapErr ''failed to apply status mutation rules''
                       (MutateStatus E (Some m) d (Some sourceObj))) (\<lambda>destObj.
              Inr (sourceObj, Some destObj)))))"

section \<open>Creating the destination object\<close>

definition ensureNamespace :: "'s env \<Rightarrow> client \<Rightarrow> string \<Rightarrow> ('s, unit) prog" where
  "ensureNamespace E c namespace =
     (if namespace = [] then ok ()
      else
        let create = attempt (cCreateNamespace E c namespace) (\<lambda>r.
              case r of
                Inl e \<Rightarrow> if IsAlreadyExists e then ok () else fail (Wrapped ''failed to create'' e)
              | Inr _ \<Rightarrow> ok ())
        in attempt (cGetNamespace E c namespace) (\<lambda>r.
             case r of
               Inl e \<Rightarrow> if IsNotFound e then create else fail (Wrapped ''failed to check'' e)
             | Inr ns \<Rightarrow> if ns_Name ns = [] then create else ok ()))"

definition adoptExistingDestinationObject ::
    "'s env \<Rightarrow> objectSyncer \<Rightarrow> syncSide \<Rightarrow> unstructured \<Rightarrow> objectKey \<Rightarrow> ('s, unstructured) prog" where
  "adoptExistingDestinationObject E s dest existingDestObj key =
     (if oDeletionTimestamp existingDestObj \<noteq> None then ok existingDestObj
      else
        checkE ''failed to get current destination object''
          (cGet E (client dest) (oAPIVersion existingDestObj) (oKind existingDestObj)
             (keyOf existingDestObj)) (\<lambda>existing.
        let existing = ensureLabels existing (objectKey_Labels E key);
            existing = ensureAnnotations existing (objectKey_Annotations key);
            existing = labelWithAgent s existing;
            existing = ensureDestMetadata s existing
        in checkE ''failed to upsert current destination object labels''
             (cUpdate E (client dest) existing) ok))"

text \<open>The metadata both creation paths put on a stripped destination object.\<close>

definition stampDestination :: "'s env \<Rightarrow> objectSyncer \<Rightarrow> objectKey \<Rightarrow> unstructured \<Rightarrow> unstructured" where
  "stampDestination E s key obj =
     (let obj = (if sy_metadataOnDestination s
                 then labelWithAgent s (ensureAnnotations (ensureLabels obj (objectKey_Labels E key))
                        (objectKey_Annotations key))
                 else obj)
      in ensureDestMetadata s obj)"

definition ensureDestinationObject ::
    "'s env \<Rightarrow> syncContext \<Rightarrow> objectSyncer \<Rightarrow> syncSide \<Rightarrow> unstructured \<Rightarrow> syncSide \<Rightarrow> ('s, unit) prog" where
  "ensureDestinationObject E ctx s source src dest =
     checkE ''failed to create destination object'' (liftE (sy_destCreator s src)) (\<lambda>destObj.
     checkE ''failed to ensure destination namespace''
       (ensureNamespace E (client dest) (oNamespace destObj)) (\<lambda>_.
     let key = newObjectKey src (clusterName source) (workspacePath source);
         destObj = stampDestination E s key (stripMetadata destObj)
     in bindE (attempt (cCreate E (client dest) destObj) (\<lambda>r.
          case r of
            Inr created \<Rightarrow> ok created
          | Inl e \<Rightarrow>
              if \<not> IsAlreadyExists e then fail (Wrapped ''failed to create destination object'' e)
              else checkE ''failed to adopt destination object''
                     (adoptExistingDestinationObject E s dest destObj key) ok)) (\<lambda>placed.
        bindE (recordEvent ctx s (Some src) (Some placed) ''Normal'' ''ObjectPlaced'') (\<lambda>_.
        checkE ''failed to update sync state''
          (store_Put E (sy_stateStore s) src (clusterName source) (sy_subresources s)) ok))))"

definition applyServerSide ::
    "'s env \<Rightarrow> syncContext \<Rightarrow> objectSyncer \<Rightarrow> syncSide \<Rightarrow> unstructured \<Rightarrow> syncSide \<Rightarrow> unstructured option \<Rightarrow>
     ('s, unstructured option) prog" where
  "applyServerSide E ctx s source src dest dst =
     checkE ''failed to create destination object'' (liftE (sy_destCreator s src)) (\<lambda>desired.
     checkE ''failed to ensure destination namespace''
       (ensureNamespace E (client dest) (oNamespace desired)) (\<lambda>_.
     let key = newObjectKey src (clusterName source) (workspacePath source);
         desired = removeSubresources s (stampDestination E s key (stripMetadata desired));
         inDeletion = (case dst of None \<Rightarrow> False | Some d \<Rightarrow> oDeletionTimestamp d \<noteq> None)
     in if inDeletion then ok dst
        else
          checkE ''failed to server-side apply destination object''
            (cApply E (client dest) desired (fieldManager s)) (\<lambda>applied.
          bindE (if dst = None then recordEvent ctx s (Some src) (Some applied) ''Normal'' ''ObjectPlaced''
                 else ok ()) (\<lambda>_.
          ok (Some applied)))))"

section \<open>Keeping the destination in sync\<close>

definition ensureDestMetadataPersisted ::
    "'s env \<Rightarrow> objectSyncer \<Rightarrow> syncSide \<Rightarrow> unstructured \<Rightarrow> ('s, bool \<times> unstructured) prog" where
  "ensureDestMetadataPersisted E s dest dst =
     (if sy_destLabels s = fmempty \<and> sy_destAnnotations s = fmempty then ok (False, dst)
      else
        let stamped = ensureDestMetadata s dst in
        if semanticEqualLabels E (oLabels dst) (oLabels stamped) \<and>
           semanticEqualLabels E (oAnnotations dst) (oAnnotations stamped)
        then ok (False, stamped)
        else checkE ''failed to restamp destination metadata''
               (cPatch E (client dest) stamped (MergeFrom dst)) (\<lambda>res. ok (True, res)))"

text \<open>The tail of \<open>syncObjectSpec\<close> once the destination was written.\<close>

definition rememberSync ::
    "'s env \<Rightarrow> syncContext \<Rightarrow> objectSyncer \<Rightarrow> syncSide \<Rightarrow> unstructured \<Rightarrow> unstructured \<Rightarrow> unstructured \<Rightarrow>
     ('s, bool \<times> unstructured) prog" where
  "rememberSync E ctx s source src sourceObjCopy dst =
     bindE (recordEvent ctx s (Some src) (Some dst) ''Normal'' ''ObjectSynced'') (\<lambda>_.
     checkE ''failed to update sync state''
       (store_Put E (sy_stateStore s) sourceObjCopy (clusterName source) (sy_subresources s)) (\<lambda>_.
     ok (True, dst)))"

definition fullUpdate :: "objectSyncer \<Rightarrow> unstructured \<Rightarrow> unstructured \<Rightarrow> unstructured \<Rightarrow> unstructured" where
  "fullUpdate s src sourceObjCopy dst =
     (let dst = dst\<lparr>oContent := oContent dst ++\<^sub>f
            fmfilter (\<lambda>k. \<not> isIrrelevantTopLevelField s k) (oContent src)\<rparr>;
          dst = ensureLabels dst (filterUnsyncableLabels (orEmpty (oLabels sourceObjCopy)))
      in ensureAnnotations dst (filterUnsyncableAnnotations (orEmpty (oAnnotations sourceObjCopy))))"

definition syncObjectSpec ::
    "'s env \<Rightarrow> syncContext \<Rightarrow> objectSyncer \<Rightarrow> syncSide \<Rightarrow> unstructured \<Rightarrow> syncSide \<Rightarrow> unstructured \<Rightarrow>
     ('s, bool \<times> unstructured) prog" where
  "syncObjectSpec E ctx s source src dest dst =
     checkE ''failed to determine last known state''
       (store_Get E (sy_stateStore s) src (clusterName source)) (\<lambda>lastKnownSourceState.
     let sourceObjCopy = stripMetadata src in
     case lastKnownSourceState of
       Some lastKnown \<Rightarrow>
         let lastKnown = lastKnown\<lparr>oAPIVersion := oAPIVersion sourceObjCopy, oKind := oKind sourceObjCopy\<rparr>;
             key = newObjectKey src (clusterName source) (workspacePath source);
             sourceObjCopy =
               (if sy_metadataOnDestination s
                then threeWayDiffMetadata sourceObjCopy dst (objectKey_Labels E key) (objectKey_Annotations key)
                else sourceObjCopy)
         in checkE ''failed to calculate patch''
              (liftE (createMergePatch E s lastKnown sourceObjCopy)) (\<lambda>rawPatch.
            if rawPatch \<noteq> ''{}''
            then checkE ''failed to patch destination object''
                   (cPatch E (client dest) dst (RawPatch rawPatch)) (\<lambda>dst'.
                 rememberSync E ctx s source src sourceObjCopy dst')
            else ok (False, dst))
     | None \<Rightarrow>
         checkE ''failed to update destination object''
           (cUpdate E (client dest) (fullUpdate s src sourceObjCopy dst)) (\<lambda>dst'.
         rememberSync E ctx s source src sourceObjCopy dst'))"

definition syncObjectStatus ::
    "'s env \<Rightarrow> syncContext \<Rightarrow> objectSyncer \<Rightarrow> syncSide \<Rightarrow> unstructured \<Rightarrow> unstructured \<Rightarrow>
     ('s, bool \<times> unstructured) prog" where
  "syncObjectStatus E ctx s source src dst =
     (if \<not> sy_syncStatusBack s then ok (False, src)
      else if \<not> semanticEqualJSON E (contentGet src ''status'') (contentGet dst ''status'')
      then
        checkE ''failed to update source object status''
          (cStatusUpdate E (client source) (contentSet src ''status'' (contentGet dst ''status''))) (\<lambda>src'.
        bindE (recordEvent ctx s (Some src') (Some dst) ''Normal'' ''ObjectStatusSynced'') (\<lambda>_.
        ok (False, src')))
      else ok (False, src))"

definition syncObjectStatusForward ::
    "'s env \<Rightarrow> syncContext \<Rightarrow> objectSyncer \<Rightarrow> unstructured \<Rightarrow> syncSide \<Rightarrow> unstructured \<Rightarrow>
     ('s, unstructured) prog" where
  "syncObjectStatusForward E ctx s src dest dst =
     (if \<not> sy_syncStatusForward s then ok dst
      else if \<not> semanticEqualJSON E (contentGet src ''status'') (contentGet dst ''status'')
      then
        let dst = contentSet dst ''status'' (contentGet src ''status'') in
        attempt (cStatusUpdate E (client dest) dst) (\<lambda>r.
          case r of
            Inr dst' \<Rightarrow> ok dst'
          | Inl e \<Rightarrow>
              if IsNotFound e
              then bindE (recordEvent ctx s (Some src) (Some dst) ''Warning'' ''StatusSubresourceMissing'')
                     (\<lambda>_. ok dst)
              else fail (Wrapped ''failed to update destination object status'' e))
      else ok dst)"

definition syncObjectContents ::
    "'s env \<Rightarrow> syncContext \<Rightarrow> objectSyncer \<Rightarrow> syncSide \<Rightarrow> unstructured \<Rightarrow> syncSide \<Rightarrow> unstructured \<Rightarrow>
     ('s, bool \<times> unstructured \<times> unstructured) prog" where
  "syncObjectContents E ctx s source src dest dst =
     bindE (syncObjectSpec E ctx s source src dest dst) (\<lambda>(requeue, dst').
     bindE (syncObjectStatusForward E ctx s src dest dst') (\<lambda>dst''.
     if requeue then ok (True, src, dst'')
     else bindE (syncObjectStatus E ctx s source src dst'') (\<lambda>(requeue', src').
          ok (requeue', src', dst''))))"

section \<open>The entry point\<close>

text \<open>
  \<open>Sync\<close> returns whether to requeue and the two objects as its caller sees them afterwards: with a
  mutator in place the later steps work on copies, so the caller's objects keep their values.
\<close>

definition visible :: "objectSyncer \<Rightarrow> 'a \<Rightarrow> 'a \<Rightarrow> 'a" where
  "visible s original current = (if sy_mutator s = None then current else original)"

definition Sync ::
    "'s env \<Rightarrow> syncContext \<Rightarrow> objectSyncer \<Rightarrow> syncSide \<Rightarrow> unstructured \<Rightarrow> syncSide \<Rightarrow> unstructured option \<Rightarrow>
     ('s, bool \<times> unstructured \<times> unstructured option) prog" where
  "Sync E ctx s source src dest dst =
     (if oDeletionTimestamp src \<noteq> None \<or> sy_forceDelete s
      then bindE (handleDeletion E ctx s source src dest dst) (\<lambda>(requeue, src').
           ok (requeue, src', dst))
      else
        checkE ''failed to add cleanup finalizer to source object''
          (if sy_blockSourceDeletion s then ensureFinalizer E (client source) src else ok (False, src))
          (\<lambda>(updated, src').
        if updated
        then bindE (recordEvent ctx s (Some src') dst ''Normal'' ''ObjectAccepted'') (\<lambda>_.
             ok (True, src', dst))
        else
          checkE ''failed to apply mutations'' (liftE (applyMutations E s src dst)) (\<lambda>(msrc, mdst).
          if sy_useServerSideApply s
          then
            checkE ''failed to apply destination object''
              (applyServerSide E ctx s source msrc dest mdst) (\<lambda>newDst.
            case newDst of
              None \<Rightarrow> ok (False, src, dst)
            | Some d \<Rightarrow>
                if oDeletionTimestamp d \<noteq> None then ok (False, src, dst)
                else bindE (syncObjectStatus E ctx s source msrc d) (\<lambda>(requeue, msrc').
                     ok (requeue, visible s src msrc', dst)))
          else
            case mdst of
              None \<Rightarrow>
                checkE ''failed to create destination object''
                  (ensureDestinationObject E ctx s source msrc dest) (\<lambda>_.
                ok (True, src, dst))
            | Some d \<Rightarrow>
                if oDeletionTimestamp d \<noteq> None then ok (False, src, dst)
                else
                  checkE ''failed to ensure destination metadata''
                    (ensureDestMetadataPersisted E s dest d) (\<lambda>(restamped, d').
                  if restamped then ok (True, src, visible s dst (Some d'))
                  else
                    checkE ''failed to synchronize object state''
                      (syncObjectContents E ctx s source msrc dest d') (\<lambda>(requeue, msrc', d'').
                    ok (requeue, visible s src msrc', visible s dst (Some d'')))))))"

section \<open>What a syncer may request\<close>

text \<open>
  The writes one \<open>Sync\<close> may send, given the syncer's settings, whether it is to delete the copy, the
  clients of its two sides and the client of its state store. On the source side: changes to the finalizers if the syncer blocks
  deletion, and the status if it syncs back. On the destination side: deletion under the normalised
  policy, and either server-side applies or the client-side writes, never both. The state Secret is
  only written in client-side mode.
\<close>

definition finalizerPatch :: "unstructured \<Rightarrow> patch \<Rightarrow> bool" where
  "finalizerPatch obj p \<longleftrightarrow>
     (case p of MergeFrom old \<Rightarrow> obj = old\<lparr>oFinalizers := oFinalizers obj\<rparr> | RawPatch _ \<Rightarrow> False)"

fun syncAllowed :: "objectSyncer \<Rightarrow> bool \<Rightarrow> client \<Rightarrow> client \<Rightarrow> call \<Rightarrow> bool" where
  "syncAllowed s del sc dc (CPatch c obj p) =
     (c = baseTarget sc \<and> sy_blockSourceDeletion s \<and> finalizerPatch obj p \<or>
      c = baseTarget dc \<and> \<not> sy_useServerSideApply s)"
| "syncAllowed s del sc dc (CStatusUpdate c obj) =
     (c = baseTarget sc \<and> sy_syncStatusBack s \<or>
      c = baseTarget dc \<and> sy_syncStatusForward s \<and> \<not> sy_useServerSideApply s)"
| "syncAllowed s del sc dc (CDelete c obj pol) =
     (del \<and> c = baseTarget dc \<and> sy_blockSourceDeletion s \<and>
      pol = normalizeDeletionPropagationPolicy (sy_deletionPropagationPolicy s))"
| "syncAllowed s del sc dc (CCreate c obj) = (c = baseTarget dc \<and> \<not> sy_useServerSideApply s)"
| "syncAllowed s del sc dc (CUpdate c obj) = (c = baseTarget dc \<and> \<not> sy_useServerSideApply s)"
| "syncAllowed s del sc dc (CApply c obj owner) =
     (c = baseTarget dc \<and> sy_useServerSideApply s \<and> owner = fieldManager s)"
| "syncAllowed s del sc dc (CCreateNamespace c n) = (c = baseTarget dc)"
| "syncAllowed s del sc dc (CCreateSecret c sec) =
     (c = baseTarget (client (kb_stateCluster (sy_stateStore s))) \<and> \<not> sy_useServerSideApply s)"
| "syncAllowed s del sc dc (CUpdateSecret c sec) =
     (c = baseTarget (client (kb_stateCluster (sy_stateStore s))) \<and> \<not> sy_useServerSideApply s)"
| "syncAllowed s del sc dc c = True"

interpretation sa: call_policy "syncAllowed s del sc dc" for s del sc dc
proof unfold_locales
  fix c
  assume "isRead c"
  then show "syncAllowed s del sc dc c" by (cases c) auto
qed simp

named_theorems sync_emits

lemma emits_recordEvent [sync_emits]: "emits (syncAllowed s' del sc dc) (recordEvent ctx s src dst typ reason)"
  by (auto simp: recordEvent_def intro!: emits_intros)

lemma emits_store [sync_emits]:
  "emits (syncAllowed s del sc dc) (store_Get E b obj c)"
  "\<not> sy_useServerSideApply s \<Longrightarrow> b = sy_stateStore s \<Longrightarrow> emits (syncAllowed s del sc dc) (store_Put E b obj c subs)"
  by (auto simp: store_Get_def store_Put_def backend_Get_def backend_Put_def fetchSecret_def
        cUpdateSecret_def cCreateSecret_def Let_def intro!: emits_intros sa.emits_reads)

lemma emits_finalizer [sync_emits]:
  "sy_blockSourceDeletion s \<Longrightarrow> emits (syncAllowed s del sc dc) (ensureFinalizer E sc obj)"
  "sy_blockSourceDeletion s \<Longrightarrow> emits (syncAllowed s del sc dc) (removeFinalizer E sc obj)"
  by (auto simp: ensureFinalizer_def removeFinalizer_def Let_def cPatch_def finalizerPatch_def
        intro!: emits_intros)

lemma emits_handleDeletion [sync_emits]:
  "emits (syncAllowed s True (client source) (client dest)) (handleDeletion E ctx s source src dest dst)"
  by (auto simp: handleDeletion_def cDelete_def intro!: emits_intros sync_emits)

lemma emits_ensureNamespace [sync_emits]: "emits (syncAllowed s del sc dc) (ensureNamespace E dc n)"
  by (auto simp: ensureNamespace_def cCreateNamespace_def Let_def intro!: emits_intros sa.emits_reads)

lemma emits_ensureDestinationObject [sync_emits]:
  "\<not> sy_useServerSideApply s \<Longrightarrow>
     emits (syncAllowed s del (client source) (client dest)) (ensureDestinationObject E ctx s source src dest)"
  by (auto simp: ensureDestinationObject_def adoptExistingDestinationObject_def cCreate_def cUpdate_def
        Let_def intro!: emits_intros sync_emits sa.emits_reads)

lemma emits_applyServerSide [sync_emits]:
  "sy_useServerSideApply s \<Longrightarrow>
     emits (syncAllowed s del (client source) (client dest)) (applyServerSide E ctx s source src dest dst)"
  by (auto simp: applyServerSide_def cApply_def Let_def intro!: emits_intros sync_emits split: option.split)

lemma emits_ensureDestMetadataPersisted [sync_emits]:
  "\<not> sy_useServerSideApply s \<Longrightarrow>
     emits (syncAllowed s del sc (client dest)) (ensureDestMetadataPersisted E s dest d)"
  by (auto simp: ensureDestMetadataPersisted_def cPatch_def Let_def intro!: emits_intros)

lemma emits_syncObjectStatus [sync_emits]:
  "emits (syncAllowed s del (client source) dc) (syncObjectStatus E ctx s source src d)"
  by (auto simp: syncObjectStatus_def cStatusUpdate_def intro!: emits_intros sync_emits)

lemma emits_syncObjectContents [sync_emits]:
  "\<not> sy_useServerSideApply s \<Longrightarrow>
     emits (syncAllowed s del (client source) (client dest)) (syncObjectContents E ctx s source src dest d)"
  by (auto simp: syncObjectContents_def syncObjectSpec_def syncObjectStatusForward_def rememberSync_def
        cPatch_def cUpdate_def cStatusUpdate_def Let_def intro!: emits_intros sync_emits)

definition deletes :: "objectSyncer \<Rightarrow> unstructured \<Rightarrow> bool" where
  "deletes s src \<longleftrightarrow> oDeletionTimestamp src \<noteq> None \<or> sy_forceDelete s"

lemma emits_Sync:
  "emits (syncAllowed s (deletes s src) (client source) (client dest)) (Sync E ctx s source src dest dst)"
proof (cases "deletes s src")
  case True
  then show ?thesis unfolding Sync_def deletes_def by (auto intro!: emits_intros sync_emits)
next
  case False
  then show ?thesis unfolding Sync_def deletes_def by (auto intro!: emits_intros sync_emits)
qed

text \<open>
  The write discipline of a sync. Whatever the servers answer, whether or not it fails and in
  every mode, one \<open>Sync\<close> sends to the source side nothing but changes of the finalizers (if it blocks
  deletion) and of the status (if it syncs status back), deletes only on the destination side, only if
  the source is in deletion or the syncer forces it and only under the normalised propagation policy, and never mixes server-side apply with client-side
  writes or with the state Secret.
\<close>

theorem Sync_writes:
  "list_all (syncAllowed s (deletes s src) (client source) (client dest)) (sent (Sync E ctx s source src dest dst) w)"
  by (rule emits_sent) (rule emits_Sync)

section \<open>Deletion\<close>

fun deletionCall :: "unstructured option \<Rightarrow> call \<Rightarrow> bool" where
  "deletionCall dst (CDelete c obj pol) = (dst = Some obj \<and> oDeletionTimestamp obj = None)"
| "deletionCall dst (CPatch c obj p) = (dst = None)"
| "deletionCall dst (CEvent obj typ reason) = True"
| "deletionCall dst c = False"

lemma emits_recordEvent_any:
  "(\<And>obj. P (CEvent obj typ reason)) \<Longrightarrow> emits P (recordEvent ctx s src dst typ reason)"
  by (auto simp: recordEvent_def intro!: emits_intros)

lemma emits_deletion: "emits (deletionCall dst) (handleDeletion E ctx s source src dest dst)"
  by (auto simp: handleDeletion_def removeFinalizer_def cDelete_def cPatch_def Let_def
        intro!: emits_intros emits_recordEvent_any)

lemma handleDeletion_done:
  assumes "handleDeletion E ctx s source src dest dst w = (Inr (False, src'), w')" "sy_blockSourceDeletion s"
  shows "dst = None \<and> deletionFinalizer \<notin> set (oFinalizers src)"
proof (cases dst)
  case None
  with assms show ?thesis
    by (auto simp: handleDeletion_def removeFinalizer_def Let_def go_simps
          split: prod.splits sum.splits if_splits)
next
  case (Some d)
  with assms show ?thesis by (auto simp: handleDeletion_def go_simps split: prod.splits sum.splits)
qed


text \<open>Values for concrete runs: a syncer, a side and a context.\<close>

definition exampleSyncer :: objectSyncer where
  "exampleSyncer = \<lparr> sy_agentName = ''agent'', sy_destCreator = Inr, sy_subresources = [''status''],
     sy_syncStatusBack = True, sy_syncStatusForward = False, sy_blockSourceDeletion = True,
     sy_metadataOnDestination = True, sy_destLabels = fmempty, sy_destAnnotations = fmempty,
     sy_mutator = None, sy_stateStore = memoryBackend, sy_eventObjSide = syncSideSource,
     sy_forceDelete = False, sy_deletionPropagationPolicy = DeletePropagationBackground,
     sy_useServerSideApply = False \<rparr>"

definition exampleSide :: "client \<Rightarrow> syncSide" where
  "exampleSide c = \<lparr> clusterName = ''c1'', workspacePath = [], client = c, object = None \<rparr>"

definition exampleContext :: syncContext where
  "exampleContext = \<lparr> ctx_Cluster = Some ''c1'', ctx_WorkspacePath = None, ctx_Recorder = True \<rparr>"


section \<open>An object in sync stays untouched\<close>

lemma emits_reads_store_Get: "emits isRead (store_Get E b obj c)"
  by (auto simp: store_Get_def backend_Get_def fetchSecret_def cGetSecret_def intro!: emits_intros)

lemma sent_eq: "trace (snd (m w)) = trace w @ cs \<Longrightarrow> sent m w = cs"
  by (simp add: sent_def)

text \<open>The steps of an idle pass, each with the reason it does nothing.\<close>

lemma ensureFinalizer_idle:
  "(sy_blockSourceDeletion s \<Longrightarrow> deletionFinalizer \<in> set (oFinalizers src)) \<Longrightarrow>
     (if sy_blockSourceDeletion s then ensureFinalizer E c src else ok (False, src)) = ok (False, src)"
  by (simp add: ensureFinalizer_def)

lemma ensureDestMetadataPersisted_idle:
  assumes "ensureDestMetadata s d = d" "\<And>l. semanticEqualLabels E l l"
  shows "ensureDestMetadataPersisted E s dest d = ok (False, d)"
  using assms by (simp add: ensureDestMetadataPersisted_def)

lemma createMergePatch_same:
  assumes "removeSubresources s a = removeSubresources s b" "marshalJSON E (removeSubresources s b) = Inr t"
    "createMergePatchLib E t t = Inr ''{}''"
  shows "createMergePatch E s a b = Inr ''{}''"
  using assms by (simp add: createMergePatch_def wrapErr_def)

lemma syncObjectSpec_idle:
  assumes store: "store_Get E (sy_stateStore s) src (clusterName source) w = (Inr (Some known), w')"
    and snapshot: "removeSubresources s (known\<lparr>oAPIVersion := oAPIVersion src, oKind := oKind src\<rparr>) =
        removeSubresources s (stripMetadata src)"
    and intact: "sy_metadataOnDestination s \<Longrightarrow>
        objectKey_Labels E (newObjectKey src (clusterName source) (workspacePath source)) \<subseteq>\<^sub>f orEmpty (oLabels d) \<and>
        objectKey_Annotations (newObjectKey src (clusterName source) (workspacePath source)) \<subseteq>\<^sub>f
          orEmpty (oAnnotations d)"
    and json: "marshalJSON E (removeSubresources s (stripMetadata src)) = Inr t"
      "createMergePatchLib E t t = Inr ''{}''"
  shows "syncObjectSpec E ctx s source src dest d w = (Inr (False, d), w')"
proof -
  let ?key = "newObjectKey src (clusterName source) (workspacePath source)"
  have "sy_metadataOnDestination s \<Longrightarrow>
      threeWayDiffMetadata (stripMetadata src) d (objectKey_Labels E ?key) (objectKey_Annotations ?key) =
        stripMetadata src"
    using intact by (simp add: threeWayDiffMetadata_id key_repairs)
  then have copy: "(if sy_metadataOnDestination s
      then threeWayDiffMetadata (stripMetadata src) d (objectKey_Labels E ?key) (objectKey_Annotations ?key)
      else stripMetadata src) = stripMetadata src" by simp
  show ?thesis
    using store createMergePatch_same [OF snapshot json]
    by (simp add: syncObjectSpec_def go_simps Let_def copy meta_simps)
qed

text \<open>With a known and unchanged desired state, what is left of a pass is the status.\<close>

lemma Sync_known:
  fixes E :: "'s env"
  assumes source: "oDeletionTimestamp src = None" "\<not> sy_forceDelete s"
      "sy_blockSourceDeletion s \<Longrightarrow> deletionFinalizer \<in> set (oFinalizers src)"
    and mode: "sy_mutator s = None" "\<not> sy_useServerSideApply s"
    and dest: "oDeletionTimestamp d = None" "ensureDestMetadata s d = d"
    and store: "store_Get E (sy_stateStore s) src (clusterName source) w = (Inr (Some known), w')"
    and snapshot: "removeSubresources s (known\<lparr>oAPIVersion := oAPIVersion src, oKind := oKind src\<rparr>) =
        removeSubresources s (stripMetadata src)"
    and intact: "sy_metadataOnDestination s \<Longrightarrow>
        objectKey_Labels E (newObjectKey src (clusterName source) (workspacePath source)) \<subseteq>\<^sub>f orEmpty (oLabels d) \<and>
        objectKey_Annotations (newObjectKey src (clusterName source) (workspacePath source)) \<subseteq>\<^sub>f
          orEmpty (oAnnotations d)"
    and forward: "sy_syncStatusForward s \<Longrightarrow>
        semanticEqualJSON E (contentGet src ''status'') (contentGet d ''status'')"
    and json: "marshalJSON E (removeSubresources s (stripMetadata src)) = Inr t"
      "createMergePatchLib E t t = Inr ''{}''" "\<And>l. semanticEqualLabels E l l"
    and status: "syncObjectStatus E ctx s source src d w' = (Inr (requeue, src'), w'')"
  shows "Sync E ctx s source src dest (Some d) w = (Inr (requeue, src', Some d), w'')"
proof -
  have spec: "syncObjectSpec E ctx s source src dest d w = (Inr (False, d), w')"
    by (rule syncObjectSpec_idle [OF store snapshot intact json(1,2)])
  have fin: "(if sy_blockSourceDeletion s then ensureFinalizer E (client source) src else ok (False, src)) =
      (ok (False, src) :: ('s, _) prog)"
    using source(3) by (rule ensureFinalizer_idle)
  show ?thesis
    unfolding Sync_def fin
    using source(1,2) mode dest spec forward status ensureDestMetadataPersisted_idle [OF dest(2) json(3)]
    by (simp add: go_simps applyMutations_def syncObjectContents_def syncObjectStatusForward_def visible_def)
qed


lemma fmsubset_add: "n \<subseteq>\<^sub>f m ++\<^sub>f n"
  by (auto simp: fmsubset_lookup fmlookup_dom_iff)

text \<open>A concrete object in sync.\<close>

definition syncedSource :: unstructured where
  "syncedSource = emptyObject\<lparr>oKind := ''Claim'', oName := ''db'', oFinalizers := [deletionFinalizer]\<rparr>"

definition syncedCopy :: unstructured where
  "syncedCopy = link memorySecrets (newObjectKey syncedSource ''c1'' []) (emptyObject\<lparr>oName := ''copy''\<rparr>)"

definition syncedWorld :: "secret option world" where
  "syncedWorld = memoryWorld\<lparr>server :=
     Some (secretStore memoryBackend None (sourceKey memorySecrets syncedSource ''c1'') ''Claim/db'')\<rparr>"

lemma strip_syncedSource: "stripMetadata syncedSource = emptyObject\<lparr>oKind := ''Claim'', oName := ''db''\<rparr>"
  by (simp add: syncedSource_def emptyObject_def stripMetadata_eq lf.filt_empty af.filt_empty
        setNestedMapOmitempty_def)

lemma syncedWorld_store:
  "fst (store_Get memorySecrets memoryBackend syncedSource ''c1'' syncedWorld) =
     Inr (Some (emptyObject\<lparr>oKind := ''Claim'', oName := ''db''\<rparr>))"
proof -
  have "memoryView (server syncedWorld) =
      Some (secretStore memoryBackend None (sourceKey memorySecrets syncedSource ''c1'') ''Claim/db'')"
    by (simp add: memoryView_def syncedWorld_def secretStore_fields)
       (simp add: memoryBackend_def newKubernetesBackend_def)
  then show ?thesis
    by (simp add: store_Get_view [OF storesSecrets_memory] kv.lookup_store) (simp add: memorySecrets_def)
qed


section \<open>Provenance of an existing copy\<close>

lemma ensureDestMetadata_fields [meta_simps]:
  "orEmpty (oLabels (ensureDestMetadata s obj)) = orEmpty (oLabels obj) ++\<^sub>f sy_destLabels s"
  "orEmpty (oAnnotations (ensureDestMetadata s obj)) = orEmpty (oAnnotations obj) ++\<^sub>f sy_destAnnotations s"
  "oDeletionTimestamp (ensureDestMetadata s obj) = oDeletionTimestamp obj"
  by (simp_all add: ensureDestMetadata_def Let_def meta_simps)

lemma fmempty_fmsubset [simp]: "fmempty \<subseteq>\<^sub>f m"
  by (simp add: fmsubset_lookup)

lemma fmadd_id_iff: "m ++\<^sub>f n = m \<longleftrightarrow> n \<subseteq>\<^sub>f m"
proof
  assume "m ++\<^sub>f n = m"
  then show "n \<subseteq>\<^sub>f m" by (metis fmsubset_add)
next
  assume "n \<subseteq>\<^sub>f m"
  then show "m ++\<^sub>f n = m" by (intro fmap_ext) (auto simp: fmsubset_lookup fmlookup_dom_iff)
qed

text \<open>
  Backfilling provenance. With semantic equality of maps being equality of their entries, an
  existing copy is patched if and only if it lacks one of the syncer's labels or annotations; the
  patch carries all of them and leaves every other entry alone, and a stamped copy is not patched
  again.
\<close>

theorem ensureDestMetadataPersisted_backfills:
  assumes "\<And>a b. semanticEqualLabels E a b \<longleftrightarrow> orEmpty a = orEmpty b"
  shows "sent (ensureDestMetadataPersisted E s dest d) w =
           (if sy_destLabels s \<subseteq>\<^sub>f orEmpty (oLabels d) \<and> sy_destAnnotations s \<subseteq>\<^sub>f orEmpty (oAnnotations d)
            then [] else [CPatch (baseTarget (client dest)) (ensureDestMetadata s d) (MergeFrom d)]) \<and>
         orEmpty (oLabels (ensureDestMetadata s d)) = orEmpty (oLabels d) ++\<^sub>f sy_destLabels s \<and>
         orEmpty (oAnnotations (ensureDestMetadata s d)) = orEmpty (oAnnotations d) ++\<^sub>f sy_destAnnotations s \<and>
         sent (ensureDestMetadataPersisted E s dest (ensureDestMetadata s d)) w = []"
proof -
  have same: "semanticEqualLabels E (oLabels o') (oLabels (ensureDestMetadata s o')) \<longleftrightarrow>
        sy_destLabels s \<subseteq>\<^sub>f orEmpty (oLabels o')"
      "semanticEqualLabels E (oAnnotations o') (oAnnotations (ensureDestMetadata s o')) \<longleftrightarrow>
        sy_destAnnotations s \<subseteq>\<^sub>f orEmpty (oAnnotations o')" for o'
    by (metis assms ensureDestMetadata_fields(1,2) fmadd_id_iff)+
  have req: "sent (ensureDestMetadataPersisted E s dest o') w =
      (if sy_destLabels s \<subseteq>\<^sub>f orEmpty (oLabels o') \<and> sy_destAnnotations s \<subseteq>\<^sub>f orEmpty (oAnnotations o')
       then [] else [CPatch (baseTarget (client dest)) (ensureDestMetadata s o') (MergeFrom o')])" for o'
    unfolding ensureDestMetadataPersisted_def Let_def same
    by (auto simp: sent_def go_simps cPatch_def request_def split: prod.splits sum.splits)
  show ?thesis by (simp add: req meta_simps fmsubset_add)
qed

theorem ensureDestMetadataPersisted_backfills_witness:
  "sent (ensureDestMetadataPersisted memorySecrets
           (exampleSyncer\<lparr>sy_destLabels := fmupd ''owner'' ''x'' fmempty\<rparr>) (exampleSide LocalClient) emptyObject)
     memoryWorld \<noteq> []"
proof -
  have law: "semanticEqualLabels memorySecrets a b \<longleftrightarrow> orEmpty a = orEmpty b" for a b
    by (simp add: memorySecrets_def)
  have "\<not> fmupd ''owner'' ''x'' fmempty \<subseteq>\<^sub>f orEmpty (oLabels emptyObject)"
    by (auto simp: fmsubset_lookup emptyObject_def)
  then show ?thesis
    using ensureDestMetadataPersisted_backfills [OF law, of
        "exampleSyncer\<lparr>sy_destLabels := fmupd ''owner'' ''x'' fmempty\<rparr>" "exampleSide LocalClient" emptyObject
        memoryWorld]
    by auto
qed

section \<open>Every placed object leads back to its source\<close>

fun placesLinked :: "string \<Rightarrow> clusterRequest \<Rightarrow> call \<Rightarrow> bool" where
  "placesLinked agent r (CCreate c obj) = (RemoteNameForLocalObject obj = Some r \<and> OwnedBy obj agent)"
| "placesLinked agent r (CApply c obj owner) = (RemoteNameForLocalObject obj = Some r \<and> OwnedBy obj agent)"
| "placesLinked agent r c = True"

lemma RemoteName_cong:
  "mapGet (orEmpty (oLabels a)) remoteObjectClusterLabel = mapGet (orEmpty (oLabels b)) remoteObjectClusterLabel \<Longrightarrow>
   oAnnotations a = oAnnotations b \<Longrightarrow> RemoteNameForLocalObject a = RemoteNameForLocalObject b"
  by (simp add: RemoteNameForLocalObject_def)

lemma RemoteName_stampDestination:
  assumes "cluster \<noteq> []" "oName src \<noteq> []" "sy_metadataOnDestination s"
    "sy_destLabels s = fmempty" "sy_destAnnotations s = fmempty"
  shows "RemoteNameForLocalObject (stampDestination E s (newObjectKey src cluster path) (stripMetadata dst)) =
    Some \<lparr> cr_ClusterName = cluster, cr_Name = keyOf src \<rparr>"
proof -
  let ?linked = "link E (newObjectKey src cluster path) (stripMetadata dst)"
  have "RemoteNameForLocalObject (labelWithAgent s ?linked) = RemoteNameForLocalObject ?linked"
    by (rule RemoteName_cong)
       (simp_all add: labelWithAgent_def meta_simps mapGet_add agentNameLabel_def remoteObjectClusterLabel_def)
  with assms RemoteName_link [OF assms(1,2)] show ?thesis
    by (simp add: stampDestination_def Let_def ensureDestMetadata_def keyOf_def link_def)
qed

lemma OwnedBy_stampDestination:
  assumes "sy_agentName s \<noteq> []" "sy_metadataOnDestination s" "sy_destLabels s = fmempty" "sy_destAnnotations s = fmempty"
  shows "OwnedBy (stampDestination E s key obj) (sy_agentName s)"
  using assms
  by (simp add: OwnedBy_def stampDestination_def labelWithAgent_def ensureDestMetadata_def ensureLabels_def
        ensureAnnotations_def Let_def mapGet_add)

lemma OwnedBy_removeSubresources [simp]: "OwnedBy (removeSubresources s obj) agent = OwnedBy obj agent"
  by (simp add: OwnedBy_def removeSubresources_def removeFields_def)

lemma RemoteName_removeSubresources [simp]:
  "RemoteNameForLocalObject (removeSubresources s obj) = RemoteNameForLocalObject obj"
  by (simp add: RemoteNameForLocalObject_def removeSubresources_def removeFields_def)

interpretation pl: call_policy "placesLinked agent r" for agent r
proof unfold_locales
  fix c
  assume "isRead c"
  then show "placesLinked agent r c" by (cases c) auto
qed simp

lemma emits_placesLinked_others:
  "emits (placesLinked agent r) (recordEvent ctx s o1 o2 typ reason)"
  "emits (placesLinked agent r) (store_Get E b obj c)" "emits (placesLinked agent r) (store_Put E b obj c subs)"
  "emits (placesLinked agent r) (ensureNamespace E cl n)"
  "emits (placesLinked agent r) (handleDeletion E ctx s source src dest dst)"
  "emits (placesLinked agent r) (ensureFinalizer E cl src)"
  "emits (placesLinked agent r) (adoptExistingDestinationObject E s dest d key)"
  "emits (placesLinked agent r) (ensureDestMetadataPersisted E s dest d)"
  "emits (placesLinked agent r) (syncObjectStatus E ctx s source src d)"
  by (auto simp: recordEvent_def store_Get_def store_Put_def backend_Get_def backend_Put_def fetchSecret_def
        ensureNamespace_def handleDeletion_def ensureFinalizer_def removeFinalizer_def
        adoptExistingDestinationObject_def ensureDestMetadataPersisted_def syncObjectStatus_def
        client_defs Let_def intro!: emits_intros)

lemma emits_placesLinked_contents:
  "emits (placesLinked agent r) (syncObjectContents E ctx s source src dest d)"
  by (auto simp: syncObjectContents_def syncObjectSpec_def syncObjectStatusForward_def rememberSync_def
        cPatch_def cUpdate_def cStatusUpdate_def Let_def intro!: emits_intros emits_placesLinked_others)

text \<open>
  Without mutation rules, which could rewrite the name, every object that a primary sync places
  carries the label of its agent and the metadata that leads back to its source.
\<close>

lemma Sync_places_linked:
  assumes "clusterName source \<noteq> []" "oName src \<noteq> []" "sy_metadataOnDestination s" "sy_mutator s = None"
    "sy_destLabels s = fmempty" "sy_destAnnotations s = fmempty" "sy_agentName s \<noteq> []"
  shows "list_all (placesLinked (sy_agentName s) \<lparr> cr_ClusterName = clusterName source, cr_Name = keyOf src \<rparr>)
           (sent (Sync E ctx s source src dest dst) w)"
proof (rule emits_sent)
  have mut: "applyMutations E s src dst = Inr (src, dst)" using assms(4) by (simp add: applyMutations_def)
  note stamp = RemoteName_stampDestination [OF assms(1,2,3,5,6)] OwnedBy_stampDestination [OF assms(7,3,5,6)]
  have "emits (placesLinked (sy_agentName s) \<lparr> cr_ClusterName = clusterName source, cr_Name = keyOf src \<rparr>)
      (ensureDestinationObject E ctx s source src dest)"
    by (auto simp: ensureDestinationObject_def cCreate_def Let_def stamp
          intro!: emits_intros emits_placesLinked_others)
  moreover have "emits (placesLinked (sy_agentName s) \<lparr> cr_ClusterName = clusterName source, cr_Name = keyOf src \<rparr>)
      (applyServerSide E ctx s source src dest dst)"
    by (auto simp: applyServerSide_def cApply_def Let_def stamp
          intro!: emits_intros emits_placesLinked_others split: option.split)
  ultimately show "emits (placesLinked (sy_agentName s) \<lparr> cr_ClusterName = clusterName source, cr_Name = keyOf src \<rparr>)
      (Sync E ctx s source src dest dst)"
    unfolding Sync_def mut liftE_Inr prod.case
    by (auto intro!: emits_intros emits_placesLinked_others emits_placesLinked_contents)
qed

section \<open>Server-side apply and the status of related objects\<close>

fun isStatusUpdate :: "call \<Rightarrow> bool" where
  "isStatusUpdate (CStatusUpdate c obj) = True"
| "isStatusUpdate c = False"

text \<open>
  In server-side apply mode the status never travels forward. A syncer that does not sync the
  status back sends no status update at all, even when forward status sync is requested: the apply
  payload has the subresources removed and the mode returns before the forward step.
\<close>

theorem Sync_apply_mode_ignores_forward_status:
  assumes "sy_useServerSideApply s" "\<not> sy_syncStatusBack s"
  shows "list_all (\<lambda>c. \<not> isStatusUpdate c) (sent (Sync E ctx s source src dest dst) w)"
proof (rule emits_sent, rule emits_weaken [OF emits_Sync])
  fix c
  assume "syncAllowed s (deletes s src) (client source) (client dest) c"
  with assms show "\<not> isStatusUpdate c" by (cases c) auto
qed

theorem Sync_apply_mode_ignores_forward_status_witness:
  "list_all (\<lambda>c. \<not> isStatusUpdate c)
     (sent (Sync memorySecrets exampleContext
        (exampleSyncer\<lparr>sy_useServerSideApply := True, sy_syncStatusBack := False, sy_syncStatusForward := True\<rparr>)
        (exampleSide RemoteClient) syncedSource (exampleSide LocalClient) None) memoryWorld)"
  by (rule Sync_apply_mode_ignores_forward_status) simp_all

section \<open>Adopting an object in deletion\<close>

text \<open>
  The guard against adopting a disappearing object looks at the object that was to be created,
  not at the one that exists. If the existing object is in deletion, the adoption still writes it:
  after reading it from the server the code sends an update of that very object.
\<close>

theorem adopt_updates_object_in_deletion:
  assumes "oDeletionTimestamp wanted = None"
    and "fst (cGet E (client dest) (oAPIVersion wanted) (oKind wanted) (keyOf wanted) w) = Inr existing"
    and "oDeletionTimestamp existing \<noteq> None"
  shows "\<exists>obj. CUpdate (baseTarget (client dest)) obj \<in>
             set (sent (adoptExistingDestinationObject E s dest wanted key) w) \<and>
           oDeletionTimestamp obj = oDeletionTimestamp existing"
proof -
  obtain w' where w': "cGet E (client dest) (oAPIVersion wanted) (oKind wanted) (keyOf wanted) w = (Inr existing, w')"
    using assms(2) by (cases "cGet E (client dest) (oAPIVersion wanted) (oKind wanted) (keyOf wanted) w") auto
  then have "trace w' = trace w @ [CGet (readTarget (client dest)) (oAPIVersion wanted) (oKind wanted) (keyOf wanted)]"
    by (auto simp: cGet_def request_def split: prod.splits)
  with w' assms(1) show ?thesis
    by (auto simp: adoptExistingDestinationObject_def go_simps sent_def Let_def cUpdate_def request_def
          labelWithAgent_def meta_simps split: prod.splits sum.splits)
qed

theorem adopt_updates_object_in_deletion_witness:
  "let E = (noServer :: unit env)\<lparr>api_Get := (\<lambda>c a k n s. (Inr (emptyObject\<lparr>oDeletionTimestamp := Some ''now''\<rparr>), s))\<rparr>
   in \<exists>obj. CUpdate LocalClient obj \<in> set (sent (adoptExistingDestinationObject E exampleSyncer
          (exampleSide LocalClient) emptyObject (newObjectKey syncedSource ''c1'' []))
          \<lparr> server = (), trace = [], selectors = noSelectors \<rparr>) \<and> oDeletionTimestamp obj = Some ''now''"
  using adopt_updates_object_in_deletion
    [of emptyObject "(noServer :: unit env)\<lparr>api_Get := (\<lambda>c a k n s. (Inr (emptyObject\<lparr>oDeletionTimestamp := Some ''now''\<rparr>), s))\<rparr>"
        "exampleSide LocalClient" "\<lparr> server = (), trace = [], selectors = noSelectors \<rparr>"
        "emptyObject\<lparr>oDeletionTimestamp := Some ''now''\<rparr>" exampleSyncer "newObjectKey syncedSource ''c1'' []"]
  by (simp add: cGet_def request_def exampleSide_def emptyObject_def)

section \<open>No panics\<close>

definition safe :: "('s, 'a) prog \<Rightarrow> bool" where
  "safe m \<longleftrightarrow> (\<forall>w. noPanic (fst (m w)))"

named_theorems safe_intros

lemma safe_basic [safe_intros]:
  "safe (ok x)" "\<not> isPanic e \<Longrightarrow> safe (fail e)" "noPanic r \<Longrightarrow> safe (liftE r)" "safe (request c f)"
  "safe (event obj typ reason)" "safe (loadSelector p)" "safe (storeSelector p v)" "safe (rangeMap E m)"
  by (auto simp: safe_def noPanic_def go_simps request_def event_def loadSelector_def storeSelector_def
        rangeMap_def split: prod.splits sum.splits)

lemma safe_requests [safe_intros]:
  "safe (cGet E c av k key)" "safe (cList E c av k sel ns lim)" "safe (cCreate E c obj)" "safe (cUpdate E c obj)"
  "safe (cPatch E c obj p)" "safe (cDelete E c obj pol)" "safe (cStatusUpdate E c obj)"
  "safe (cApply E c obj owner)" "safe (cGetSecret E c key)" "safe (cCreateSecret E c sec)"
  "safe (cUpdateSecret E c sec)" "safe (cGetNamespace E c n)" "safe (cListNamespaces E c sel)"
  "safe (cCreateNamespace E c n)" "safe (cKindFor E c gvr)"
  by (simp_all add: client_defs safe_basic)

lemma safe_attempt [safe_intros]:
  assumes "safe m" "\<And>x. safe (k (Inr x))" "\<And>e. \<not> isPanic e \<Longrightarrow> safe (k (Inl e))"
  shows "safe (attempt m k)"
  unfolding safe_def
proof
  fix w
  obtain r w' where r: "m w = (r, w')" by force
  with assms show "noPanic (fst (attempt m k w))"
    by (cases r) (auto simp: safe_def noPanic_def go_simps dest: spec [of _ w] spec [of _ w'])
qed

lemma safe_bindE [safe_intros]: "safe m \<Longrightarrow> (\<And>x. safe (k x)) \<Longrightarrow> safe (bindE m k)"
  by (auto simp: bindE_def intro!: safe_intros)

lemma safe_checkE [safe_intros]: "safe m \<Longrightarrow> (\<And>x. safe (k x)) \<Longrightarrow> safe (checkE msg m k)"
  by (auto simp: checkE_def intro!: safe_intros)

lemma safe_split [safe_intros]:
  "(b \<Longrightarrow> safe m) \<Longrightarrow> (\<not> b \<Longrightarrow> safe n) \<Longrightarrow> safe (if b then m else n)"
  "(x = None \<Longrightarrow> safe m) \<Longrightarrow> (\<And>y. x = Some y \<Longrightarrow> safe (f y)) \<Longrightarrow> safe (case x of None \<Rightarrow> m | Some y \<Rightarrow> f y)"
  "(\<And>y z. p = (y, z) \<Longrightarrow> safe (g y z)) \<Longrightarrow> safe (case p of (y, z) \<Rightarrow> g y z)"
  by (simp_all split: option.split prod.split)

lemma safe_store [safe_intros]: "safe (store_Get E b obj c)" "safe (store_Put E b obj c subs)"
  by (auto simp: store_Get_def store_Put_def backend_Get_def backend_Put_def fetchSecret_def
        snapshotObject_def Let_def intro!: safe_intros noPanic_rules)

lemma safe_recordEvent [safe_intros]: "recorderFromContext ctx \<Longrightarrow> safe (recordEvent ctx s o1 o2 typ reason)"
  by (simp add: recordEvent_def safe_intros)

lemma safe_finalizers [safe_intros]: "safe (ensureFinalizer E c obj)" "safe (removeFinalizer E c obj)"
  by (auto simp: ensureFinalizer_def removeFinalizer_def Let_def intro!: safe_intros)

lemma safe_ensureNamespace [safe_intros]: "safe (ensureNamespace E c n)"
  by (auto simp: ensureNamespace_def Let_def intro!: safe_intros)

lemma safe_placing [safe_intros]:
  assumes "recorderFromContext ctx" "\<And>obj. noPanic (sy_destCreator s obj)"
  shows "safe (ensureDestinationObject E ctx s source src dest)"
    and "safe (applyServerSide E ctx s source src dest dst)"
  using assms
  by (auto simp: ensureDestinationObject_def applyServerSide_def adoptExistingDestinationObject_def Let_def
        intro!: safe_intros)

lemma noPanic_applyMutations:
  "(\<And>obj. noPanic (sy_destCreator s obj)) \<Longrightarrow> noPanic (applyMutations E s src dst)"
  by (auto simp: applyMutations_def MutateSpec_def MutateStatus_def intro!: noPanic_rules noPanic_aggregate
        split: option.split)

lemma safe_contents [safe_intros]:
  assumes "recorderFromContext ctx"
  shows "safe (syncObjectContents E ctx s source src dest d)" "safe (syncObjectStatus E ctx s source src d)"
    "safe (ensureDestMetadataPersisted E s dest d)" "safe (handleDeletion E ctx s source src dest dst)"
  using assms
  by (auto simp: syncObjectContents_def syncObjectSpec_def syncObjectStatusForward_def rememberSync_def
        syncObjectStatus_def ensureDestMetadataPersisted_def handleDeletion_def createMergePatch_def Let_def
        intro!: safe_intros noPanic_rules)

text \<open>
  With an event recorder in the context and a destination creator that does not panic, a sync ends
  with a result or an error, whatever the servers, the stored state and the mutation libraries do.
\<close>

lemma safe_Sync:
  "recorderFromContext ctx \<Longrightarrow> (\<And>obj. noPanic (sy_destCreator s obj)) \<Longrightarrow> safe (Sync E ctx s source src dest dst)"
  unfolding Sync_def by (auto intro!: safe_intros noPanic_applyMutations)

end
