(* ===== verification/Related.thy ===== *)
theory Related
  imports Object_Syncer
begin

text \<open>
  Related resources (\<open>sync/syncer_related.go\<close>): resolving the objects that belong to a primary object,
  syncing each of them, remembering them on the primary and pruning copies. Label selectors are
  reached through pointers into the store of selectors of the world, because the code writes its
  rendered labels back through that pointer. Ranging over a Go map draws its order from the
  environment.
\<close>

record ResourceSyncer =
  rs_localClient :: client
  rs_remoteClient :: client
  rs_pubRes :: PublishedResource
  rs_localCRD :: crd
  rs_subresources :: "string list"
  rs_localAPIReader :: "client option"
  rs_remoteAPIReader :: "client option"
  rs_destDummy :: unstructured
  rs_primaryMutator :: "mutator option"
  rs_relatedMutators :: "(string, mutator option) fmap"
  rs_agentName :: string
  rs_useServerSideApply :: bool
  rs_stateNamespace :: string

definition plainSyncer :: ResourceSyncer where
  "plainSyncer = \<lparr> rs_localClient = LocalClient, rs_remoteClient = RemoteClient, rs_pubRes = plainResource,
     rs_localCRD = plainCRD, rs_subresources = [''status''], rs_localAPIReader = None, rs_remoteAPIReader = None,
     rs_destDummy = emptyObject\<lparr>oAPIVersion := ''example.com/v1'', oKind := ''Claim''\<rparr>,
     rs_primaryMutator = None, rs_relatedMutators = fmempty, rs_agentName = ''agent'',
     rs_useServerSideApply = False, rs_stateNamespace = ''kcp-system'' \<rparr>"

record resolvedObject =
  res_original :: unstructured
  res_destination :: nsname

definition objOf :: "syncSide \<Rightarrow> unstructured result" where
  "objOf side = (case object side of None \<Rightarrow> Inl (Panic ''nil pointer dereference'') | Some obj \<Rightarrow> Inr obj)"

section \<open>References, regular expressions and templates\<close>

definition applyRegularExpression :: "'s env \<Rightarrow> string \<Rightarrow> RegularExpression \<Rightarrow> string result" where
  "applyRegularExpression E val re =
     (if re_Pattern re = [] then Inr (re_Replacement re)
      else
        bindR (wrapErr ''invalid pattern'' (lib ''regexp.Compile'' (regexpCompile E (re_Pattern re)))) (\<lambda>_.
        Inr (regexpReplaceAll E (re_Pattern re) val (re_Replacement re))))"

fun applyRegexToAll :: "'s env \<Rightarrow> RegularExpression \<Rightarrow> string list \<Rightarrow> string list result" where
  "applyRegexToAll E re [] = Inr []"
| "applyRegexToAll E re (v # vs) =
     bindR (applyRegularExpression E v re) (\<lambda>v'.
     bindR (applyRegexToAll E re vs) (\<lambda>vs'. Inr (v' # vs')))"

definition resolveReference :: "'s env \<Rightarrow> string \<Rightarrow> RelatedResourceObjectReference \<Rightarrow> string list result" where
  "resolveReference E jsonData ref =
     (let result = gjsonGet E jsonData (ref_Path ref) in
      if \<not> gj_Exists result then Inr []
      else
        let values = (if gj_IsArray result then map TrimSpace (gj_Array result)
                      else [TrimSpace (gj_String result)])
        in case ref_Regex ref of
             None \<Rightarrow> Inr values
           | Some re \<Rightarrow> applyRegexToAll E re values)"

definition resolveObjectReference ::
    "'s env \<Rightarrow> unstructured \<Rightarrow> RelatedResourceObjectReference \<Rightarrow> string list result" where
  "resolveObjectReference E obj ref =
     bindR (lib ''marshal'' (marshalJSON E obj)) (\<lambda>data. resolveReference E data ref)"

definition remapSyncSides :: "syncSide \<Rightarrow> syncSide \<Rightarrow> RelatedResourceOrigin \<Rightarrow> syncSide \<times> syncSide" where
  "remapSyncSides relatedOrigin relatedDest origin =
     (if origin = OriginKcp then (relatedDest, relatedOrigin) else (relatedOrigin, relatedDest))"

definition oppositeSide :: "RelatedResourceOrigin \<Rightarrow> RelatedResourceOrigin" where
  "oppositeSide origin = (if origin = OriginKcp then OriginService else OriginKcp)"

definition applyTemplate ::
    "'s env \<Rightarrow> syncSide \<Rightarrow> syncSide \<Rightarrow> RelatedResourceOrigin \<Rightarrow> TemplateExpression \<Rightarrow> string \<Rightarrow>
     unstructured option \<Rightarrow> string result" where
  "applyTemplate E relatedOrigin relatedDest origin tpl val originRelatedObject =
     (case remapSyncSides relatedOrigin relatedDest origin of
        (localSide, remoteSide) \<Rightarrow>
          bindR (objOf localSide) (\<lambda>localObj.
          bindR (objOf remoteSide) (\<lambda>remoteObj.
          Render E (te_Template tpl)
            (NewRelatedObjectLabelRewriteContext val localObj remoteObj originRelatedObject
               (clusterName remoteSide) (workspacePath remoteSide)))))"

definition applySelectorRewrites ::
    "'s env \<Rightarrow> syncSide \<Rightarrow> syncSide \<Rightarrow> RelatedResourceOrigin \<Rightarrow> string \<Rightarrow> unstructured option \<Rightarrow>
     RelatedResourceSelectorRewrite \<Rightarrow> string result" where
  "applySelectorRewrites E relatedOrigin relatedDest origin val originRelatedObject rewrite =
     (case rw_Regex rewrite of
        Some re \<Rightarrow> applyRegularExpression E val re
      | None \<Rightarrow>
          (case rw_Template rewrite of
             Some tpl \<Rightarrow> applyTemplate E relatedOrigin relatedDest origin tpl val originRelatedObject
           | None \<Rightarrow> Inl (Msg ''invalid rewrite: no mechanism configured'')))"

definition applyTemplateBothSides ::
    "'s env \<Rightarrow> syncSide \<Rightarrow> syncSide \<Rightarrow> RelatedResourceOrigin \<Rightarrow> TemplateExpression \<Rightarrow>
     (string \<times> string) result" where
  "applyTemplateBothSides E relatedOrigin relatedDest origin tpl =
     (case remapSyncSides relatedOrigin relatedDest origin of
        (_, remoteSide) \<Rightarrow>
          bindR (objOf relatedOrigin) (\<lambda>originObj.
          bindR (wrapErr ''failed to evaluate template on origin side''
                   (Render E (te_Template tpl)
                      (NewRelatedObjectContext originObj origin
                         (clusterName remoteSide) (workspacePath remoteSide)))) (\<lambda>originValue.
          bindR (objOf relatedDest) (\<lambda>destObj.
          bindR (wrapErr ''failed to evaluate template on destination side''
                   (Render E (te_Template tpl)
                      (NewRelatedObjectContext destObj (oppositeSide origin)
                         (clusterName remoteSide) (workspacePath remoteSide)))) (\<lambda>destValue.
          Inr (originValue, destValue))))))"

section \<open>Label selectors\<close>

definition renderIfTemplate :: "'s env \<Rightarrow> string \<Rightarrow> templateData \<Rightarrow> string \<Rightarrow> string result" where
  "renderIfTemplate E msg ctx s = (if Contains s ''{{'' then wrapErr msg (Render E s ctx) else Inr s)"

fun renderLabels :: "'s env \<Rightarrow> templateData \<Rightarrow> (string \<times> string) list \<Rightarrow> labels \<Rightarrow> labels result" where
  "renderLabels E ctx [] acc = Inr acc"
| "renderLabels E ctx ((key, val) # kvs) acc =
     bindR (renderIfTemplate E ''failed to evaluate key as template'' ctx key) (\<lambda>key'.
     bindR (renderIfTemplate E ''failed to evaluate value as template'' ctx val) (\<lambda>val'.
     renderLabels E ctx kvs (if key' \<noteq> [] then fmupd key' val' acc else acc)))"

definition templateLabelSelector ::
    "'s env \<Rightarrow> syncSide \<Rightarrow> syncSide \<Rightarrow> RelatedResourceOrigin \<Rightarrow> selptr \<Rightarrow> ('s, LabelSelector) prog" where
  "templateLabelSelector E relatedOrigin relatedDest origin ptr =
     (case remapSyncSides relatedOrigin relatedDest origin of
        (localSide, remoteSide) \<Rightarrow>
          bindE (liftE (objOf localSide)) (\<lambda>localObj.
          bindE (liftE (objOf remoteSide)) (\<lambda>remoteObj.
          let ctx = NewRelatedObjectLabelContext localObj remoteObj
                      (clusterName remoteSide) (workspacePath remoteSide) in
          bindE (loadSelector ptr) (\<lambda>sel.
          bindE (rangeMap E (ls_MatchLabels (ros_LabelSelector sel))) (\<lambda>kvs.
          bindE (liftE (renderLabels E ctx kvs fmempty)) (\<lambda>newMatchLabels.
          let rendered = (ros_LabelSelector sel)\<lparr>ls_MatchLabels := newMatchLabels\<rparr> in
          bindE (storeSelector ptr (sel\<lparr>ros_LabelSelector := rendered\<rparr>)) (\<lambda>_.
          ok rendered)))))))"

section \<open>Resolving namespaces and objects\<close>

text \<open>An index past the end of the second slice panics; the callers compare the lengths first.\<close>

fun mapSlicesFrom :: "string list \<Rightarrow> string list \<Rightarrow> labels \<Rightarrow> labels result" where
  "mapSlicesFrom [] bs mapping = Inr mapping"
| "mapSlicesFrom (a # as) [] mapping = Inl (Panic ''index out of range'')"
| "mapSlicesFrom (a # as) (b # bs) mapping =
     mapSlicesFrom as bs (if b = [] \<or> a = [] then mapping else fmupd a b mapping)"

definition mapSlices :: "string list \<Rightarrow> string list \<Rightarrow> labels result" where
  "mapSlices a b = mapSlicesFrom a b fmempty"

definition resolveByReference ::
    "'s env \<Rightarrow> syncSide \<Rightarrow> syncSide \<Rightarrow> RelatedResourceObjectReference \<Rightarrow> labels result" where
  "resolveByReference E relatedOrigin relatedDest ref =
     bindR (objOf relatedOrigin) (\<lambda>originObj.
     bindR (resolveObjectReference E originObj ref) (\<lambda>originNames.
     if originNames = [] then Inr fmempty
     else
       bindR (objOf relatedDest) (\<lambda>destObj.
       bindR (resolveObjectReference E destObj ref) (\<lambda>destNames.
       if length destNames \<noteq> length originNames
       then Inl (Msg (''cannot sync related resources: found '' @ showNat (length originNames) @
                      '' on the origin, but '' @ showNat (length destNames) @ '' on the destination side''))
       else mapSlices originNames destNames))))"

definition resolveByTemplate ::
    "'s env \<Rightarrow> syncSide \<Rightarrow> syncSide \<Rightarrow> RelatedResourceOrigin \<Rightarrow> TemplateExpression \<Rightarrow> labels result" where
  "resolveByTemplate E relatedOrigin relatedDest origin tpl =
     bindR (wrapErr ''failed to apply template''
              (applyTemplateBothSides E relatedOrigin relatedDest origin tpl)) (\<lambda>(originValue, destValue).
     if originValue = [] \<or> destValue = [] then Inr fmempty
     else Inr (fmupd originValue destValue fmempty))"

fun rewriteNames ::
    "(string \<Rightarrow> 'o \<Rightarrow> string result) \<Rightarrow> (string \<times> 'o) list \<Rightarrow> labels \<Rightarrow> labels result" where
  "rewriteNames f [] m = Inr m"
| "rewriteNames f ((name, obj) # rest) m =
     bindR (f name obj) (\<lambda>destinationName. rewriteNames f rest (fmupd name destinationName m))"

definition resolveRelatedResourceOriginNamespaces ::
    "'s env \<Rightarrow> syncSide \<Rightarrow> syncSide \<Rightarrow> RelatedResourceOrigin \<Rightarrow> RelatedResourceObjectSpec \<Rightarrow>
     ('s, labels) prog" where
  "resolveRelatedResourceOriginNamespaces E relatedOrigin relatedDest origin spec =
     (case os_Reference spec of
        Some ref \<Rightarrow> liftE (resolveByReference E relatedOrigin relatedDest ref)
      | None \<Rightarrow>
     (case os_Selector spec of
        Some ptr \<Rightarrow>
          checkE ''failed to apply templates to label selector''
            (templateLabelSelector E relatedOrigin relatedDest origin ptr) (\<lambda>labelSelector.
          checkE ''invalid selector configured'' (liftE (lib ''selector'' (asSelector E labelSelector))) (\<lambda>sel.
          checkE ''failed to evaluate label selector''
            (cListNamespaces E (client relatedOrigin) sel) (\<lambda>namespaces.
          bindE (loadSelector ptr) (\<lambda>selSpec.
          checkE ''failed to rewrite origin namespace''
            (liftE (rewriteNames
               (\<lambda>name _. applySelectorRewrites E relatedOrigin relatedDest origin name None (ros_Rewrite selSpec))
               (map (\<lambda>ns. (ns_Name ns, ns)) namespaces) fmempty)) ok))))
      | None \<Rightarrow>
     (case os_Template spec of
        Some tpl \<Rightarrow> liftE (resolveByTemplate E relatedOrigin relatedDest origin tpl)
      | None \<Rightarrow> fail (Msg ''invalid sourceSpec: no mechanism configured''))))"

definition resolveRelatedResourceObjectsInNamespace ::
    "'s env \<Rightarrow> syncSide \<Rightarrow> syncSide \<Rightarrow> RelatedResourceSpec \<Rightarrow> RelatedResourceObjectSpec \<Rightarrow> string \<Rightarrow>
     ('s, labels) prog" where
  "resolveRelatedResourceObjectsInNamespace E relatedOrigin relatedDest relRes spec namespace =
     (case os_Reference spec of
        Some ref \<Rightarrow> liftE (resolveByReference E relatedOrigin relatedDest ref)
      | None \<Rightarrow>
     (case os_Selector spec of
        Some ptr \<Rightarrow>
          checkE ''failed to lookup''
            (cKindFor E (client relatedOrigin) (RelatedResourceGVR relRes)) (\<lambda>originGVK.
          checkE ''failed to apply templates to label selector''
            (templateLabelSelector E relatedOrigin relatedDest (rr_Origin relRes) ptr) (\<lambda>labelSelector.
          checkE ''invalid selector configured'' (liftE (lib ''selector'' (asSelector E labelSelector))) (\<lambda>sel.
          checkE ''failed to select origin objects based on label selector''
            (cList E (client relatedOrigin) (gvString E (gvk_Group originGVK) (gvk_Version originGVK))
               (gvk_Kind originGVK) sel namespace None) (\<lambda>originObjects.
          bindE (loadSelector ptr) (\<lambda>selSpec.
          checkE ''failed to rewrite origin name''
            (liftE (rewriteNames
               (\<lambda>name obj. applySelectorRewrites E relatedOrigin relatedDest (rr_Origin relRes) name (Some obj)
                  (ros_Rewrite selSpec))
               (map (\<lambda>obj. (oName obj, obj)) originObjects) fmempty)) ok)))))
      | None \<Rightarrow>
     (case os_Template spec of
        Some tpl \<Rightarrow> liftE (resolveByTemplate E relatedOrigin relatedDest (rr_Origin relRes) tpl)
      | None \<Rightarrow> fail (Msg ''invalid objectSpec: no mechanism configured''))))"

fun resolveNames ::
    "'s env \<Rightarrow> syncSide \<Rightarrow> RelatedResourceSpec \<Rightarrow> string \<Rightarrow> string \<Rightarrow> (string \<times> string) list \<Rightarrow>
     resolvedObject list \<Rightarrow> ('s, resolvedObject list) prog" where
  "resolveNames E relatedOrigin relRes originNamespace destNamespace [] result = ok result"
| "resolveNames E relatedOrigin relRes originNamespace destNamespace ((originName, destName) # rest) result =
     checkE ''failed to lookup''
       (cKindFor E (client relatedOrigin) (RelatedResourceGVR relRes)) (\<lambda>originGVK.
     attempt (cGet E (client relatedOrigin) (gvString E (gvk_Group originGVK) (gvk_Version originGVK))
                (gvk_Kind originGVK) \<lparr> nn_Namespace = originNamespace, nn_Name = originName \<rparr>) (\<lambda>r.
       case r of
         Inl e \<Rightarrow>
           if IsNotFound e
           then resolveNames E relatedOrigin relRes originNamespace destNamespace rest result
           else fail (Wrapped ''failed to get origin object'' e)
       | Inr originObj \<Rightarrow>
           resolveNames E relatedOrigin relRes originNamespace destNamespace rest
             (result @ [\<lparr> res_original = originObj,
                          res_destination = \<lparr> nn_Namespace = destNamespace, nn_Name = destName \<rparr> \<rparr>])))"

fun resolveNamespaces ::
    "'s env \<Rightarrow> syncSide \<Rightarrow> syncSide \<Rightarrow> RelatedResourceSpec \<Rightarrow> RelatedResourceObjectSpec \<Rightarrow>
     (string \<times> string) list \<Rightarrow> resolvedObject list \<Rightarrow> ('s, resolvedObject list) prog" where
  "resolveNamespaces E relatedOrigin relatedDest relRes spec [] result = ok result"
| "resolveNamespaces E relatedOrigin relatedDest relRes spec ((originNamespace, destNamespace) # rest) result =
     checkE ''failed to find objects on origin side''
       (resolveRelatedResourceObjectsInNamespace E relatedOrigin relatedDest relRes spec originNamespace)
       (\<lambda>nameMap.
     bindE (rangeMap E nameMap) (\<lambda>names.
     bindE (resolveNames E relatedOrigin relRes originNamespace destNamespace names result) (\<lambda>result'.
     resolveNamespaces E relatedOrigin relatedDest relRes spec rest result')))"

definition resolveRelatedResourceObjectsInNamespaces ::
    "'s env \<Rightarrow> syncSide \<Rightarrow> syncSide \<Rightarrow> RelatedResourceSpec \<Rightarrow> RelatedResourceObjectSpec \<Rightarrow> labels \<Rightarrow>
     ('s, resolvedObject list) prog" where
  "resolveRelatedResourceObjectsInNamespaces E relatedOrigin relatedDest relRes spec namespaceMap =
     bindE (rangeMap E namespaceMap) (\<lambda>namespaces.
     resolveNamespaces E relatedOrigin relatedDest relRes spec namespaces [])"

definition resolveRelatedResourceObjects ::
    "'s env \<Rightarrow> syncSide \<Rightarrow> syncSide \<Rightarrow> RelatedResourceSpec \<Rightarrow> ('s, resolvedObject list) prog" where
  "resolveRelatedResourceObjects E relatedOrigin relatedDest relRes =
     bindE (liftE (objOf relatedOrigin)) (\<lambda>originObj.
     bindE (liftE (objOf relatedDest)) (\<lambda>destObj.
     let originNamespace = oNamespace originObj;
         destNamespace = oNamespace destObj;
         inNamespaces = (\<lambda>namespaceMap.
           checkE ''failed to resolve objects''
             (resolveRelatedResourceObjectsInNamespaces E relatedOrigin relatedDest relRes
                (ro_Spec (rr_Object relRes)) namespaceMap) ok)
     in case ro_Namespace (rr_Object relRes) of
          Some nsSpec \<Rightarrow>
            checkE ''failed to resolve namespace''
              (resolveRelatedResourceOriginNamespaces E relatedOrigin relatedDest (rr_Origin relRes) nsSpec)
              (\<lambda>namespaceMap.
            if namespaceMap = fmempty then ok [] else inNamespaces namespaceMap)
        | None \<Rightarrow>
            if originNamespace = []
            then fail (Msg ''primary object is cluster-scoped and no source namespace configuration was provided'')
            else if destNamespace = []
            then fail (Msg ''primary object copy is cluster-scoped and no source namespace configuration was provided'')
            else inNamespaces (fmupd originNamespace destNamespace fmempty)))"

section \<open>Pruning\<close>

definition relatedCopyKey :: "string \<Rightarrow> string \<Rightarrow> string" where
  "relatedCopyKey namespace name = namespace @ ''/'' @ name"

type_synonym deletionPolicies = "(string, deletionPropagation) fmap"

definition policyFor :: "deletionPolicies \<Rightarrow> string \<Rightarrow> deletionPropagation" where
  "policyFor m k = (case fmlookup m k of None \<Rightarrow> PolicyUnset | Some p \<Rightarrow> p)"

fun pruneItems ::
    "'s env \<Rightarrow> syncContext \<Rightarrow> syncSide \<Rightarrow> unstructured \<Rightarrow> string fset \<Rightarrow> deletionPolicies \<Rightarrow> bool \<Rightarrow>
     unstructured list \<Rightarrow> bool \<Rightarrow> ('s, bool) prog" where
  "pruneItems E ctx dest primary keep policies deleteAll [] requeue = ok requeue"
| "pruneItems E ctx dest primary keep policies deleteAll (item # items) requeue =
     (let key = relatedCopyKey (oNamespace item) (oName item) in
      if \<not> deleteAll \<and> key |\<in>| keep
      then pruneItems E ctx dest primary keep policies deleteAll items requeue
      else if oDeletionTimestamp item \<noteq> None
      then pruneItems E ctx dest primary keep policies deleteAll items True
      else
        attempt (cDelete E (client dest) item
                   (normalizeDeletionPropagationPolicy (policyFor policies key))) (\<lambda>r.
          case r of
            Inl e \<Rightarrow>
              if IsNotFound e
              then pruneItems E ctx dest primary keep policies deleteAll items requeue
              else fail (Wrapped ''failed to delete related copy'' e)
          | Inr _ \<Rightarrow>
              bindE (if recorderFromContext ctx then event (Some primary) ''Normal'' ''ObjectCleanup'' else ok ())
                (\<lambda>_. pruneItems E ctx dest primary keep policies deleteAll items True)))"

definition pruneRelatedCopies ::
    "'s env \<Rightarrow> syncContext \<Rightarrow> syncSide \<Rightarrow> unstructured \<Rightarrow> groupVersionKind \<Rightarrow> selector \<Rightarrow> string fset \<Rightarrow>
     deletionPolicies \<Rightarrow> bool \<Rightarrow> ('s, bool) prog" where
  "pruneRelatedCopies E ctx dest primary projectedGVK sel keep policies deleteAll =
     checkE ''failed to list related copies''
       (cList E (client dest) (gvString E (gvk_Group projectedGVK) (gvk_Version projectedGVK))
          (gvk_Kind projectedGVK @ ''List'') sel [] None) (\<lambda>items.
     pruneItems E ctx dest primary keep policies deleteAll items False)"

definition confirmOriginEmpty ::
    "'s env \<Rightarrow> ResourceSyncer \<Rightarrow> syncSide \<Rightarrow> syncSide \<Rightarrow> RelatedResourceSpec \<Rightarrow> ('s, bool \<times> bool) prog" where
  "confirmOriginEmpty E s origin dest relRes =
     (case (if rr_Origin relRes = OriginService then rs_localAPIReader s else rs_remoteAPIReader s) of
        None \<Rightarrow> ok (False, False)
      | Some reader \<Rightarrow>
          let liveOrigin = \<lparr> clusterName = clusterName origin, workspacePath = [],
                client = LiveReadClient (client origin) reader, object = object origin \<rparr>
          in bindE (resolveRelatedResourceObjects E liveOrigin dest relRes) (\<lambda>resolved.
             ok (resolved = [], True)))"

section \<open>Remembering related objects on the primary\<close>

definition annotationJSON :: "resolvedObject \<Rightarrow> string" where
  "annotationJSON r = jsonObject
     ((if nn_Namespace (res_destination r) \<noteq> []
       then [(''namespace'', jsonString (nn_Namespace (res_destination r)))] else []) @
      [(''name'', jsonString (nn_Name (res_destination r))),
       (''apiVersion'', jsonString (oAPIVersion (res_original r))),
       (''kind'', jsonString (oKind (res_original r)))])"

definition relatedPrefix :: "string \<Rightarrow> string" where
  "relatedPrefix identifier = relatedObjectAnnotationPrefix @ identifier @ ''.''"

fun desiredAnnotations :: "string \<Rightarrow> nat \<Rightarrow> resolvedObject list \<Rightarrow> labels" where
  "desiredAnnotations prefix idx [] = fmempty"
| "desiredAnnotations prefix idx (r # rs) =
     fmupd (prefix @ showNat idx) (annotationJSON r) (desiredAnnotations prefix (Suc idx) rs)"

definition annotationsChanged :: "string \<Rightarrow> labels \<Rightarrow> labels \<Rightarrow> bool" where
  "annotationsChanged prefix annotations desired \<longleftrightarrow>
     \<not> fmpred (\<lambda>k v. HasPrefix k prefix \<longrightarrow> k |\<in>| fmdom desired) annotations \<or>
     \<not> fmpred (\<lambda>k v. mapGet annotations k = v) desired"

definition rememberAnnotations :: "string \<Rightarrow> labels \<Rightarrow> labels \<Rightarrow> labels" where
  "rememberAnnotations prefix annotations desired =
     fmfilter (\<lambda>k. \<not> HasPrefix k prefix) annotations ++\<^sub>f desired"

definition rememberRelatedObjects ::
    "'s env \<Rightarrow> syncSide \<Rightarrow> unstructured \<Rightarrow> string \<Rightarrow> resolvedObject list \<Rightarrow> ('s, bool) prog" where
  "rememberRelatedObjects E remote remoteObj identifier resolvedObjects =
     (if resolvedObjects = [] then ok False
      else
        let prefix = relatedPrefix identifier;
            desired = desiredAnnotations prefix 0 resolvedObjects;
            annotations = orEmpty (oAnnotations remoteObj)
        in if \<not> annotationsChanged prefix annotations desired then ok False
           else
             checkE ''failed to update related data in remote object''
               (cPatch E (client remote)
                  (remoteObj\<lparr>oAnnotations := Some (rememberAnnotations prefix annotations desired)\<rparr>)
                  (MergeFrom remoteObj)) (\<lambda>_.
             ok True))"

section \<open>Processing\<close>

definition forcesDelete :: "RelatedResourceSpec \<Rightarrow> bool \<Rightarrow> bool" where
  "forcesDelete relRes primaryDeleting \<longleftrightarrow>
     primaryDeleting \<and>
     (EffectiveCleanupPolicy relRes = CleanupOnPrimaryDeletion \<or>
      EffectiveCleanupPolicy relRes = CleanupMatchOrigin \<or> rr_Origin relRes = OriginKcp)"

definition relatedSyncer ::
    "'s env \<Rightarrow> ResourceSyncer \<Rightarrow> kubernetesBackend \<Rightarrow> RelatedResourceSpec \<Rightarrow> groupVersionKind \<Rightarrow> labels \<Rightarrow>
     labels \<Rightarrow> bool \<Rightarrow> resolvedObject \<Rightarrow> objectSyncer" where
  "relatedSyncer E s stateStore relRes projectedGVK destLabels destAnnotations forceDelete resolved =
     \<lparr> sy_agentName = [],
       sy_destCreator = (\<lambda>source. Inr (source\<lparr>
          oAPIVersion := gvString E (gvk_Group projectedGVK) (gvk_Version projectedGVK),
          oKind := gvk_Kind projectedGVK, oName := nn_Name (res_destination resolved),
          oNamespace := nn_Namespace (res_destination resolved)\<rparr>)),
       sy_subresources = (if rr_SyncStatus relRes then [''status''] else []),
       sy_syncStatusBack = False,
       sy_syncStatusForward = rr_SyncStatus relRes,
       sy_blockSourceDeletion = (forceDelete \<or> rr_Origin relRes = OriginKcp),
       sy_metadataOnDestination = False,
       sy_destLabels = destLabels,
       sy_destAnnotations = destAnnotations,
       sy_mutator = (case fmlookup (rs_relatedMutators s) (rr_Identifier relRes) of
          None \<Rightarrow> None | Some m \<Rightarrow> m),
       sy_stateStore = stateStore,
       sy_eventObjSide = (if rr_Origin relRes = OriginService then syncSideDestination else syncSideSource),
       sy_forceDelete = forceDelete,
       sy_deletionPropagationPolicy = relatedDeletionPropagationPolicy (rr_Origin relRes) (res_original resolved),
       sy_useServerSideApply = rs_useServerSideApply s \<rparr>"

text \<open>
  The loop over the resolved objects. It carries the requeue flag, the objects after their sync (the
  sync may change an original in place) and the deletion policies; the copies synced so far are
  those of the objects done. Any error of the Get makes the destination count as absent.
\<close>

fun syncResolved ::
    "'s env \<Rightarrow> syncContext \<Rightarrow> ResourceSyncer \<Rightarrow> kubernetesBackend \<Rightarrow> RelatedResourceSpec \<Rightarrow> syncSide \<Rightarrow>
     syncSide \<Rightarrow> groupVersionKind \<Rightarrow> labels \<Rightarrow> labels \<Rightarrow> bool \<Rightarrow> resolvedObject list \<Rightarrow>
     bool \<times> resolvedObject list \<times> deletionPolicies \<Rightarrow> ('s, bool \<times> resolvedObject list \<times> deletionPolicies) prog" where
  "syncResolved E ctx s stateStore relRes origin dest projectedGVK destLabels destAnnotations forceDelete []
     acc = ok acc"
| "syncResolved E ctx s stateStore relRes origin dest projectedGVK destLabels destAnnotations forceDelete
     (resolved # rest) (requeue, done, policies) =
     attempt (cGet E (client dest) (gvString E (gvk_Group projectedGVK) (gvk_Version projectedGVK))
                (gvk_Kind projectedGVK) (res_destination resolved)) (\<lambda>r.
     let destObject = (case r of Inl _ \<Rightarrow> None | Inr obj \<Rightarrow> Some obj);
         sourceSide = \<lparr> clusterName = clusterName origin, workspacePath = [], client = client origin,
           object = Some (res_original resolved) \<rparr>;
         destSide = \<lparr> clusterName = clusterName dest, workspacePath = [], client = client dest,
           object = destObject \<rparr>;
         key = relatedCopyKey (nn_Namespace (res_destination resolved)) (nn_Name (res_destination resolved));
         policies = fmupd key
           (relatedDeletionPropagationPolicy (rr_Origin relRes) (res_original resolved)) policies
     in checkE ''failed to sync related object''
          (Sync E ctx
             (relatedSyncer E s stateStore relRes projectedGVK destLabels destAnnotations forceDelete resolved)
             sourceSide (res_original resolved) destSide destObject) (\<lambda>(req, original', _).
        syncResolved E ctx s stateStore relRes origin dest projectedGVK destLabels destAnnotations forceDelete
          rest (requeue \<or> req, done @ [resolved\<lparr>res_original := original'\<rparr>], policies)))"

definition resolvedKey :: "'s env \<Rightarrow> resolvedObject \<Rightarrow> string" where
  "resolvedKey E r = nnString E (keyOf (res_original r))"

definition copyKey :: "resolvedObject \<Rightarrow> string" where
  "copyKey r = relatedCopyKey (nn_Namespace (res_destination r)) (nn_Name (res_destination r))"

text \<open>The last part of \<open>processRelatedResource\<close>: prune or tear down, as the policy says.\<close>

definition cleanUpCopies ::
    "'s env \<Rightarrow> syncContext \<Rightarrow> ResourceSyncer \<Rightarrow> syncSide \<Rightarrow> syncSide \<Rightarrow> syncSide \<Rightarrow> unstructured \<Rightarrow>
     RelatedResourceSpec \<Rightarrow> bool \<Rightarrow> groupVersionKind \<Rightarrow> resolvedObject list \<Rightarrow> deletionPolicies \<Rightarrow> bool \<Rightarrow>
     ('s, bool) prog" where
  "cleanUpCopies E ctx s remote origin dest primary relRes primaryDeleting projectedGVK resolvedObjects policies
     requeue =
     (let policy = EffectiveCleanupPolicy relRes;
          sel = relatedCopySelector E primary (clusterName remote) (pr_Name (rs_pubRes s))
                  (rr_Identifier relRes) (rs_agentName s)
      in if primaryDeleting \<and> (policy = CleanupOnPrimaryDeletion \<or> policy = CleanupMatchOrigin)
         then
           checkE ''failed to tear down related copies''
             (pruneRelatedCopies E ctx dest primary projectedGVK sel {||} policies True) (\<lambda>pruneRequeue.
           ok (requeue \<or> pruneRequeue))
         else if \<not> primaryDeleting \<and> policy = CleanupMatchOrigin
         then
           let prune =
             checkE ''failed to prune related copies''
               (pruneRelatedCopies E ctx dest primary projectedGVK sel
                  (fset_of_list (map copyKey resolvedObjects)) policies False) (\<lambda>pruneRequeue.
             ok (requeue \<or> pruneRequeue))
           in if resolvedObjects = []
              then
                checkE ''failed to confirm empty origin before pruning related copies''
                  (confirmOriginEmpty E s origin dest relRes) (\<lambda>(confirmedEmpty, checked).
                if \<not> checked then ok requeue
                else if \<not> confirmedEmpty then ok True
                else prune)
              else prune
         else ok requeue)"

definition originSide :: "RelatedResourceSpec \<Rightarrow> syncSide \<Rightarrow> syncSide \<Rightarrow> syncSide" where
  "originSide relRes remote local = (if rr_Origin relRes = OriginService then local else remote)"

definition destSide :: "RelatedResourceSpec \<Rightarrow> syncSide \<Rightarrow> syncSide \<Rightarrow> syncSide" where
  "destSide relRes remote local = (if rr_Origin relRes = OriginService then remote else local)"

text \<open>The part of \<open>processRelatedResource\<close> after the origin objects were resolved.\<close>

definition processResolved ::
    "'s env \<Rightarrow> syncContext \<Rightarrow> ResourceSyncer \<Rightarrow> kubernetesBackend \<Rightarrow> syncSide \<Rightarrow> syncSide \<Rightarrow>
     RelatedResourceSpec \<Rightarrow> bool \<Rightarrow> resolvedObject list \<Rightarrow> ('s, bool) prog" where
  "processResolved E ctx s stateStore remote local relRes primaryDeleting resolved =
     (let origin = originSide relRes remote local;
          dest = destSide relRes remote local;
          resolvedObjects = SortStableFunc (compareBy (resolvedKey E)) resolved;
          projectedGVR = RelatedResourceProjectedGVR relRes
      in checkE ''failed to lookup'' (cKindFor E (client dest) projectedGVR) (\<lambda>projectedGVK.
         bindE (liftE (objOf remote)) (\<lambda>primary.
         let destLabels = relatedCopyLabels E primary (clusterName remote) (pr_Name (rs_pubRes s))
               (rr_Identifier relRes) (rs_agentName s);
             destAnnotations = relatedCopyAnnotations primary;
             forceDelete = forcesDelete relRes primaryDeleting
         in bindE (syncResolved E ctx s stateStore relRes origin dest projectedGVK destLabels destAnnotations
                     forceDelete resolvedObjects (False, [], fmempty)) (\<lambda>(requeue, resolvedObjects, policies).
            bindE (if rr_Origin relRes = OriginService
                   then rememberRelatedObjects E remote primary (rr_Identifier relRes) resolvedObjects
                   else ok False) (\<lambda>annRequeue.
            if annRequeue then ok True
            else cleanUpCopies E ctx s remote origin dest primary relRes primaryDeleting projectedGVK
                   resolvedObjects policies requeue)))))"

definition processRelatedResource ::
    "'s env \<Rightarrow> syncContext \<Rightarrow> ResourceSyncer \<Rightarrow> kubernetesBackend \<Rightarrow> syncSide \<Rightarrow> syncSide \<Rightarrow>
     RelatedResourceSpec \<Rightarrow> bool \<Rightarrow> ('s, bool) prog" where
  "processRelatedResource E ctx s stateStore remote local relRes primaryDeleting =
     checkE ''failed to get resolve origin objects''
       (resolveRelatedResourceObjects E (originSide relRes remote local) (destSide relRes remote local) relRes)
       (processResolved E ctx s stateStore remote local relRes primaryDeleting)"

fun processRelatedList ::
    "'s env \<Rightarrow> syncContext \<Rightarrow> ResourceSyncer \<Rightarrow> kubernetesBackend \<Rightarrow> syncSide \<Rightarrow> syncSide \<Rightarrow> bool \<Rightarrow>
     RelatedResourceSpec list \<Rightarrow> ('s, bool) prog" where
  "processRelatedList E ctx s stateStore remote local primaryDeleting [] = ok False"
| "processRelatedList E ctx s stateStore remote local primaryDeleting (relRes # rest) =
     checkE (''failed to process related resource '' @ rr_Identifier relRes)
       (processRelatedResource E ctx s stateStore remote local relRes primaryDeleting) (\<lambda>requeue.
     if requeue then ok True
     else processRelatedList E ctx s stateStore remote local primaryDeleting rest)"

definition processRelatedResources ::
    "'s env \<Rightarrow> syncContext \<Rightarrow> ResourceSyncer \<Rightarrow> kubernetesBackend \<Rightarrow> syncSide \<Rightarrow> syncSide \<Rightarrow> bool \<Rightarrow>
     ('s, bool) prog" where
  "processRelatedResources E ctx s stateStore remote local primaryDeleting =
     processRelatedList E ctx s stateStore remote local primaryDeleting (prs_Related (pr_Spec (rs_pubRes s)))"

section \<open>Resolution only reads\<close>

context call_policy
begin

lemma emits_templateLabelSelector: "emits allow (templateLabelSelector E o' d origin ptr)"
  by (auto simp: templateLabelSelector_def Let_def intro!: emits_intros split: prod.split)

lemma emits_inNamespace: "emits allow (resolveRelatedResourceObjectsInNamespace E o' d relRes spec ns)"
  unfolding resolveRelatedResourceObjectsInNamespace_def
  by (intro emits_intros emits_reads emits_templateLabelSelector)

lemma emits_originNamespaces: "emits allow (resolveRelatedResourceOriginNamespaces E o' d origin spec)"
  unfolding resolveRelatedResourceOriginNamespaces_def
  by (intro emits_intros emits_reads emits_templateLabelSelector)

lemma emits_resolveNames: "emits allow (resolveNames E o' relRes ons dns names result)"
proof (induction names arbitrary: result)
  case (Cons n names)
  then show ?case by (cases n) (auto intro!: emits_intros emits_reads)
qed (simp add: emits_intros)

lemma emits_resolveNamespaces: "emits allow (resolveNamespaces E o' d relRes spec nss result)"
proof (induction nss arbitrary: result)
  case (Cons n nss)
  then show ?case by (cases n) (auto intro!: emits_intros emits_inNamespace emits_resolveNames)
qed (simp add: emits_intros)

lemma emits_resolve: "emits allow (resolveRelatedResourceObjects E o' d relRes)"
  by (auto simp: resolveRelatedResourceObjects_def resolveRelatedResourceObjectsInNamespaces_def Let_def
        intro!: emits_intros emits_originNamespaces emits_resolveNamespaces)

lemma emits_confirmOriginEmpty: "emits allow (confirmOriginEmpty E s o' d relRes)"
  by (auto simp: confirmOriginEmpty_def Let_def intro!: emits_intros emits_resolve)

end

section \<open>What processing a related resource may request\<close>

definition mayDelete :: "RelatedResourceSpec \<Rightarrow> bool \<Rightarrow> bool" where
  "mayDelete relRes primaryDeleting \<longleftrightarrow>
     rr_Origin relRes = OriginKcp \<or> EffectiveCleanupPolicy relRes = CleanupMatchOrigin \<or>
     primaryDeleting \<and> EffectiveCleanupPolicy relRes = CleanupOnPrimaryDeletion"

text \<open>
  The writes of \<open>processRelatedResource\<close>, with \<open>oc\<close> and \<open>dc\<close> the clients of the origin and destination
  side: on the origin side only the finalizers of kcp objects, or of any object in a forced
  deletion; everything else on the destination side, deletions only where the cleanup policy or the
  deletion of a kcp original calls for them.
\<close>

fun relatedAllowed ::
    "ResourceSyncer \<Rightarrow> kubernetesBackend \<Rightarrow> RelatedResourceSpec \<Rightarrow> bool \<Rightarrow> client \<Rightarrow> client \<Rightarrow> call \<Rightarrow> bool" where
  "relatedAllowed s b relRes del oc dc (CDelete c obj pol) = (c = baseTarget dc \<and> mayDelete relRes del)"
| "relatedAllowed s b relRes del oc dc (CPatch c obj p) =
     (c = baseTarget oc \<and> finalizerPatch obj p \<and> (rr_Origin relRes = OriginKcp \<or> forcesDelete relRes del) \<or>
      c = baseTarget dc \<and> (\<not> rs_useServerSideApply s \<or> rr_Origin relRes = OriginService))"
| "relatedAllowed s b relRes del oc dc (CStatusUpdate c obj) =
     (c = baseTarget dc \<and> rr_SyncStatus relRes \<and> \<not> rs_useServerSideApply s)"
| "relatedAllowed s b relRes del oc dc (CCreate c obj) = (c = baseTarget dc \<and> \<not> rs_useServerSideApply s)"
| "relatedAllowed s b relRes del oc dc (CUpdate c obj) = (c = baseTarget dc \<and> \<not> rs_useServerSideApply s)"
| "relatedAllowed s b relRes del oc dc (CApply c obj owner) =
     (c = baseTarget dc \<and> rs_useServerSideApply s \<and> owner = ''api-syncagent'')"
| "relatedAllowed s b relRes del oc dc (CCreateNamespace c n) = (c = baseTarget dc)"
| "relatedAllowed s b relRes del oc dc (CCreateSecret c sec) =
     (c = baseTarget (client (kb_stateCluster b)) \<and> \<not> rs_useServerSideApply s)"
| "relatedAllowed s b relRes del oc dc (CUpdateSecret c sec) =
     (c = baseTarget (client (kb_stateCluster b)) \<and> \<not> rs_useServerSideApply s)"
| "relatedAllowed s b relRes del oc dc c = True"

interpretation ra: call_policy "relatedAllowed s b relRes del oc dc" for s b relRes del oc dc
proof unfold_locales
  fix c
  assume "isRead c"
  then show "relatedAllowed s b relRes del oc dc c" by (cases c) auto
qed simp

lemma syncAllowed_related:
  "syncAllowed (relatedSyncer E s b relRes gvk l a (forcesDelete relRes del) r) d oc dc c \<Longrightarrow>
     relatedAllowed s b relRes del oc dc c"
  by (cases c) (auto simp: relatedSyncer_def mayDelete_def forcesDelete_def fieldManager_def)

lemma emits_syncResolved:
  "emits (relatedAllowed s b relRes del (client origin) (client dest))
     (syncResolved E ctx s b relRes origin dest gvk l a (forcesDelete relRes del) rs acc)"
proof (induction rs arbitrary: acc)
  case (Cons r rs)
  obtain q d p where acc: "acc = (q, d, p)" by (cases acc) auto
  have sync: "emits (relatedAllowed s b relRes del (client origin) (client dest))
      (Sync E ctx (relatedSyncer E s b relRes gvk l a (forcesDelete relRes del) r) source src dest' dst)"
    if "client source = client origin" "client dest' = client dest" for source src dest' dst
    by (rule emits_weaken [OF emits_Sync]) (metis that syncAllowed_related)
  show ?case
    unfolding acc syncResolved.simps Let_def
    by (intro emits_intros ra.emits_reads sync Cons.IH) simp_all
qed (simp add: emits_intros)

lemma emits_pruneItems:
  assumes "mayDelete relRes del"
  shows "emits (relatedAllowed s b relRes del oc (client dest))
    (pruneItems E ctx dest primary keep policies deleteAll items requeue)"
proof (induction items arbitrary: requeue)
  case (Cons i items)
  show ?case
    unfolding pruneItems.simps Let_def cDelete_def
    by (intro emits_intros Cons.IH) (simp_all add: assms)
qed (simp add: emits_intros)

lemma emits_cleanUpCopies:
  "emits (relatedAllowed s b relRes del oc (client dest))
     (cleanUpCopies E ctx s remote origin dest primary relRes del gvk rs policies requeue)"
proof -
  have prune: "mayDelete relRes del \<Longrightarrow> emits (relatedAllowed s b relRes del oc (client dest))
      (pruneRelatedCopies E ctx dest primary gvk sel keep policies deleteAll)" for sel keep deleteAll
    unfolding pruneRelatedCopies_def by (intro emits_intros ra.emits_reads emits_pruneItems)
  show ?thesis
    unfolding cleanUpCopies_def Let_def
    by (intro emits_intros prune ra.emits_confirmOriginEmpty) (auto simp: mayDelete_def)
qed

lemma emits_remember:
  "rr_Origin relRes = OriginService \<Longrightarrow> emits (relatedAllowed s b relRes del oc (client remote))
     (rememberRelatedObjects E remote obj i rs)"
  by (auto simp: rememberRelatedObjects_def cPatch_def Let_def intro!: emits_intros)

lemma emits_processRelatedResource:
  "emits (relatedAllowed s b relRes del (client (originSide relRes remote local))
            (client (destSide relRes remote local)))
     (processRelatedResource E ctx s b remote local relRes del)"
proof -
  have rem: "rr_Origin relRes = OriginService \<Longrightarrow>
      emits (relatedAllowed s b relRes del oc (client (destSide relRes remote local)))
        (rememberRelatedObjects E remote obj i rs)" for oc obj i rs
    using emits_remember [of relRes s b del oc remote] by (simp add: destSide_def)
  show ?thesis
    unfolding processRelatedResource_def processResolved_def Let_def
    by (intro emits_intros ra.emits_resolve ra.emits_reads emits_syncResolved emits_cleanUpCopies rem)
qed

text \<open>
  Related resources: originals are never deleted or overwritten. Whatever the servers answer,
  processing a related resource deletes on the destination side only, and only if the original lives
  in kcp, the policy is \<open>MatchOrigin\<close>, or the primary is being deleted under \<open>OnPrimaryDeletion\<close>; the
  only thing it ever changes on an object of the origin side is its finalizers. In particular a
  service-side origin under the \<open>Orphan\<close> policy causes no deletion anywhere.
\<close>

theorem processRelatedResource_writes:
  "list_all (relatedAllowed s b relRes del (client (originSide relRes remote local))
               (client (destSide relRes remote local)))
     (sent (processRelatedResource E ctx s b remote local relRes del) w)"
  by (rule emits_sent) (rule emits_processRelatedResource)

section \<open>Pruning deletes exactly the stale copies\<close>

definition stale :: "string fset \<Rightarrow> bool \<Rightarrow> unstructured \<Rightarrow> bool" where
  "stale keep deleteAll item \<longleftrightarrow> deleteAll \<or> relatedCopyKey (oNamespace item) (oName item) |\<notin>| keep"

definition pruneCall :: "syncSide \<Rightarrow> deletionPolicies \<Rightarrow> unstructured \<Rightarrow> call" where
  "pruneCall dest policies item = CDelete (baseTarget (client dest)) item
     (normalizeDeletionPropagationPolicy (policyFor policies (relatedCopyKey (oNamespace item) (oName item))))"

lemma cDelete_cases:
  assumes "fst (api_Delete E (baseTarget c) item pol (server w)) \<in> {Inr (), Inl NotFound}"
  obtains s' where "cDelete E c item pol w =
      (Inr (), w\<lparr>server := s', trace := trace w @ [CDelete (baseTarget c) item pol]\<rparr>)"
    | s' where "cDelete E c item pol w =
      (Inl (ApiErr NotFound), w\<lparr>server := s', trace := trace w @ [CDelete (baseTarget c) item pol]\<rparr>)"
  using assms
  by (cases "api_Delete E (baseTarget c) item pol (server w)") (auto simp: cDelete_def request_def)

lemma pruneItems_exact:
  assumes law: "\<And>c item pol st. fst (api_Delete E c item pol st) \<in> {Inr (), Inl NotFound}"
  shows "\<exists>q w' cs. pruneItems E ctx dest primary keep policies deleteAll items requeue w = (Inr q, w') \<and>
    trace w' = trace w @ cs \<and>
    filter isDelete cs = map (pruneCall dest policies)
      (filter (\<lambda>i. stale keep deleteAll i \<and> oDeletionTimestamp i = None) items) \<and>
    (requeue \<or> list_ex (\<lambda>i. stale keep deleteAll i \<and> oDeletionTimestamp i \<noteq> None) items \<longrightarrow> q)"
proof (induction items arbitrary: requeue w)
  case Nil
  then show ?case by (simp add: go_simps)
next
  case (Cons i items)
  let ?k = "relatedCopyKey (oNamespace i) (oName i)"
  consider "\<not> stale keep deleteAll i" | "stale keep deleteAll i" "oDeletionTimestamp i \<noteq> None"
    | "stale keep deleteAll i" "oDeletionTimestamp i = None" by blast
  then show ?case
  proof cases
    case 1
    with Cons.IH [of requeue w] show ?thesis by (auto simp: stale_def)
  next
    case 2
    with Cons.IH [of True w] show ?thesis by (auto simp: stale_def)
  next
    case 3
    from law have "fst (api_Delete E (baseTarget (client dest)) i
        (normalizeDeletionPropagationPolicy (policyFor policies ?k)) (server w)) \<in> {Inr (), Inl NotFound}" .
    then show ?thesis
    proof (cases rule: cDelete_cases)
      case (1 s')
      with 3 Cons.IH [of True "snd ((if recorderFromContext ctx then event (Some primary) ''Normal'' ''ObjectCleanup''
          else ok ()) (w\<lparr>server := s', trace := trace w @ [pruneCall dest policies i]\<rparr>))"]
      show ?thesis by (auto simp: stale_def go_simps Let_def pruneCall_def event_def)
    next
      case (2 s')
      with 3 Cons.IH [of requeue "w\<lparr>server := s', trace := trace w @ [pruneCall dest policies i]\<rparr>"]
      show ?thesis by (auto simp: stale_def go_simps Let_def pruneCall_def)
    qed
  qed
qed

text \<open>
  C11. A prune deletes exactly the stale copies. Given the list the server returns for the provenance
  selector, and a server that accepts deletions or reports the object gone, the deletions sent are,
  in list order, those of the listed copies that are not to be kept and not already being deleted,
  each under its recorded propagation policy (background where none was recorded). As long as a
  stale copy is still being deleted the prune asks to be run again.
\<close>

theorem pruneRelatedCopies_exact:
  assumes list: "cList E (client dest) (gvString E (gvk_Group gvk) (gvk_Version gvk)) (gvk_Kind gvk @ ''List'')
      sel [] None w = (Inr items, w1)"
    and law: "\<And>c item pol st. fst (api_Delete E c item pol st) \<in> {Inr (), Inl NotFound}"
  shows "filter isDelete (sent (pruneRelatedCopies E ctx dest primary gvk sel keep policies deleteAll) w) =
           map (pruneCall dest policies)
             (filter (\<lambda>i. stale keep deleteAll i \<and> oDeletionTimestamp i = None) items) \<and>
         (\<exists>q. fst (pruneRelatedCopies E ctx dest primary gvk sel keep policies deleteAll w) = Inr q \<and>
            (list_ex (\<lambda>i. stale keep deleteAll i \<and> oDeletionTimestamp i \<noteq> None) items \<longrightarrow> q))"
proof -
  obtain q w' cs where run: "pruneItems E ctx dest primary keep policies deleteAll items False w1 = (Inr q, w')"
      "trace w' = trace w1 @ cs"
    and cs: "filter isDelete cs = map (pruneCall dest policies)
      (filter (\<lambda>i. stale keep deleteAll i \<and> oDeletionTimestamp i = None) items)"
    and q: "list_ex (\<lambda>i. stale keep deleteAll i \<and> oDeletionTimestamp i \<noteq> None) items \<longrightarrow> q"
    using pruneItems_exact [OF law, of ctx dest primary keep policies deleteAll items False w1] by auto
  have "trace w1 = trace w @ [CList (readTarget (client dest)) (gvString E (gvk_Group gvk) (gvk_Version gvk))
      (gvk_Kind gvk @ ''List'') sel [] None]"
    using list by (auto simp: cList_def request_def split: prod.splits)
  with list run cs q show ?thesis by (simp add: pruneRelatedCopies_def go_simps sent_def)
qed

theorem pruneRelatedCopies_exact_witness:
  "let E = (noServer :: unit env)\<lparr>api_List := (\<lambda>c a k sel ns lim s. (Inr [emptyObject\<lparr>oName := ''a''\<rparr>, emptyObject\<lparr>oName := ''b''\<rparr>], s)),
             api_Delete := (\<lambda>c o' p s. (Inr (), s))\<rparr>
   in filter isDelete (sent (pruneRelatedCopies E exampleContext (exampleSide LocalClient) emptyObject
        \<lparr> gvk_Group = [], gvk_Version = ''v1'', gvk_Kind = ''Secret'' \<rparr> Everything {|''/a''|} fmempty False)
        \<lparr> server = (), trace = [], selectors = noSelectors \<rparr>) =
      [CDelete LocalClient (emptyObject\<lparr>oName := ''b''\<rparr>) DeletePropagationBackground]"
proof -
  let ?E = "(noServer :: unit env)\<lparr>api_List := (\<lambda>c a k sel ns lim s. (Inr [emptyObject\<lparr>oName := ''a''\<rparr>, emptyObject\<lparr>oName := ''b''\<rparr>], s)),
             api_Delete := (\<lambda>c o' p s. (Inr (), s))\<rparr>"
  let ?gvk = "\<lparr> gvk_Group = [], gvk_Version = ''v1'', gvk_Kind = ''Secret'' \<rparr>"
  let ?w = "\<lparr> server = (), trace = [], selectors = noSelectors \<rparr>"
  have list: "cList ?E (client (exampleSide LocalClient)) (gvString ?E (gvk_Group ?gvk) (gvk_Version ?gvk))
      (gvk_Kind ?gvk @ ''List'') Everything [] None ?w =
        (Inr [emptyObject\<lparr>oName := ''a''\<rparr>, emptyObject\<lparr>oName := ''b''\<rparr>],
         ?w\<lparr>trace := [CList LocalClient (gvString ?E (gvk_Group ?gvk) (gvk_Version ?gvk)) ''SecretList'' Everything [] None]\<rparr>)"
    by (simp add: cList_def request_def exampleSide_def)
  have law: "fst (api_Delete ?E c item pol st) \<in> {Inr (), Inl NotFound}" for c item pol st by simp
  from pruneRelatedCopies_exact [OF list law, of exampleContext emptyObject "{|''/a''|}" fmempty False, THEN conjunct1]
  show ?thesis
    by (simp add: Let_def stale_def pruneCall_def relatedCopyKey_def emptyObject_def exampleSide_def policyFor_def
          normalizeDeletionPropagationPolicy_def)
qed

end
