(* ===== verification/Related_Properties.thy ===== *)
theory Related_Properties
  imports Related
begin

text \<open>
  What the resolution and the bookkeeping of related resources guarantee: when a prune may empty the
  destination, which annotations end up on the primary, how names are paired, and three runs in which
  the code does not do what its comments say.
\<close>

section \<open>An empty resolution is confirmed before it prunes\<close>

lemma sent_checkE:
  assumes "m w = (Inr x, w1)" "trace w1 = trace w @ cs" "emits (\<lambda>_. True) (k x)"
  shows "sent (checkE msg m k) w = cs @ sent (k x) w1"
proof -
  obtain ds where "trace (snd (k x w1)) = trace w1 @ ds" using assms(3) by (auto simp: emits_def)
  with assms(1,2) show ?thesis by (simp add: sent_def go_simps)
qed

definition noDelete :: "call \<Rightarrow> bool" where
  "noDelete c \<longleftrightarrow> \<not> isDelete c"

interpretation nd: call_policy noDelete
proof unfold_locales
  fix c
  assume "isRead c"
  then show "noDelete c" by (cases c) (auto simp: noDelete_def)
qed (simp add: noDelete_def)

lemma emits_cleanUpCopies_unconfirmed:
  assumes "\<not> yields (confirmOriginEmpty E s origin dest relRes) (True, True)"
  shows "emits noDelete (cleanUpCopies E ctx s remote origin dest primary relRes False gvk [] policies requeue)"
proof -
  have "emits noDelete (case x of (confirmedEmpty, checked) \<Rightarrow>
      if \<not> checked then ok requeue else if \<not> confirmedEmpty then ok True else m)"
    if "yields (confirmOriginEmpty E s origin dest relRes) x" for x m
    using that assms by (cases x) (auto intro!: emits_intros)
  then show ?thesis
    unfolding cleanUpCopies_def Let_def
    by (intro emits_if emits_checkE [OF nd.emits_confirmOriginEmpty] emits_basic) simp_all
qed


definition emptyRelRes :: RelatedResourceSpec where
  "emptyRelRes = plainRelated\<lparr>rr_Origin := OriginKcp, rr_CleanupPolicy := CleanupMatchOrigin,
     rr_Object := \<lparr> ro_Spec = ro_Spec (rr_Object plainRelated), ro_Namespace =
        Some \<lparr> os_Selector = None, os_Reference = None, os_Template = Some \<lparr> te_Template = ''x'' \<rparr> \<rparr> \<rparr>\<rparr>"


section \<open>Remembering related objects\<close>

lemma annotationJSON_nonempty: "annotationJSON r \<noteq> []"
  by (simp add: annotationJSON_def jsonObject_def)

lemma desiredAnnotations_lookup:
  "fmlookup (desiredAnnotations prefix i rs) k = Some v \<Longrightarrow> HasPrefix k prefix \<and> v \<noteq> []"
  by (induction prefix i rs rule: desiredAnnotations.induct) (auto simp: annotationJSON_nonempty split: if_splits)

lemma annotationsChanged_iff:
  assumes prefix: "\<And>k v. fmlookup desired k = Some v \<Longrightarrow> HasPrefix k prefix \<and> v \<noteq> []"
  shows "annotationsChanged prefix ann desired \<longleftrightarrow> fmfilter (\<lambda>k. HasPrefix k prefix) ann \<noteq> desired"
proof -
  have "\<not> annotationsChanged prefix ann desired"
    if eq: "fmfilter (\<lambda>k. HasPrefix k prefix) ann = desired"
  proof -
    have look: "fmlookup desired k = (if HasPrefix k prefix then fmlookup ann k else None)" for k
      using eq by (metis fmlookup_filter)
    show ?thesis
      by (auto simp: annotationsChanged_def fmpred_iff fmlookup_dom_iff mapGet_def look split: if_splits)
  qed
  moreover have "fmfilter (\<lambda>k. HasPrefix k prefix) ann = desired"
    if same: "\<not> annotationsChanged prefix ann desired"
  proof (rule fmap_ext)
    fix k
    have "HasPrefix k prefix \<Longrightarrow> fmlookup ann k = Some v \<Longrightarrow> \<exists>v'. fmlookup desired k = Some v'" for v
      using same by (auto simp: annotationsChanged_def fmpred_iff fmlookup_dom_iff)
    moreover have "fmlookup desired k = Some v \<Longrightarrow> mapGet ann k = v" for v
      using same by (auto simp: annotationsChanged_def fmpred_iff)
    ultimately show "fmlookup (fmfilter (\<lambda>k. HasPrefix k prefix) ann) k = fmlookup desired k"
      using prefix [of k]
      by (cases "fmlookup desired k"; cases "fmlookup ann k") (auto simp: mapGet_def)
  qed
  ultimately show ?thesis by blast
qed

lemma rememberAnnotations_parts:
  assumes "\<And>k v. fmlookup desired k = Some v \<Longrightarrow> HasPrefix k prefix \<and> v \<noteq> []"
  shows "fmfilter (\<lambda>k. HasPrefix k prefix) (rememberAnnotations prefix ann desired) = desired"
    and "fmfilter (\<lambda>k. \<not> HasPrefix k prefix) (rememberAnnotations prefix ann desired) =
           fmfilter (\<lambda>k. \<not> HasPrefix k prefix) ann"
proof -
  have dom: "k |\<in>| fmdom desired \<Longrightarrow> HasPrefix k prefix" for k
    using assms by (auto simp: fmlookup_dom_iff)
  show "fmfilter (\<lambda>k. HasPrefix k prefix) (rememberAnnotations prefix ann desired) = desired"
    using dom by (intro fmap_ext) (auto simp: rememberAnnotations_def fmdom_notD)
  show "fmfilter (\<lambda>k. \<not> HasPrefix k prefix) (rememberAnnotations prefix ann desired) =
      fmfilter (\<lambda>k. \<not> HasPrefix k prefix) ann"
    using dom by (intro fmap_ext) (auto simp: rememberAnnotations_def)
qed

lemma desiredAnnotations_nth:
  "fmlookup (desiredAnnotations prefix i rs) (prefix @ showNat j) =
     (if i \<le> j \<and> j < i + length rs then Some (annotationJSON (rs ! (j - i))) else None)"
  by (induction prefix i rs rule: desiredAnnotations.induct) (auto simp: nth_Cons' Suc_diff_le le_Suc_eq)

text \<open>
  C32. The annotations that tell the user about related objects. For a non-empty resolution the
  primary is patched exactly if its annotations under the identifier's prefix are not the desired
  ones; after the patch they are, number \<open>i\<close> describing the \<open>i\<close>-th resolved object, every annotation
  outside the prefix is as before, and repeating the call sends nothing. An empty resolution is
  never written.
\<close>

theorem rememberRelatedObjects_exact:
  "let prefix = relatedPrefix identifier; desired = desiredAnnotations prefix 0 rs;
       ann = orEmpty (oAnnotations obj); new = rememberAnnotations prefix ann desired;
       obj' = obj\<lparr>oAnnotations := Some new\<rparr>
   in sent (rememberRelatedObjects E remote obj identifier rs) w =
        (if rs = [] \<or> fmfilter (\<lambda>k. HasPrefix k prefix) ann = desired then []
         else [CPatch (baseTarget (client remote)) obj' (MergeFrom obj)]) \<and>
      sent (rememberRelatedObjects E remote obj' identifier rs) w = [] \<and>
      fmfilter (\<lambda>k. HasPrefix k prefix) new = desired \<and>
      fmfilter (\<lambda>k. \<not> HasPrefix k prefix) new = fmfilter (\<lambda>k. \<not> HasPrefix k prefix) ann \<and>
      (\<forall>i. fmlookup new (prefix @ showNat i) =
         (if i < length rs then Some (annotationJSON (rs ! i)) else None))"
proof -
  let ?p = "relatedPrefix identifier"
  let ?d = "desiredAnnotations ?p 0 rs" and ?ann = "orEmpty (oAnnotations obj)"
  let ?new = "rememberAnnotations ?p ?ann ?d"
  have changed: "annotationsChanged ?p a ?d \<longleftrightarrow> fmfilter (\<lambda>k. HasPrefix k ?p) a \<noteq> ?d" for a
    by (rule annotationsChanged_iff) (rule desiredAnnotations_lookup)
  have parts: "fmfilter (\<lambda>k. HasPrefix k ?p) ?new = ?d"
      "fmfilter (\<lambda>k. \<not> HasPrefix k ?p) ?new = fmfilter (\<lambda>k. \<not> HasPrefix k ?p) ?ann"
    by (rule rememberAnnotations_parts, erule desiredAnnotations_lookup)+
  have req: "sent (rememberRelatedObjects E remote o' identifier rs) w =
      (if rs = [] \<or> fmfilter (\<lambda>k. HasPrefix k ?p) (orEmpty (oAnnotations o')) = ?d then []
       else [CPatch (baseTarget (client remote))
         (o'\<lparr>oAnnotations := Some (rememberAnnotations ?p (orEmpty (oAnnotations o')) ?d)\<rparr>) (MergeFrom o')])" for o'
    unfolding rememberRelatedObjects_def Let_def changed
    by (auto simp: sent_def go_simps cPatch_def request_def split: prod.splits sum.splits)
  have nth: "fmlookup ?new (?p @ showNat i) = (if i < length rs then Some (annotationJSON (rs ! i)) else None)" for i
    using arg_cong [OF parts(1), of "\<lambda>m. fmlookup m (?p @ showNat i)"] by (simp add: desiredAnnotations_nth)
  have "orEmpty (oAnnotations (obj\<lparr>oAnnotations := Some ?new\<rparr>)) = ?new" by simp
  then have "sent (rememberRelatedObjects E remote (obj\<lparr>oAnnotations := Some ?new\<rparr>) identifier rs) w = []"
    by (simp only: req parts if_True simp_thms)
  then show ?thesis by (simp add: Let_def req [of obj] parts nth)
qed

section \<open>Pairing names\<close>

definition namePairs :: "string list \<Rightarrow> string list \<Rightarrow> (string \<times> string) list" where
  "namePairs as bs = filter (\<lambda>(a, b). a \<noteq> [] \<and> b \<noteq> []) (zip as bs)"

lemma fmupd_add_of_list:
  "fmupd a b m ++\<^sub>f fmap_of_list xs = m ++\<^sub>f fmap_of_list (xs @ [(a, b)])"
proof (rule fmap_ext)
  fix k
  show "fmlookup (fmupd a b m ++\<^sub>f fmap_of_list xs) k = fmlookup (m ++\<^sub>f fmap_of_list (xs @ [(a, b)])) k"
    by (simp only: fmadd.rep_eq fmap_of_list.rep_eq fmupd_lookup map_add_def map_of_append)
       (simp split: option.split)
qed

lemma mapSlicesFrom_eq:
  "mapSlicesFrom as bs m =
     (if length as \<le> length bs then Inr (m ++\<^sub>f fmap_of_list (rev (namePairs as bs)))
      else Inl (Panic ''index out of range''))"
proof (induction as bs m rule: mapSlicesFrom.induct)
  case (3 a as b bs m)
  have pairs: "namePairs (a # as) (b # bs) =
      (if b = [] \<or> a = [] then namePairs as bs else (a, b) # namePairs as bs)"
    by (simp add: namePairs_def)
  show ?case
    unfolding mapSlicesFrom.simps 3 pairs
    using fmupd_add_of_list [of a b m "rev (namePairs as bs)"] by simp
qed (simp_all add: namePairs_def)

text \<open>
  Pairing the names found on both sides. \<open>mapSlices\<close> maps the \<open>i\<close>-th origin name to the \<open>i\<close>-th
  destination name, drops every pair in which a side is empty, lets the last pair win where an
  origin name occurs twice, and adds nothing else; it runs out of bounds only if there are fewer
  destination names, which its callers exclude.
\<close>

theorem mapSlices_spec:
  "case mapSlices as bs of
     Inr m \<Rightarrow> length as \<le> length bs \<and> (\<forall>k. fmlookup m k = map_of (rev (namePairs as bs)) k)
   | Inl e \<Rightarrow> length bs < length as"
  by (simp add: mapSlices_def mapSlicesFrom_eq fmlookup_of_list)

lemma noPanic_mapSlices: "length as = length bs \<Longrightarrow> noPanic (mapSlices as bs)"
  by (simp add: mapSlices_def mapSlicesFrom_eq noPanic_def)

section \<open>No panics\<close>

lemma noPanic_Render: "noPanic (Render E t d)"
  by (auto simp: Render_def intro!: noPanic_rules)

lemma noPanic_regex: "noPanic (applyRegularExpression E v re)" "noPanic (applyRegexToAll E re vs)"
  by (induction vs) (auto simp: applyRegularExpression_def intro!: noPanic_rules)

lemma noPanic_reference: "noPanic (resolveObjectReference E obj ref)"
  by (auto simp: resolveObjectReference_def resolveReference_def Let_def split: option.split
        intro!: noPanic_rules noPanic_regex)

lemma noPanic_objOf: "object side \<noteq> None \<Longrightarrow> noPanic (objOf side)"
  by (auto simp: objOf_def noPanic_def)

lemma noPanic_resolveBy:
  assumes "object o' \<noteq> None" "object d \<noteq> None"
  shows "noPanic (resolveByReference E o' d ref)" "noPanic (resolveByTemplate E o' d origin tpl)"
  using assms
  by (auto simp: resolveByReference_def resolveByTemplate_def applyTemplateBothSides_def
        intro!: noPanic_rules noPanic_objOf noPanic_reference noPanic_Render noPanic_mapSlices split: prod.split)

lemma noPanic_rewrites:
  assumes "object o' \<noteq> None" "object d \<noteq> None"
  shows "noPanic (applySelectorRewrites E o' d origin v obj rw)"
  using assms
  by (auto simp: applySelectorRewrites_def applyTemplate_def remapSyncSides_def
        intro!: noPanic_rules noPanic_objOf noPanic_Render noPanic_regex split: prod.split option.split)

lemma noPanic_rewriteNames:
  assumes "\<And>n x. noPanic (f n x)"
  shows "noPanic (rewriteNames f xs m)"
proof (induction xs arbitrary: m)
  case (Cons x xs)
  then show ?case by (cases x) (simp add: assms noPanic_rules)
qed (simp add: noPanic_rules)

lemma noPanic_renderLabels: "noPanic (renderLabels E ctx kvs acc)"
proof (induction kvs arbitrary: acc)
  case (Cons kv kvs)
  then show ?case by (cases kv) (simp add: renderIfTemplate_def noPanic_rules noPanic_Render)
qed (simp add: noPanic_rules)

lemma safe_templateLabelSelector:
  "object o' \<noteq> None \<Longrightarrow> object d \<noteq> None \<Longrightarrow> safe (templateLabelSelector E o' d origin ptr)"
  by (auto simp: templateLabelSelector_def remapSyncSides_def Let_def
        intro!: safe_intros noPanic_objOf noPanic_renderLabels)

lemma safe_resolveNames: "safe (resolveNames E o' relRes ons dns names result)"
proof (induction names arbitrary: result)
  case (Cons n names)
  then show ?case by (cases n) (auto intro!: safe_intros)
qed (simp add: safe_intros)

lemma safe_resolveNamespaces:
  assumes "object o' \<noteq> None" "object d \<noteq> None"
  shows "safe (resolveNamespaces E o' d relRes spec nss result)"
proof (induction nss arbitrary: result)
  case (Cons n nss)
  with assms show ?case
    by (cases n)
       (auto simp: resolveRelatedResourceObjectsInNamespace_def intro!: safe_intros safe_resolveNames
          safe_templateLabelSelector noPanic_resolveBy noPanic_rules noPanic_rewriteNames noPanic_rewrites)
qed (simp add: safe_intros)

lemma safe_resolve:
  assumes "object o' \<noteq> None" "object d \<noteq> None"
  shows "safe (resolveRelatedResourceObjects E o' d relRes)"
  using assms
  by (auto simp: resolveRelatedResourceObjects_def resolveRelatedResourceObjectsInNamespaces_def
        resolveRelatedResourceOriginNamespaces_def Let_def
        intro!: safe_intros safe_resolveNamespaces safe_templateLabelSelector noPanic_objOf noPanic_resolveBy
          noPanic_rules noPanic_rewriteNames noPanic_rewrites)

lemma safe_syncResolved:
  assumes "recorderFromContext ctx"
  shows "safe (syncResolved E ctx s b relRes o' d gvk l a f rs acc)"
proof (induction rs arbitrary: acc)
  case (Cons r rs)
  obtain q dn p where acc: "acc = (q, dn, p)" by (cases acc) auto
  from assms show ?case
    unfolding acc syncResolved.simps Let_def
    by (auto intro!: safe_intros safe_Sync Cons.IH simp: relatedSyncer_def noPanic_rules)
qed (simp add: safe_intros)

lemma safe_pruneItems: "safe (pruneItems E ctx d p keep pol all items q)"
  by (induction items arbitrary: q) (auto simp: Let_def intro!: safe_intros)

lemma safe_processRelatedResource:
  assumes "recorderFromContext ctx" "object remote \<noteq> None" "object local \<noteq> None"
  shows "safe (processRelatedResource E ctx s b remote local relRes del)"
proof -
  have sides: "object (originSide relRes remote local) \<noteq> None" "object (destSide relRes remote local) \<noteq> None"
    using assms by (simp_all add: originSide_def destSide_def)
  have "safe (cleanUpCopies E ctx s remote (originSide relRes remote local) (destSide relRes remote local)
      p relRes del gvk rs pol q)" for p gvk rs pol q
    using sides
    by (auto simp: cleanUpCopies_def confirmOriginEmpty_def pruneRelatedCopies_def Let_def
          intro!: safe_intros safe_pruneItems safe_resolve)
  moreover have "safe (rememberRelatedObjects E remote p i rs)" for p i rs
    by (auto simp: rememberRelatedObjects_def Let_def intro!: safe_intros)
  ultimately show ?thesis
    using assms sides
    by (auto simp: processRelatedResource_def processResolved_def Let_def
          intro!: safe_intros safe_resolve safe_syncResolved noPanic_objOf)
qed

section \<open>Rendered selectors stay behind\<close>

lemma fold_fmupd_lookup:
  "fmlookup (fold (\<lambda>(k, v). fmupd k v) kvs m) k = (case map_of (rev kvs) k of Some v \<Rightarrow> Some v | None \<Rightarrow> fmlookup m k)"
  by (induction kvs arbitrary: m) (auto simp: map_add_def split: option.splits)

lemma distinct_sorted_list_of_fmap: "distinct (map fst (sorted_list_of_fmap m))"
  by (simp add: sorted_list_of_fmap_def comp_def sorted_list_of_fset.rep_eq)

lemma sorted_list_single: "sorted_list_of_fmap (fmupd k v fmempty) = [(k, v)]"
  by (simp add: sorted_list_of_fmap_def sorted_list_of_fset.rep_eq)

lemma rebuild_permuted:
  assumes "mset kvs = mset (sorted_list_of_fmap m)"
  shows "fold (\<lambda>(k, v). fmupd k v) kvs fmempty = m"
proof (rule fmap_ext)
  fix k
  have "distinct (map fst kvs)"
    by (metis assms distinct_sorted_list_of_fmap mset_eq_imp_distinct_iff mset_map)
  then have "map_of (rev kvs) = map_of (sorted_list_of_fmap m)"
    using mset_eq_setD [OF assms]
    by (subst map_of_inject_set) (simp_all add: distinct_sorted_list_of_fmap flip: rev_map)
  then show "fmlookup (fold (\<lambda>(k, v). fmupd k v) kvs fmempty) k = fmlookup m k"
    by (simp add: fold_fmupd_lookup split: option.split)
qed

definition plainLabels :: "labels \<Rightarrow> bool" where
  "plainLabels m = fmpred (\<lambda>k v. k \<noteq> [] \<and> \<not> Contains k ''{{'' \<and> \<not> Contains v ''{{'') m"

lemma renderLabels_plain:
  "\<forall>(k, v) \<in> set kvs. k \<noteq> [] \<and> \<not> Contains k ''{{'' \<and> \<not> Contains v ''{{'' \<Longrightarrow>
     renderLabels E ctx kvs acc = Inr (fold (\<lambda>(k, v). fmupd k v) kvs acc)"
  by (induction kvs arbitrary: acc) (auto simp: renderIfTemplate_def)

lemma rangeMap_perm:
  "\<exists>kvs s'. rangeMap E m w = (Inr kvs, w\<lparr>server := s'\<rparr>) \<and> mset kvs = mset (sorted_list_of_fmap m)"
  using mset_shuffle [of "go_choose E" "sorted_list_of_fmap m" "server w"]
  by (auto simp: rangeMap_def split: prod.split)

lemma templateLabelSelector_stores:
  "templateLabelSelector E o' d origin p w = (Inr l, w') \<Longrightarrow> ros_LabelSelector (selectors w' p) = l"
  by (auto simp: templateLabelSelector_def Let_def go_simps loadSelector_def storeSelector_def rangeMap_def
        split: prod.splits sum.splits)

lemma templateLabelSelector_plain:
  assumes "object o' \<noteq> None" "object d \<noteq> None" "plainLabels (ls_MatchLabels (ros_LabelSelector (selectors w p)))"
  shows "fst (templateLabelSelector E o' d origin p w) = Inr (ros_LabelSelector (selectors w p))"
proof -
  let ?m = "ls_MatchLabels (ros_LabelSelector (selectors w p))"
  obtain kvs s' where range: "rangeMap E ?m w = (Inr kvs, w\<lparr>server := s'\<rparr>)"
    and perm: "mset kvs = mset (sorted_list_of_fmap ?m)"
    using rangeMap_perm [of E ?m w] by blast
  have "\<forall>(k, v) \<in> set (sorted_list_of_fmap ?m). k \<noteq> [] \<and> \<not> Contains k ''{{'' \<and> \<not> Contains v ''{{''"
    using assms(3) list_all_sorted_list [of "\<lambda>(k, v). k \<noteq> [] \<and> \<not> Contains k ''{{'' \<and> \<not> Contains v ''{{''" ?m]
    by (simp add: plainLabels_def list_all_iff curry_def)
  then have "renderLabels E ctx kvs fmempty = Inr ?m" for ctx
    using mset_eq_setD [OF perm] by (simp add: renderLabels_plain rebuild_permuted [OF perm])
  with assms(1,2) range show ?thesis
    by (auto simp: templateLabelSelector_def remapSyncSides_def objOf_def Let_def go_simps loadSelector_def
          storeSelector_def)
qed

text \<open>
  Rendering a label selector is not local to one object. The rendered labels are written back
  through the pointer of the PublishedResource, so once a selector was rendered for one primary
  object (with non-empty labels and no template text left), every later rendering of it, for any
  other pair of objects, returns the labels of the first.
\<close>

theorem templateLabelSelector_sticks:
  assumes first: "templateLabelSelector E o1 d1 origin p w = (Inr l, w1)"
    and plain: "plainLabels (ls_MatchLabels l)"
    and objects: "object o2 \<noteq> None" "object d2 \<noteq> None"
  shows "fst (templateLabelSelector E o2 d2 origin' p w1) = Inr l"
  using templateLabelSelector_plain [OF objects, of w1 p E origin'] templateLabelSelector_stores [OF first] plain
  by simp

text \<open>A library in which a template renders to the name of the remote object, and a selector using it.\<close>

definition nameEnv :: "unit env" where
  "nameEnv = (noServer :: unit env)\<lparr>go_choose := (\<lambda>s. (0, s)), templateParse := (\<lambda>t. Inr ()),
     templateExecute := (\<lambda>t d. case d of RelatedObjectLabelContext l r c p \<Rightarrow> Inr (oName r) | _ \<Rightarrow> Inl ())\<rparr>"

definition nameSelector :: RelatedResourceObjectSelector where
  "nameSelector = \<lparr> ros_LabelSelector = \<lparr> ls_MatchLabels = fmupd ''owner'' ''{{ name }}'' fmempty,
     ls_MatchExpressions = [] \<rparr>, ros_Rewrite = \<lparr> rw_Regex = None, rw_Template = None \<rparr> \<rparr>"

definition namedSide :: "client \<Rightarrow> string \<Rightarrow> syncSide" where
  "namedSide c n = exampleSide c\<lparr>object := Some (emptyObject\<lparr>oName := n\<rparr>)\<rparr>"

theorem templateLabelSelector_sticks_witness:
  "let w = \<lparr> server = (), trace = [], selectors = (\<lambda>_. nameSelector) \<rparr>;
       l = \<lparr> ls_MatchLabels = fmupd ''owner'' ''alice'' fmempty, ls_MatchExpressions = [] \<rparr>
   in \<exists>w1. templateLabelSelector nameEnv (namedSide RemoteClient ''alice'') (namedSide LocalClient ''x'')
         OriginKcp 0 w = (Inr l, w1) \<and>
       fst (templateLabelSelector nameEnv (namedSide RemoteClient ''bob'') (namedSide LocalClient ''y'')
         OriginKcp 0 w1) = Inr l"
proof -
  let ?w = "\<lparr> server = (), trace = [], selectors = (\<lambda>_. nameSelector) \<rparr>"
  let ?l = "\<lparr> ls_MatchLabels = fmupd ''owner'' ''alice'' fmempty, ls_MatchExpressions = [] \<rparr>"
  obtain w1 where first: "templateLabelSelector nameEnv (namedSide RemoteClient ''alice'')
      (namedSide LocalClient ''x'') OriginKcp 0 ?w = (Inr ?l, w1)"
    by (simp add: templateLabelSelector_def remapSyncSides_def objOf_def Let_def go_simps loadSelector_def
          storeSelector_def rangeMap_def shuffle.simps takeAt_def nameEnv_def nameSelector_def namedSide_def
          sorted_list_single renderIfTemplate_def Render_def wrapErr_def NewRelatedObjectLabelContext_def str_simps
          TrimSpace_def isSpace_def emptyObject_def exampleSide_def)
  have "fst (templateLabelSelector nameEnv (namedSide RemoteClient ''bob'') (namedSide LocalClient ''y'')
      OriginKcp 0 w1) = Inr ?l"
    by (rule templateLabelSelector_sticks [OF first])
       (auto simp: plainLabels_def fmpred_iff namedSide_def str_simps split: if_splits)
  with first show ?thesis unfolding Let_def by blast
qed

section \<open>The live confirmation forgets the workspace path\<close>

text \<open>
  A server with one kcp object, named after its workspace path, and a related resource whose template
  renders to that path.
\<close>

definition pathEnv :: "unit env" where
  "pathEnv = (noServer :: unit env)\<lparr>go_choose := (\<lambda>s. (0, s)), templateParse := (\<lambda>t. Inr ()),
     templateExecute := (\<lambda>t d. case d of RelatedObjectContext side obj c p \<Rightarrow> Inr (''creds'' @ p) | _ \<Rightarrow> Inl ()),
     api_KindFor := (\<lambda>c g s. (Inr \<lparr> gvk_Group = [], gvk_Version = ''v1'', gvk_Kind = ''Secret'' \<rparr>, s)),
     api_Get := (\<lambda>c av k n s. (if n = \<lparr> nn_Namespace = ''ns'', nn_Name = ''credsroot:a'' \<rparr>
        then Inr (emptyObject\<lparr>oNamespace := ''ns'', oName := ''credsroot:a''\<rparr>) else Inl NotFound, s))\<rparr>"

definition pathRelRes :: RelatedResourceSpec where
  "pathRelRes = plainRelated\<lparr>rr_Origin := OriginKcp, rr_CleanupPolicy := CleanupMatchOrigin,
     rr_Object := \<lparr> ro_Spec = \<lparr> os_Selector = None, os_Reference = None,
        os_Template = Some \<lparr> te_Template = ''x'' \<rparr> \<rparr>, ro_Namespace = None \<rparr>\<rparr>"

definition pathSide :: "client \<Rightarrow> syncSide" where
  "pathSide c = \<lparr> clusterName = ''c1'', workspacePath = ''root:a'', client = c,
     object = Some (emptyObject\<lparr>oNamespace := ''ns'', oName := ''db''\<rparr>) \<rparr>"

text \<open>
  The live confirmation does not resolve what the sync resolves. The side it builds has no
  workspace path, so for a kcp origin whose template uses the path it looks for another name: on a
  server on which the resolution finds the origin object, \<open>confirmOriginEmpty\<close>, reading from that same
  server, reports the origin as checked and empty, which allows the prune to delete every copy.
\<close>

theorem confirmOriginEmpty_forgets_path:
  "let s = plainSyncer\<lparr>rs_remoteAPIReader := Some RemoteAPIReader\<rparr>;
       w = \<lparr> server = (), trace = [], selectors = noSelectors \<rparr>;
       origin = pathSide RemoteClient; dest = pathSide LocalClient
   in (\<exists>r. fst (resolveRelatedResourceObjects pathEnv origin dest pathRelRes w) = Inr [r]) \<and>
      fst (confirmOriginEmpty pathEnv s origin dest pathRelRes w) = Inr (True, True)"
proof -
  note defs = resolveRelatedResourceObjects_def resolveRelatedResourceObjectsInNamespaces_def
    resolveRelatedResourceObjectsInNamespace_def resolveByTemplate_def applyTemplateBothSides_def Render_def
    NewRelatedObjectContext_def remapSyncSides_def oppositeSide_def objOf_def rangeMap_def shuffle.simps takeAt_def
    sorted_list_single wrapErr_def TrimSpace_def isSpace_def go_simps cKindFor_def cGet_def request_def Let_def
  show ?thesis
    by (simp add: Let_def confirmOriginEmpty_def pathSide_def pathRelRes_def pathEnv_def emptyObject_def defs)
qed

section \<open>A failed read releases the original\<close>

text \<open>
  A failed read of the copy counts as an absent copy. When a kcp-side original is cleaned up
  with its primary and the Get of its copy fails, for whatever reason, the finalizer of the original
  is released at once, although the copy may still exist.
\<close>

theorem failed_read_releases_original:
  assumes get: "cGet E (client dest) (gvString E (gvk_Group gvk) (gvk_Version gvk)) (gvk_Kind gvk) (res_destination r)
      w = (Inl (ApiErr e), w1)"
    and origin: "rr_Origin relRes = OriginKcp"
    and fin: "deletionFinalizer \<in> set (oFinalizers (res_original r))"
  shows "\<exists>obj. CPatch (baseTarget (client origin)) obj (MergeFrom (res_original r)) \<in>
            set (sent (syncResolved E ctx s b relRes origin dest gvk l a (forcesDelete relRes True) [r] acc) w) \<and>
          deletionFinalizer \<notin> set (oFinalizers obj)"
proof -
  let ?obj = "(res_original r)\<lparr>oFinalizers :=
    sort (remdups (removeAll deletionFinalizer (oFinalizers (res_original r))))\<rparr>"
  obtain q dn p where acc: "acc = (q, dn, p)" by (cases acc) auto
  let ?sy = "relatedSyncer E s b relRes gvk l a (forcesDelete relRes True) r"
  have force: "sy_forceDelete ?sy" "sy_blockSourceDeletion ?sy"
    using origin by (simp_all add: relatedSyncer_def forcesDelete_def)
  have w1: "trace w1 = trace w @ [CGet (readTarget (client dest)) (gvString E (gvk_Group gvk) (gvk_Version gvk))
      (gvk_Kind gvk) (res_destination r)]"
    using get by (auto simp: cGet_def request_def split: prod.splits sum.splits)
  obtain res s' where patch: "api_Patch E (baseTarget (client origin)) ?obj (MergeFrom (res_original r)) (server w1) = (res, s')"
    by force
  have "CPatch (baseTarget (client origin)) ?obj (MergeFrom (res_original r)) \<in>
      set (sent (syncResolved E ctx s b relRes origin dest gvk l a (forcesDelete relRes True) [r] acc) w)"
    using get w1 patch force fin
    by (cases res)
       (auto simp: acc Sync_def handleDeletion_def removeFinalizer_def cPatch_def request_def recordEvent_def
          event_def go_simps sent_def Let_def split: prod.splits sum.splits)
  then show ?thesis by (intro exI [of _ ?obj]) simp
qed

theorem failed_read_releases_original_witness:
  "let E = (noServer :: unit env)\<lparr>api_Get := (\<lambda>c av k n s. (Inl (OtherErr ''timeout''), s))\<rparr>;
       r = \<lparr> res_original = emptyObject\<lparr>oName := ''creds'', oFinalizers := [deletionFinalizer]\<rparr>,
             res_destination = \<lparr> nn_Namespace = ''ns'', nn_Name = ''copy'' \<rparr> \<rparr>;
       gvk = \<lparr> gvk_Group = [], gvk_Version = ''v1'', gvk_Kind = ''Secret'' \<rparr>
   in \<exists>obj. CPatch RemoteClient obj (MergeFrom (res_original r)) \<in>
        set (sent (syncResolved E exampleContext plainSyncer memoryBackend pathRelRes (exampleSide RemoteClient)
          (exampleSide LocalClient) gvk fmempty fmempty (forcesDelete pathRelRes True) [r] (False, [], fmempty))
          \<lparr> server = (), trace = [], selectors = noSelectors \<rparr>) \<and>
      deletionFinalizer \<notin> set (oFinalizers obj)"
proof -
  let ?E = "(noServer :: unit env)\<lparr>api_Get := (\<lambda>c av k n s. (Inl (OtherErr ''timeout''), s))\<rparr>"
  let ?r = "\<lparr> res_original = emptyObject\<lparr>oName := ''creds'', oFinalizers := [deletionFinalizer]\<rparr>,
             res_destination = \<lparr> nn_Namespace = ''ns'', nn_Name = ''copy'' \<rparr> \<rparr>"
  let ?gvk = "\<lparr> gvk_Group = [], gvk_Version = ''v1'', gvk_Kind = ''Secret'' \<rparr>"
  let ?w = "\<lparr> server = (), trace = [], selectors = noSelectors \<rparr>"
  have "cGet ?E (client (exampleSide LocalClient)) (gvString ?E (gvk_Group ?gvk) (gvk_Version ?gvk)) (gvk_Kind ?gvk)
      (res_destination ?r) ?w =
      (Inl (ApiErr (OtherErr ''timeout'')),
       ?w\<lparr>trace := [CGet LocalClient (gvString ?E (gvk_Group ?gvk) (gvk_Version ?gvk)) (gvk_Kind ?gvk)
         (res_destination ?r)]\<rparr>)"
    by (simp add: cGet_def request_def exampleSide_def)
  from failed_read_releases_original [where relRes = pathRelRes and origin = "exampleSide RemoteClient" and
      ctx = exampleContext and s = plainSyncer and b = memoryBackend and l = fmempty and a = fmempty and
      acc = "(False, [], fmempty)", OF this]
  show ?thesis by (simp add: pathRelRes_def exampleSide_def)
qed

end
