(* ===== verification/Syncer.thy ===== *)
theory Syncer
  imports Related_Properties
begin

text \<open>
  The resource syncer (\<open>sync/syncer.go\<close>): its construction from a PublishedResource and a CRD, and
  \<open>Process\<close>, which finds the local copy of a remote object, syncs the pair and then the related
  resources, or cleans the related resources up first if the object is being deleted.
\<close>

section \<open>Construction\<close>

definition WithServerSideApply :: "ResourceSyncer \<Rightarrow> ResourceSyncer" where
  "WithServerSideApply r = r\<lparr>rs_useServerSideApply := True\<rparr>"

definition WithLiveReaders :: "client option \<Rightarrow> client option \<Rightarrow> ResourceSyncer \<Rightarrow> ResourceSyncer" where
  "WithLiveReaders local remote r = r\<lparr>rs_localAPIReader := local, rs_remoteAPIReader := remote\<rparr>"

definition crdSubresources :: "crd \<Rightarrow> string \<Rightarrow> string list" where
  "crdSubresources c version =
     concat (map (\<lambda>v. if ver_Name v = version
                       then (if ver_ScaleSubresource v then [''scale''] else []) @
                            (if ver_StatusSubresource v then [''status''] else [])
                       else []) (crd_Versions c))"

fun createRelatedMutators ::
    "(ResourceMutationSpec option \<Rightarrow> mutator option result) \<Rightarrow> RelatedResourceSpec list \<Rightarrow>
     (string, mutator option) fmap \<Rightarrow> (string, mutator option) fmap result" where
  "createRelatedMutators mutatorCreator [] acc = Inr acc"
| "createRelatedMutators mutatorCreator (rr # rrs) acc =
     bindR (wrapErr (''failed to create related object '' @ rr_Identifier rr @ '' mutator'')
              (mutatorCreator (rr_Mutation rr))) (\<lambda>m.
     createRelatedMutators mutatorCreator rrs (fmupd (rr_Identifier rr) m acc))"

definition NewResourceSyncer ::
    "'s env \<Rightarrow> client \<Rightarrow> client \<Rightarrow> PublishedResource \<Rightarrow> crd \<Rightarrow>
     (ResourceMutationSpec option \<Rightarrow> mutator option result) \<Rightarrow> string \<Rightarrow> string \<Rightarrow>
     (ResourceSyncer \<Rightarrow> ResourceSyncer) list \<Rightarrow> ResourceSyncer result" where
  "NewResourceSyncer E localClient remoteClient pubRes localCRD mutatorCreator stateNamespace agentName opts =
     bindR (PublishedResourceSourceGVK localCRD pubRes) (\<lambda>localGVK.
     let localDummy = emptyObject\<lparr>oAPIVersion := gvString E (gvk_Group localGVK) (gvk_Version localGVK),
           oKind := gvk_Kind localGVK\<rparr> in
     bindR (PublishedResourceProjectedGVK E localCRD pubRes) (\<lambda>remoteGVK.
     bindR (wrapErr ''failed to create primary object mutator''
              (mutatorCreator (prs_Mutation (pr_Spec pubRes)))) (\<lambda>primaryMutator.
     bindR (createRelatedMutators mutatorCreator (prs_Related (pr_Spec pubRes)) fmempty) (\<lambda>relatedMutators.
     Inr (fold (\<lambda>opt r. opt r) opts
       \<lparr> rs_localClient = localClient, rs_remoteClient = remoteClient, rs_pubRes = pubRes,
         rs_localCRD = localCRD, rs_subresources = crdSubresources localCRD (gvk_Version localGVK),
         rs_localAPIReader = None, rs_remoteAPIReader = None, rs_destDummy = localDummy,
         rs_primaryMutator = primaryMutator, rs_relatedMutators = relatedMutators,
         rs_agentName = agentName, rs_useServerSideApply = False, rs_stateNamespace = stateNamespace \<rparr>)))))"

section \<open>Processing an object\<close>

definition newLocalObjectCreator ::
    "'s env \<Rightarrow> ResourceSyncer \<Rightarrow> string \<Rightarrow> string \<Rightarrow> unstructured \<Rightarrow> unstructured result" where
  "newLocalObjectCreator E s cluster path remoteObj =
     (let destObj = remoteObj\<lparr>oAPIVersion := oAPIVersion (rs_destDummy s), oKind := oKind (rs_destDummy s)\<rparr> in
      bindR (wrapErr ''failed to generate local object name''
               (GenerateLocalObjectName E (rs_pubRes s) remoteObj cluster path)) (\<lambda>mappedName.
      Inr (case crd_Scope (rs_localCRD s) of
             ClusterScoped \<Rightarrow> destObj\<lparr>oNamespace := [], oName := nn_Name mappedName\<rparr>
           | NamespaceScoped \<Rightarrow> destObj\<lparr>oNamespace := nn_Namespace mappedName, oName := nn_Name mappedName\<rparr>
           | ScopeUnset \<Rightarrow> destObj)))"

definition findLocalObject :: "'s env \<Rightarrow> ResourceSyncer \<Rightarrow> objectKey \<Rightarrow> ('s, unstructured option) prog" where
  "findLocalObject E s key =
     checkE ''failed to find local equivalent''
       (cList E (rs_localClient s) (oAPIVersion (rs_destDummy s)) (oKind (rs_destDummy s) @ ''List'')
          (SelectorFromSet (objectKey_Labels E key)) [] (Some 2)) (\<lambda>items.
     case items of
       [] \<Rightarrow> ok None
     | [obj] \<Rightarrow> ok (Some obj)
     | _ \<Rightarrow> fail (Msg (''expected 1 object matching the selector, but found '' @ showNat (length items))))"

definition primarySyncer ::
    "'s env \<Rightarrow> ResourceSyncer \<Rightarrow> kubernetesBackend \<Rightarrow> string \<Rightarrow> string \<Rightarrow> unstructured \<Rightarrow> objectSyncer" where
  "primarySyncer E s stateStore cluster path remoteObj =
     \<lparr> sy_agentName = rs_agentName s,
       sy_destCreator = newLocalObjectCreator E s cluster path,
       sy_subresources = rs_subresources s,
       sy_syncStatusBack = True,
       sy_syncStatusForward = False,
       sy_blockSourceDeletion = True,
       sy_metadataOnDestination = True,
       sy_destLabels = fmempty,
       sy_destAnnotations = fmempty,
       sy_mutator = rs_primaryMutator s,
       sy_stateStore = stateStore,
       sy_eventObjSide = syncSideSource,
       sy_forceDelete = False,
       sy_deletionPropagationPolicy = deletionPropagationPolicy remoteObj,
       sy_useServerSideApply = rs_useServerSideApply s \<rparr>"

lemma primarySyncer_fields [simp]:
  "sy_forceDelete (primarySyncer E s b cn wp obj) = False"
  "sy_blockSourceDeletion (primarySyncer E s b cn wp obj) = True"
  "sy_useServerSideApply (primarySyncer E s b cn wp obj) = rs_useServerSideApply s"
  by (simp_all add: primarySyncer_def)

definition remoteSide :: "syncContext \<Rightarrow> ResourceSyncer \<Rightarrow> unstructured \<Rightarrow> syncSide" where
  "remoteSide ctx s remoteObj =
     \<lparr> clusterName = clusterFromContext ctx, workspacePath = workspacePathFromContext ctx,
       client = rs_remoteClient s, object = Some remoteObj \<rparr>"

definition localSide :: "ResourceSyncer \<Rightarrow> unstructured option \<Rightarrow> syncSide" where
  "localSide s localObj =
     \<lparr> clusterName = [], workspacePath = [], client = rs_localClient s, object = localObj \<rparr>"

definition newObjectStateStore ::
    "'s env \<Rightarrow> syncContext \<Rightarrow> ResourceSyncer \<Rightarrow> unstructured \<Rightarrow> unstructured option \<Rightarrow> kubernetesBackend" where
  "newObjectStateStore E ctx s remoteObj localObj =
     newKubernetesBackend E (rs_stateNamespace s) remoteObj (clusterFromContext ctx)
       (workspacePathFromContext ctx) (localSide s localObj)"

definition Process :: "'s env \<Rightarrow> syncContext \<Rightarrow> ResourceSyncer \<Rightarrow> unstructured \<Rightarrow> ('s, bool) prog" where
  "Process E ctx s remoteObj =
     checkE ''failed to find local equivalent''
       (findLocalObject E s (newObjectKey remoteObj (clusterFromContext ctx) (workspacePathFromContext ctx)))
       (\<lambda>localObj.
     let source = remoteSide ctx s remoteObj;
         dest = localSide s localObj;
         stateStore = newObjectStateStore E ctx s remoteObj localObj;
         syncer = primarySyncer E s stateStore (clusterFromContext ctx) (workspacePathFromContext ctx) remoteObj
     in checkE ''failed to clean up related resources during primary deletion''
          (if oDeletionTimestamp remoteObj \<noteq> None \<and> localObj \<noteq> None
           then processRelatedResources E ctx s stateStore source dest True
           else ok False) (\<lambda>relRequeue.
        if relRequeue then ok True
        else
          bindE (Sync E ctx syncer source remoteObj dest localObj) (\<lambda>(requeue, remoteObj', localObj').
          if requeue then ok True
          else if localObj' = None then ok False
          else processRelatedResources E ctx s stateStore
                 (source\<lparr>object := Some remoteObj'\<rparr>) (dest\<lparr>object := localObj'\<rparr>) False)))"

lemmas side_simps = remoteSide_def localSide_def newObjectStateStore_def newKubernetesBackend_def

section \<open>What processing an object may request\<close>

text \<open>
  The writes of \<open>Process\<close> for a remote object. The kcp object itself only ever has its finalizers and
  its status changed, and its annotations if a related resource comes from the service cluster. Its
  copy is deleted only while the kcp object is in deletion and under the policy the kcp object asks
  for; copies of related objects only as the cleanup policy of the related resource says. The state
  Secret lives on the service cluster.
\<close>

definition originClient :: "ResourceSyncer \<Rightarrow> RelatedResourceSpec \<Rightarrow> client" where
  "originClient s rr = (if rr_Origin rr = OriginService then rs_localClient s else rs_remoteClient s)"

definition destClient :: "ResourceSyncer \<Rightarrow> RelatedResourceSpec \<Rightarrow> client" where
  "destClient s rr = (if rr_Origin rr = OriginService then rs_remoteClient s else rs_localClient s)"

abbreviation relatedOf :: "ResourceSyncer \<Rightarrow> RelatedResourceSpec set" where
  "relatedOf s \<equiv> set (prs_Related (pr_Spec (rs_pubRes s)))"

definition writesTo :: "ResourceSyncer \<Rightarrow> client \<Rightarrow> bool" where
  "writesTo s c \<longleftrightarrow> c = baseTarget (rs_localClient s) \<or> (\<exists>rr \<in> relatedOf s. c = baseTarget (destClient s rr))"

fun processAllowed :: "ResourceSyncer \<Rightarrow> unstructured \<Rightarrow> call \<Rightarrow> bool" where
  "processAllowed s primary (CDelete c obj pol) =
     (c = baseTarget (rs_localClient s) \<and> oDeletionTimestamp primary \<noteq> None \<and>
        pol = normalizeDeletionPropagationPolicy (deletionPropagationPolicy primary) \<or>
      (\<exists>rr \<in> relatedOf s. c = baseTarget (destClient s rr) \<and> mayDelete rr (oDeletionTimestamp primary \<noteq> None)))"
| "processAllowed s primary (CPatch c obj p) =
     (c = baseTarget (rs_remoteClient s) \<and> finalizerPatch obj p \<or>
      c = baseTarget (rs_localClient s) \<and> \<not> rs_useServerSideApply s \<or>
      (\<exists>rr \<in> relatedOf s.
         c = baseTarget (originClient s rr) \<and> finalizerPatch obj p \<and>
           (rr_Origin rr = OriginKcp \<or> forcesDelete rr (oDeletionTimestamp primary \<noteq> None)) \<or>
         c = baseTarget (destClient s rr) \<and> (\<not> rs_useServerSideApply s \<or> rr_Origin rr = OriginService)))"
| "processAllowed s primary (CStatusUpdate c obj) =
     (c = baseTarget (rs_remoteClient s) \<or>
      (\<exists>rr \<in> relatedOf s. c = baseTarget (destClient s rr) \<and> rr_SyncStatus rr \<and> \<not> rs_useServerSideApply s))"
| "processAllowed s primary (CCreate c obj) = (writesTo s c \<and> \<not> rs_useServerSideApply s)"
| "processAllowed s primary (CUpdate c obj) = (writesTo s c \<and> \<not> rs_useServerSideApply s)"
| "processAllowed s primary (CApply c obj owner) = (writesTo s c \<and> rs_useServerSideApply s)"
| "processAllowed s primary (CCreateNamespace c n) = writesTo s c"
| "processAllowed s primary (CCreateSecret c sec) =
     (c = baseTarget (rs_localClient s) \<and> \<not> rs_useServerSideApply s)"
| "processAllowed s primary (CUpdateSecret c sec) =
     (c = baseTarget (rs_localClient s) \<and> \<not> rs_useServerSideApply s)"
| "processAllowed s primary c = True"

interpretation pa: call_policy "processAllowed s primary" for s primary
proof unfold_locales
  fix c
  assume "isRead c"
  then show "processAllowed s primary c" by (cases c) auto
qed simp

text \<open>How the disciplines of the two kinds of syncer fit into that of \<open>Process\<close>.\<close>

lemma processAllowed_related:
  assumes "relatedAllowed s b rr del (originClient s rr) (destClient s rr) c" "rr \<in> relatedOf s"
    "del \<Longrightarrow> oDeletionTimestamp primary \<noteq> None" "client (kb_stateCluster b) = rs_localClient s"
  shows "processAllowed s primary c"
  using assms by (cases c) (auto simp: writesTo_def mayDelete_def forcesDelete_def)

lemma processAllowed_primary:
  assumes "syncAllowed (primarySyncer E s b cn wp primary) (oDeletionTimestamp primary \<noteq> None)
      (rs_remoteClient s) (rs_localClient s) c" "client (kb_stateCluster b) = rs_localClient s"
  shows "processAllowed s primary c"
  using assms by (cases c) (auto simp: writesTo_def primarySyncer_def)

lemma emits_processRelatedList:
  assumes "client remote = rs_remoteClient s" "client local = rs_localClient s"
    "client (kb_stateCluster b) = rs_localClient s" "del \<Longrightarrow> oDeletionTimestamp primary \<noteq> None"
    "set rrs \<subseteq> relatedOf s"
  shows "emits (processAllowed s primary) (processRelatedList E ctx s b remote local del rrs)"
  using assms(5)
proof (induction rrs)
  case (Cons rr rrs)
  have "emits (processAllowed s primary) (processRelatedResource E ctx s b remote local rr del)"
  proof (rule emits_weaken [OF emits_processRelatedResource], rule processAllowed_related)
    show "relatedAllowed s b rr del (originClient s rr) (destClient s rr) c"
      if "relatedAllowed s b rr del (client (originSide rr remote local)) (client (destSide rr remote local)) c" for c
      using that assms(1,2) by (simp add: originSide_def destSide_def originClient_def destClient_def split: if_splits)
  qed (use Cons.prems assms in auto)
  with Cons show ?case by (auto intro!: emits_intros)
qed (simp add: emits_intros)

lemma emits_primary:
  assumes "client source = rs_remoteClient s" "client dest = rs_localClient s"
    "client (kb_stateCluster b) = rs_localClient s"
  shows "emits (processAllowed s primary)
    (Sync E ctx (primarySyncer E s b cn wp primary) source primary dest lo)"
proof (rule emits_weaken [OF emits_Sync])
  have "deletes (primarySyncer E s b cn wp primary) primary = (oDeletionTimestamp primary \<noteq> None)"
    by (simp add: deletes_def primarySyncer_def)
  then show "processAllowed s primary c"
    if "syncAllowed (primarySyncer E s b cn wp primary) (deletes (primarySyncer E s b cn wp primary) primary)
      (client source) (client dest) c" for c
    using that assms by (intro processAllowed_primary [of E s b cn wp primary]) simp_all
qed

lemma emits_findLocalObject: "emits isRead (findLocalObject E s key)"
  unfolding findLocalObject_def cList_def
  by (auto intro!: emits_intros split: list.split)

lemma emits_Process: "emits (processAllowed s primary) (Process E ctx s primary)"
  unfolding Process_def Let_def processRelatedResources_def
  by (intro emits_intros emits_processRelatedList emits_primary
        emits_weaken [OF emits_findLocalObject pa.allow_read]) (auto simp: side_simps)


section \<open>No panic\<close>

lemma noPanic_newLocalObjectCreator: "noPanic (newLocalObjectCreator E s cn wp obj)"
  by (auto simp: newLocalObjectCreator_def GenerateLocalObjectName_def generateLocalObjectIdentifier_def Let_def
        intro!: noPanic_rules noPanic_Render)

lemma safe_processRelatedList:
  "recorderFromContext ctx \<Longrightarrow> object remote \<noteq> None \<Longrightarrow> object local \<noteq> None \<Longrightarrow>
     safe (processRelatedList E ctx s b remote local del rrs)"
  by (induction rrs) (auto intro!: safe_intros safe_processRelatedResource)

lemma safe_findLocalObject: "safe (findLocalObject E s key)"
  by (auto simp: findLocalObject_def intro!: safe_intros split: list.split)

lemma safe_Process:
  assumes "recorderFromContext ctx"
  shows "safe (Process E ctx s primary)"
  unfolding Process_def Let_def processRelatedResources_def using assms
  by (auto simp: primarySyncer_def side_simps noPanic_newLocalObjectCreator
        intro!: safe_intros safe_findLocalObject safe_processRelatedList safe_Sync)

text \<open>
  \<open>Process\<close> does not panic. With an event recorder in the context, as its comment demands, every
  call ends with a result or an error, whatever the servers answer and whatever the configured
  naming rules, references, selectors, templates and mutations do.
\<close>

theorem Process_no_panic:
  assumes "recorderFromContext ctx"
  shows "noPanic (fst (Process E ctx s primary w))"
  using safe_Process [OF assms, of E s primary] by (simp add: safe_def)

text \<open>A service cluster on which every List returns the given objects.\<close>

definition listing :: "unstructured list \<Rightarrow> unit env" where
  "listing items = noServer\<lparr>api_List := (\<lambda>c a k sel ns lim s. (Inr items, s))\<rparr>"

definition startWorld :: "unit world" where
  "startWorld = \<lparr> server = (), trace = [], selectors = noSelectors \<rparr>"

lemma findLocalObject_listing:
  "findLocalObject (listing items) s key w =
     (case items of [] \<Rightarrow> Inr None | [x] \<Rightarrow> Inr (Some x)
      | _ \<Rightarrow> Inl (Msg (''expected 1 object matching the selector, but found '' @ showNat (length items))),
      w\<lparr>trace := trace w @ [CList (readTarget (rs_localClient s)) (oAPIVersion (rs_destDummy s))
        (oKind (rs_destDummy s) @ ''List'') (SelectorFromSet (objectKey_Labels (listing items) key)) [] (Some 2)]\<rparr>)"
  by (simp add: findLocalObject_def cList_def request_def listing_def go_simps split: list.split)

theorem Process_no_panic_witness:
  "noPanic (fst (Process (listing []) exampleContext plainSyncer (emptyObject\<lparr>oName := ''db''\<rparr>) startWorld))"
  by (rule Process_no_panic) (simp add: exampleContext_def recorderFromContext_def)

section \<open>Deletion of the primary object\<close>

definition dyingObject :: unstructured where
  "dyingObject = emptyObject\<lparr>oName := ''db'', oDeletionTimestamp := Some ''now''\<rparr>"

lemma Sync_deleting:
  "oDeletionTimestamp src \<noteq> None \<Longrightarrow> Sync E ctx s source src dest dst =
     bindE (handleDeletion E ctx s source src dest dst) (\<lambda>(requeue, src'). ok (requeue, src', dst))"
  by (simp add: Sync_def)

text \<open>
  A kcp object in deletion is only done when nothing is left of its copy: if \<open>Process\<close> reports
  that no further pass is needed, then there was no copy on the service cluster any more and the
  kcp object was already free of the agent's finalizer.
\<close>

theorem Process_deletion_done:
  assumes "oDeletionTimestamp primary \<noteq> None" "fst (Process E ctx s primary w) = Inr False"
  shows "fst (findLocalObject E s
           (newObjectKey primary (clusterFromContext ctx) (workspacePathFromContext ctx)) w) = Inr None \<and>
         deletionFinalizer \<notin> set (oFinalizers primary)"
  using assms
  by (auto simp: Process_def Let_def Sync_deleting go_simps primarySyncer_def
        split: prod.splits sum.splits if_splits dest!: handleDeletion_done)

theorem Process_deletion_done_witness:
  "fst (Process (listing []) exampleContext plainSyncer dyingObject startWorld) = Inr False \<and>
   deletionFinalizer \<notin> set (oFinalizers dyingObject)"
proof -
  have "fst (Process (listing []) exampleContext plainSyncer dyingObject startWorld) = Inr False"
    by (simp add: Process_def Let_def findLocalObject_listing Sync_deleting handleDeletion_def removeFinalizer_def
          dyingObject_def emptyObject_def primarySyncer_def go_simps)
  with Process_deletion_done [of dyingObject "listing []" exampleContext plainSyncer startWorld]
  show ?thesis by (simp add: dyingObject_def)
qed

text \<open>
  While a kcp object is in deletion the related resources go first: as long as their cleanup asks
  for another pass or fails, \<open>Process\<close> ends in the world that cleanup left behind, before the sync
  that would delete the copy (which the cleanup needs to find the related objects), and does not
  report that it is done.
\<close>

theorem Process_cleanup_first:
  assumes "oDeletionTimestamp primary \<noteq> None"
    "findLocalObject E s (newObjectKey primary (clusterFromContext ctx) (workspacePathFromContext ctx)) w =
       (Inr (Some copy), w1)"
    "processRelatedResources E ctx s (newObjectStateStore E ctx s primary (Some copy))
       (remoteSide ctx s primary) (localSide s (Some copy)) True w1 = (r, w2)" "r \<noteq> Inr False"
  shows "snd (Process E ctx s primary w) = w2 \<and> fst (Process E ctx s primary w) \<noteq> Inr False"
  using assms by (cases r) (auto simp: Process_def Let_def go_simps)

theorem Process_cleanup_first_witness:
  "fst (Process (listing [emptyObject]) exampleContext
     (plainSyncer\<lparr>rs_pubRes := plainResource\<lparr>pr_Spec := plainSpec\<lparr>prs_Related := [plainRelated]\<rparr>\<rparr>\<rparr>)
     dyingObject startWorld) \<noteq> Inr False"
proof -
  let ?s = "plainSyncer\<lparr>rs_pubRes := plainResource\<lparr>pr_Spec := plainSpec\<lparr>prs_Related := [plainRelated]\<rparr>\<rparr>\<rparr>"
  let ?E = "listing [emptyObject]" and ?key = "newObjectKey dyingObject ''c1'' []"
  let ?w1 = "snd (findLocalObject ?E ?s ?key startWorld)"
  let ?run = "processRelatedResources ?E exampleContext ?s (newObjectStateStore ?E exampleContext ?s dyingObject
    (Some emptyObject)) (remoteSide exampleContext ?s dyingObject) (localSide ?s (Some emptyObject)) True ?w1"
  have ctx: "clusterFromContext exampleContext = ''c1''" "workspacePathFromContext exampleContext = []"
    by (simp_all add: exampleContext_def clusterFromContext_def workspacePathFromContext_def)
  have "findLocalObject ?E ?s ?key startWorld = (Inr (Some emptyObject), ?w1)"
    by (simp add: findLocalObject_listing)
  moreover have "fst ?run \<noteq> Inr False"
    by (simp add: processRelatedResources_def processRelatedResource_def resolveRelatedResourceObjects_def
          resolveRelatedResourceObjectsInNamespaces_def resolveRelatedResourceObjectsInNamespace_def
          plainRelated_def side_simps originSide_def destSide_def plainSyncer_def dyingObject_def emptyObject_def
          cKindFor_def request_def listing_def noServer_def objOf_def rangeMap_def shuffle.simps takeAt_def
          sorted_list_single findLocalObject_def startWorld_def cList_def Let_def go_simps)
  ultimately show ?thesis
    using Process_cleanup_first [of dyingObject ?E ?s exampleContext startWorld emptyObject ?w1 "fst ?run" "snd ?run"]
    by (simp add: ctx) (simp add: dyingObject_def)
qed

section \<open>Ambiguous copies\<close>

text \<open>
  With more than one object carrying the link labels, \<open>Process\<close> fails, and the only request it
  sends is the List (with a limit of two) that found them: no object is changed on either side.
\<close>

theorem Process_ambiguous:
  assumes "api_List E (readTarget (rs_localClient s)) (oAPIVersion (rs_destDummy s))
      (oKind (rs_destDummy s) @ ''List'')
      (SelectorFromSet (objectKey_Labels E (newObjectKey primary (clusterFromContext ctx)
         (workspacePathFromContext ctx)))) [] (Some 2) (server w) = (Inr items, t)" "2 \<le> length items"
  shows "isl (fst (Process E ctx s primary w)) \<and>
    sent (Process E ctx s primary) w =
      [CList (readTarget (rs_localClient s)) (oAPIVersion (rs_destDummy s)) (oKind (rs_destDummy s) @ ''List'')
         (SelectorFromSet (objectKey_Labels E (newObjectKey primary (clusterFromContext ctx)
            (workspacePathFromContext ctx)))) [] (Some 2)]"
proof -
  obtain a b cs where "items = a # b # cs" using assms(2) by (cases items rule: list.exhaust; cases "tl items") auto
  then show ?thesis using assms(1)
    by (simp add: Process_def findLocalObject_def cList_def request_def go_simps sent_def)
qed

theorem Process_ambiguous_witness:
  "isl (fst (Process (listing [emptyObject, emptyObject]) exampleContext plainSyncer
     (emptyObject\<lparr>oName := ''db''\<rparr>) startWorld))"
  using Process_ambiguous [where E = "listing [emptyObject, emptyObject]" and s = plainSyncer and
      primary = "emptyObject\<lparr>oName := ''db''\<rparr>" and ctx = exampleContext and w = startWorld and
      items = "[emptyObject, emptyObject]" and t = "()"]
  by (simp add: listing_def)

section \<open>The first pass\<close>

lemma applyMutations_absent: "applyMutations E s src None = Inr (msrc, mdst) \<Longrightarrow> mdst = None"
  by (cases "sy_mutator s") (auto simp: applyMutations_def bindR_eq_Inr)

lemma Sync_absent:
  assumes "Sync E ctx s source src dest None w = (Inr (requeue, src', dst'), w')"
  shows "dst' = None" "oDeletionTimestamp src = None \<Longrightarrow> \<not> sy_forceDelete s \<Longrightarrow> \<not> sy_useServerSideApply s \<Longrightarrow> requeue"
  using assms
  by (auto simp: Sync_def go_simps visible_def dest!: applyMutations_absent
        split: prod.splits sum.splits if_splits option.splits)

text \<open>
  The first pass over an object that has no copy yet does nothing about its related resources:
  it is exactly one \<open>Sync\<close> of the primary. With client-side writes that pass always asks for
  another one. With server-side apply it may report that it is done, with related resources
  configured and none of them processed, although the comment of \<open>Process\<close> reserves that answer for
  a finished process; the witness is such a run.
\<close>

theorem Process_first_pass:
  assumes "oDeletionTimestamp primary = None"
    "findLocalObject E s (newObjectKey primary (clusterFromContext ctx) (workspacePathFromContext ctx)) w =
       (Inr None, w1)"
  shows "Process E ctx s primary w =
      bindE (Sync E ctx (primarySyncer E s (newObjectStateStore E ctx s primary None) (clusterFromContext ctx)
               (workspacePathFromContext ctx) primary) (remoteSide ctx s primary) primary (localSide s None) None)
        (\<lambda>(requeue, _, _). ok requeue) w1 \<and>
    (rs_useServerSideApply s \<or> fst (Process E ctx s primary w) \<noteq> Inr False)"
proof -
  let ?sy = "primarySyncer E s (newObjectStateStore E ctx s primary None) (clusterFromContext ctx)
    (workspacePathFromContext ctx) primary"
  obtain r w2 where run: "Sync E ctx ?sy (remoteSide ctx s primary) primary (localSide s None) None w1 = (r, w2)"
    by force
  show ?thesis
  proof (cases r)
    case (Inl e)
    with run assms show ?thesis by (simp add: Process_def Let_def go_simps)
  next
    case (Inr x)
    then obtain requeue src' dst' where r: "r = Inr (requeue, src', dst')" by (cases x) auto
    note Sync_absent [OF run [unfolded r]]
    with run r assms show ?thesis by (auto simp: Process_def Let_def go_simps)
  qed
qed

fun isApply :: "call \<Rightarrow> bool" where
  "isApply (CApply _ _ _) = True"
| "isApply _ = False"

definition applyingSyncer :: ResourceSyncer where
  "applyingSyncer = plainSyncer\<lparr>rs_useServerSideApply := True,
     rs_localCRD := plainCRD\<lparr>crd_Scope := ClusterScoped\<rparr>,
     rs_pubRes := plainResource\<lparr>pr_Spec := plainSpec\<lparr>prs_Related := [plainRelated],
       prs_Naming := Some \<lparr> rn_Name = ''x'', rn_Namespace = ''x'' \<rparr>\<rparr>\<rparr>\<rparr>"

lemma applyingSyncer_creates:
  "newLocalObjectCreator E applyingSyncer c p obj =
     Inr (obj\<lparr>oAPIVersion := ''example.com/v1'', oKind := ''Claim'', oNamespace := [], oName := ''x''\<rparr>)"
proof -
  have "replaceAll (legacyReplacements E obj c) ''x'' = ''x''"
    using replaceAll_Lit [of "''x''" E obj c "[]"] by simp
  then show ?thesis
    by (simp add: newLocalObjectCreator_def GenerateLocalObjectName_def generateLocalObjectIdentifier_def
          applyingSyncer_def plainSyncer_def plainResource_def plainSpec_def plainCRD_def wrapErr_def
          str_simps emptyObject_def Let_def)
qed

lemma applyingSyncer_fields:
  "rs_localClient applyingSyncer = LocalClient" "rs_remoteClient applyingSyncer = RemoteClient"
  "rs_useServerSideApply applyingSyncer" "rs_primaryMutator applyingSyncer = None"
  by (simp_all add: applyingSyncer_def plainSyncer_def)

theorem Process_first_pass_witness:
  "let E = (listing [])\<lparr>api_Apply := (\<lambda>c obj owner s. (Inr (obj\<lparr>oDeletionTimestamp := None, oContent := fmempty\<rparr>), s))\<rparr>;
       obj = emptyObject\<lparr>oName := ''db'', oFinalizers := [deletionFinalizer]\<rparr>
   in fst (Process E exampleContext applyingSyncer obj startWorld) = Inr False \<and>
      list_ex isApply (sent (Process E exampleContext applyingSyncer obj) startWorld)"
proof -
  let ?E = "(listing [])\<lparr>api_Apply := (\<lambda>c obj owner s. (Inr (obj\<lparr>oDeletionTimestamp := None, oContent := fmempty\<rparr>), s))\<rparr>"
  let ?obj = "emptyObject\<lparr>oName := ''db'', oFinalizers := [deletionFinalizer]\<rparr>"
  let ?w1 = "snd (findLocalObject ?E applyingSyncer (newObjectKey ?obj ''c1'' []) startWorld)"
  have ctx: "clusterFromContext exampleContext = ''c1''" "workspacePathFromContext exampleContext = []"
    "recorderFromContext exampleContext"
    by (simp_all add: exampleContext_def clusterFromContext_def workspacePathFromContext_def recorderFromContext_def)
  have "findLocalObject ?E applyingSyncer (newObjectKey ?obj ''c1'' []) startWorld = (Inr None, ?w1)"
    by (simp add: findLocalObject_def cList_def request_def listing_def go_simps)
  moreover have "oDeletionTimestamp emptyObject = None" "oContent emptyObject = fmempty"
    "semanticEqualJSON (noServer :: unit env) = (=)" by (simp_all add: emptyObject_def noServer_def)
  moreover note Process_first_pass [of ?obj ?E applyingSyncer exampleContext startWorld ?w1]
  ultimately show ?thesis
    by (simp add: ctx Let_def sent_def contentGet_def Sync_def applyMutations_def applyServerSide_def ensureNamespace_def
          ensureFinalizer_def applyingSyncer_creates cApply_def request_def recordEvent_def event_def
          syncObjectStatus_def primarySyncer_def applyingSyncer_fields findLocalObject_def cList_def
          listing_def go_simps startWorld_def)
qed

section \<open>A constructed syncer\<close>

lemma createRelatedMutators_other:
  "createRelatedMutators f rrs acc = Inr m \<Longrightarrow> i \<notin> rr_Identifier ` set rrs \<Longrightarrow> fmlookup m i = fmlookup acc i"
  by (induction rrs arbitrary: acc) (auto simp: bindR_eq_Inr)

lemma createRelatedMutators_lookup:
  assumes "createRelatedMutators f rrs acc = Inr m" "distinct (map rr_Identifier rrs)" "rr \<in> set rrs"
  shows "\<exists>x. f (rr_Mutation rr) = Inr x \<and> fmlookup m (rr_Identifier rr) = Some x"
  using assms
proof (induction rrs arbitrary: acc)
  case (Cons a rrs)
  then obtain x where x: "f (rr_Mutation a) = Inr x"
    "createRelatedMutators f rrs (fmupd (rr_Identifier a) x acc) = Inr m"
    by (auto simp: bindR_eq_Inr)
  show ?case
  proof (cases "rr = a")
    case True
    with Cons.prems(2) x createRelatedMutators_other [OF x(2), of "rr_Identifier a"] show ?thesis by simp
  next
    case False
    with Cons.prems Cons.IH [OF x(2)] show ?thesis by simp
  qed
qed simp

definition syncerOptions :: "(ResourceSyncer \<Rightarrow> ResourceSyncer) set" where
  "syncerOptions = insert WithServerSideApply (\<Union>l r. {WithLiveReaders l r})"

lemma fold_options:
  assumes "set opts \<subseteq> syncerOptions"
  shows "rs_pubRes (fold (\<lambda>opt r. opt r) opts s) = rs_pubRes s \<and>
    rs_primaryMutator (fold (\<lambda>opt r. opt r) opts s) = rs_primaryMutator s \<and>
    rs_relatedMutators (fold (\<lambda>opt r. opt r) opts s) = rs_relatedMutators s"
  using assms
  by (induction opts arbitrary: s) (auto simp: syncerOptions_def WithServerSideApply_def WithLiveReaders_def)

text \<open>
  A constructed syncer mutates every object by the rules configured for it: if \<open>NewResourceSyncer\<close>
  succeeds, the identifiers of the related resources being distinct as the API demands, the syncer
  used for the primary has the mutator made from the PublishedResource's rules, and the one used for
  a related resource the mutator made from that resource's rules; each of these was built without
  an error, whatever options were given.
\<close>

theorem NewResourceSyncer_mutators:
  assumes "NewResourceSyncer E lc rc pubRes c (NewMutator E) ns agent opts = Inr s"
    "set opts \<subseteq> syncerOptions" "distinct (map rr_Identifier (prs_Related (pr_Spec pubRes)))"
  shows "NewMutator E (prs_Mutation (pr_Spec pubRes)) = Inr (sy_mutator (primarySyncer E s b cn wp obj)) \<and>
    (\<forall>rr \<in> set (prs_Related (pr_Spec (rs_pubRes s))).
       NewMutator E (rr_Mutation rr) = Inr (sy_mutator (relatedSyncer E s b rr gvk l a force resolved)))"
proof -
  obtain pm rm s0 where pm: "NewMutator E (prs_Mutation (pr_Spec pubRes)) = Inr pm"
    and rm: "createRelatedMutators (NewMutator E) (prs_Related (pr_Spec pubRes)) fmempty = Inr rm"
    and s: "s = fold (\<lambda>opt r. opt r) opts s0"
    and s0: "rs_pubRes s0 = pubRes" "rs_primaryMutator s0 = pm" "rs_relatedMutators s0 = rm"
    using assms(1) by (auto simp: NewResourceSyncer_def Let_def bindR_eq_Inr)
  note fields = fold_options [OF assms(2), of s0, folded s, unfolded s0]
  show ?thesis
    using fields pm createRelatedMutators_lookup [OF rm assms(3)]
    by (force simp: primarySyncer_def relatedSyncer_def)
qed

theorem NewResourceSyncer_mutators_witness:
  "\<exists>s. NewResourceSyncer (noServer :: unit env) LocalClient RemoteClient plainResource plainCRD
         (NewMutator (noServer :: unit env)) ''kcp-system'' ''agent'' [WithServerSideApply] = Inr s \<and>
     NewMutator (noServer :: unit env) None =
       Inr (sy_mutator (primarySyncer (noServer :: unit env) s memoryBackend ''c1'' [] emptyObject))"
proof -
  let ?E = "noServer :: unit env"
  obtain s where "NewResourceSyncer ?E LocalClient RemoteClient plainResource plainCRD (NewMutator ?E)
      ''kcp-system'' ''agent'' [WithServerSideApply] = Inr s"
    by (simp add: NewResourceSyncer_def PublishedResourceSourceGVK_def PublishedResourceProjectedGVK_def
          getStorageVersion_def ProjectCRD_def stripUnwantedVersions_def adjustStorageVersion_def wantedVersion_def
          projectCRDVersions_def projectCRDNames_def plainResource_def plainSpec_def plainCRD_def NewMutator_def
          PublishedResourceSourceGK_def wrapErr_def Let_def)
  with NewResourceSyncer_mutators [of ?E LocalClient RemoteClient plainResource plainCRD "''kcp-system''" "''agent''"
      "[WithServerSideApply]" s memoryBackend "''c1''" "[]" emptyObject]
  show ?thesis by (auto simp: syncerOptions_def plainResource_def plainSpec_def)
qed

end
