(* ===== verification/Event_Filter.thy ===== *)
theory Event_Filter
  imports Kube_Types
begin

text \<open>
  The event predicates and the constant event handler that the controllers share (\<open>controllerutil\<close>).
  Matching a selector against labels is a parameter.
\<close>

datatype 'o watchEvent = CreateEvent 'o | UpdateEvent 'o 'o | DeleteEvent 'o | GenericEvent 'o

text \<open>A predicate without a filter, and any predicate on a generic event, lets everything pass.\<close>

fun Factory :: "('o \<Rightarrow> bool) option \<Rightarrow> 'o watchEvent \<Rightarrow> bool" where
  "Factory None e = True"
| "Factory (Some flt) (CreateEvent obj) = flt obj"
| "Factory (Some flt) (UpdateEvent old new) = (flt old \<or> flt new)"
| "Factory (Some flt) (DeleteEvent obj) = flt obj"
| "Factory (Some flt) (GenericEvent obj) = True"

definition ByLabels :: "(labels \<Rightarrow> bool) \<Rightarrow> ('o \<Rightarrow> labels option) \<Rightarrow> 'o watchEvent \<Rightarrow> bool" where
  "ByLabels matches getLabels = Factory (Some (\<lambda>obj. matches (orEmpty (getLabels obj))))"

definition EnqueueConst :: "string \<Rightarrow> 'o \<Rightarrow> nsname list" where
  "EnqueueConst value obj = [\<lparr> nn_Namespace = [], nn_Name = value \<rparr>]"

text \<open>An object that starts or stops matching is seen; between two states that do not match, nothing is.\<close>

lemma ByLabels_update:
  "ByLabels matches getLabels (UpdateEvent old new) \<longleftrightarrow>
     ByLabels matches getLabels (CreateEvent old) \<or> ByLabels matches getLabels (CreateEvent new)"
  by (simp add: ByLabels_def)

end
