(* ===== verification/Sync_Controller.thy ===== *)
theory Sync_Controller
  imports Syncer Discovery Event_Filter
begin

text \<open>
  The sync controller (\<open>controller/sync\<close>): which events lead to which requests, the filters, and the
  reconciliation of one request, which builds a resource syncer and runs \<open>Process\<close>.
\<close>

section \<open>Libraries of the controller\<close>

text \<open>
  What the controller uses of code outside the repository: looking up an engaged cluster, matching a
  selector, parsing a group version, creating a controller and adding a watch to it, the path type of
  kcp and the coordinates of a workspace's
  LogicalCluster object.
\<close>

record controllerLib =
  cl_GetCluster :: "string \<Rightarrow> unit + unit"
  cl_Matches :: "selector \<Rightarrow> labels \<Rightarrow> bool"
  cl_ParseGroupVersion :: "string \<Rightarrow> unit + (string \<times> string)"
  cl_NewUnmanaged :: "unit + unit"
  cl_Watch :: "groupVersionKind \<Rightarrow> unit + unit"
  cl_NewPath :: "string \<Rightarrow> string"
  cl_LogicalClusterAPIVersion :: string
  cl_LogicalClusterKind :: string
  cl_LogicalClusterName :: string
  cl_PathAnnotation :: string

record syncReconciler =
  sr_localClient :: client
  sr_localAPIReader :: client
  sr_remoteDummy :: unstructured
  sr_pubRes :: PublishedResource
  sr_localCRD :: crd
  sr_stateNamespace :: string
  sr_agentName :: string
  sr_enableServerSideApply :: bool

section \<open>From events to requests\<close>

text \<open>
  The watch on the service cluster: only objects labelled with the agent's own name pass the
  predicate, and they are mapped to the remote object they were copied from.
\<close>

definition enqueueRemoteObjForLocalObj :: "string \<Rightarrow> unstructured \<Rightarrow> clusterRequest list" where
  "enqueueRemoteObjForLocalObj agentName obj =
     (if \<not> OwnedBy obj agentName then []
      else case RemoteNameForLocalObject obj of None \<Rightarrow> [] | Some req \<Rightarrow> [req])"

definition ownerMatches :: "controllerLib \<Rightarrow> groupVersionKind \<Rightarrow> ownerReference \<Rightarrow> bool" where
  "ownerMatches L ownerGVK ref =
     (case cl_ParseGroupVersion L (own_APIVersion ref) of
        Inl _ \<Rightarrow> False
      | Inr (g, v) \<Rightarrow> g = gvk_Group ownerGVK \<and> v = gvk_Version ownerGVK \<and> own_Kind ref = gvk_Kind ownerGVK)"

definition byOwner_enqueue :: "controllerLib \<Rightarrow> string \<Rightarrow> groupVersionKind \<Rightarrow> unstructured \<Rightarrow> clusterRequest list" where
  "byOwner_enqueue L cluster ownerGVK obj =
     (case List.find (ownerMatches L ownerGVK) (oOwnerReferences obj) of
        None \<Rightarrow> []
      | Some ref \<Rightarrow> [\<lparr> cr_ClusterName = cluster,
                        cr_Name = \<lparr> nn_Namespace = oNamespace obj, nn_Name = own_Name ref \<rparr> \<rparr>])"

definition bySelector_enqueue ::
    "'s env \<Rightarrow> string \<Rightarrow> unstructured \<Rightarrow> LabelSelector \<Rightarrow> ('s, clusterRequest list) prog" where
  "bySelector_enqueue E cluster primaryDummy ls =
     (case asSelector E ls of
        Inl _ \<Rightarrow> ok []
      | Inr sel \<Rightarrow>
          attempt (cList E RemoteClient (oAPIVersion primaryDummy) (oKind primaryDummy @ ''List'') sel [] None) (\<lambda>res.
            case res of
              Inl _ \<Rightarrow> ok []
            | Inr items \<Rightarrow> ok (map (\<lambda>p. \<lparr> cr_ClusterName = cluster, cr_Name = keyOf p \<rparr>) items)))"

text \<open>
  The handlers on the side of kcp, for every event of a watch. Of an update they see the new object only.
\<close>

fun eventObject :: "'o watchEvent \<Rightarrow> 'o" where
  "eventObject (CreateEvent obj) = obj"
| "eventObject (UpdateEvent objectOld objectNew) = objectNew"
| "eventObject (DeleteEvent obj) = obj"
| "eventObject (GenericEvent obj) = obj"

definition byOwnerEventHandler :: "controllerLib \<Rightarrow> string \<Rightarrow> groupVersionKind \<Rightarrow> unstructured watchEvent \<Rightarrow> clusterRequest list" where
  "byOwnerEventHandler L cluster ownerGVK evt = byOwner_enqueue L cluster ownerGVK (eventObject evt)"

definition bySelectorEventHandler ::
    "'s env \<Rightarrow> string \<Rightarrow> unstructured \<Rightarrow> LabelSelector \<Rightarrow> unstructured watchEvent \<Rightarrow> ('s, clusterRequest list) prog" where
  "bySelectorEventHandler E cluster primaryDummy ls evt = bySelector_enqueue E cluster primaryDummy ls"

text \<open>
  An object that loses its owner in an update wakes neither the old owner nor anyone else, although it did so while
  it had the owner, and would if it was deleted.
\<close>

lemma lost_owner_not_woken:
  assumes "List.find (ownerMatches L gvk) (oOwnerReferences old) = Some ref"
    and "\<forall>r \<in> set (oOwnerReferences new). \<not> ownerMatches L gvk r"
  shows "byOwnerEventHandler L cluster gvk (UpdateEvent old new) = []"
    "byOwnerEventHandler L cluster gvk (DeleteEvent old) \<noteq> []"
  using assms by (simp_all add: byOwnerEventHandler_def byOwner_enqueue_def find_None_iff split: option.splits)

text \<open>The handlers that a watch on a related resource can have, one constructor per closure.\<close>

datatype relatedHandler =
    KcpByOwner groupVersionKind
  | KcpBySelector LabelSelector
  | ServiceByOwner groupVersionKind
  | ServiceBySelector selector

definition buildKcpRelatedHandler :: "RelatedResourceWatch \<Rightarrow> groupVersionKind \<Rightarrow> relatedHandler result" where
  "buildKcpRelatedHandler watch remoteGVK =
     (if rw_ByOwner watch then Inr (KcpByOwner remoteGVK)
      else case rw_BySelector watch of
        Some sel \<Rightarrow> Inr (KcpBySelector sel)
      | None \<Rightarrow> Inl (Msg ''related resource has Watch set but neither byOwner nor bySelector configured''))"

definition buildServiceRelatedHandler ::
    "'s env \<Rightarrow> RelatedResourceWatch \<Rightarrow> groupVersionKind \<Rightarrow> relatedHandler result" where
  "buildServiceRelatedHandler E watch localGVK =
     (if rw_ByOwner watch then Inr (ServiceByOwner localGVK)
      else case rw_BySelector watch of
        Some ls \<Rightarrow>
          bindR (wrapErr ''failed to convert bySelector for service-origin related resource''
                   (lib ''selector'' (asSelector E ls))) (\<lambda>sel. Inr (ServiceBySelector sel))
      | None \<Rightarrow> Inl (Msg ''related resource has Watch set but neither byOwner nor bySelector configured''))"

text \<open>What a handler enqueues for an event on the related object \<open>obj\<close> (in \<open>cluster\<close>, if it is a kcp one).\<close>

fun handleRelatedEvent ::
    "'s env \<Rightarrow> controllerLib \<Rightarrow> unstructured \<Rightarrow> unstructured \<Rightarrow> string \<Rightarrow> relatedHandler \<Rightarrow> unstructured \<Rightarrow>
     ('s, clusterRequest list) prog" where
  "handleRelatedEvent E L localDummy remoteDummy cluster (KcpByOwner gvk) obj = ok (byOwner_enqueue L cluster gvk obj)"
| "handleRelatedEvent E L localDummy remoteDummy cluster (KcpBySelector ls) obj =
     bySelector_enqueue E cluster remoteDummy ls"
| "handleRelatedEvent E L localDummy remoteDummy cluster (ServiceByOwner gvk) obj =
     (case List.find (ownerMatches L gvk) (oOwnerReferences obj) of
        None \<Rightarrow> ok []
      | Some ref \<Rightarrow>
          attempt (cGet E LocalClient (oAPIVersion localDummy) (oKind localDummy)
                     \<lparr> nn_Namespace = oNamespace obj, nn_Name = own_Name ref \<rparr>) (\<lambda>res.
            case res of
              Inl _ \<Rightarrow> ok []
            | Inr localPrimary \<Rightarrow>
                ok (case RemoteNameForLocalObject localPrimary of None \<Rightarrow> [] | Some req \<Rightarrow> [req])))"
| "handleRelatedEvent E L localDummy remoteDummy cluster (ServiceBySelector sel) obj =
     attempt (cList E LocalClient (oAPIVersion localDummy) (oKind localDummy @ ''List'') sel [] None) (\<lambda>res.
       case res of
         Inl _ \<Rightarrow> ok []
       | Inr items \<Rightarrow> ok (List.map_filter RemoteNameForLocalObject items))"

section \<open>Setting up the watches\<close>

text \<open>
  A watch is registered for an origin and a kind. The two sets of kinds already watched are the
  pairs registered so far.
\<close>

type_synonym watches = "((RelatedResourceOrigin \<times> groupVersionKind) \<times> relatedHandler) list"

fun setupRelatedResourceWatches ::
    "'s env \<Rightarrow> controllerLib \<Rightarrow> groupVersionKind \<Rightarrow> groupVersionKind \<Rightarrow> RelatedResourceSpec list \<Rightarrow> watches \<Rightarrow>
     ('s, watches) prog" where
  "setupRelatedResourceWatches E L localGVK remoteGVK [] watched = ok watched"
| "setupRelatedResourceWatches E L localGVK remoteGVK (relRes # rest) watched =
     (case rr_Watch relRes of
        None \<Rightarrow> setupRelatedResourceWatches E L localGVK remoteGVK rest watched
      | Some watch \<Rightarrow>
          checkE ''failed to determine Kind for related resource''
            (cKindFor E (if rr_Origin relRes = OriginKcp then RemoteClient else LocalClient)
               (RelatedResourceGVR relRes)) (\<lambda>gvk.
          if (rr_Origin relRes, gvk) \<in> fst ` set watched
          then setupRelatedResourceWatches E L localGVK remoteGVK rest watched
          else
            bindE (liftE (if rr_Origin relRes = OriginKcp then buildKcpRelatedHandler watch remoteGVK
                          else buildServiceRelatedHandler E watch localGVK)) (\<lambda>h.
            checkE ''failed to setup watch for related resource'' (liftE (lib ''watch'' (cl_Watch L gvk))) (\<lambda>_.
            setupRelatedResourceWatches E L localGVK remoteGVK rest
              (watched @ [((rr_Origin relRes, gvk), h)])))))"

text \<open>The construction of the controller.\<close>

definition Create ::
    "'s env \<Rightarrow> controllerLib \<Rightarrow> discoveryLib \<Rightarrow> PublishedResource \<Rightarrow> string \<Rightarrow> string \<Rightarrow> bool \<Rightarrow>
     ('s, syncReconciler \<times> watches) prog" where
  "Create E L D pubRes stateNamespace agentName enableServerSideApply =
     checkE ''failed to find local CRD'' (liftE (RetrieveCRD E D (PublishedResourceSourceGK pubRes))) (\<lambda>localCRD.
     bindE (liftE (PublishedResourceSourceGVK localCRD pubRes)) (\<lambda>localGVK.
     bindE (liftE (PublishedResourceProjectedGVK E localCRD pubRes)) (\<lambda>remoteGVK.
     let remoteDummy = emptyObject\<lparr>oAPIVersion := gvString E (gvk_Group remoteGVK) (gvk_Version remoteGVK),
           oKind := gvk_Kind remoteGVK\<rparr>;
         reconciler = \<lparr> sr_localClient = LocalClient, sr_localAPIReader = LocalAPIReader,
           sr_remoteDummy = remoteDummy, sr_pubRes = pubRes, sr_localCRD = localCRD,
           sr_stateNamespace = stateNamespace, sr_agentName = agentName,
           sr_enableServerSideApply = enableServerSideApply \<rparr>
     in checkE ''failed to instantiate new controller'' (liftE (lib ''controller'' (cl_NewUnmanaged L))) (\<lambda>_.
        checkE ''failed to setup remote-side watch'' (liftE (lib ''watch'' (cl_Watch L remoteGVK))) (\<lambda>_.
        checkE ''failed to setup local-side watch'' (liftE (lib ''watch'' (cl_Watch L localGVK))) (\<lambda>_.
        bindE (setupRelatedResourceWatches E L localGVK remoteGVK (prs_Related (pr_Spec pubRes)) []) (\<lambda>watches.
        ok (reconciler, watches))))))))"

section \<open>Filters\<close>

text \<open>
  \<open>matchesFilter\<close> reads the labels of the object it is given; a nil object (\<open>None\<close>) is dereferenced
  as soon as a selector is configured and valid.
\<close>

definition matchesFilter ::
    "'s env \<Rightarrow> controllerLib \<Rightarrow> labels option option \<Rightarrow> LabelSelector option \<Rightarrow> bool result" where
  "matchesFilter E L obj sel =
     (case sel of
        None \<Rightarrow> Inr True
      | Some ls \<Rightarrow>
          bindR (lib ''selector'' (asSelector E ls)) (\<lambda>s.
          case obj of
            None \<Rightarrow> Inl (Panic ''nil pointer dereference'')
          | Some l \<Rightarrow> Inr (cl_Matches L s (orEmpty l))))"

definition objectMatchesFilter ::
    "'s env \<Rightarrow> controllerLib \<Rightarrow> syncReconciler \<Rightarrow> unstructured \<Rightarrow> kubeNamespace option \<Rightarrow> bool result" where
  "objectMatchesFilter E L r remoteObj namespace =
     (case prs_Filter (pr_Spec (sr_pubRes r)) of
        None \<Rightarrow> Inr True
      | Some flt \<Rightarrow>
          bindR (matchesFilter E L (Some (oLabels remoteObj)) (flt_Resource flt)) (\<lambda>objMatches.
          if \<not> objMatches then Inr False
          else
            bindR (matchesFilter E L (map_option ns_Labels namespace) (flt_Namespace flt)) (\<lambda>nsMatches.
            Inr nsMatches)))"

section \<open>Reconciling a request\<close>

definition namespaceFilter :: "syncReconciler \<Rightarrow> LabelSelector option" where
  "namespaceFilter r =
     (case prs_Filter (pr_Spec (sr_pubRes r)) of None \<Rightarrow> None | Some flt \<Rightarrow> flt_Namespace flt)"

definition fetchNamespace ::
    "'s env \<Rightarrow> syncReconciler \<Rightarrow> unstructured \<Rightarrow> ('s, kubeNamespace option) prog" where
  "fetchNamespace E r remoteObj =
     (if namespaceFilter r \<noteq> None \<and> oNamespace remoteObj \<noteq> []
      then checkE ''failed to retrieve namespace of the remote object''
             (cGetNamespace E RemoteClient (oNamespace remoteObj)) (\<lambda>ns. ok (Some ns))
      else ok None)"

text \<open>The workspace path is only looked up if the PublishedResource asks for it.\<close>

definition fetchWorkspacePath ::
    "'s env \<Rightarrow> controllerLib \<Rightarrow> syncReconciler \<Rightarrow> unstructured \<Rightarrow> syncContext \<Rightarrow> ('s, syncContext) prog" where
  "fetchWorkspacePath E L r remoteObj ctx =
     (if prs_EnableWorkspacePaths (pr_Spec (sr_pubRes r))
      then
        attempt (cGet E RemoteClient (cl_LogicalClusterAPIVersion L) (cl_LogicalClusterKind L)
                   \<lparr> nn_Namespace = [], nn_Name = cl_LogicalClusterName L \<rparr>) (\<lambda>res.
          case res of
            Inl e \<Rightarrow>
              bindE (event (Some remoteObj) ''Warning'' ''ReconcilingError'') (\<lambda>_.
              fail (Wrapped ''failed to retrieve remote logicalcluster'' e))
          | Inr lc \<Rightarrow>
              ok (WithWorkspacePath ctx (cl_NewPath L (mapGet (orEmpty (oAnnotations lc)) (cl_PathAnnotation L)))))
      else ok ctx)"

definition syncerOpts :: "syncReconciler \<Rightarrow> (ResourceSyncer \<Rightarrow> ResourceSyncer) list" where
  "syncerOpts r =
     [WithLiveReaders (Some (sr_localAPIReader r)) (Some RemoteAPIReader)] @
     (if sr_enableServerSideApply r then [WithServerSideApply] else [])"

definition newSyncer :: "'s env \<Rightarrow> syncReconciler \<Rightarrow> ResourceSyncer result" where
  "newSyncer E r =
     NewResourceSyncer E (sr_localClient r) RemoteClient (sr_pubRes r) (sr_localCRD r) (NewMutator E)
       (sr_stateNamespace r) (sr_agentName r) (syncerOpts r)"

text \<open>
  A failed construction or a failed \<open>Process\<close> is reported as an event on the remote object before the
  error is returned. The result is the number of seconds after which to come back, 0 for none.
\<close>

definition processObject ::
    "'s env \<Rightarrow> syncReconciler \<Rightarrow> unstructured \<Rightarrow> syncContext \<Rightarrow> ('s, nat) prog" where
  "processObject E r remoteObj ctx =
     (let report = (\<lambda>e. bindE (event (Some remoteObj) ''Warning'' ''ReconcilingError'') (\<lambda>_. fail e)) in
      case newSyncer E r of
        Inl e \<Rightarrow> if isPanic e then fail e else report (Wrapped ''failed to create syncer'' e)
      | Inr syncer \<Rightarrow>
          attempt (Process E ctx syncer remoteObj) (\<lambda>res.
            case res of
              Inl e \<Rightarrow> report e
            | Inr requeue \<Rightarrow> ok (if requeue then 5 else 0)))"

definition emptyContext :: syncContext where
  "emptyContext = \<lparr> ctx_Cluster = None, ctx_WorkspacePath = None, ctx_Recorder = False \<rparr>"

definition reconcileObject ::
    "'s env \<Rightarrow> controllerLib \<Rightarrow> syncReconciler \<Rightarrow> string \<Rightarrow> unstructured \<Rightarrow> ('s, nat) prog" where
  "reconcileObject E L r cluster remoteObj =
     (if oName remoteObj = [] then ok 0
      else
        bindE (fetchNamespace E r remoteObj) (\<lambda>namespace.
        checkE ''failed to apply filtering rules'' (liftE (objectMatchesFilter E L r remoteObj namespace)) (\<lambda>include.
        if \<not> include then ok 0
        else
          let ctx = WithEventRecorder (WithClusterName emptyContext cluster) in
          bindE (fetchWorkspacePath E L r remoteObj ctx) (processObject E r remoteObj))))"

definition getRemote :: "'s env \<Rightarrow> syncReconciler \<Rightarrow> nsname \<Rightarrow> ('s, unstructured) prog" where
  "getRemote E r name =
     attempt (cGet E RemoteClient (oAPIVersion (sr_remoteDummy r)) (oKind (sr_remoteDummy r)) name) (\<lambda>res.
       case res of
         Inl e \<Rightarrow> if IsNotFound e then ok (sr_remoteDummy r)
                  else fail (Wrapped ''failed to retrieve remote object'' e)
       | Inr obj \<Rightarrow> ok obj)"

definition Reconcile :: "'s env \<Rightarrow> controllerLib \<Rightarrow> syncReconciler \<Rightarrow> clusterRequest \<Rightarrow> ('s, nat) prog" where
  "Reconcile E L r req =
     checkE ''failed to get cluster'' (liftE (lib ''cluster'' (cl_GetCluster L (cr_ClusterName req)))) (\<lambda>_.
     bindE (getRemote E r (cr_Name req)) (reconcileObject E L r (cr_ClusterName req)))"

section \<open>Panics\<close>

lemma noPanic_if: "(b \<Longrightarrow> noPanic x) \<Longrightarrow> (\<not> b \<Longrightarrow> noPanic y) \<Longrightarrow> noPanic (if b then x else y)"
  by simp

lemma noPanic_option:
  "noPanic x \<Longrightarrow> (\<And>a. noPanic (f a)) \<Longrightarrow> noPanic (case opt of None \<Rightarrow> x | Some a \<Rightarrow> f a)"
  by (cases opt) auto

lemmas noPanic_flow = noPanic_rules noPanic_if noPanic_option

lemma noPanic_Msg: "noPanic (Inl (Msg m))"
  by (simp add: noPanic_def)

lemma noPanic_ProjectCRD: "noPanic (ProjectCRD E c pubRes)"
proof -
  have "noPanic (stripUnwantedVersions c pubRes)" for c
    unfolding stripUnwantedVersions_def Let_def by (intro noPanic_flow noPanic_Msg)
  moreover have "noPanic (adjustStorageVersion c)" for c
    unfolding adjustStorageVersion_def Let_def by (intro noPanic_flow noPanic_Msg)
  moreover have "noPanic (projectCRDVersions E c pubRes)" for c
    unfolding projectCRDVersions_def Let_def
    by (intro noPanic_flow noPanic_Msg) (simp add: noPanic_Msg noPanic_rules split: list.split)
  moreover have "noPanic (projectCRDNames c pubRes)" for c
    unfolding projectCRDNames_def Let_def by (intro noPanic_flow noPanic_Msg)
  ultimately show ?thesis unfolding ProjectCRD_def by (intro noPanic_rules)
qed

lemma noPanic_NewMutator: "noPanic (NewMutator E spec)"
proof -
  have "noPanic (newTransformer E m)" for m
    unfolding newTransformer_def NewDelete_def NewRegex_def NewTemplate_def NewCEL_def
    by (intro noPanic_flow noPanic_Msg)
  then have "noPanic (createAggregatedTransformer E ms)" for ms
    by (induction ms) (auto intro!: noPanic_rules)
  then show ?thesis unfolding NewMutator_def by (intro noPanic_flow)
qed

lemma noPanic_newSyncer: "noPanic (newSyncer E r)"
proof -
  have "noPanic (createRelatedMutators (NewMutator E) rrs acc)" for rrs acc
    by (induction rrs arbitrary: acc) (auto intro!: noPanic_rules noPanic_NewMutator)
  then show ?thesis
    unfolding newSyncer_def NewResourceSyncer_def PublishedResourceSourceGVK_def
      PublishedResourceProjectedGVK_def Let_def
    by (intro noPanic_flow noPanic_Msg noPanic_ProjectCRD noPanic_NewMutator)
qed

text \<open>The one configuration in which the filter dereferences a nil namespace.\<close>

definition filterPanics :: "'s env \<Rightarrow> controllerLib \<Rightarrow> syncReconciler \<Rightarrow> unstructured \<Rightarrow> bool" where
  "filterPanics E L r obj \<longleftrightarrow>
     oName obj \<noteq> [] \<and> oNamespace obj = [] \<and>
     (case prs_Filter (pr_Spec (sr_pubRes r)) of
        None \<Rightarrow> False
      | Some flt \<Rightarrow>
          matchesFilter E L (Some (oLabels obj)) (flt_Resource flt) = Inr True \<and>
          (case flt_Namespace flt of None \<Rightarrow> False | Some sel \<Rightarrow> \<not> isl (asSelector E sel)))"

lemma noPanic_matchesFilter:
  "noPanic (matchesFilter E L (Some l) sel)" "noPanic (matchesFilter E L obj None)"
  by (cases sel) (auto simp: matchesFilter_def intro!: noPanic_rules)

lemma noPanic_objectMatchesFilter:
  assumes "\<not> filterPanics E L r obj" "oName obj \<noteq> []" "oNamespace obj \<noteq> [] \<and> namespaceFilter r \<noteq> None \<longrightarrow> ns \<noteq> None"
  shows "noPanic (objectMatchesFilter E L r obj ns)"
proof (cases "prs_Filter (pr_Spec (sr_pubRes r))")
  case None
  then show ?thesis by (simp add: objectMatchesFilter_def noPanic_rules)
next
  case (Some flt)
  have "noPanic (matchesFilter E L (map_option ns_Labels ns) (flt_Namespace flt))"
    if "matchesFilter E L (Some (oLabels obj)) (flt_Resource flt) = Inr True"
  proof (cases "flt_Namespace flt")
    case None
    then show ?thesis by (simp add: noPanic_matchesFilter)
  next
    case sel: (Some sel)
    show ?thesis
    proof (cases ns)
      case None
      with assms that Some sel have "isl (asSelector E sel)"
        by (auto simp: filterPanics_def namespaceFilter_def)
      with None sel show ?thesis by (auto simp: matchesFilter_def lib_def isl_def noPanic_def)
    next
      case (Some n)
      then show ?thesis by (simp add: noPanic_matchesFilter)
    qed
  qed
  with Some show ?thesis
    using noPanic_matchesFilter(1) [of E L "oLabels obj" "flt_Resource flt"]
    by (cases "matchesFilter E L (Some (oLabels obj)) (flt_Resource flt)")
       (auto simp: objectMatchesFilter_def noPanic_rules)
qed

lemma panic_objectMatchesFilter:
  "filterPanics E L r obj \<Longrightarrow> objectMatchesFilter E L r obj None = Inl (Panic ''nil pointer dereference'')"
  by (auto simp: filterPanics_def objectMatchesFilter_def matchesFilter_def isl_def lib_def
        split: option.splits sum.splits)

lemma safe_processObject:
  assumes "recorderFromContext ctx"
  shows "safe (processObject E r obj ctx)"
  using safe_Process [OF assms] noPanic_newSyncer [of E r]
  by (auto simp: processObject_def Let_def noPanic_def intro!: safe_intros split: sum.splits)

lemma safe_fetchWorkspacePath: "safe (fetchWorkspacePath E L r obj ctx)"
  unfolding fetchWorkspacePath_def by (auto intro!: safe_intros)

lemma safe_bindE_yields:
  assumes "safe m" "\<And>x. yields m x \<Longrightarrow> safe (k x)"
  shows "safe (bindE m k)"
  unfolding safe_def
proof
  fix w
  obtain r w1 where run: "m w = (r, w1)" by force
  then show "noPanic (fst (bindE m k w))"
  proof (cases r)
    case (Inl e)
    with assms(1) run have "\<not> isPanic e" by (auto simp: safe_def noPanic_def dest: spec [of _ w])
    with run Inl show ?thesis by (simp add: go_simps noPanic_def)
  next
    case (Inr x)
    with run have "yields m x" by (auto simp: yields_def)
    with assms(2) run Inr show ?thesis by (simp add: go_simps safe_def)
  qed
qed

lemma fetchWorkspacePath_recorder:
  assumes "yields (fetchWorkspacePath E L r obj ctx) ctx'"
  shows "recorderFromContext ctx' = recorderFromContext ctx"
proof -
  from assms obtain w w' where run: "fetchWorkspacePath E L r obj ctx w = (Inr ctx', w')"
    by (auto simp: yields_def)
  obtain res w1 where get: "cGet E RemoteClient (cl_LogicalClusterAPIVersion L) (cl_LogicalClusterKind L)
      \<lparr> nn_Namespace = [], nn_Name = cl_LogicalClusterName L \<rparr> w = (res, w1)" by force
  with run show ?thesis
    by (cases res) (auto simp: fetchWorkspacePath_def go_simps WithWorkspacePath_def recorderFromContext_def event_def
          split: if_splits)
qed

lemma bindE_checkE_ok: "bindE (checkE msg m (\<lambda>x. ok (f x))) k = checkE msg m (\<lambda>x. k (f x))"
  by (rule ext) (simp add: go_simps split: prod.split sum.split)

lemma safe_reconcileObject:
  assumes "\<not> filterPanics E L r obj"
  shows "safe (reconcileObject E L r c obj)"
proof -
  let ?rest = "\<lambda>include. if \<not> include then ok 0
    else let ctx = WithEventRecorder (WithClusterName emptyContext c) in
      bindE (fetchWorkspacePath E L r obj ctx) (processObject E r obj)"
  have rest: "safe (?rest incl)" for incl
    unfolding Let_def
    by (intro safe_intros safe_bindE_yields safe_fetchWorkspacePath safe_processObject)
       (auto dest!: fetchWorkspacePath_recorder simp: WithEventRecorder_def recorderFromContext_def)
  have filtered: "safe (checkE ''failed to apply filtering rules'' (liftE (objectMatchesFilter E L r obj ns)) ?rest)"
    if "oName obj \<noteq> []" "oNamespace obj \<noteq> [] \<and> namespaceFilter r \<noteq> None \<longrightarrow> ns \<noteq> None" for ns
    by (intro safe_checkE rest safe_basic noPanic_objectMatchesFilter [OF assms] that)
  show ?thesis
  proof (cases "namespaceFilter r \<noteq> None \<and> oNamespace obj \<noteq> []")
    case True
    then show ?thesis
      unfolding reconcileObject_def fetchNamespace_def
      by (auto simp: bindE_checkE_ok intro!: safe_intros filtered)
  next
    case False
    then show ?thesis
      unfolding reconcileObject_def fetchNamespace_def by (auto intro!: safe_intros filtered)
  qed
qed

lemma panic_reconcileObject:
  assumes "filterPanics E L r obj"
  shows "fst (reconcileObject E L r c obj w) = Inl (Panic ''nil pointer dereference'')"
  using panic_objectMatchesFilter [OF assms] assms
  by (simp add: reconcileObject_def fetchNamespace_def filterPanics_def go_simps)

text \<open>
  C36. Exactly when a reconciliation panics: if the object that was read from kcp is cluster-scoped,
  passes the resource filter, and a valid namespace filter is configured, whose selector is then
  applied to a nil namespace. In every other case, whatever the servers, the configuration and the
  libraries do, the reconciliation ends with a result or an error.
\<close>

theorem Reconcile_panics_iff:
  assumes "oName (sr_remoteDummy r) = []"
  shows "\<not> noPanic (fst (Reconcile E L r req w)) \<longleftrightarrow>
    cl_GetCluster L (cr_ClusterName req) = Inr () \<and>
    (\<exists>obj w1. cGet E RemoteClient (oAPIVersion (sr_remoteDummy r)) (oKind (sr_remoteDummy r)) (cr_Name req) w =
       (Inr obj, w1) \<and> filterPanics E L r obj)"
proof -
  let ?get = "cGet E RemoteClient (oAPIVersion (sr_remoteDummy r)) (oKind (sr_remoteDummy r)) (cr_Name req)"
  have dummy: "\<not> filterPanics E L r (sr_remoteDummy r)" using assms by (simp add: filterPanics_def)
  have safe: "\<not> filterPanics E L r obj \<Longrightarrow> noPanic (fst (reconcileObject E L r c obj w))" for obj c w
    using safe_reconcileObject [of E L r obj c] by (simp add: safe_def)
  have panic: "filterPanics E L r obj \<Longrightarrow> \<not> noPanic (fst (reconcileObject E L r c obj w))" for obj c w
    by (simp add: panic_reconcileObject noPanic_def)
  obtain res w1 where get: "?get w = (res, w1)" by force
  have err: "\<not> isPanic e" if "res = Inl e" for e
    using get that by (auto simp: cGet_def request_def split: prod.splits sum.splits)
  show ?thesis
  proof (cases res)
    case (Inl e)
    with get err dummy safe show ?thesis
      by (cases "cl_GetCluster L (cr_ClusterName req)") (auto simp: Reconcile_def getRemote_def go_simps lib_def noPanic_def)
  next
    case (Inr obj)
    with get safe panic show ?thesis
      by (cases "cl_GetCluster L (cr_ClusterName req)") (auto simp: Reconcile_def getRemote_def go_simps lib_def noPanic_def)
  qed
qed

definition plainLib :: controllerLib where
  "plainLib = \<lparr> cl_GetCluster = (\<lambda>_. Inr ()), cl_Matches = (\<lambda>_ _. True),
     cl_ParseGroupVersion = (\<lambda>s. case cutAt CHR ''/'' s of (v, None) \<Rightarrow> Inr ([], v) | (g, Some v) \<Rightarrow> Inr (g, v)),
     cl_NewUnmanaged = Inr (), cl_Watch = (\<lambda>_. Inr ()), cl_NewPath = (\<lambda>p. p), cl_LogicalClusterAPIVersion = ''core.kcp.io/v1alpha1'',
     cl_LogicalClusterKind = ''LogicalCluster'', cl_LogicalClusterName = ''cluster'',
     cl_PathAnnotation = ''kcp.io/path'' \<rparr>"

definition plainReconciler :: syncReconciler where
  "plainReconciler = \<lparr> sr_localClient = LocalClient, sr_localAPIReader = LocalAPIReader,
     sr_remoteDummy = emptyObject\<lparr>oAPIVersion := ''example.com/v1'', oKind := ''Claim''\<rparr>,
     sr_pubRes = plainResource, sr_localCRD = plainCRD, sr_stateNamespace = ''kcp-system'',
     sr_agentName = ''agent'', sr_enableServerSideApply = False \<rparr>"

theorem Reconcile_panics_iff_witness:
  "let E = (noServer :: unit env)\<lparr>api_Get := (\<lambda>c a k n s. (Inr (emptyObject\<lparr>oName := ''db''\<rparr>), s))\<rparr>;
       r = plainReconciler\<lparr>sr_pubRes := plainResource\<lparr>pr_Spec := plainSpec\<lparr>prs_Filter :=
             Some \<lparr> flt_Namespace = Some \<lparr> ls_MatchLabels = fmempty, ls_MatchExpressions = [] \<rparr>,
                    flt_Resource = None \<rparr>\<rparr>\<rparr>\<rparr>
   in \<not> noPanic (fst (Reconcile E plainLib r
        \<lparr> cr_ClusterName = ''c1'', cr_Name = \<lparr> nn_Namespace = [], nn_Name = ''db'' \<rparr> \<rparr> startWorld))"
proof -
  let ?obj = "emptyObject\<lparr>oName := ''db''\<rparr>"
  let ?E = "(noServer :: unit env)\<lparr>api_Get := (\<lambda>c a k n s. (Inr ?obj, s))\<rparr>"
  let ?r = "plainReconciler\<lparr>sr_pubRes := plainResource\<lparr>pr_Spec := plainSpec\<lparr>prs_Filter :=
             Some \<lparr> flt_Namespace = Some \<lparr> ls_MatchLabels = fmempty, ls_MatchExpressions = [] \<rparr>,
                    flt_Resource = None \<rparr>\<rparr>\<rparr>\<rparr>"
  let ?req = "\<lparr> cr_ClusterName = ''c1'', cr_Name = \<lparr> nn_Namespace = [], nn_Name = ''db'' \<rparr> \<rparr>"
  have "oName (sr_remoteDummy ?r) = []" by (simp add: plainReconciler_def emptyObject_def)
  moreover have "filterPanics ?E plainLib ?r ?obj"
    by (simp add: filterPanics_def matchesFilter_def emptyObject_def noServer_def)
  moreover have "\<exists>w1. cGet ?E RemoteClient a k n startWorld = (Inr ?obj, w1)" for a k n
    by (simp add: cGet_def request_def)
  moreover have "cl_GetCluster plainLib c = Inr ()" for c by (simp add: plainLib_def)
  ultimately show ?thesis
    using Reconcile_panics_iff [of ?r ?E plainLib ?req startWorld] unfolding Let_def by blast
qed

section \<open>What a reconciliation may request\<close>

definition reconcileAllowed ::
    "'s env \<Rightarrow> controllerLib \<Rightarrow> syncReconciler \<Rightarrow> clusterRequest \<Rightarrow> call \<Rightarrow> bool" where
  "reconcileAllowed E L r req c \<longleftrightarrow>
     isRead c \<or> (\<exists>obj typ reason. c = CEvent obj typ reason) \<or>
     (\<exists>s obj ns. rs_localClient s = sr_localClient r \<and> rs_remoteClient s = RemoteClient \<and> rs_pubRes s = sr_pubRes r \<and>
        rs_useServerSideApply s = sr_enableServerSideApply r \<and> yields (getRemote E r (cr_Name req)) obj \<and>
        yields (fetchNamespace E r obj) ns \<and> objectMatchesFilter E L r obj ns = Inr True \<and>
        processAllowed s obj c)"

interpretation rca: call_policy "reconcileAllowed E L r req" for E L r req
  by unfold_locales (auto simp: reconcileAllowed_def)

lemma newSyncer_fields:
  assumes "newSyncer E r = Inr s"
  shows "rs_localClient s = sr_localClient r \<and> rs_remoteClient s = RemoteClient \<and> rs_pubRes s = sr_pubRes r \<and>
    rs_useServerSideApply s = sr_enableServerSideApply r"
  using assms
  by (cases "sr_enableServerSideApply r")
     (auto simp: newSyncer_def NewResourceSyncer_def syncerOpts_def WithLiveReaders_def WithServerSideApply_def
        bindR_eq_Inr Let_def)

lemma emits_getRemote: "emits (reconcileAllowed E L r req) (getRemote E r name)"
  unfolding getRemote_def by (auto intro!: emits_intros rca.emits_reads)

lemma emits_processObject:
  assumes "yields (getRemote E r (cr_Name req)) obj" "yields (fetchNamespace E r obj) ns"
    "objectMatchesFilter E L r obj ns = Inr True"
  shows "emits (reconcileAllowed E L r req) (processObject E r obj ctx)"
proof -
  have "emits (reconcileAllowed E L r req) (Process E ctx s obj)" if "newSyncer E r = Inr s" for s
  proof (rule emits_weaken [OF emits_Process])
    fix c assume "processAllowed s obj c"
    with assms newSyncer_fields [OF that] show "reconcileAllowed E L r req c"
      unfolding reconcileAllowed_def by (intro disjI2 exI [of _ s] exI [of _ obj] exI [of _ ns]) simp
  qed
  then show ?thesis
    unfolding processObject_def Let_def
    by (auto intro!: emits_intros rca.allow_event split: sum.split)
qed


section \<open>Events on copies\<close>

fun wakes :: "string \<Rightarrow> clusterRequest \<Rightarrow> call \<Rightarrow> bool" where
  "wakes agent req (CCreate c obj) = (enqueueRemoteObjForLocalObj agent obj = [req])"
| "wakes agent req (CApply c obj owner) = (enqueueRemoteObjForLocalObj agent obj = [req])"
| "wakes agent req c = True"

lemma wakes_placesLinked: "placesLinked agent req c \<Longrightarrow> wakes agent req c"
  by (cases c) (simp_all add: enqueueRemoteObjForLocalObj_def)



section \<open>Watches on related resources\<close>

text \<open>
  Of two related resources of one origin and kind, only the first one's watch is set up. If both
  ask to be watched by selector, with different selectors, the second selector is dropped without an
  error: the one registered handler enqueues the primaries the first selector selects, and no event
  ever enqueues those of the second.
\<close>

theorem second_watch_dropped:
  assumes "rr_Origin r1 = OriginKcp" "rr_Watch r1 = Some \<lparr> rw_ByOwner = False, rw_BySelector = Some sel1 \<rparr>"
    "rr_Origin r2 = OriginKcp" "rr_Watch r2 = Some \<lparr> rw_ByOwner = False, rw_BySelector = Some sel2 \<rparr>"
    "\<And>r s. api_KindFor E RemoteClient r s = (Inr gvk, s)" "cl_Watch L gvk = Inr ()"
  shows "fst (setupRelatedResourceWatches E L lg rg [r1, r2] [] w) =
    Inr [((OriginKcp, gvk), KcpBySelector sel1)]"
  using assms
  by (simp add: go_simps cKindFor_def request_def buildKcpRelatedHandler_def)

theorem second_watch_dropped_witness:
  "let E = (noServer :: unit env)\<lparr>api_KindFor := (\<lambda>c r s. (Inr \<lparr> gvk_Group = [], gvk_Version = ''v1'', gvk_Kind = ''Secret'' \<rparr>, s))\<rparr>;
       sel = \<lambda>v. \<lparr> ls_MatchLabels = fmupd ''tier'' v fmempty, ls_MatchExpressions = [] \<rparr>;
       rr = \<lambda>v. plainRelated\<lparr>rr_Identifier := v, rr_Watch := Some \<lparr> rw_ByOwner = False, rw_BySelector = Some (sel v) \<rparr>\<rparr>;
       gvk = \<lparr> gvk_Group = [], gvk_Version = ''v1'', gvk_Kind = ''Secret'' \<rparr>
   in fst (setupRelatedResourceWatches E plainLib gvk gvk [rr ''a'', rr ''b''] [] startWorld) =
        Inr [((OriginKcp, gvk), KcpBySelector (sel ''a''))]"
  unfolding Let_def
  by (rule second_watch_dropped) (simp_all add: plainRelated_def plainLib_def)

end
