(* ===== verification/Multi_Cluster.thy ===== *)
theory Multi_Cluster
  imports Client "HOL-Library.Multiset" "HOL-Library.Finite_Map"
begin

text \<open>
  The dynamic multi-cluster manager (\<open>kcp/multicluster.go\<close>): controllers can be started at any time and
  are told of every engaged cluster, of earlier ones by pre-seeding and of later ones by forwarding.
  The operations are functions on the state; their interleaving is a step relation, one step for each
  section of code that a lock makes atomic. The controllers are a parameter.
\<close>

section \<open>State\<close>

text \<open>
  Contexts and cluster objects are pointers, so they are numbers here. \<open>dm_calls\<close> is the history of calls
  of a controller's \<open>Engage\<close> with their outcome; \<open>dm_watchers\<close> are the goroutines waiting for a context
  to end; \<open>dm_engaging\<close> are the calls of \<open>Engage\<close> on the tracker that have not returned, with the section
  they are in front of.
\<close>

record engagedCluster =
  ec_ctx :: nat
  ec_cl :: nat

datatype engagePhase = Checking | Inserting | Forwarding

type_synonym 'c engageCall = "'c \<times> string \<times> engagedCluster"

record 'c dmcm =
  dm_runnables :: "(string, 'c) fmap"
  dm_clusters :: "(string, engagedCluster) fmap"
  dm_watchers :: "(nat \<times> string) multiset"
  dm_engaging :: "(engagePhase \<times> string \<times> engagedCluster) multiset"
  dm_calls :: "('c engageCall \<times> bool) list"

definition newDMCM :: "'c dmcm" where
  "newDMCM = \<lparr> dm_runnables = fmempty, dm_clusters = fmempty, dm_watchers = {#}, dm_engaging = {#}, dm_calls = [] \<rparr>"

section \<open>Operations\<close>

text \<open>
  A loop that engages controllers with clusters and stops at the first error. \<open>engage\<close> is the \<open>Engage\<close>
  method of the controllers.
\<close>

type_synonym 'c engageFunc = "'c \<Rightarrow> string \<Rightarrow> engagedCluster \<Rightarrow> unit result"

fun engageAll :: "'c engageFunc \<Rightarrow> 'c engageCall list \<Rightarrow> unit result \<times> ('c engageCall \<times> bool) list" where
  "engageAll engage [] = (Inr (), [])"
| "engageAll engage ((ctrl, name, ec) # rest) =
     (case engage ctrl name ec of
        Inl e \<Rightarrow> (Inl e, [((ctrl, name, ec), False)])
      | Inr _ \<Rightarrow> (case engageAll engage rest of (r, calls) \<Rightarrow> (r, ((ctrl, name, ec), True) # calls)))"

definition valuesIn :: "('k, 'v) fmap \<Rightarrow> 'k list \<Rightarrow> ('k \<times> 'v) list" where
  "valuesIn m order = List.map_filter (\<lambda>k. map_option (Pair k) (fmlookup m k)) order"

definition trackCluster :: "string \<Rightarrow> engagedCluster \<Rightarrow> 'c dmcm \<Rightarrow> 'c dmcm" where
  "trackCluster name ec s =
     s\<lparr>dm_clusters := fmupd name ec (dm_clusters s), dm_watchers := add_mset (ec_ctx ec, name) (dm_watchers s)\<rparr>"

definition forwardEngage ::
    "'c engageFunc \<Rightarrow> string list \<Rightarrow> string \<Rightarrow> engagedCluster \<Rightarrow> 'c dmcm \<Rightarrow> unit result \<times> 'c dmcm" where
  "forwardEngage engage order name ec s =
     (case engageAll engage (map (\<lambda>(_, ctrl). (ctrl, name, ec)) (valuesIn (dm_runnables s) order)) of
        (r, calls) \<Rightarrow> (r, s\<lparr>dm_calls := dm_calls s @ calls\<rparr>))"

text \<open>\<open>order\<close> is the order in which Go happens to range over the controllers.\<close>

definition Engage ::
    "'c engageFunc \<Rightarrow> string list \<Rightarrow> string \<Rightarrow> engagedCluster \<Rightarrow> 'c dmcm \<Rightarrow> unit result \<times> 'c dmcm" where
  "Engage engage order name ec s =
     (let s = (if name |\<in>| fmdom (dm_clusters s) then s else trackCluster name ec s)
      in forwardEngage engage order name ec s)"

definition PreSeedController ::
    "'c engageFunc \<Rightarrow> string list \<Rightarrow> 'c \<Rightarrow> 'c dmcm \<Rightarrow> unit result \<times> 'c dmcm" where
  "PreSeedController engage order ctrl s =
     (case engageAll engage (map (\<lambda>(name, ec). (ctrl, name, ec)) (valuesIn (dm_clusters s) order)) of
        (r, calls) \<Rightarrow> (wrapErr ''failed to engage with cluster'' r, s\<lparr>dm_calls := dm_calls s @ calls\<rparr>))"

definition StartController ::
    "'c engageFunc \<Rightarrow> string list \<Rightarrow> string \<Rightarrow> 'c \<Rightarrow> 'c dmcm \<Rightarrow> unit result \<times> 'c dmcm" where
  "StartController engage order mapKey ctrl s =
     (let s = s\<lparr>dm_runnables := fmupd mapKey ctrl (dm_runnables s)\<rparr>
      in case PreSeedController engage order ctrl s of
           (r, s) \<Rightarrow> (wrapErr ''failed to pre-seed controller'' r, s))"

text \<open>The ends of the two goroutines: a controller has returned, the context of a cluster is done.\<close>

definition removeRunnable :: "string \<Rightarrow> 'c dmcm \<Rightarrow> 'c dmcm" where
  "removeRunnable mapKey s = s\<lparr>dm_runnables := fmdrop mapKey (dm_runnables s)\<rparr>"

definition removeCluster :: "nat \<Rightarrow> string \<Rightarrow> 'c dmcm \<Rightarrow> 'c dmcm" where
  "removeCluster ctx name s =
     s\<lparr>dm_clusters := fmdrop name (dm_clusters s), dm_watchers := dm_watchers s - {#(ctx, name)#}\<rparr>"

section \<open>Interleaving\<close>

text \<open>
  \<open>Engage\<close> reads the map of clusters without its lock, so the read, the write under the lock and the
  forwarding under the lock of the controllers are three steps. \<open>StartController\<close> holds the lock of the
  controllers from the insertion to the end of the pre-seeding, which holds the lock of the clusters.
\<close>

definition enumerates :: "'k list \<Rightarrow> ('k, 'v) fmap \<Rightarrow> bool" where
  "enumerates ks m \<longleftrightarrow> distinct ks \<and> set ks = fset (fmdom m)"

definition enter :: "engagePhase \<Rightarrow> string \<Rightarrow> engagedCluster \<Rightarrow> 'c dmcm \<Rightarrow> 'c dmcm" where
  "enter ph name ec s = s\<lparr>dm_engaging := add_mset (ph, name, ec) (dm_engaging s)\<rparr>"

definition leave :: "engagePhase \<Rightarrow> string \<Rightarrow> engagedCluster \<Rightarrow> 'c dmcm \<Rightarrow> 'c dmcm" where
  "leave ph name ec s = s\<lparr>dm_engaging := dm_engaging s - {#(ph, name, ec)#}\<rparr>"

inductive background :: "'c dmcm \<Rightarrow> 'c dmcm \<Rightarrow> bool" where
  called: "background s (enter Checking name ec s)"
| checked: "(Checking, name, ec) \<in># dm_engaging s \<Longrightarrow>
     background s (enter (if name |\<in>| fmdom (dm_clusters s) then Forwarding else Inserting) name ec
                     (leave Checking name ec s))"
| inserted: "(Inserting, name, ec) \<in># dm_engaging s \<Longrightarrow>
     background s (enter Forwarding name ec (leave Inserting name ec (trackCluster name ec s)))"
| forwarded: "(Forwarding, name, ec) \<in># dm_engaging s \<Longrightarrow> enumerates order (dm_runnables s) \<Longrightarrow>
     background s (leave Forwarding name ec (snd (forwardEngage engage order name ec s)))"
| returned: "background s (removeRunnable mapKey s)"
| ended: "(ctx, name) \<in># dm_watchers s \<Longrightarrow> background s (removeCluster ctx name s)"

inductive dmcm_step :: "'c dmcm \<Rightarrow> 'c dmcm \<Rightarrow> bool" where
  background: "background s s' \<Longrightarrow> dmcm_step s s'"
| started: "mapKey |\<notin>| fmdom (dm_runnables s) \<Longrightarrow> enumerates order (dm_clusters s) \<Longrightarrow>
     dmcm_step s (snd (StartController engage order mapKey ctrl s))"

section \<open>Loops over controllers and clusters\<close>

lemma set_valuesIn:
  "enumerates order m \<Longrightarrow> set (valuesIn m order) = {(k, v). fmlookup m k = Some v}"
  by (force simp: valuesIn_def enumerates_def List.map_filter_def fmlookup_dom_iff)

lemma engageAll_complete:
  "engageAll engage todo = (r, calls) \<Longrightarrow> \<forall>c \<in> set calls. snd c \<Longrightarrow> map fst calls = todo"
  by (induction engage todo arbitrary: r calls rule: engageAll.induct) (auto split: sum.splits prod.splits)

lemma engageAll_Inr: "engageAll engage todo = (Inr (), calls) \<Longrightarrow> calls = map (\<lambda>c. (c, True)) todo"
  by (induction engage todo arbitrary: calls rule: engageAll.induct) (auto split: sum.splits prod.splits)

lemma engageAll_subset: "engageAll engage todo = (r, calls) \<Longrightarrow> fst ` set calls \<subseteq> set todo"
  by (induction engage todo arbitrary: r calls rule: engageAll.induct) (fastforce split: sum.splits prod.splits)+

text \<open>The call has been made, whatever its outcome.\<close>

definition told :: "'c dmcm \<Rightarrow> 'c \<Rightarrow> string \<Rightarrow> engagedCluster \<Rightarrow> bool" where
  "told s ctrl name ec \<longleftrightarrow> (ctrl, name, ec) \<in> fst ` set (dm_calls s)"

definition allAccepted :: "'c dmcm \<Rightarrow> bool" where
  "allAccepted s \<longleftrightarrow> (\<forall>c \<in> set (dm_calls s). snd c)"

lemma forwardEngage_tells:
  assumes "enumerates order (dm_runnables s)" "forwardEngage engage order name ec s = (r, s')" "allAccepted s'"
    and "fmlookup (dm_runnables s) k = Some ctrl"
  shows "told s' ctrl name ec"
proof -
  let ?todo = "map (\<lambda>(_, ctrl). (ctrl, name, ec)) (valuesIn (dm_runnables s) order)"
  obtain calls where c: "engageAll engage ?todo = (r, calls)" "s' = s\<lparr>dm_calls := dm_calls s @ calls\<rparr>"
    using assms(2) by (auto simp: forwardEngage_def split: prod.splits)
  have "map fst calls = ?todo"
    using engageAll_complete [OF c(1)] assms(3) c(2) by (simp add: allAccepted_def)
  moreover have "(ctrl, name, ec) \<in> set ?todo"
    using set_valuesIn [OF assms(1)] assms(4) by force
  ultimately have "(ctrl, name, ec) \<in> fst ` set calls" by (metis set_map)
  then show ?thesis by (simp add: told_def c(2) image_Un)
qed

lemma StartController_tells:
  assumes "enumerates order (dm_clusters s)" "StartController engage order mapKey ctrl s = (r, s')" "allAccepted s'"
    and "fmlookup (dm_clusters s) name = Some ec"
  shows "told s' ctrl name ec"
proof -
  let ?todo = "map (\<lambda>(name, ec). (ctrl, name, ec)) (valuesIn (dm_clusters s) order)"
  obtain r' calls where c: "engageAll engage ?todo = (r', calls)" "dm_calls s' = dm_calls s @ calls"
    using assms(2) by (auto simp: StartController_def PreSeedController_def split: prod.splits)
  have "map fst calls = ?todo"
    using engageAll_complete [OF c(1)] assms(3) c(2) by (simp add: allAccepted_def)
  moreover have "(ctrl, name, ec) \<in> set ?todo"
    using set_valuesIn [OF assms(1)] assms(4) by force
  ultimately have "(ctrl, name, ec) \<in> fst ` set calls" by (metis set_map)
  then show ?thesis by (simp add: told_def c(2) image_Un)
qed

section \<open>Reachable states\<close>

text \<open>An invariant of a transition system: it holds at the start and every step keeps it.\<close>

locale state_invariant =
  fixes start :: 'st and step :: "'st \<Rightarrow> 'st \<Rightarrow> bool" and inv :: "'st \<Rightarrow> bool"
  assumes inv_start: "inv start"
    and inv_step: "inv s \<Longrightarrow> step s s' \<Longrightarrow> inv s'"
begin

lemma inv_reachable: "step\<^sup>*\<^sup>* start s \<Longrightarrow> inv s"
  by (induction rule: rtranclp_induct) (auto intro: inv_start inv_step)

end

text \<open>
  A controller has been told of a tracked cluster, or the \<open>Engage\<close> call that will tell it is about to
  forward.
\<close>

definition seeded :: "'c dmcm \<Rightarrow> bool" where
  "seeded s \<longleftrightarrow>
     (allAccepted s \<longrightarrow>
       (\<forall>k ctrl name ec. fmlookup (dm_runnables s) k = Some ctrl \<longrightarrow> fmlookup (dm_clusters s) name = Some ec \<longrightarrow>
          told s ctrl name ec \<or> (Forwarding, name, ec) \<in># dm_engaging s))"

lemma seededD:
  "seeded s \<Longrightarrow> allAccepted s \<Longrightarrow> fmlookup (dm_runnables s) k = Some ctrl \<Longrightarrow>
     fmlookup (dm_clusters s) name = Some ec \<Longrightarrow> told s ctrl name ec \<or> (Forwarding, name, ec) \<in># dm_engaging s"
  unfolding seeded_def by blast

lemma dmcm_frame [simp]:
  "dm_runnables (enter ph name ec s) = dm_runnables s" "dm_clusters (enter ph name ec s) = dm_clusters s"
  "dm_calls (enter ph name ec s) = dm_calls s"
  "dm_engaging (enter ph name ec s) = add_mset (ph, name, ec) (dm_engaging s)"
  "dm_runnables (leave ph name ec s) = dm_runnables s" "dm_clusters (leave ph name ec s) = dm_clusters s"
  "dm_calls (leave ph name ec s) = dm_calls s"
  "dm_engaging (leave ph name ec s) = dm_engaging s - {#(ph, name, ec)#}"
  "dm_runnables (trackCluster name ec s) = dm_runnables s" "dm_calls (trackCluster name ec s) = dm_calls s"
  "dm_clusters (trackCluster name ec s) = fmupd name ec (dm_clusters s)"
  "dm_engaging (trackCluster name ec s) = dm_engaging s"
  "dm_runnables (removeRunnable k s) = fmdrop k (dm_runnables s)" "dm_clusters (removeRunnable k s) = dm_clusters s"
  "dm_calls (removeRunnable k s) = dm_calls s" "dm_engaging (removeRunnable k s) = dm_engaging s"
  "dm_runnables (removeCluster ctx name s) = dm_runnables s"
  "dm_clusters (removeCluster ctx name s) = fmdrop name (dm_clusters s)"
  "dm_calls (removeCluster ctx name s) = dm_calls s" "dm_engaging (removeCluster ctx name s) = dm_engaging s"
  by (simp_all add: enter_def leave_def trackCluster_def removeRunnable_def removeCluster_def)

lemma told_frame [simp]:
  "told (enter ph n e s) = told s" "told (leave ph n e s) = told s" "told (trackCluster n e s) = told s"
  "told (removeRunnable k s) = told s" "told (removeCluster ctx n s) = told s"
  "allAccepted (enter ph n e s) = allAccepted s" "allAccepted (leave ph n e s) = allAccepted s"
  "allAccepted (trackCluster n e s) = allAccepted s" "allAccepted (removeRunnable k s) = allAccepted s"
  "allAccepted (removeCluster ctx n s) = allAccepted s"
  by (simp_all add: told_def allAccepted_def fun_eq_iff)

lemma forwardEngage_frame:
  assumes "forwardEngage engage order name ec s = (r, s')"
  shows "dm_runnables s' = dm_runnables s" "dm_clusters s' = dm_clusters s" "dm_engaging s' = dm_engaging s"
    "dm_watchers s' = dm_watchers s" "told s c n e \<Longrightarrow> told s' c n e" "allAccepted s' \<Longrightarrow> allAccepted s"
  using assms by (auto simp: forwardEngage_def told_def allAccepted_def image_Un split: prod.splits)

lemma StartController_frame:
  assumes "StartController engage order mapKey ctrl s = (r, s')"
  shows "dm_runnables s' = fmupd mapKey ctrl (dm_runnables s)" "dm_clusters s' = dm_clusters s"
    "dm_engaging s' = dm_engaging s" "dm_watchers s' = dm_watchers s"
    "told s c n e \<Longrightarrow> told s' c n e" "allAccepted s' \<Longrightarrow> allAccepted s"
  using assms by (auto simp: StartController_def PreSeedController_def told_def allAccepted_def image_Un split: prod.splits)

lemma in_remove: "x \<noteq> y \<Longrightarrow> x \<in># M - {#y#} \<longleftrightarrow> x \<in># M"
  by (simp add: in_diff_count)

lemma seeded_background: "background s s' \<Longrightarrow> seeded s \<Longrightarrow> seeded s'"
proof (induction rule: background.induct)
  case (forwarded name ec s order engage)
  obtain r s1 where f: "forwardEngage engage order name ec s = (r, s1)" by (cases "forwardEngage engage order name ec s")
  note frame = forwardEngage_frame [OF f]
  show ?case
    unfolding seeded_def
  proof (intro impI allI)
    fix k ctrl n e
    assume a: "allAccepted (leave Forwarding name ec (snd (forwardEngage engage order name ec s)))"
      "fmlookup (dm_runnables (leave Forwarding name ec (snd (forwardEngage engage order name ec s)))) k = Some ctrl"
      "fmlookup (dm_clusters (leave Forwarding name ec (snd (forwardEngage engage order name ec s)))) n = Some e"
    then have b: "allAccepted s1" "fmlookup (dm_runnables s) k = Some ctrl" "fmlookup (dm_clusters s) n = Some e"
      by (simp_all add: f frame)
    from seededD [OF forwarded.prems frame(6) [OF b(1)] b(2,3)] forwardEngage_tells [OF forwarded(2) f b(1,2)]
    show "told (leave Forwarding name ec (snd (forwardEngage engage order name ec s))) ctrl n e \<or>
        (Forwarding, n, e) \<in># dm_engaging (leave Forwarding name ec (snd (forwardEngage engage order name ec s)))"
      by (cases "(n, e) = (name, ec)") (auto simp: f frame in_remove)
  qed
qed (auto simp: seeded_def in_remove split: if_splits)

lemma seeded_step: "dmcm_step s s' \<Longrightarrow> seeded s \<Longrightarrow> seeded s'"
proof (induction rule: dmcm_step.induct)
  case (started mapKey s order engage ctrl)
  obtain r s1 where f: "StartController engage order mapKey ctrl s = (r, s1)"
    by (cases "StartController engage order mapKey ctrl s")
  note frame = StartController_frame [OF f]
  have "told s1 c n e \<or> (Forwarding, n, e) \<in># dm_engaging s1"
    if "allAccepted s1" "fmlookup (dm_runnables s1) k = Some c" "fmlookup (dm_clusters s1) n = Some e" for k c n e
    using seededD [OF started.prems frame(6) [OF that(1)], of k c n e] StartController_tells [OF started(2) f that(1), of n e] that
    by (auto simp: frame split: if_splits)
  then show ?case by (auto simp: f seeded_def)
qed (rule seeded_background)

interpretation dmcm: state_invariant "newDMCM :: 'c dmcm" dmcm_step seeded
proof
  show "seeded (newDMCM :: 'c dmcm)" by (simp add: newDMCM_def seeded_def)
qed (rule seeded_step)

text \<open>
  C13. In every state that the interleaving of engagements, ends of clusters, starts and ends of
  controllers can reach, as long as no controller rejected a cluster, every running controller has been
  engaged with every tracked cluster, in its tracked context, unless the \<open>Engage\<close> call that tracked the
  cluster is still about to forward it.
\<close>

theorem controllers_know_clusters:
  assumes "dmcm_step\<^sup>*\<^sup>* newDMCM s" "allAccepted s"
    and "fmlookup (dm_runnables s) k = Some ctrl" "fmlookup (dm_clusters s) name = Some ec"
  shows "told s ctrl name ec \<or> (Forwarding, name, ec) \<in># dm_engaging s"
  using dmcm.inv_reachable [OF assms(1)] assms(2-4) by (rule seededD)

text \<open>A start and a whole \<open>Engage\<close> that nothing interrupts.\<close>

lemma Engage_steps:
  assumes "enumerates order (dm_runnables s)"
  shows "background\<^sup>*\<^sup>* s (snd (Engage engage order name ec s))"
proof -
  let ?in = "\<lambda>ph s. s\<lparr>dm_engaging := add_mset (ph, name, ec) (dm_engaging s)\<rparr>"
  have forward: "background (?in Forwarding s') (snd (forwardEngage engage order name ec s'))"
    if "enumerates order (dm_runnables s')" for s' :: "'a dmcm"
    using background.forwarded [of name ec "?in Forwarding s'" order engage] that
    by (auto simp: forwardEngage_def leave_def split: prod.splits)
  have call: "background s (?in Checking s)"
    using background.called [of s name ec] by (simp add: enter_def)
  show ?thesis
  proof (cases "name |\<in>| fmdom (dm_clusters s)")
    case True
    have "background (?in Checking s) (?in Forwarding s)"
      using background.checked [of name ec "?in Checking s"] True by (simp add: enter_def leave_def)
    with call forward [OF assms] True show ?thesis
      by (auto simp: Engage_def intro: rtranclp.rtrancl_into_rtrancl)
  next
    case False
    have "background (?in Checking s) (?in Inserting s)"
      using background.checked [of name ec "?in Checking s"] False by (simp add: enter_def leave_def)
    moreover have "background (?in Inserting s) (?in Forwarding (trackCluster name ec s))"
      using background.inserted [of name ec "?in Inserting s"] by (simp add: enter_def leave_def trackCluster_def)
    moreover have "enumerates order (dm_runnables (trackCluster name ec s))" using assms by simp
    ultimately show ?thesis
      using call forward [of "trackCluster name ec s"] False
      by (auto simp: Engage_def intro: rtranclp.rtrancl_into_rtrancl)
  qed
qed

lemma background_dmcm: "background\<^sup>*\<^sup>* s s' \<Longrightarrow> dmcm_step\<^sup>*\<^sup>* s s'"
  by (induction rule: rtranclp_induct) (auto intro: dmcm_step.background rtranclp.rtrancl_into_rtrancl)

theorem controllers_know_clusters_witness:
  "told (snd (Engage (\<lambda>_ _ _. Inr ()) [''k''] ''ws'' \<lparr> ec_ctx = 2, ec_cl = 2 \<rparr>
      (snd (StartController (\<lambda>_ _ _. Inr ()) [] ''k'' ''ctrl'' newDMCM)))) ''ctrl'' ''ws'' \<lparr> ec_ctx = 2, ec_cl = 2 \<rparr>"
proof -
  let ?eng = "\<lambda>_ _ _. Inr () :: unit result" and ?ec = "\<lparr> ec_ctx = 2, ec_cl = 2 \<rparr>"
  let ?s1 = "snd (StartController ?eng [] ''k'' ''ctrl'' newDMCM)"
  let ?s2 = "snd (Engage ?eng [''k''] ''ws'' ?ec ?s1)"
  have eval: "dm_runnables ?s1 = fmupd ''k'' ''ctrl'' fmempty" "dm_runnables ?s2 = fmupd ''k'' ''ctrl'' fmempty"
    "dm_clusters ?s2 = fmupd ''ws'' ?ec fmempty" "allAccepted ?s2" "dm_engaging ?s2 = {#}"
    by (simp_all add: StartController_def PreSeedController_def valuesIn_def List.map_filter_def newDMCM_def
        Engage_def forwardEngage_def trackCluster_def allAccepted_def wrapErr_def)
  have "dmcm_step newDMCM ?s1"
    by (rule dmcm_step.started) (simp_all add: newDMCM_def enumerates_def)
  moreover have "background\<^sup>*\<^sup>* ?s1 ?s2"
    by (rule Engage_steps) (simp add: eval enumerates_def)
  ultimately have "dmcm_step\<^sup>*\<^sup>* newDMCM ?s2"
    by (rule converse_rtranclp_into_rtranclp [OF _ background_dmcm])
  from controllers_know_clusters [OF this eval(4), of "''k''" "''ctrl''" "''ws''" ?ec] show ?thesis
    by (simp add: eval)
qed

text \<open>
  C38. A cluster that is engaged again, with a new context, before the goroutine of its old context
  has run is lost: the second \<open>Engage\<close> leaves the map as it is, the old goroutine then removes the
  entry by name, and a controller that is started afterwards is never engaged with the cluster.
\<close>

theorem reengaged_cluster_lost:
  assumes "fmlookup (dm_clusters s) name = Some old" "(ec_ctx old, name) \<in># dm_watchers s"
    and "Engage engage order name new s = (r1, s1)"
    and "StartController engage order' mapKey ctrl (removeCluster (ec_ctx old) name s1) = (r2, s2)"
    and "enumerates order' (dm_clusters (removeCluster (ec_ctx old) name s1))"
    and "\<And>n e. \<not> told s1 ctrl n e"
  shows "background s1 (removeCluster (ec_ctx old) name s1) \<and> name |\<notin>| fmdom (dm_clusters s2) \<and>
     (\<forall>ec. \<not> told s2 ctrl name ec)"
proof -
  have "name |\<in>| fmdom (dm_clusters s)" using assms(1) by (metis fmdomI)
  with assms(3) have f: "forwardEngage engage order name new s = (r1, s1)" by (simp add: Engage_def)
  then have "background s1 (removeCluster (ec_ctx old) name s1)"
    using assms(2) by (intro background.ended) (simp add: forwardEngage_frame [OF f])
  moreover have "name |\<notin>| fmdom (dm_clusters s2)"
    by (simp add: StartController_frame [OF assms(4)])
  moreover have "\<not> told s2 ctrl name ec" for ec
  proof -
    let ?s = "removeCluster (ec_ctx old) name s1"
    let ?todo = "map (\<lambda>(n, e). (ctrl, n, e)) (valuesIn (dm_clusters ?s) order')"
    obtain r' calls where c: "engageAll engage ?todo = (r', calls)" "dm_calls s2 = dm_calls s1 @ calls"
      using assms(4) by (auto simp: StartController_def PreSeedController_def split: prod.splits)
    have "(ctrl, name, ec) \<notin> set ?todo"
      using set_valuesIn [OF assms(5)] by auto
    with engageAll_subset [OF c(1)] have "(ctrl, name, ec) \<notin> fst ` set calls" by blast
    with assms(6) [of name ec] show ?thesis by (simp add: told_def c(2) image_Un)
  qed
  ultimately show ?thesis by blast
qed

theorem reengaged_cluster_lost_witness:
  "\<exists>s1 s2 :: string dmcm.
     Engage (\<lambda>_ _ _. Inr ()) [] ''ws'' \<lparr> ec_ctx = 3, ec_cl = 3 \<rparr>
       (trackCluster ''ws'' \<lparr> ec_ctx = 2, ec_cl = 2 \<rparr> newDMCM) = (Inr (), s1) \<and>
     StartController (\<lambda>_ _ _. Inr ()) [] ''k'' ''ctrl'' (removeCluster 2 ''ws'' s1) = (Inr (), s2) \<and>
     (\<forall>ec. \<not> told s2 ''ctrl'' ''ws'' ec)"
proof -
  let ?eng = "\<lambda>_ _ _. Inr () :: unit result" and ?s = "trackCluster ''ws'' \<lparr> ec_ctx = 2, ec_cl = 2 \<rparr> newDMCM :: string dmcm"
  let ?s2 = "(removeCluster 2 ''ws'' ?s)\<lparr>dm_runnables := fmupd ''k'' ''ctrl'' fmempty\<rparr>"
  have e: "Engage ?eng [] ''ws'' \<lparr> ec_ctx = 3, ec_cl = 3 \<rparr> ?s = (Inr (), ?s)"
    by (simp add: Engage_def forwardEngage_def valuesIn_def List.map_filter_def)
  have p: "StartController ?eng [] ''k'' ''ctrl'' (removeCluster 2 ''ws'' ?s) = (Inr (), ?s2)"
    by (simp add: StartController_def PreSeedController_def valuesIn_def List.map_filter_def wrapErr_def
        removeCluster_def trackCluster_def newDMCM_def)
  have w: "(2, ''ws'') \<in># dm_watchers ?s" by (simp add: trackCluster_def)
  have "\<forall>ec. \<not> told ?s2 ''ctrl'' ''ws'' ec"
    using reengaged_cluster_lost [OF _ _ e, of "\<lparr> ec_ctx = 2, ec_cl = 2 \<rparr>" "[]" "''k''" "''ctrl''" "Inr ()" ?s2] p w
    by (simp add: enumerates_def newDMCM_def told_def)
  with e p show ?thesis by blast
qed

end
