(* ===== verification/Sync_Manager.thy ===== *)
theory Sync_Manager
  imports Sync_Controller Multi_Cluster
begin

text \<open>
  The sync manager (\<open>controller/syncmanager\<close>): it starts one sync controller per version of a
  PublishedResource and keeps the functions that cancel their contexts.
\<close>

section \<open>State\<close>

text \<open>
  A sync controller is what \<open>Create\<close> returns, with the context it was started in. A context is a number;
  \<open>sm_nextCtx\<close> is the next one to be handed out and \<open>sm_cancelled\<close> are those that have been cancelled.
  The entry of \<open>syncCancels\<close> is the function that cancels a context, so it is that context here.
\<close>

record syncControllerInst =
  co_ctx :: nat
  co_reconciler :: syncReconciler
  co_watches :: watches

record syncManager =
  sm_prober :: ResourceProber
  sm_stateNamespace :: string
  sm_agentName :: string
  sm_enableServerSideApply :: bool
  sm_syncCancels :: "(string, nat) fmap"
  sm_cancelled :: "nat fset"
  sm_nextCtx :: nat
  sm_dmcm :: "syncControllerInst dmcm"

text \<open>
  What one reconciliation uses of the outside: the API servers and libraries, how the controllers take
  a cluster, the order in which Go ranges over the clusters and the generated UUID.
\<close>

record 's managerEnv =
  me_env :: "'s env"
  me_lib :: controllerLib
  me_discovery :: discoveryLib
  me_engage :: "syncControllerInst engageFunc"
  me_order :: "string list"
  me_uuid :: string

section \<open>Operations\<close>

definition getPublishedResourceKey :: "PublishedResource \<Rightarrow> string" where
  "getPublishedResourceKey pr = pr_UID pr @ ''-'' @ pr_ResourceVersion pr"

definition isSyncEnabled :: "PublishedResource \<Rightarrow> bool" where
  "isSyncEnabled pr =
     (case prs_Synchronization (pr_Spec pr) of None \<Rightarrow> True | Some sync \<Rightarrow> sync_Enabled sync)"

definition checkResourceIsBoundEverywhere ::
    "'s managerEnv \<Rightarrow> syncManager \<Rightarrow> PublishedResource \<Rightarrow> bool result" where
  "checkResourceIsBoundEverywhere M r pubRes =
     bindR (wrapErr ''failed to determine projected primary GVK''
              (ProjectPublishedResourceGVK (me_env M) (me_discovery M) pubRes)) (\<lambda>projectedGVK.
     HasGVK (me_discovery M) (sm_prober r) projectedGVK)"

definition cancelCtx :: "nat \<Rightarrow> syncManager \<Rightarrow> syncManager" where
  "cancelCtx ctx r = r\<lparr>sm_cancelled := finsert ctx (sm_cancelled r)\<rparr>"

text \<open>The context is created before the controller, and recorded before it is started.\<close>

definition startSyncController ::
    "'s managerEnv \<Rightarrow> PublishedResource \<Rightarrow> syncManager \<Rightarrow> 's world \<Rightarrow> (nat result \<times> syncManager) \<times> 's world" where
  "startSyncController M pubRes r w =
     (let ctx = sm_nextCtx r;
          r = r\<lparr>sm_nextCtx := Suc ctx\<rparr>
      in case Create (me_env M) (me_lib M) (me_discovery M) pubRes (sm_stateNamespace r) (sm_agentName r)
             (sm_enableServerSideApply r) w of
           (Inl e, w) \<Rightarrow> ((wrapErr ''failed to create sync controller'' (Inl e), cancelCtx ctx r), w)
         | (Inr (reconciler, watches), w) \<Rightarrow>
             let r = r\<lparr>sm_syncCancels := fmupd (getPublishedResourceKey pubRes) ctx (sm_syncCancels r)\<rparr>
             in (case StartController (me_engage M) (me_order M) (me_uuid M)
                      \<lparr> co_ctx = ctx, co_reconciler = reconciler, co_watches = watches \<rparr> (sm_dmcm r) of
                   (Inl e, d) \<Rightarrow>
                     ((wrapErr ''failed to start sync controller'' (Inl e), cancelCtx ctx (r\<lparr>sm_dmcm := d\<rparr>)), w)
                 | (Inr _, d) \<Rightarrow> ((Inr 0, r\<lparr>sm_dmcm := d\<rparr>), w)))"

definition ensureSyncController ::
    "'s managerEnv \<Rightarrow> PublishedResource \<Rightarrow> syncManager \<Rightarrow> 's world \<Rightarrow> (nat result \<times> syncManager) \<times> 's world" where
  "ensureSyncController M pubRes r w =
     (if getPublishedResourceKey pubRes |\<in>| fmdom (sm_syncCancels r) then ((Inr 0, r), w)
      else
        case wrapErr ''failed to probe for existence of resource in virtual workspace''
               (checkResourceIsBoundEverywhere M r pubRes) of
          Inl e \<Rightarrow> ((Inl e, r), w)
        | Inr resourceBound \<Rightarrow>
            if \<not> resourceBound then ((Inr 1, r), w) else startSyncController M pubRes r w)"

definition cleanupController :: "PublishedResource \<Rightarrow> syncManager \<Rightarrow> syncManager" where
  "cleanupController pubRes r =
     (case fmlookup (sm_syncCancels r) (getPublishedResourceKey pubRes) of
        None \<Rightarrow> r
      | Some ctx \<Rightarrow>
          cancelCtx ctx (r\<lparr>sm_syncCancels := fmdrop (getPublishedResourceKey pubRes) (sm_syncCancels r)\<rparr>))"

text \<open>
  \<open>Reconcile\<close> gets the answer to reading the PublishedResource; its result is the number of seconds
  after which to come back.
\<close>

definition wanted :: "PublishedResource \<Rightarrow> bool" where
  "wanted pubRes \<longleftrightarrow> pr_DeletionTimestamp pubRes = None \<and> pr_ResourceSchemaName pubRes \<noteq> [] \<and> isSyncEnabled pubRes"

definition managerReconcile ::
    "'s managerEnv \<Rightarrow> apierr + PublishedResource \<Rightarrow> syncManager \<Rightarrow> 's world \<Rightarrow>
     (nat result \<times> syncManager) \<times> 's world" where
  "managerReconcile M got r w =
     (case got of
        Inl e \<Rightarrow> ((if e = NotFound then Inr 0 else Inl (ApiErr e), r), w)
      | Inr pubRes \<Rightarrow>
          if \<not> wanted pubRes then ((Inr 0, cleanupController pubRes r), w)
          else ensureSyncController M pubRes r w)"

definition newSyncManager :: "ResourceProber \<Rightarrow> string \<Rightarrow> string \<Rightarrow> bool \<Rightarrow> syncManager" where
  "newSyncManager prober stateNamespace agentName enableServerSideApply =
     \<lparr> sm_prober = prober, sm_stateNamespace = stateNamespace, sm_agentName = agentName,
       sm_enableServerSideApply = enableServerSideApply, sm_syncCancels = fmempty, sm_cancelled = {||},
       sm_nextCtx = 0, sm_dmcm = newDMCM \<rparr>"

section \<open>Steps\<close>

text \<open>
  A step is a reconciliation of a version from \<open>V\<close> (or of an object that could not be read) in one of the
  environments \<open>Ms\<close>, with a UUID that is not in use, or a step of the multi-cluster manager in the
  background.
\<close>

inductive manager_step :: "'s managerEnv set \<Rightarrow> PublishedResource set \<Rightarrow> syncManager \<Rightarrow> syncManager \<Rightarrow> bool"
  for Ms :: "'s managerEnv set" and V :: "PublishedResource set" where
  reconciled: "M \<in> Ms \<Longrightarrow> \<forall>p. got = Inr p \<longrightarrow> p \<in> V \<Longrightarrow> me_uuid M |\<notin>| fmdom (dm_runnables (sm_dmcm r)) \<Longrightarrow>
     enumerates (me_order M) (dm_clusters (sm_dmcm r)) \<Longrightarrow> managerReconcile M got r w = ((res, r'), w') \<Longrightarrow>
     manager_step Ms V r r'"
| background: "background (sm_dmcm r) d \<Longrightarrow> manager_step Ms V r (r\<lparr>sm_dmcm := d\<rparr>)"

lemmas manager_defs = managerReconcile_def ensureSyncController_def cleanupController_def cancelCtx_def

lemma background_runnables:
  "background d d' \<Longrightarrow> fmlookup (dm_runnables d') k = Some c \<Longrightarrow> fmlookup (dm_runnables d) k = Some c"
proof (induction rule: background.induct)
  case (forwarded name ec s order engage)
  then show ?case
    by (cases "forwardEngage engage order name ec s") (simp add: forwardEngage_frame)
qed (simp_all split: if_splits)

text \<open>A start fails to create the controller, or creates it and records its context.\<close>

lemma startSyncController_cases [consumes 1, case_names not_created created]:
  assumes "startSyncController M pubRes r w = ((res, r'), w')"
  obtains "isl res" "r' = cancelCtx (sm_nextCtx r) (r\<lparr>sm_nextCtx := Suc (sm_nextCtx r)\<rparr>)"
  | c out d where "co_ctx c = sm_nextCtx r"
      "StartController (me_engage M) (me_order M) (me_uuid M) c (sm_dmcm r) = (out, d)" "isl res \<longleftrightarrow> isl out"
      "r' = (if isl out then cancelCtx (sm_nextCtx r) else id) (r\<lparr>sm_nextCtx := Suc (sm_nextCtx r),
         sm_syncCancels := fmupd (getPublishedResourceKey pubRes) (sm_nextCtx r) (sm_syncCancels r), sm_dmcm := d\<rparr>)"
proof -
  have wrapped: "isl (wrapErr m (Inl e :: nat result))" for m e
    by (auto simp: wrapErr_def)
  obtain cr w2 where cr: "Create (me_env M) (me_lib M) (me_discovery M) pubRes (sm_stateNamespace r) (sm_agentName r)
      (sm_enableServerSideApply r) w = (cr, w2)" by (cases "Create (me_env M) (me_lib M) (me_discovery M) pubRes
      (sm_stateNamespace r) (sm_agentName r) (sm_enableServerSideApply r) w")
  show thesis
  proof (cases cr)
    case (Inl e)
    show thesis by (rule that(1)) (use assms cr Inl wrapped in \<open>auto simp: startSyncController_def Let_def\<close>)
  next
    case (Inr rw)
    let ?c = "\<lparr> co_ctx = sm_nextCtx r, co_reconciler = fst rw, co_watches = snd rw \<rparr>"
    obtain out d where st: "StartController (me_engage M) (me_order M) (me_uuid M) ?c (sm_dmcm r) = (out, d)"
      by (cases "StartController (me_engage M) (me_order M) (me_uuid M) ?c (sm_dmcm r)")
    show thesis
    proof (rule that(2) [of ?c out d])
      show "isl res \<longleftrightarrow> isl out"
        using assms cr Inr st wrapped by (cases out) (auto simp: startSyncController_def Let_def split_beta)
      show "r' = (if isl out then cancelCtx (sm_nextCtx r) else id) (r\<lparr>sm_nextCtx := Suc (sm_nextCtx r),
         sm_syncCancels := fmupd (getPublishedResourceKey pubRes) (sm_nextCtx r) (sm_syncCancels r), sm_dmcm := d\<rparr>)"
        using assms cr Inr st by (cases out) (auto simp: startSyncController_def Let_def split_beta)
    qed (use st in simp_all)
  qed
qed

section \<open>Invariant\<close>

text \<open>
  Contexts are handed out once; every recorded key is the key of a wanted version; every running
  controller can be cancelled through its entry or has been cancelled already.
\<close>

definition managerInv :: "PublishedResource set \<Rightarrow> syncManager \<Rightarrow> bool" where
  "managerInv V r \<longleftrightarrow>
     (\<forall>key ctx. fmlookup (sm_syncCancels r) key = Some ctx \<longrightarrow>
        ctx < sm_nextCtx r \<and> (\<exists>p \<in> V. wanted p \<and> getPublishedResourceKey p = key)) \<and>
     (\<forall>key key' ctx. fmlookup (sm_syncCancels r) key = Some ctx \<longrightarrow>
        fmlookup (sm_syncCancels r) key' = Some ctx \<longrightarrow> key' = key) \<and>
     (\<forall>k c. fmlookup (dm_runnables (sm_dmcm r)) k = Some c \<longrightarrow>
        co_ctx c < sm_nextCtx r \<and>
        (co_ctx c |\<in>| sm_cancelled r \<or> (\<exists>key. fmlookup (sm_syncCancels r) key = Some (co_ctx c)))) \<and>
     (\<forall>k k' c c'. fmlookup (dm_runnables (sm_dmcm r)) k = Some c \<longrightarrow>
        fmlookup (dm_runnables (sm_dmcm r)) k' = Some c' \<longrightarrow> co_ctx c = co_ctx c' \<longrightarrow> k = k')"

lemma managerInvD:
  assumes "managerInv V r"
  shows "fmlookup (sm_syncCancels r) key = Some ctx \<Longrightarrow> ctx < sm_nextCtx r"
    "fmlookup (sm_syncCancels r) key = Some ctx \<Longrightarrow> \<exists>p \<in> V. wanted p \<and> getPublishedResourceKey p = key"
    "fmlookup (sm_syncCancels r) key = Some ctx \<Longrightarrow> fmlookup (sm_syncCancels r) key' = Some ctx \<Longrightarrow> key' = key"
    "fmlookup (dm_runnables (sm_dmcm r)) k = Some c \<Longrightarrow> co_ctx c < sm_nextCtx r"
    "fmlookup (dm_runnables (sm_dmcm r)) k = Some c \<Longrightarrow>
       co_ctx c |\<in>| sm_cancelled r \<or> (\<exists>key. fmlookup (sm_syncCancels r) key = Some (co_ctx c))"
    "fmlookup (dm_runnables (sm_dmcm r)) k = Some c \<Longrightarrow> fmlookup (dm_runnables (sm_dmcm r)) k' = Some c' \<Longrightarrow>
       co_ctx c = co_ctx c' \<Longrightarrow> k = k'"
  using assms unfolding managerInv_def by blast+

lemma managerInvI:
  assumes "\<And>key ctx. fmlookup (sm_syncCancels r) key = Some ctx \<Longrightarrow>
      ctx < sm_nextCtx r \<and> (\<exists>p \<in> V. wanted p \<and> getPublishedResourceKey p = key)"
    and "\<And>key key' ctx. fmlookup (sm_syncCancels r) key = Some ctx \<Longrightarrow>
      fmlookup (sm_syncCancels r) key' = Some ctx \<Longrightarrow> key' = key"
    and "\<And>k c. fmlookup (dm_runnables (sm_dmcm r)) k = Some c \<Longrightarrow> co_ctx c < sm_nextCtx r \<and>
      (co_ctx c |\<in>| sm_cancelled r \<or> (\<exists>key. fmlookup (sm_syncCancels r) key = Some (co_ctx c)))"
    and "\<And>k k' c c'. fmlookup (dm_runnables (sm_dmcm r)) k = Some c \<Longrightarrow>
      fmlookup (dm_runnables (sm_dmcm r)) k' = Some c' \<Longrightarrow> co_ctx c = co_ctx c' \<Longrightarrow> k = k'"
  shows "managerInv V r"
  using assms unfolding managerInv_def by blast

lemma managerInv_cleanup:
  assumes "managerInv V r"
  shows "managerInv V (cleanupController pubRes r)"
proof (cases "fmlookup (sm_syncCancels r) (getPublishedResourceKey pubRes)")
  case (Some ctx)
  note i = managerInvD [OF assms]
  let ?r = "cleanupController pubRes r"
  have f: "sm_syncCancels ?r = fmdrop (getPublishedResourceKey pubRes) (sm_syncCancels r)" "sm_dmcm ?r = sm_dmcm r"
    "sm_nextCtx ?r = sm_nextCtx r" "sm_cancelled ?r = finsert ctx (sm_cancelled r)"
    using Some by (simp_all add: cleanupController_def cancelCtx_def)
  show ?thesis
  proof (rule managerInvI, goal_cases)
    case (1 key ctx)
    then show ?case using i(1,2) [of key ctx] by (simp add: f split: if_splits)
  next
    case (2 key key' ctx)
    then show ?case using i(3) [of key ctx key'] by (simp add: f split: if_splits)
  next
    case (3 k c)
    then have b: "fmlookup (dm_runnables (sm_dmcm r)) k = Some c" by (simp add: f)
    have "co_ctx c |\<in>| sm_cancelled ?r \<or> (\<exists>key. fmlookup (sm_syncCancels ?r) key = Some (co_ctx c))"
      if "fmlookup (sm_syncCancels r) key = Some (co_ctx c)" for key
      by (cases "key = getPublishedResourceKey pubRes", use that Some in \<open>simp add: f\<close>)
         (rule disjI2, rule exI [of _ key], use that in \<open>simp add: f\<close>)
    with i(5) [OF b] have
      "co_ctx c |\<in>| sm_cancelled ?r \<or> (\<exists>key. fmlookup (sm_syncCancels ?r) key = Some (co_ctx c))"
      unfolding f(4) by blast
    with i(4) [OF b] show ?case by (simp add: f(3))
  next
    case (4 k k' c c')
    then show ?case using i(6) [of k c k' c'] by (simp add: f)
  qed
qed (use assms in \<open>simp add: cleanupController_def\<close>)

lemma managerInv_start:
  assumes "managerInv V r" "startSyncController M pubRes r w = ((res, r'), w')" "pubRes \<in> V" "wanted pubRes"
    and "getPublishedResourceKey pubRes |\<notin>| fmdom (sm_syncCancels r)"
  shows "managerInv V r'"
  using assms(2)
proof (cases rule: startSyncController_cases)
  case not_created
  note i = managerInvD [OF assms(1)]
  have f: "sm_syncCancels r' = sm_syncCancels r" "sm_dmcm r' = sm_dmcm r" "sm_nextCtx r' = Suc (sm_nextCtx r)"
    "sm_cancelled r' = finsert (sm_nextCtx r) (sm_cancelled r)"
    by (simp_all add: not_created(2) cancelCtx_def)
  show ?thesis
  proof (rule managerInvI, goal_cases)
    case (1 key ctx)
    then show ?case using i(1,2) [of key ctx] by (simp add: f less_SucI)
  next
    case (2 key key' ctx)
    then show ?case using i(3) [of key ctx key'] by (simp add: f)
  next
    case (3 k c)
    then show ?case using i(4,5) [of k c] by (simp add: f less_SucI)
  next
    case (4 k k' c c')
    then show ?case using i(6) [of k c k' c'] by (simp add: f)
  qed
next
  case (created c0 out d)
  note i = managerInvD [OF assms(1)]
  have new: "fmlookup (sm_syncCancels r) (getPublishedResourceKey pubRes) = None"
    using assms(5) by (simp add: fmdom_notD)
  have f: "sm_nextCtx r' = Suc (sm_nextCtx r)" "sm_dmcm r' = d" "sm_cancelled r |\<subseteq>| sm_cancelled r'"
    "sm_syncCancels r' = fmupd (getPublishedResourceKey pubRes) (sm_nextCtx r) (sm_syncCancels r)"
    "dm_runnables d = fmupd (me_uuid M) c0 (dm_runnables (sm_dmcm r))"
    using created(4) StartController_frame(1) [OF created(2)] by (auto simp: cancelCtx_def)
  show ?thesis
  proof (rule managerInvI, goal_cases)
    case (1 key ctx)
    then show ?case using i(1,2) [of key ctx] assms(3,4) by (auto simp: f less_SucI split: if_splits)
  next
    case (2 key key' ctx)
    then show ?case using i(1) [of key ctx] i(1) [of key' ctx] i(3) [of key ctx key'] by (auto simp: f split: if_splits)
  next
    case (3 k c)
    show ?case
    proof (cases "k = me_uuid M")
      case True
      then show ?thesis using 3 created(1) by (auto simp: f)
    next
      case False
      then have b: "fmlookup (dm_runnables (sm_dmcm r)) k = Some c" using 3 by (simp add: f)
      have "\<exists>key. fmlookup (sm_syncCancels r') key = Some (co_ctx c)"
        if "fmlookup (sm_syncCancels r) key = Some (co_ctx c)" for key
        by (rule exI [of _ key]) (use that new in \<open>auto simp: f\<close>)
      with i(5) [OF b] f(3) have
        "co_ctx c |\<in>| sm_cancelled r' \<or> (\<exists>key. fmlookup (sm_syncCancels r') key = Some (co_ctx c))" by blast
      with i(4) [OF b] show ?thesis by (simp add: f(1) less_SucI)
    qed
  next
    case (4 k k' c c')
    then show ?case
      using i(4) [of k c] i(4) [of k' c'] i(6) [of k c k' c'] created(1) by (auto simp: f split: if_splits)
  qed
qed

lemma managerReconcile_cases [consumes 1, case_names unchanged cleanup start]:
  assumes "managerReconcile M got r w = ((res, r'), w')"
  obtains "r' = r"
  | pubRes where "got = Inr pubRes" "\<not> wanted pubRes" "r' = cleanupController pubRes r"
  | pubRes where "got = Inr pubRes" "wanted pubRes"
      "getPublishedResourceKey pubRes |\<notin>| fmdom (sm_syncCancels r)"
      "startSyncController M pubRes r w = ((res, r'), w')"
proof (cases got)
  case (Inl e)
  with assms show thesis by (intro that(1)) (simp add: managerReconcile_def)
next
  case (Inr pubRes)
  show thesis
  proof (cases "wanted pubRes")
    case False
    show thesis by (rule that(2) [OF Inr False]) (use assms Inr False in \<open>auto simp: managerReconcile_def\<close>)
  next
    case True
    then have e: "ensureSyncController M pubRes r w = ((res, r'), w')"
      using assms Inr by (simp add: managerReconcile_def)
    show thesis
    proof (cases "r' = r")
      case False
      with e have "getPublishedResourceKey pubRes |\<notin>| fmdom (sm_syncCancels r)"
        "startSyncController M pubRes r w = ((res, r'), w')"
        by (auto simp: ensureSyncController_def split: sum.splits if_splits)
      then show thesis by (rule that(3) [OF Inr True])
    qed (rule that(1))
  qed
qed

lemma managerInv_background:
  assumes "managerInv V r" "background (sm_dmcm r) d"
  shows "managerInv V (r\<lparr>sm_dmcm := d\<rparr>)"
proof -
  note i = managerInvD [OF assms(1)] and b = background_runnables [OF assms(2)]
  show ?thesis
  proof (rule managerInvI, goal_cases)
    case (1 key ctx)
    then show ?case using i(1,2) [of key ctx] by simp
  next
    case (2 key key' ctx)
    then show ?case using i(3) [of key ctx key'] by simp
  next
    case (3 k c)
    then show ?case using i(4,5) [of k c] b [of k c] by simp
  next
    case (4 k k' c c')
    then show ?case using i(6) [of k c k' c'] b [of k c] b [of k' c'] by simp
  qed
qed

lemma managerInv_step: "manager_step Ms V r r' \<Longrightarrow> managerInv V r \<Longrightarrow> managerInv V r'"
proof (induction rule: manager_step.induct)
  case (reconciled M got r w res r' w')
  from reconciled(5) show ?case
  proof (cases rule: managerReconcile_cases)
    case (start pubRes)
    then show ?thesis using reconciled(2) by (intro managerInv_start [OF reconciled.prems start(4)]) simp_all
  qed (use reconciled.prems managerInv_cleanup in simp_all)
qed (rule managerInv_background)

interpretation syncmanager: state_invariant "newSyncManager prober ns agent ssa" "manager_step Ms V" "managerInv V"
proof
  show "managerInv V (newSyncManager prober ns agent ssa)"
    by (simp add: managerInv_def newSyncManager_def newDMCM_def)
qed (erule managerInv_step [rotated])

section \<open>An example\<close>

definition exampleManagerEnv :: "unit result \<Rightarrow> unit managerEnv" where
  "exampleManagerEnv accept = \<lparr> me_env = noServer, me_lib = plainLib, me_discovery = exampleDiscovery,
     me_engage = (\<lambda>_ _ _. accept), me_order = [], me_uuid = ''k'' \<rparr>"

definition exampleManager :: syncManager where
  "exampleManager = newSyncManager \<lparr> rp_name = ''slice'' \<rparr> ''kcp-system'' ''agent'' False"

lemma example_bound:
  "checkResourceIsBoundEverywhere (exampleManagerEnv accept) r publishDeployments = Inr True"
  by (simp add: checkResourceIsBoundEverywhere_def exampleManagerEnv_def example_eval Let_def)

lemma example_created:
  "\<exists>reconciler. Create noServer plainLib exampleDiscovery publishDeployments ns agent ssa w = (Inr (reconciler, []), w)"
  by (simp add: Create_def example_eval Let_def go_simps plainLib_def)

lemma example_wanted: "wanted publishDeployments"
  by (simp add: wanted_def isSyncEnabled_def example_eval)

text \<open>One controller started, and the same resource later with its synchronisation disabled.\<close>

lemma example_started:
  obtains r where "manager_step {exampleManagerEnv (Inr ())} {publishDeployments} exampleManager r"
    "sm_nextCtx r = 1" "sm_cancelled r = {||}" "dm_clusters (sm_dmcm r) = fmempty"
    "\<exists>c. co_ctx c = 0 \<and> dm_runnables (sm_dmcm r) = fmupd ''k'' c fmempty"
proof -
  let ?M = "exampleManagerEnv (Inr ())" and ?V = "{publishDeployments}"
  obtain reconciler where c: "Create noServer plainLib exampleDiscovery publishDeployments (sm_stateNamespace exampleManager)
      (sm_agentName exampleManager) (sm_enableServerSideApply exampleManager) startWorld = (Inr (reconciler, []), startWorld)"
    using example_created by metis
  let ?c = "\<lparr> co_ctx = 0, co_reconciler = reconciler, co_watches = [] \<rparr>"
  let ?r = "exampleManager\<lparr>sm_nextCtx := 1, sm_syncCancels := fmupd (getPublishedResourceKey publishDeployments) 0 fmempty,
    sm_dmcm := newDMCM\<lparr>dm_runnables := fmupd ''k'' ?c fmempty\<rparr>\<rparr>"
  have "managerReconcile ?M (Inr publishDeployments) exampleManager startWorld = ((Inr 0, ?r), startWorld)"
    using example_wanted example_bound [of "Inr ()" exampleManager] c
    by (simp add: managerReconcile_def ensureSyncController_def startSyncController_def Let_def wrapErr_def
        exampleManagerEnv_def StartController_def PreSeedController_def valuesIn_def List.map_filter_def
        exampleManager_def newSyncManager_def newDMCM_def)
  then have "manager_step {?M} ?V exampleManager ?r"
    by (intro manager_step.reconciled [of ?M _ "Inr publishDeployments"])
       (simp_all add: exampleManagerEnv_def exampleManager_def newSyncManager_def newDMCM_def enumerates_def)
  then show thesis
    by (rule that) (auto simp: exampleManager_def newSyncManager_def newDMCM_def intro: exI [of _ ?c])
qed

lemma manager_step_mono: "manager_step Ms V r r' \<Longrightarrow> Ms \<subseteq> Ms' \<Longrightarrow> V \<subseteq> V' \<Longrightarrow> manager_step Ms' V' r r'"
  by (induction rule: manager_step.induct) (auto intro: manager_step.intros)

section \<open>Theorems\<close>

lemma managerReconcile_wanted:
  assumes "wanted pubRes" "getPublishedResourceKey pubRes |\<notin>| fmdom (sm_syncCancels r)"
    and "checkResourceIsBoundEverywhere M r pubRes = Inr True"
  shows "managerReconcile M (Inr pubRes) r w = startSyncController M pubRes r w"
  using assms by (simp add: managerReconcile_def ensureSyncController_def wrapErr_def)

lemma managerReconcile_known:
  assumes "wanted pubRes" "getPublishedResourceKey pubRes |\<in>| fmdom (sm_syncCancels r)"
  shows "managerReconcile M (Inr pubRes) r w = ((Inr 0, r), w)"
  using assms by (simp add: managerReconcile_def ensureSyncController_def)

lemma engageAll_accepts:
  "(\<And>c n e. engage c n e = Inr ()) \<Longrightarrow> fst (engageAll engage todo) = Inr ()"
  by (induction engage todo rule: engageAll.induct) (auto split: prod.splits)

lemma StartController_accepts:
  assumes "\<And>c n e. engage c n e = Inr ()"
  shows "fst (StartController engage order mapKey ctrl s) = Inr ()"
  using engageAll_accepts [of engage, OF assms]
  by (auto simp: StartController_def PreSeedController_def wrapErr_def split_beta)



text \<open>
  C33. In every reachable state, the context of a running controller has been cancelled already or is
  recorded under exactly one key, so that the manager could cancel it; and no two running
  controllers share a context.
\<close>

theorem running_controllers_accounted:
  assumes "(manager_step Ms V)\<^sup>*\<^sup>* (newSyncManager prober ns agent ssa) r"
    and "fmlookup (dm_runnables (sm_dmcm r)) k = Some c"
  shows "(co_ctx c |\<in>| sm_cancelled r \<or> (\<exists>!key. fmlookup (sm_syncCancels r) key = Some (co_ctx c))) \<and>
     (\<forall>k' c'. fmlookup (dm_runnables (sm_dmcm r)) k' = Some c' \<longrightarrow> co_ctx c' = co_ctx c \<longrightarrow> k' = k)"
proof -
  note i = managerInvD [OF syncmanager.inv_reachable [OF assms(1)]]
  show ?thesis using i(5) [OF assms(2)] i(6) [OF _ assms(2)] i(3) by blast
qed

theorem running_controllers_accounted_witness:
  "\<exists>r c. (manager_step {exampleManagerEnv (Inr ())} {publishDeployments})\<^sup>*\<^sup>* exampleManager r \<and>
     fmlookup (dm_runnables (sm_dmcm r)) ''k'' = Some c \<and>
     (\<exists>!key. fmlookup (sm_syncCancels r) key = Some (co_ctx c))"
proof -
  obtain r c where r: "manager_step {exampleManagerEnv (Inr ())} {publishDeployments} exampleManager r"
    "sm_cancelled r = {||}" "dm_runnables (sm_dmcm r) = fmupd ''k'' c fmempty"
    by (rule example_started) blast
  then have "(manager_step {exampleManagerEnv (Inr ())} {publishDeployments})\<^sup>*\<^sup>* exampleManager r" by simp
  moreover have "fmlookup (dm_runnables (sm_dmcm r)) ''k'' = Some c" by (simp add: r(3))
  ultimately show ?thesis
    using running_controllers_accounted [of "{exampleManagerEnv (Inr ())}" "{publishDeployments}"] r(2)
    by (metis exampleManager_def fempty_iff)
qed

text \<open>
  C37. A controller is never stopped. A resource version identifies one state of an object; under that
  assumption the key under which a reconciliation looks for a controller to stop is never one that was
  recorded, so the context of a controller that was started for an older version of a
  PublishedResource is not cancelled when the resource is changed, disabled or deleted.
\<close>

theorem nothing_is_stopped:
  assumes "inj_on getPublishedResourceKey V"
    and "(manager_step Ms V)\<^sup>*\<^sup>* (newSyncManager prober ns agent ssa) r" "(manager_step Ms V)\<^sup>*\<^sup>* r r'"
    and "ctx < sm_nextCtx r" "ctx |\<notin>| sm_cancelled r"
  shows "ctx |\<notin>| sm_cancelled r'"
proof -
  from assms(3) have "managerInv V r' \<and> ctx < sm_nextCtx r' \<and> ctx |\<notin>| sm_cancelled r'"
  proof (induction rule: rtranclp_induct)
    case base
    then show ?case using syncmanager.inv_reachable [OF assms(2)] assms(4,5) by blast
  next
    case (step s s')
    then have inv: "managerInv V s" and lt: "ctx < sm_nextCtx s" and nc: "ctx |\<notin>| sm_cancelled s" by simp_all
    from step(2) have "ctx < sm_nextCtx s' \<and> ctx |\<notin>| sm_cancelled s'"
    proof (cases rule: manager_step.cases)
      case (reconciled M got w res w')
      from reconciled(5) show ?thesis
      proof (cases rule: managerReconcile_cases)
        case (cleanup pubRes)
        have "fmlookup (sm_syncCancels s) (getPublishedResourceKey pubRes) = None"
        proof (rule ccontr)
          assume "fmlookup (sm_syncCancels s) (getPublishedResourceKey pubRes) \<noteq> None"
          then obtain p where "p \<in> V" "wanted p" "getPublishedResourceKey p = getPublishedResourceKey pubRes"
            using managerInvD(2) [OF inv] by blast
          with assms(1) reconciled(2) cleanup(1,2) show False by (auto dest: inj_onD)
        qed
        with lt nc cleanup(3) show ?thesis by (simp add: cleanupController_def)
      next
        case (start pubRes)
        from start(4) show ?thesis
          by (cases rule: startSyncController_cases) (use lt nc in \<open>auto simp: cancelCtx_def\<close>)
      qed (use lt nc in simp)
    next
      case (background d)
      then show ?thesis using lt nc by simp
    qed
    with managerInv_step [OF step(2) inv] show ?case by blast
  qed
  then show ?thesis by blast
qed

theorem nothing_is_stopped_witness:
  "\<exists>disabled r c. pr_UID disabled = pr_UID publishDeployments \<and> \<not> isSyncEnabled disabled \<and>
     manager_step {exampleManagerEnv (Inr ())} {publishDeployments} exampleManager r \<and>
     managerReconcile (exampleManagerEnv (Inr ())) (Inr disabled) r startWorld =
       ((Inr 0, cleanupController disabled r), startWorld) \<and>
     fmlookup (dm_runnables (sm_dmcm r)) ''k'' = Some c \<and> co_ctx c |\<notin>| sm_cancelled (cleanupController disabled r)"
proof -
  let ?M = "exampleManagerEnv (Inr ())" and ?M' = "(exampleManagerEnv (Inr ()))\<lparr>me_uuid := ''l''\<rparr>"
  define disabled where "disabled = publishDeployments\<lparr>pr_ResourceVersion := ''2'',
    pr_Spec := (pr_Spec publishDeployments)\<lparr>prs_Synchronization := Some \<lparr> sync_Enabled = False \<rparr>\<rparr>\<rparr>"
  let ?V = "{publishDeployments, disabled}"
  have off: "\<not> isSyncEnabled disabled" "\<not> wanted disabled"
    by (simp_all add: disabled_def wanted_def isSyncEnabled_def)
  obtain r c where r: "manager_step {?M} {publishDeployments} exampleManager r"
    "sm_nextCtx r = 1" "sm_cancelled r = {||}" "dm_clusters (sm_dmcm r) = fmempty"
    "co_ctx c = 0" "dm_runnables (sm_dmcm r) = fmupd ''k'' c fmempty"
    by (rule example_started) blast
  have run: "managerReconcile M (Inr disabled) r w = ((Inr 0, cleanupController disabled r), w)"
    for M :: "unit managerEnv" and w
    using off(2) by (simp add: managerReconcile_def)
  have "(manager_step {?M, ?M'} ?V)\<^sup>*\<^sup>* exampleManager r"
    by (rule r_into_rtranclp) (rule manager_step_mono [OF r(1)], auto)
  moreover have "(manager_step {?M, ?M'} ?V)\<^sup>*\<^sup>* r (cleanupController disabled r)"
    by (rule r_into_rtranclp, rule manager_step.reconciled [OF _ _ _ _ run [of ?M']])
       (simp_all add: r exampleManagerEnv_def enumerates_def)
  moreover have "inj_on getPublishedResourceKey ?V"
    by (simp add: disabled_def getPublishedResourceKey_def example_eval)
  ultimately have "0 |\<notin>| sm_cancelled (cleanupController disabled r)"
    using nothing_is_stopped [of ?V "{?M, ?M'}"] r(2,3) unfolding exampleManager_def
    by (metis fempty_iff zero_less_one)
  with off r run [of ?M] show ?thesis
    by (intro exI [of _ disabled] exI [of _ r] exI [of _ c]) (simp add: disabled_def)
qed

text \<open>
  A controller that could not be started is not tried again: its key stays recorded although its
  context is cancelled, so every later reconciliation of that version reports success without doing
  anything.
\<close>

theorem failed_start_not_retried:
  assumes "wanted pubRes" "getPublishedResourceKey pubRes |\<notin>| fmdom (sm_syncCancels r)"
    and "checkResourceIsBoundEverywhere M r pubRes = Inr True"
    and "Create (me_env M) (me_lib M) (me_discovery M) pubRes (sm_stateNamespace r) (sm_agentName r)
           (sm_enableServerSideApply r) w = (Inr (reconciler, watches), w')"
    and "fst (StartController (me_engage M) (me_order M) (me_uuid M)
           \<lparr> co_ctx = sm_nextCtx r, co_reconciler = reconciler, co_watches = watches \<rparr> (sm_dmcm r)) = Inl e"
  shows "\<exists>e' r'. managerReconcile M (Inr pubRes) r w = ((Inl e', r'), w') \<and> sm_nextCtx r |\<in>| sm_cancelled r' \<and>
     (\<forall>M' w''. managerReconcile M' (Inr pubRes) r' w'' = ((Inr 0, r'), w''))"
proof -
  let ?c = "\<lparr> co_ctx = sm_nextCtx r, co_reconciler = reconciler, co_watches = watches \<rparr>"
  obtain d where st: "StartController (me_engage M) (me_order M) (me_uuid M) ?c (sm_dmcm r) = (Inl e, d)"
    using assms(5) by (metis prod.collapse)
  let ?r = "cancelCtx (sm_nextCtx r) (r\<lparr>sm_nextCtx := Suc (sm_nextCtx r),
    sm_syncCancels := fmupd (getPublishedResourceKey pubRes) (sm_nextCtx r) (sm_syncCancels r), sm_dmcm := d\<rparr>)"
  obtain e' where e': "wrapErr ''failed to start sync controller'' (Inl e :: nat result) = Inl e'"
    by (cases "isPanic e") (simp_all add: wrapErr_def)
  have "managerReconcile M (Inr pubRes) r w = ((Inl e', ?r), w')"
    using st assms(4) e' by (simp add: managerReconcile_wanted [OF assms(1-3)] startSyncController_def Let_def)
  moreover have "managerReconcile M' (Inr pubRes) ?r w'' = ((Inr 0, ?r), w'')" for M' :: "'b managerEnv" and w''
    by (rule managerReconcile_known) (simp_all add: assms(1) cancelCtx_def)
  ultimately show ?thesis
    by (intro exI [of _ e'] exI [of _ ?r]) (simp add: cancelCtx_def)
qed

theorem failed_start_not_retried_witness:
  "\<exists>r e r' w'. managerReconcile (exampleManagerEnv (Inl (Msg ''refused''))\<lparr>me_order := [''ws'']\<rparr>)
       (Inr publishDeployments) r startWorld = ((Inl e, r'), w') \<and>
     managerReconcile (exampleManagerEnv (Inr ())) (Inr publishDeployments) r' startWorld = ((Inr 0, r'), startWorld)"
proof -
  let ?M = "exampleManagerEnv (Inl (Msg ''refused''))\<lparr>me_order := [''ws'']\<rparr>"
  let ?r = "exampleManager\<lparr>sm_dmcm := trackCluster ''ws'' \<lparr> ec_ctx = 2, ec_cl = 2 \<rparr> newDMCM\<rparr>"
  obtain reconciler where c: "Create noServer plainLib exampleDiscovery publishDeployments (sm_stateNamespace ?r)
      (sm_agentName ?r) (sm_enableServerSideApply ?r) startWorld = (Inr (reconciler, []), startWorld)"
    using example_created by metis
  have "checkResourceIsBoundEverywhere ?M ?r publishDeployments = Inr True"
    using example_bound [of "Inl (Msg ''refused'')" ?r] by (simp add: checkResourceIsBoundEverywhere_def)
  moreover have "\<exists>e. fst (StartController (me_engage ?M) (me_order ?M) (me_uuid ?M)
      \<lparr> co_ctx = sm_nextCtx ?r, co_reconciler = reconciler, co_watches = [] \<rparr> (sm_dmcm ?r)) = Inl e"
    by (simp add: StartController_def PreSeedController_def valuesIn_def List.map_filter_def trackCluster_def
        exampleManagerEnv_def wrapErr_def)
  ultimately show ?thesis
    using failed_start_not_retried [OF example_wanted, of ?r ?M startWorld reconciler "[]" startWorld] c
    by (fastforce simp: exampleManager_def newSyncManager_def exampleManagerEnv_def)
qed

end
