(* ===== verification/Agent_Main.thy ===== *)
theory Agent_Main
  imports Agent_Options Sync_Endpoint Sync_Manager Event_Filter
begin

text \<open>
  Start-up (\<open>../cmd/api-syncagent/main.go\<close>): the controllers with what they watch (the \<open>Add\<close> functions of
  \<open>controller/apiresourceschema\<close>, \<open>controller/apiexport\<close> and \<open>controller/syncmanager\<close>), the connections
  they use, and the order in which everything is added to the local manager.
\<close>

section \<open>Controllers and their watches\<close>

text \<open>
  A watch is a predicate on events and the requests an object gives. A predicate made by
  \<open>NewPredicateFuncs\<close> looks at the new object of an update, and several predicates have to pass together.
  The watch on CRDs has no predicate; its requests are \<^const>\<open>enqueueMatchingPublishedResources\<close>.
\<close>

fun NewPredicateFuncs :: "('o \<Rightarrow> bool) \<Rightarrow> 'o watchEvent \<Rightarrow> bool" where
  "NewPredicateFuncs flt (CreateEvent obj) = flt obj"
| "NewPredicateFuncs flt (UpdateEvent old new) = flt new"
| "NewPredicateFuncs flt (DeleteEvent obj) = flt obj"
| "NewPredicateFuncs flt (GenericEvent obj) = flt obj"

datatype controllerWatch =
    WatchPublishedResources "PublishedResource watchEvent \<Rightarrow> bool" "PublishedResource \<Rightarrow> nsname list"
  | WatchCRDs
  | WatchAPIExports kcpCluster "apiExport \<Rightarrow> nsname list"

text \<open>A reconciler with the connection it was given.\<close>

datatype reconcilerSetup =
    SchemaReconciler schemaReconciler kcpCluster string
  | ExportReconciler exportReconciler kcpCluster string
  | ManagerReconciler syncManager kcpCluster

record controllerSetup =
  cs_Name :: string
  cs_Workers :: int
  cs_Watches :: "controllerWatch list"
  cs_Reconciler :: reconcilerSetup

text \<open>What is added to the manager, in the order in which it is added.\<close>

datatype runnable =
    RunCluster kcpCluster
  | RunMultiCluster "restConfig option" string
  | RunController controllerSetup

record managerOptions =
  mo_Config :: restConfig
  mo_MetricsAddr :: string
  mo_LeaderElection :: bool
  mo_LeaderElectionID :: string
  mo_LeaderElectionNamespace :: string
  mo_HealthAddr :: string

text \<open>
  Libraries: the configuration of the service cluster (the process ends if there is none), the file with
  the kcp configuration, the constructors that may fail, and \<open>al_Matches\<close>, the matching of labels.
\<close>

record 's agentLib =
  al_Kcp :: "'s kcpApi"
  al_GetConfig :: "restConfig option"
  al_LoadKubeconfig :: "string \<Rightarrow> unit + restConfig option"
  al_NewManager :: "managerOptions \<Rightarrow> unit + unit"
  al_AddToScheme :: "string \<Rightarrow> unit + unit"
  al_NewProvider :: "restConfig option \<Rightarrow> string \<Rightarrow> unit + unit"
  al_NewMultiClusterManager :: "restConfig option \<Rightarrow> unit + unit"
  al_AddTracker :: "unit + unit"
  al_NewDiscoveryClient :: "unit + unit"
  al_NewCRDClient :: "unit + unit"
  al_Add :: "runnable \<Rightarrow> unit + unit"
  al_Start :: "managerOptions \<Rightarrow> unit + unit"
  al_Matches :: "selector option \<Rightarrow> labels \<Rightarrow> bool"

record 's agentWorld =
  aw_kcp :: 's
  aw_added :: "runnable list"
  aw_started :: bool

type_synonym ('s, 'a) agentProg = "('s agentWorld, 'a) go"

definition addRunnable :: "'s agentLib \<Rightarrow> runnable \<Rightarrow> ('s, unit) agentProg" where
  "addRunnable A r w =
     (case al_Add A r of
        Inl _ \<Rightarrow> (Inl (Msg ''add''), w)
      | Inr _ \<Rightarrow> (Inr (), w\<lparr>aw_added := aw_added w @ [r]\<rparr>))"

definition onKcp :: "('s, 'a) go \<Rightarrow> ('s, 'a) agentProg" where
  "onKcp m w = (case m (aw_kcp w) of (r, s) \<Rightarrow> (r, w\<lparr>aw_kcp := s\<rparr>))"

definition NewDiscoveryClient :: "'s agentLib \<Rightarrow> unit result" where
  "NewDiscoveryClient A =
     bindR (lib ''discovery'' (al_NewDiscoveryClient A)) (\<lambda>_. lib ''crds'' (al_NewCRDClient A))"

definition byFilter :: "'s agentLib \<Rightarrow> selector option \<Rightarrow> PublishedResource watchEvent \<Rightarrow> bool" where
  "byFilter A prFilter = ByLabels (al_Matches A prFilter) pr_Labels"

definition requestFor :: "PublishedResource \<Rightarrow> nsname list" where
  "requestFor pr = [\<lparr> nn_Namespace = [], nn_Name = pr_Name pr \<rparr>]"

definition selectorOf :: "selector option \<Rightarrow> selector" where
  "selectorOf s = (case s of None \<Rightarrow> Everything | Some x \<Rightarrow> x)"

definition schemaController ::
    "'s agentLib \<Rightarrow> kcpCluster \<Rightarrow> string \<Rightarrow> int \<Rightarrow> string \<Rightarrow> selector option \<Rightarrow> controllerSetup" where
  "schemaController A kcpCluster lcName numWorkers agentName prFilter =
     \<lparr> cs_Name = ''syncagent-apiresourceschema'', cs_Workers = numWorkers,
       cs_Watches = [WatchPublishedResources (byFilter A prFilter) requestFor, WatchCRDs],
       cs_Reconciler = SchemaReconciler
         \<lparr> rc_agentName = agentName, rc_prFilter = selectorOf prFilter \<rparr> kcpCluster lcName \<rparr>"

definition AddSchemaController ::
    "'s agentLib \<Rightarrow> kcpCluster \<Rightarrow> string \<Rightarrow> int \<Rightarrow> string \<Rightarrow> selector option \<Rightarrow> ('s, unit) agentProg" where
  "AddSchemaController A kcpCluster lcName numWorkers agentName prFilter =
     addRunnable A (RunController (schemaController A kcpCluster lcName numWorkers agentName prFilter))"

definition hasARS :: "PublishedResource \<Rightarrow> bool" where
  "hasARS publishedResource \<longleftrightarrow> pr_ResourceSchemaName publishedResource \<noteq> []"

definition exportController ::
    "'s agentLib \<Rightarrow> kcpCluster \<Rightarrow> string \<Rightarrow> string \<Rightarrow> string \<Rightarrow> selector option \<Rightarrow> controllerSetup" where
  "exportController A kcpCluster lcName apiExportName agentName prFilter =
     \<lparr> cs_Name = ''syncagent-apiexport'', cs_Workers = 1,
       cs_Watches =
         [WatchAPIExports kcpCluster (EnqueueConst ''dummy''),
          WatchPublishedResources (\<lambda>e. byFilter A prFilter e \<and> NewPredicateFuncs hasARS e) (EnqueueConst ''dummy'')],
       cs_Reconciler = ExportReconciler
         \<lparr> er_agentName = agentName, er_apiExportName = apiExportName \<rparr> kcpCluster lcName \<rparr>"

definition AddExportController ::
    "'s agentLib \<Rightarrow> kcpCluster \<Rightarrow> string \<Rightarrow> string \<Rightarrow> string \<Rightarrow> selector option \<Rightarrow> ('s, unit) agentProg" where
  "AddExportController A kcpCluster lcName apiExportName agentName prFilter =
     checkE ''failed to create discovery client'' (liftE (NewDiscoveryClient A)) (\<lambda>_.
     addRunnable A (RunController (exportController A kcpCluster lcName apiExportName agentName prFilter)))"

text \<open>The resource prober reads the endpoint slice through the connection it is given.\<close>

definition syncController ::
    "'s agentLib \<Rightarrow> ResourceProber \<Rightarrow> kcpCluster \<Rightarrow> selector option \<Rightarrow> string \<Rightarrow> string \<Rightarrow> bool \<Rightarrow> controllerSetup" where
  "syncController A resourceProber proberCluster prFilter stateNamespace agentName enableServerSideApply =
     \<lparr> cs_Name = ''syncagent-syncmanager'', cs_Workers = 0,
       cs_Watches = [WatchPublishedResources (byFilter A prFilter) requestFor],
       cs_Reconciler = ManagerReconciler
         (newSyncManager resourceProber stateNamespace agentName enableServerSideApply) proberCluster \<rparr>"

definition AddSyncManager ::
    "'s agentLib \<Rightarrow> ResourceProber \<Rightarrow> kcpCluster \<Rightarrow> selector option \<Rightarrow> string \<Rightarrow> string \<Rightarrow> bool \<Rightarrow> ('s, unit) agentProg" where
  "AddSyncManager A resourceProber proberCluster prFilter stateNamespace agentName enableServerSideApply =
     checkE ''failed to create discovery client'' (liftE (NewDiscoveryClient A)) (\<lambda>_.
     addRunnable A (RunController
       (syncController A resourceProber proberCluster prFilter stateNamespace agentName enableServerSideApply)))"

section \<open>Managers\<close>

definition localConfig :: "Options \<Rightarrow> restConfig \<Rightarrow> restConfig" where
  "localConfig opts cfg =
     (let cfg = (if opt_KubeconfigHostOverride opts \<noteq> []
                 then cfg\<lparr>cfg_Host := opt_KubeconfigHostOverride opts\<rparr> else cfg)
      in if opt_KubeconfigCAFileOverride opts \<noteq> []
         then (let cfg = (if cfg_CAData cfg \<noteq> [] then cfg\<lparr>cfg_CAData := []\<rparr> else cfg)
               in cfg\<lparr>cfg_CAFile := opt_KubeconfigCAFileOverride opts\<rparr>)
         else cfg)"

definition setupLocalManager :: "'s agentLib \<Rightarrow> Options \<Rightarrow> managerOptions result" where
  "setupLocalManager A opts =
     (case al_GetConfig A of
        None \<Rightarrow> Inl (Panic ''unable to get kubeconfig'')
      | Some cfg \<Rightarrow>
          let mgr = \<lparr> mo_Config = localConfig opts cfg, mo_MetricsAddr = opt_MetricsAddr opts,
                mo_LeaderElection = opt_EnableLeaderElection opts,
                mo_LeaderElectionID = ''syncagent.'' @ opt_AgentName opts,
                mo_LeaderElectionNamespace = opt_Namespace opts, mo_HealthAddr = opt_HealthAddr opts \<rparr>
          in bindR (lib ''manager'' (al_NewManager A mgr)) (\<lambda>_.
             bindR (wrapErr ''failed to register local scheme v1'' (lib ''scheme'' (al_AddToScheme A ''v1''))) (\<lambda>_.
             bindR (wrapErr ''failed to register local scheme apiextensions.k8s.io/v1''
               (lib ''scheme'' (al_AddToScheme A ''apiextensions.k8s.io/v1''))) (\<lambda>_.
             bindR (wrapErr ''failed to register local scheme syncagent.kcp.io/v1alpha1''
               (lib ''scheme'' (al_AddToScheme A ''syncagent.kcp.io/v1alpha1''))) (\<lambda>_.
             Inr mgr)))))"

definition NewDynamicMultiClusterManager ::
    "'s agentLib \<Rightarrow> restConfig option \<Rightarrow> string \<Rightarrow> syncControllerInst dmcm result" where
  "NewDynamicMultiClusterManager A cfg endpointSliceName =
     bindR (wrapErr ''failed to register scheme v1'' (lib ''scheme'' (al_AddToScheme A ''v1''))) (\<lambda>_.
     bindR (wrapErr ''failed to register scheme apis.kcp.io/v1alpha1''
       (lib ''scheme'' (al_AddToScheme A ''apis.kcp.io/v1alpha1''))) (\<lambda>_.
     bindR (wrapErr ''failed to register scheme core.kcp.io/v1alpha1''
       (lib ''scheme'' (al_AddToScheme A ''core.kcp.io/v1alpha1''))) (\<lambda>_.
     bindR (wrapErr ''failed to create multicluster provider''
       (lib ''provider'' (al_NewProvider A cfg endpointSliceName))) (\<lambda>_.
     bindR (wrapErr ''failed to initialize manager'' (lib ''manager'' (al_NewMultiClusterManager A cfg))) (\<lambda>_.
     bindR (wrapErr ''failed to initialize cluster'' (lib ''tracker'' (al_AddTracker A))) (\<lambda>_.
     Inr newDMCM))))))"

section \<open>The agent\<close>

definition startController :: "Options \<Rightarrow> string \<Rightarrow> ('s, unit) agentProg \<Rightarrow> ('s, unit) agentProg" where
  "startController opts name creator =
     (if name \<in> set (opt_DisabledControllers opts) then ok ()
      else checkE (''failed to add '' @ name @ '' controller'') creator ok)"

text \<open>The kcp connections: one for the export, and one for the slice if it is in another cluster.\<close>

definition addConnections :: "'s agentLib \<Rightarrow> syncEndpoint \<Rightarrow> ('s, kcpCluster \<times> kcpCluster) agentProg" where
  "addConnections A endpoint =
     checkE ''failed to initialize managed kcp cluster''
       (liftE (setupManagedKcpCluster (al_Kcp A) (se_APIExport endpoint))) (\<lambda>managedKcpCluster.
     checkE ''failed to add managed kcp cluster runnable'' (addRunnable A (RunCluster managedKcpCluster)) (\<lambda>_.
     if qc_Cluster (se_EndpointSlice endpoint) \<noteq> qc_Cluster (se_APIExport endpoint) then
       checkE ''failed to initialize endpoint kcp cluster''
         (liftE (setupEndpointKcpCluster (al_Kcp A) (se_EndpointSlice endpoint))) (\<lambda>endpointKcpCluster.
       checkE ''failed to add endpoint kcp cluster runnable'' (addRunnable A (RunCluster endpointKcpCluster)) (\<lambda>_.
       ok (managedKcpCluster, endpointKcpCluster)))
     else ok (managedKcpCluster, managedKcpCluster)))"

definition addControllers ::
    "'s agentLib \<Rightarrow> Options \<Rightarrow> syncEndpoint \<Rightarrow> kcpCluster \<Rightarrow> kcpCluster \<Rightarrow> ('s, unit) agentProg" where
  "addControllers A opts endpoint managedKcpCluster endpointSliceCluster =
     bindE (startController opts ''apiresourceschema''
       (AddSchemaController A managedKcpCluster (qc_Cluster (se_APIExport endpoint)) 4 (opt_AgentName opts)
          (opt_PublishedResourceSelector opts))) (\<lambda>_.
     bindE (startController opts ''apiexport''
       (AddExportController A managedKcpCluster (qc_Cluster (se_APIExport endpoint))
          (ae_Name (qe_APIExport (se_APIExport endpoint))) (opt_AgentName opts)
          (opt_PublishedResourceSelector opts))) (\<lambda>_.
     startController opts ''sync''
       (let prober = \<lparr> rp_name = ees_Name (qs_EndpointSlice (se_EndpointSlice endpoint)) \<rparr> in
        AddSyncManager A prober endpointSliceCluster (opt_PublishedResourceSelector opts) (opt_Namespace opts)
          (opt_AgentName opts) (opt_EnableServerSideApply opts))))"

definition addMultiCluster :: "'s agentLib \<Rightarrow> syncEndpoint \<Rightarrow> ('s, unit) agentProg" where
  "addMultiCluster A endpoint =
     (let cfg = qc_Config (se_EndpointSlice endpoint);
          name = ees_Name (qs_EndpointSlice (se_EndpointSlice endpoint))
      in checkE ''failed to start dynamic multi cluster manager''
           (liftE (NewDynamicMultiClusterManager A cfg name)) (\<lambda>_.
         checkE ''failed to add endpoint kcp cluster runnable'' (addRunnable A (RunMultiCluster cfg name)) ok))"

definition startManager :: "'s agentLib \<Rightarrow> managerOptions \<Rightarrow> ('s, unit) agentProg" where
  "startManager A mgr w = (lib ''manager'' (al_Start A mgr), w\<lparr>aw_started := True\<rparr>)"

definition run :: "'s agentLib \<Rightarrow> Options \<Rightarrow> ('s, unit) agentProg" where
  "run A opts =
     checkE ''failed to setup local manager'' (liftE (setupLocalManager A opts)) (\<lambda>mgr.
     checkE ''failed to load kcp kubeconfig''
       (liftE (lib ''kubeconfig'' (al_LoadKubeconfig A (opt_KcpKubeconfig opts)))) (\<lambda>loaded.
     checkE ''failed to check kcp kubeconfig'' (liftE (kubeconfig_Validate loaded)) (\<lambda>_.
     checkE ''failed to resolve APIExport/EndpointSlice''
       (onKcp (resolveSyncEndpoint (al_Kcp A) (the loaded) (opt_APIExportEndpointSliceRef opts))) (\<lambda>endpoint.
     bindE (addConnections A endpoint) (\<lambda>(managedKcpCluster, endpointSliceCluster).
     bindE (addMultiCluster A endpoint) (\<lambda>_.
     bindE (addControllers A opts endpoint managedKcpCluster endpointSliceCluster) (\<lambda>_.
     startManager A mgr)))))))"

text \<open>
  The process: flags, validation, completion, then the agent. The two checks end the process.
\<close>

definition agentMain :: "flagLib \<Rightarrow> 's agentLib \<Rightarrow> (string \<times> string) list \<Rightarrow> ('s, unit) agentProg" where
  "agentMain L A args =
     bindE (liftE (parseFlags L args (NewOptions, False))) (\<lambda>opts.
     case Validate L opts of
       Inl errs \<Rightarrow> fail (Msg ''Invalid command line'')
     | Inr _ \<Rightarrow>
         (case Complete L opts of
            (Inl errs, opts) \<Rightarrow> fail (Msg ''Invalid command line'')
          | (Inr _, opts) \<Rightarrow> checkE ''Sync Agent has encountered an error'' (run A opts) ok))"

section \<open>What a running agent consists of\<close>

definition connection :: "restConfig option \<Rightarrow> string \<Rightarrow> string \<Rightarrow> kcpCluster" where
  "connection cfg kind name = \<lparr> kc_Config = cfg, kc_Schemes = [''apis.kcp.io/v1alpha1'', ''core.kcp.io/v1alpha1''],
     kc_ByObject = [(kind, [(''metadata.name'', name)])] \<rparr>"

definition exportConnection :: "syncEndpoint \<Rightarrow> kcpCluster" where
  "exportConnection e =
     connection (qc_Config (se_APIExport e)) ''APIExport'' (ae_Name (qe_APIExport (se_APIExport e)))"

definition sliceConnection :: "syncEndpoint \<Rightarrow> kcpCluster" where
  "sliceConnection e =
     (if qc_Cluster (se_EndpointSlice e) = qc_Cluster (se_APIExport e) then exportConnection e
      else connection (qc_Config (se_EndpointSlice e)) ''APIExportEndpointSlice''
             (ees_Name (qs_EndpointSlice (se_EndpointSlice e))))"

text \<open>The three controllers under the names by which they are disabled.\<close>

definition agentControllers :: "'s agentLib \<Rightarrow> Options \<Rightarrow> syncEndpoint \<Rightarrow> (string \<times> controllerSetup) list" where
  "agentControllers A opts e =
     [(''apiresourceschema'', schemaController A (exportConnection e) (qc_Cluster (se_APIExport e)) 4
         (opt_AgentName opts) (opt_PublishedResourceSelector opts)),
      (''apiexport'', exportController A (exportConnection e) (qc_Cluster (se_APIExport e))
         (ae_Name (qe_APIExport (se_APIExport e))) (opt_AgentName opts) (opt_PublishedResourceSelector opts)),
      (''sync'', syncController A \<lparr> rp_name = ees_Name (qs_EndpointSlice (se_EndpointSlice e)) \<rparr> (sliceConnection e)
         (opt_PublishedResourceSelector opts) (opt_Namespace opts) (opt_AgentName opts)
         (opt_EnableServerSideApply opts))]"

definition agentRunnables :: "'s agentLib \<Rightarrow> Options \<Rightarrow> syncEndpoint \<Rightarrow> runnable list" where
  "agentRunnables A opts e =
     RunCluster (exportConnection e) #
     (if qc_Cluster (se_EndpointSlice e) = qc_Cluster (se_APIExport e) then [] else [RunCluster (sliceConnection e)]) @
     RunMultiCluster (qc_Config (se_EndpointSlice e)) (ees_Name (qs_EndpointSlice (se_EndpointSlice e))) #
     map (RunController \<circ> snd)
       (filter (\<lambda>(name, _). name \<notin> set (opt_DisabledControllers opts)) (agentControllers A opts e))"

lemma addRunnable_Inr:
  "addRunnable A r w = (Inr u, w') \<longleftrightarrow> al_Add A r = Inr () \<and> w' = w\<lparr>aw_added := aw_added w @ [r]\<rparr>"
  by (auto simp: addRunnable_def split: sum.splits)

lemma kcpConnection_Inr: "kcpConnection K cfg kind name = Inr c \<Longrightarrow> c = connection cfg kind name"
  by (auto simp: kcpConnection_def connection_def bindR_eq_Inr Let_def)

lemma addConnections_Inr:
  assumes "addConnections A e w = (Inr (m, s), w')"
  shows "m = exportConnection e \<and> s = sliceConnection e \<and>
    w' = w\<lparr>aw_added := aw_added w @ RunCluster (exportConnection e) #
       (if qc_Cluster (se_EndpointSlice e) = qc_Cluster (se_APIExport e) then [] else [RunCluster (sliceConnection e)])\<rparr>"
proof -
  have m: "m = exportConnection e"
    if "setupManagedKcpCluster (al_Kcp A) (se_APIExport e) = Inr m" for m
    using kcpConnection_Inr that by (simp add: setupManagedKcpCluster_def exportConnection_def)
  have s: "s = sliceConnection e"
    if "setupEndpointKcpCluster (al_Kcp A) (se_EndpointSlice e) = Inr s"
      "qc_Cluster (se_EndpointSlice e) \<noteq> qc_Cluster (se_APIExport e)" for s
    using kcpConnection_Inr that by (simp add: setupEndpointKcpCluster_def sliceConnection_def)
  show ?thesis
  proof (cases "qc_Cluster (se_EndpointSlice e) = qc_Cluster (se_APIExport e)")
    case True
    then have "sliceConnection e = exportConnection e" by (simp add: sliceConnection_def)
    with True assms show ?thesis
      by (simp add: addConnections_def checkE_eq_Inr go_eval addRunnable_Inr) (blast dest: m)
  next
    case False
    with assms show ?thesis
      by (simp add: addConnections_def checkE_eq_Inr go_eval addRunnable_Inr) (auto dest: m s)
  qed
qed

lemma addMultiCluster_Inr:
  "addMultiCluster A e w = (Inr u, w') \<Longrightarrow> w' = w\<lparr>aw_added := aw_added w @
     [RunMultiCluster (qc_Config (se_EndpointSlice e)) (ees_Name (qs_EndpointSlice (se_EndpointSlice e)))]\<rparr>"
  by (auto simp: addMultiCluster_def checkE_eq_Inr go_eval addRunnable_Inr Let_def)

text \<open>A controller that is not disabled is added, one that is disabled is not.\<close>

definition addIf :: "Options \<Rightarrow> string \<Rightarrow> controllerSetup \<Rightarrow> 's agentWorld \<Rightarrow> 's agentWorld" where
  "addIf opts name c w =
     (if name \<in> set (opt_DisabledControllers opts) then w else w\<lparr>aw_added := aw_added w @ [RunController c]\<rparr>)"

lemma startController_add:
  assumes "startController opts name creator w = (Inr u, w')"
    "\<And>v v'. creator v = (Inr (), v') \<Longrightarrow> v' = v\<lparr>aw_added := aw_added v @ [RunController c]\<rparr>"
  shows "w' = addIf opts name c w"
  using assms by (auto simp: startController_def addIf_def go_eval checkE_eq_Inr split: if_splits)

lemma creators_Inr:
  "AddSchemaController A k lc n agent sel v = (Inr (), v') \<Longrightarrow>
     v' = v\<lparr>aw_added := aw_added v @ [RunController (schemaController A k lc n agent sel)]\<rparr>"
  "AddExportController A k lc x agent sel v = (Inr (), v') \<Longrightarrow>
     v' = v\<lparr>aw_added := aw_added v @ [RunController (exportController A k lc x agent sel)]\<rparr>"
  "AddSyncManager A p k sel ns agent ssa v = (Inr (), v') \<Longrightarrow>
     v' = v\<lparr>aw_added := aw_added v @ [RunController (syncController A p k sel ns agent ssa)]\<rparr>"
  by (auto simp: AddSchemaController_def AddExportController_def AddSyncManager_def checkE_eq_Inr go_eval
        addRunnable_Inr)

lemma addControllers_Inr:
  assumes "addControllers A opts e (exportConnection e) (sliceConnection e) w = (Inr u, w')"
  shows "w' = w\<lparr>aw_added := aw_added w @ map (RunController \<circ> snd)
    (filter (\<lambda>(name, _). name \<notin> set (opt_DisabledControllers opts)) (agentControllers A opts e))\<rparr>"
proof -
  let ?schema = "schemaController A (exportConnection e) (qc_Cluster (se_APIExport e)) 4
         (opt_AgentName opts) (opt_PublishedResourceSelector opts)"
  let ?export = "exportController A (exportConnection e) (qc_Cluster (se_APIExport e))
         (ae_Name (qe_APIExport (se_APIExport e))) (opt_AgentName opts) (opt_PublishedResourceSelector opts)"
  let ?sync = "syncController A \<lparr> rp_name = ees_Name (qs_EndpointSlice (se_EndpointSlice e)) \<rparr> (sliceConnection e)
         (opt_PublishedResourceSelector opts) (opt_Namespace opts) (opt_AgentName opts)
         (opt_EnableServerSideApply opts)"
  obtain w1 w2 where
    1: "startController opts ''apiresourceschema'' (AddSchemaController A (exportConnection e)
       (qc_Cluster (se_APIExport e)) 4 (opt_AgentName opts) (opt_PublishedResourceSelector opts)) w = (Inr (), w1)"
    and 2: "startController opts ''apiexport'' (AddExportController A (exportConnection e) (qc_Cluster (se_APIExport e))
       (ae_Name (qe_APIExport (se_APIExport e))) (opt_AgentName opts) (opt_PublishedResourceSelector opts)) w1 = (Inr (), w2)"
    and 3: "startController opts ''sync'' (AddSyncManager A \<lparr> rp_name = ees_Name (qs_EndpointSlice (se_EndpointSlice e)) \<rparr>
       (sliceConnection e) (opt_PublishedResourceSelector opts) (opt_Namespace opts) (opt_AgentName opts)
       (opt_EnableServerSideApply opts)) w2 = (Inr u, w')"
    using assms unfolding addControllers_def bindE_eq_Inr Let_def by (metis (full_types) old.unit.exhaust)
  have "w' = addIf opts ''sync'' ?sync (addIf opts ''apiexport'' ?export
      (addIf opts ''apiresourceschema'' ?schema w))"
    by (simp only: startController_add [OF 1 creators_Inr(1)] startController_add [OF 2 creators_Inr(2)]
          startController_add [OF 3 creators_Inr(3)])
  then show ?thesis by (simp add: addIf_def agentControllers_def)
qed

lemma run_Inr:
  assumes "run A opts w = (Inr (), w')"
  shows "\<exists>mgr cfg endpoint s. setupLocalManager A opts = Inr mgr \<and>
    al_LoadKubeconfig A (opt_KcpKubeconfig opts) = Inr (Some cfg) \<and> Contains (cfg_Host cfg) ''/clusters/'' \<and>
    resolveSyncEndpoint (al_Kcp A) cfg (opt_APIExportEndpointSliceRef opts) (aw_kcp w) = (Inr endpoint, s) \<and>
    w' = w\<lparr>aw_kcp := s, aw_added := aw_added w @ agentRunnables A opts endpoint, aw_started := True\<rparr>"
proof -
  obtain mgr loaded endpoint w1 w2 w3 w4 m sc where steps:
    "setupLocalManager A opts = Inr mgr" "al_LoadKubeconfig A (opt_KcpKubeconfig opts) = Inr loaded"
    "kubeconfig_Validate loaded = Inr ()"
    "onKcp (resolveSyncEndpoint (al_Kcp A) (the loaded) (opt_APIExportEndpointSliceRef opts)) w = (Inr endpoint, w1)"
    "addConnections A endpoint w1 = (Inr (m, sc), w2)" "addMultiCluster A endpoint w2 = (Inr (), w3)"
    "addControllers A opts endpoint m sc w3 = (Inr (), w4)" "startManager A mgr w4 = (Inr (), w')"
    using assms by (auto simp: run_def checkE_eq_Inr bindE_eq_Inr go_eval)
  obtain cfg where cfg: "loaded = Some cfg" "Contains (cfg_Host cfg) ''/clusters/''"
    using steps(3) by (auto simp: kubeconfig_Validate_def split: option.splits if_splits)
  obtain s where s: "resolveSyncEndpoint (al_Kcp A) cfg (opt_APIExportEndpointSliceRef opts) (aw_kcp w) = (Inr endpoint, s)"
      "w1 = w\<lparr>aw_kcp := s\<rparr>"
    using steps(4) cfg by (auto simp: onKcp_def split: prod.splits)
  note conns = addConnections_Inr [OF steps(5)]
  have "w4 = w3\<lparr>aw_added := aw_added w3 @ map (RunController \<circ> snd)
    (filter (\<lambda>(name, _). name \<notin> set (opt_DisabledControllers opts)) (agentControllers A opts endpoint))\<rparr>"
    using addControllers_Inr steps(7) conns by blast
  moreover have "w' = w4\<lparr>aw_started := True\<rparr>" using steps(8) by (simp add: startManager_def)
  ultimately have "w' = w\<lparr>aw_kcp := s, aw_added := aw_added w @ agentRunnables A opts endpoint, aw_started := True\<rparr>"
    using conns addMultiCluster_Inr [OF steps(6)] s(2) by (simp add: agentRunnables_def)
  with steps(1,2) cfg s(1) show ?thesis by blast
qed

lemma agentMain_Inr:
  assumes "agentMain L A args w = (Inr (), w')"
  shows "\<exists>opts. completeOptions L opts \<and> run A opts w = (Inr (), w')"
proof -
  obtain opts where opts: "parseFlags L args (NewOptions, False) = Inr opts" and valid: "Validate L opts = Inr ()"
    and rest: "(case Complete L opts of
            (Inl errs, opts) \<Rightarrow> fail (Msg ''Invalid command line'')
          | (Inr _, opts) \<Rightarrow> checkE ''Sync Agent has encountered an error'' (run A opts) ok) w = (Inr (), w')"
  proof -
    obtain opts where p: "parseFlags L args (NewOptions, False) = Inr opts" and
      c: "(case Validate L opts of
         Inl errs \<Rightarrow> fail (Msg ''Invalid command line'')
       | Inr _ \<Rightarrow>
           (case Complete L opts of
              (Inl errs, opts) \<Rightarrow> fail (Msg ''Invalid command line'')
            | (Inr _, opts) \<Rightarrow> checkE ''Sync Agent has encountered an error'' (run A opts) ok)) w = (Inr (), w')"
      using assms by (auto simp: agentMain_def bindE_eq_Inr go_eval)
    then show thesis using that by (cases "Validate L opts") (auto simp: go_eval)
  qed
  have "opt_PublishedResourceSelector opts = Some Everything"
    using parseFlags_selector [OF opts] by (simp add: NewOptions_def)
  from Validate_Complete [OF valid this] have c: "fst (Complete L opts) = Inr ()" "completeOptions L (snd (Complete L opts))"
    by simp_all
  have "run A (snd (Complete L opts)) w = (Inr (), w')"
    using rest c(1) by (cases "Complete L opts") (auto simp: checkE_eq_Inr go_eval)
  with c(2) show ?thesis by blast
qed


definition exampleAgent :: "unit kcpApi \<Rightarrow> unit agentLib" where
  "exampleAgent K = \<lparr> al_Kcp = K, al_GetConfig = Some exampleConfig,
     al_LoadKubeconfig = (\<lambda>_. Inr (Some exampleConfig)), al_NewManager = (\<lambda>_. Inr ()),
     al_AddToScheme = (\<lambda>_. Inr ()), al_NewProvider = (\<lambda>_ _. Inr ()), al_NewMultiClusterManager = (\<lambda>_. Inr ()),
     al_AddTracker = Inr (), al_NewDiscoveryClient = Inr (), al_NewCRDClient = Inr (), al_Add = (\<lambda>_. Inr ()),
     al_Start = (\<lambda>_. Inr ()), al_Matches = (\<lambda>_ _. True) \<rparr>"

definition emptyAgent :: "unit agentWorld" where
  "emptyAgent = \<lparr> aw_kcp = (), aw_added = [], aw_started = False \<rparr>"

lemma example_complete:
  "Complete exampleFlags exampleOptions = (Inr (), exampleOptions\<lparr>opt_AgentName := ''example-syncagent'',
     opt_PublishedResourceSelector := Some (SelectorFromSet (fmupd ''team'' ''a'' fmempty))\<rparr>)"
  by (simp add: Complete_def exampleOptions_def NewOptions_def exampleFlags_def)

lemma exampleConfig_valid: "kubeconfig_Validate (Some exampleConfig) = Inr ()"
  using pointsTo_host [OF exampleConfig_points] Contains_append [of "''https://kcp''" "''/clusters/''" "''root:org''"]
  by (simp add: kubeconfig_Validate_def exampleConfig_def)

lemma example_adds:
  assumes "ka_AddToScheme K = (\<lambda>_. Inr ())" "ka_NewCluster K = (\<lambda>_. Inr ())"
  shows "\<exists>x w'. addConnections (exampleAgent K) e w = (Inr x, w')"
  "\<exists>w'. addMultiCluster (exampleAgent K) e w = (Inr (), w')"
  "\<exists>w'. addControllers (exampleAgent K) opts e m s w = (Inr (), w')"
  "\<exists>w'. startManager (exampleAgent K) mgr w = (Inr (), w')"
  by (auto simp: assms addConnections_def setupManagedKcpCluster_def setupEndpointKcpCluster_def kcpConnection_def
        addMultiCluster_def NewDynamicMultiClusterManager_def addControllers_def startController_def
        AddSchemaController_def AddExportController_def AddSyncManager_def NewDiscoveryClient_def startManager_def
        addRunnable_def exampleAgent_def go_simps Let_def wrapErr_def lib_def)

lemma example_run:
  assumes K: "ka_AddToScheme K = (\<lambda>_. Inr ())" "ka_NewCluster K = (\<lambda>_. Inr ())"
    and e: "resolveSyncEndpoint K exampleConfig (opt_APIExportEndpointSliceRef opts) () = (Inr e, ())"
  shows "\<exists>w'. run (exampleAgent K) opts emptyAgent = (Inr (), w')"
proof -
  obtain mgr where mgr: "setupLocalManager (exampleAgent K) opts = Inr mgr"
    by (simp add: setupLocalManager_def exampleAgent_def Let_def wrapErr_def lib_def)
  have k: "al_Kcp (exampleAgent K) = K" "al_LoadKubeconfig (exampleAgent K) f = Inr (Some exampleConfig)" for f
    by (simp_all add: exampleAgent_def)
  have r: "onKcp (resolveSyncEndpoint K exampleConfig (opt_APIExportEndpointSliceRef opts)) emptyAgent =
      (Inr e, emptyAgent)"
    by (simp add: onKcp_def emptyAgent_def e)
  obtain m sc w2 where 2: "addConnections (exampleAgent K) e emptyAgent = (Inr (m, sc), w2)"
    using example_adds(1) [OF K] by (metis surj_pair)
  obtain w3 where 3: "addMultiCluster (exampleAgent K) e w2 = (Inr (), w3)" using example_adds(2) [OF K] by blast
  obtain w4 where 4: "addControllers (exampleAgent K) opts e m sc w3 = (Inr (), w4)"
    using example_adds(3) [OF K] by blast
  obtain w5 where 5: "startManager (exampleAgent K) mgr w4 = (Inr (), w5)" using example_adds(4) [OF K] by blast
  have "run (exampleAgent K) opts emptyAgent = (Inr (), w5)"
    by (simp add: run_def mgr k exampleConfig_valid r 2 3 4 5 checkE_eval bindE_eval lib_def)
  then show ?thesis by blast
qed

lemma example_main: "\<exists>w'. agentMain exampleFlags (exampleAgent exampleKcp) exampleArgs emptyAgent = (Inr (), w')"
proof -
  let ?opts = "exampleOptions\<lparr>opt_AgentName := ''example-syncagent'',
     opt_PublishedResourceSelector := Some (SelectorFromSet (fmupd ''team'' ''a'' fmempty))\<rparr>"
  obtain w' where "run (exampleAgent exampleKcp) ?opts emptyAgent = (Inr (), w')"
    using example_run [of exampleKcp ?opts exampleEndpoint] exampleKcp_resolves
    by (auto simp: exampleOptions_def exampleKcp_def)
  then show ?thesis
    by (simp add: agentMain_def exampleArgs_parse exampleOptions_valid example_complete checkE_eval go_eval)
qed


text \<open>
  A shared connection is not restricted to the slice. If slice and APIExport are in one cluster,
  the prober of the sync manager reads the slice through the connection of the export, and no
  connection of the agent has a cache selector for endpoint slices: its cache asks for all slices
  of the workspace, although the selectors are there because the agent may not be allowed that.
\<close>

theorem shared_connection_unrestricted:
  assumes "run A opts w = (Inr (), w')" "aw_added w = []" "''sync'' \<notin> set (opt_DisabledControllers opts)"
    and load: "al_LoadKubeconfig A (opt_KcpKubeconfig opts) = Inr (Some cfg)"
    and resolved: "resolveSyncEndpoint (al_Kcp A) cfg (opt_APIExportEndpointSliceRef opts) (aw_kcp w) = (Inr endpoint, s)"
    and same: "qc_Cluster (se_EndpointSlice endpoint) = qc_Cluster (se_APIExport endpoint)"
  shows "\<exists>conn c m. RunCluster conn \<in> set (aw_added w') \<and> RunController c \<in> set (aw_added w') \<and>
    cs_Reconciler c = ManagerReconciler m conn \<and>
    (\<forall>conn'. RunCluster conn' \<in> set (aw_added w') \<longrightarrow> ''APIExportEndpointSlice'' \<notin> fst ` set (kc_ByObject conn'))"
proof -
  have w': "w' = w\<lparr>aw_kcp := s, aw_added := aw_added w @ agentRunnables A opts endpoint, aw_started := True\<rparr>"
    using run_Inr [OF assms(1)] load resolved by auto
  let ?c = "snd (agentControllers A opts endpoint ! 2)"
  have added: "aw_added w' = agentRunnables A opts endpoint" using w' assms(2) by simp
  have "RunController ?c \<in> set (agentRunnables A opts endpoint)"
    using assms(3) by (simp add: agentRunnables_def agentControllers_def)
  moreover have "RunCluster (exportConnection endpoint) \<in> set (agentRunnables A opts endpoint)"
    by (simp add: agentRunnables_def)
  moreover have "\<exists>m. cs_Reconciler ?c = ManagerReconciler m (exportConnection endpoint)"
    using same by (simp add: agentControllers_def syncController_def sliceConnection_def)
  moreover have "conn' = exportConnection endpoint"
    if "RunCluster conn' \<in> set (agentRunnables A opts endpoint)" for conn'
    using that same by (auto simp: agentRunnables_def split: if_splits)
  moreover have "''APIExportEndpointSlice'' \<notin> fst ` set (kc_ByObject (exportConnection endpoint))"
    by (simp add: exportConnection_def connection_def)
  ultimately show ?thesis unfolding added by metis
qed

definition sharedKcp :: "unit kcpApi" where
  "sharedKcp = exampleKcp\<lparr>ka_GetEndpointSlice := (\<lambda>cfg n s. (Inr \<lparr> ees_Name = n, ees_APIExportPath = [],
     ees_APIExportName = ''exp'' \<rparr>, s))\<rparr>"

definition sharedEndpoint :: syncEndpoint where
  "sharedEndpoint = \<lparr>
     se_APIExport = \<lparr> qc_Cluster = ''root:org'', qc_Path = [], qc_Config = Some exampleConfig,
       qe_APIExport = emptyExport\<lparr>ae_Name := ''exp''\<rparr> \<rparr>,
     se_EndpointSlice = \<lparr> qc_Cluster = ''root:org'', qc_Path = [], qc_Config = Some exampleConfig,
       qs_EndpointSlice = \<lparr> ees_Name = ''example'', ees_APIExportPath = [], ees_APIExportName = ''exp'' \<rparr> \<rparr> \<rparr>"

lemma sharedKcp_resolves:
  "resolveSyncEndpoint sharedKcp exampleConfig ''example'' () = (Inr sharedEndpoint, ())"
  by (simp add: resolveSyncEndpoint_def resolveAPIExportEndpointSlice_def resolveAPIExport_def
        resolveCurrentCluster_def addScheme_def exampleKcp_def sharedKcp_def kcpRead_def api_def go_simps lib_def
        exampleHosts retargetRestConfig_def sharedEndpoint_def Let_def)

theorem shared_connection_unrestricted_witness:
  "let opts = NewOptions\<lparr>opt_APIExportEndpointSliceRef := ''example''\<rparr>; A = exampleAgent sharedKcp in
   \<exists>w' conn c m. run A opts emptyAgent = (Inr (), w') \<and> RunController c \<in> set (aw_added w') \<and>
     cs_Reconciler c = ManagerReconciler m conn \<and> ''APIExportEndpointSlice'' \<notin> fst ` set (kc_ByObject conn)"
proof -
  let ?opts = "NewOptions\<lparr>opt_APIExportEndpointSliceRef := ''example''\<rparr>"
  let ?A = "exampleAgent sharedKcp"
  have r: "resolveSyncEndpoint sharedKcp exampleConfig (opt_APIExportEndpointSliceRef ?opts) () = (Inr sharedEndpoint, ())"
    by (simp add: sharedKcp_resolves)
  obtain w' where run: "run ?A ?opts emptyAgent = (Inr (), w')"
    using example_run [OF _ _ r] by (auto simp: sharedKcp_def exampleKcp_def)
  have "\<exists>conn c m. RunCluster conn \<in> set (aw_added w') \<and> RunController c \<in> set (aw_added w') \<and>
    cs_Reconciler c = ManagerReconciler m conn \<and>
    (\<forall>conn'. RunCluster conn' \<in> set (aw_added w') \<longrightarrow> ''APIExportEndpointSlice'' \<notin> fst ` set (kc_ByObject conn'))"
    by (rule shared_connection_unrestricted [OF run, where cfg = exampleConfig and endpoint = sharedEndpoint and s = "()"])
       (simp_all add: r emptyAgent_def NewOptions_def exampleAgent_def sharedEndpoint_def sharedKcp_resolves)
  with run show ?thesis by (metis (no_types, lifting))
qed

section \<open>How the controllers wake each other\<close>

text \<open>An event reaches a controller on PublishedResources, with the request \<open>q\<close>.\<close>

definition wakes :: "controllerSetup \<Rightarrow> PublishedResource watchEvent \<Rightarrow> PublishedResource \<Rightarrow> nsname \<Rightarrow> bool" where
  "wakes c e pr q \<longleftrightarrow>
     list_ex (\<lambda>w. case w of WatchPublishedResources p h \<Rightarrow> p e \<and> q \<in> set (h pr) | _ \<Rightarrow> False) (cs_Watches c)"

lemma recordSchemaName_Inr:
  "recordSchemaName W pr n w = (Inr pr', w') \<Longrightarrow> pr' = pr\<lparr>pr_ResourceSchemaName := n\<rparr>"
  by (auto simp: recordSchemaName_def Let_def go_eval checkE_eq_Inr split: if_splits)

lemma reconcileSchema_named:
  assumes "reconcileSchema E D W S r pr w = (Inr pr', w')"
  shows "\<exists>n. n \<noteq> [] \<and> pr' = pr\<lparr>pr_ResourceSchemaName := n\<rparr>"
  using assms
  by (auto simp: reconcileSchema_def checkE_eq_Inr bindE_eq_Inr go_eval Let_def GetAPIResourceSchemaName_def
        dest!: recordSchemaName_Inr)

text \<open>
  C22. A published schema reaches the other controllers. A PublishedResource that the agent is to handle
  and that has no schema yet does not wake the controller of the APIExport; once the schema controller
  has succeeded, its update of the status wakes that controller, and it wakes the sync manager for this
  resource, which from then on wants it unless it is in deletion or its synchronisation is off.
\<close>

theorem schema_published_wakes:
  assumes "reconcileSchema E D W S r pr v = (Inr pr', v')"
    and "al_Matches A flt (orEmpty (pr_Labels pr))"
  shows "(pr_ResourceSchemaName pr = [] \<longrightarrow>
      (\<forall>q. \<not> wakes (exportController A conn lc export agent flt) (CreateEvent pr) pr q)) \<and>
    wakes (exportController A conn lc export agent flt) (UpdateEvent pr pr') pr'
      \<lparr> nn_Namespace = [], nn_Name = ''dummy'' \<rparr> \<and>
    wakes (syncController A prober conn' flt ns agent ssa) (UpdateEvent pr pr') pr'
      \<lparr> nn_Namespace = [], nn_Name = pr_Name pr \<rparr> \<and>
    (wanted pr' \<longleftrightarrow> pr_DeletionTimestamp pr = None \<and> isSyncEnabled pr)"
proof -
  obtain n where n: "n \<noteq> []" "pr' = pr\<lparr>pr_ResourceSchemaName := n\<rparr>"
    using reconcileSchema_named [OF assms(1)] by blast
  then have "isSyncEnabled pr' = isSyncEnabled pr" by (simp add: isSyncEnabled_def)
  with n assms(2) show ?thesis
    by (simp add: wakes_def exportController_def syncController_def byFilter_def ByLabels_def hasARS_def
          EnqueueConst_def requestFor_def wanted_def)
qed

theorem schema_published_wakes_witness:
  "\<exists>pr' v'. reconcileSchema (noServer :: unit env) exampleDiscovery memorySchemas exampleSchemaLib exampleSchemaReconciler
       publishDeployments \<lparr> sw_server = fmempty, sw_calls = [] \<rparr> = (Inr pr', v') \<and>
     wakes (exportController (exampleAgent exampleKcp) (exportConnection exampleEndpoint) ''root:other'' ''exp'' ''agent''
       (Some Everything)) (UpdateEvent publishDeployments pr') pr' \<lparr> nn_Namespace = [], nn_Name = ''dummy'' \<rparr>"
proof -
  obtain pr' v' where p: "reconcileSchema (noServer :: unit env) exampleDiscovery memorySchemas exampleSchemaLib
      exampleSchemaReconciler publishDeployments \<lparr> sw_server = fmempty, sw_calls = [] \<rparr> = (Inr pr', v')"
    using example_first_pass by blast
  have "al_Matches (exampleAgent exampleKcp) (Some Everything) (orEmpty (pr_Labels publishDeployments))"
    by (simp add: exampleAgent_def)
  from schema_published_wakes [OF p this] p show ?thesis by blast
qed

end
