(* ===== verification/Toolkit.thy ===== *)
theory Toolkit
  imports Resource_Schema
begin

text \<open>
  The \<open>crd\<close> command of the PublishedResource toolkit (\<open>../cmd/pubres-toolkit\<close>): it prints the CRD or the
  APIResourceSchema that belongs to a PublishedResource in a file. Its result is compared with what the
  controller creates in kcp.
\<close>

record toolkitOptions =
  to_KubeconfigFile :: string
  to_Context :: string
  to_NoProjection :: bool
  to_APIResourceSchema :: bool

text \<open>
  Files, decoding and encoding are parameters; \<open>'k\<close> is a loaded kubeconfig. The clients made from it are
  the discovery documents and CRDs of \<^typ>\<open>discoveryLib\<close>.
\<close>

record 'k toolkitLib =
  tk_Getenv :: "string \<Rightarrow> string"
  tk_Open :: "string \<Rightarrow> unit + string"
  tk_Decode :: "string \<Rightarrow> unit + unstructured"
  tk_FromUnstructured :: "unstructured \<Rightarrow> unit + PublishedResource"
  tk_GetStartingConfig :: "string \<Rightarrow> unit + 'k"
  tk_ClientConfig :: "'k \<Rightarrow> string \<Rightarrow> unit + unit"
  tk_MarshalCRD :: "crd \<Rightarrow> unit + string"
  tk_MarshalSchema :: "APIResourceSchema \<Rightarrow> unit + string"

definition newDefaultOptions :: toolkitOptions where
  "newDefaultOptions = \<lparr> to_KubeconfigFile = [], to_Context = [], to_NoProjection = False,
     to_APIResourceSchema = False \<rparr>"

definition toolkit_AddFlags :: "(string \<Rightarrow> unit + bool) \<Rightarrow> string \<Rightarrow> string \<Rightarrow> toolkitOptions \<Rightarrow> toolkitOptions result" where
  "toolkit_AddFlags parseBool flag value opts =
     (if flag = ''no-projection'' then
        bindR (lib ''flag'' (parseBool value)) (\<lambda>b. Inr (opts\<lparr>to_NoProjection := b\<rparr>))
      else if flag = ''ars'' then
        bindR (lib ''flag'' (parseBool value)) (\<lambda>b. Inr (opts\<lparr>to_APIResourceSchema := b\<rparr>))
      else if flag = ''context'' then Inr (opts\<lparr>to_Context := value\<rparr>)
      else if flag = ''kubeconfig'' then Inr (opts\<lparr>to_KubeconfigFile := value\<rparr>)
      else Inl (Msg ''unknown flag''))"

definition toolkit_Complete :: "'k toolkitLib \<Rightarrow> toolkitOptions \<Rightarrow> (gerror list + unit) \<times> toolkitOptions" where
  "toolkit_Complete T opts =
     (NewAggregate [],
      if to_KubeconfigFile opts = [] then opts\<lparr>to_KubeconfigFile := tk_Getenv T ''KUBECONFIG''\<rparr> else opts)"

definition toolkit_Validate :: "toolkitOptions \<Rightarrow> gerror list + unit" where
  "toolkit_Validate opts = NewAggregate
     (if to_KubeconfigFile opts = []
      then [Msg ''--kubeconfig or $KUBECONFIG are required for this command''] else [])"

definition ReadPublishedResourceFile :: "'k toolkitLib \<Rightarrow> string \<Rightarrow> PublishedResource result" where
  "ReadPublishedResourceFile T filename =
     bindR (lib ''open'' (tk_Open T filename)) (\<lambda>f.
     bindR (lib ''decode'' (tk_Decode T f)) (\<lambda>u.
     lib ''convert'' (tk_FromUnstructured T u)))"

definition ReadKubeconfig :: "'k toolkitLib \<Rightarrow> string \<Rightarrow> string \<Rightarrow> ('k \<times> string) result" where
  "ReadKubeconfig T filename conenc =
     bindR (lib ''kubeconfig'' (tk_GetStartingConfig T filename)) (\<lambda>startingConfig.
     Inr (startingConfig, conenc))"

definition Println :: "string \<Rightarrow> (string list, unit) go" where
  "Println s out = (Inr (), out @ [s])"

definition printCRD :: "'k toolkitLib \<Rightarrow> crd \<Rightarrow> (string list, unit) go" where
  "printCRD T c =
     checkE ''failed to encode CRD as YAML'' (liftE (lib ''yaml'' (tk_MarshalCRD T c))) Println"

definition printSchema :: "'e env \<Rightarrow> schemaLib \<Rightarrow> 'k toolkitLib \<Rightarrow> crd \<Rightarrow> (string list, unit) go" where
  "printSchema E S T c =
     (let arsName = GetAPIResourceSchemaName E S c in
      checkE ''failed to create APIResourceSchema''
        (liftE (CreateAPIResourceSchema S c arsName ''pubres-toolkit'')) (\<lambda>ars.
      checkE ''failed to encode APIResourceSchema as YAML'' (liftE (lib ''yaml'' (tk_MarshalSchema T ars))) Println))"

definition crdRun ::
    "'e env \<Rightarrow> discoveryLib \<Rightarrow> schemaLib \<Rightarrow> 'k toolkitLib \<Rightarrow> toolkitOptions \<Rightarrow> string \<Rightarrow> (string list, unit) go" where
  "crdRun E D S T opts pubResFile =
     checkE ''failed to read file'' (liftE (ReadPublishedResourceFile T pubResFile)) (\<lambda>pubResource.
     checkE ''invalid kubeconfig'' (liftE (ReadKubeconfig T (to_KubeconfigFile opts) (to_Context opts))) (\<lambda>kubeconfig.
     bindE (liftE (lib ''client config'' (tk_ClientConfig T (fst kubeconfig) (snd kubeconfig)))) (\<lambda>_.
     checkE ''failed to create discovery client'' (liftE (lib ''client'' (sl_NewClient S))) (\<lambda>_.
     checkE ''failed to discover CRD defined in PublishedResource''
       (liftE (RetrieveCRD E D (PublishedResourceSourceGK pubResource))) (\<lambda>c.
     checkE ''failed to apply projection rules''
       (liftE (if \<not> to_NoProjection opts then ProjectCRD E c pubResource else Inr c)) (\<lambda>c.
     if \<not> to_APIResourceSchema opts then printCRD T c else printSchema E S T c))))))"

definition crdCommand ::
    "'e env \<Rightarrow> discoveryLib \<Rightarrow> schemaLib \<Rightarrow> 'k toolkitLib \<Rightarrow> toolkitOptions \<Rightarrow> string list \<Rightarrow>
     string list \<Rightarrow> (gerror list + unit) \<times> string list" where
  "crdCommand E D S T opts args out =
     (case toolkit_Complete T opts of
        (Inl errs, _) \<Rightarrow> (Inl errs, out)
      | (Inr _, opts) \<Rightarrow>
          (case toolkit_Validate opts of
             Inl errs \<Rightarrow> (Inl errs, out)
           | Inr _ \<Rightarrow>
               if length args \<noteq> 1 then (Inl [Msg ''expected exactly one argument''], out)
               else (case crdRun E D S T opts (hd args) out of
                       (Inl e, out') \<Rightarrow> (Inl [e], out')
                     | (Inr _, out') \<Rightarrow> (Inr (), out'))))"

section \<open>The toolkit prints what the agent publishes\<close>

lemma srequest_calls:
  "srequest c f w = (r, w') \<Longrightarrow> sw_calls w' = sw_calls w @ [c]"
  by (auto simp: srequest_def sread_def split: prod.splits)

text \<open>The only object a reconciliation creates is the one constructed from the projected CRD.\<close>

lemma ensureSchema_creates:
  assumes "ensureSchema W S r c n w = (res, w')" "SCreate b \<in> set (sw_calls w')" "SCreate b \<notin> set (sw_calls w)"
  shows "CreateAPIResourceSchema S c n (rc_agentName r) = Inr b"
proof -
  obtain got w1 where g: "srequest (SGet n) (ss_Get W n) w = (got, w1)" by (cases "srequest (SGet n) (ss_Get W n) w")
  have calls: "sw_calls w1 = sw_calls w @ [SGet n]" using srequest_calls [OF g] .
  have "CreateAPIResourceSchema S c n (rc_agentName r) = Inr b"
    if "srequest (SCreate a) (ss_Create W a) w1 = (x, w')" "CreateAPIResourceSchema S c n (rc_agentName r) = Inr a" for a x
    using assms(2,3) that srequest_calls [OF that(1)] calls by auto
  moreover have False if "srequest (SUpdate a) (ss_Update W a) w1 = (x, w')" for a x
    using assms(2,3) srequest_calls [OF that] calls by auto
  moreover have "w' \<noteq> w1" using assms(2,3) calls by auto
  ultimately show ?thesis
    using assms(1) g
    by (auto simp: ensureSchema_def go_simps Let_def split: sum.splits if_splits prod.splits)
qed

lemma recordSchemaName_creates:
  "recordSchemaName W p n w = (res, w') \<Longrightarrow> SCreate b \<in> set (sw_calls w') \<longleftrightarrow> SCreate b \<in> set (sw_calls w)"
  by (auto simp: recordSchemaName_def Let_def go_simps srequest_def sread_def split: if_splits prod.splits sum.splits)

lemma reconcileSchema_creates:
  assumes "reconcileSchema E D W S r pr w = (res, w')" "SCreate b \<in> set (sw_calls w')" "SCreate b \<notin> set (sw_calls w)"
  shows "\<exists>c. ProjectPublishedResource E D pr = Inr c \<and>
    CreateAPIResourceSchema S c (GetAPIResourceSchemaName E S c) (rc_agentName r) = Inr b"
proof -
  have "w' \<noteq> w" using assms(2,3) by blast
  then obtain c where new: "sl_NewClient S = Inr ()" and c: "ProjectPublishedResource E D pr = Inr c"
    using assms(1) by (auto simp: reconcileSchema_def go_simps lib_def split: sum.splits if_splits)
  obtain x w1 where e: "ensureSchema W S r c (GetAPIResourceSchemaName E S c) w = (x, w1)"
    by (cases "ensureSchema W S r c (GetAPIResourceSchemaName E S c) w")
  have "SCreate b \<in> set (sw_calls w1)"
    using assms(1,2) e
    by (auto simp: reconcileSchema_run [OF new c] go_simps recordSchemaName_creates split: sum.splits)
  from ensureSchema_creates [OF e this assms(3)] c show ?thesis by blast
qed

lemma CreateAPIResourceSchema_agent:
  assumes "CreateAPIResourceSchema S c n agent = Inr a" "CreateAPIResourceSchema S c n agent' = Inr b"
  shows "b = fixAgentMetadata agent' a"
  using assms by (auto simp: CreateAPIResourceSchema_def bindR_eq_Inr fixAgentMetadata_def)

text \<open>
  C23. The toolkit prints what the agent publishes. With projection, the schema it prints for a
  PublishedResource is the object that the controller creates in kcp for the same resource, except for
  the name of the agent in its metadata.
\<close>

theorem toolkit_prints_published_schema:
  assumes "crdRun E D S T opts file out = (Inr (), out')" "\<not> to_NoProjection opts" "to_APIResourceSchema opts"
    and "ReadPublishedResourceFile T file = Inr pr"
    and "reconcileSchema E D W S r pr w = (res, w')"
    and "SCreate b \<in> set (sw_calls w')" "SCreate b \<notin> set (sw_calls w)"
  shows "\<exists>a enc. out' = out @ [enc] \<and> tk_MarshalSchema T a = Inr enc \<and>
    b = fixAgentMetadata (rc_agentName r) a"
proof -
  obtain c where c: "ProjectPublishedResource E D pr = Inr c"
    "CreateAPIResourceSchema S c (GetAPIResourceSchemaName E S c) (rc_agentName r) = Inr b"
    using reconcileSchema_creates [OF assms(5-7)] by blast
  have "printSchema E S T c out = (Inr (), out')"
    using assms(1-4) c(1)
    by (auto simp: crdRun_def checkE_eq_Inr bindE_eq_Inr go_eval ProjectPublishedResource_def bindR_eq_Inr)
  then obtain a enc where "CreateAPIResourceSchema S c (GetAPIResourceSchemaName E S c) ''pubres-toolkit'' = Inr a"
    "tk_MarshalSchema T a = Inr enc" "out' = out @ [enc]"
    by (auto simp: printSchema_def checkE_eq_Inr go_eval Println_def)
  with c(2) CreateAPIResourceSchema_agent show ?thesis by blast
qed

definition exampleToolkit :: "unit toolkitLib" where
  "exampleToolkit = \<lparr> tk_Getenv = (\<lambda>_. ''kubeconfig''), tk_Open = Inr, tk_Decode = (\<lambda>_. Inr emptyObject),
     tk_FromUnstructured = (\<lambda>_. Inr publishDeployments), tk_GetStartingConfig = (\<lambda>_. Inr ()),
     tk_ClientConfig = (\<lambda>_ _. Inr ()), tk_MarshalCRD = (\<lambda>c. Inr (crd_Name c)), tk_MarshalSchema = (\<lambda>a. Inr (ars_Name a)) \<rparr>"

lemma exampleSchemaLib_creates: "\<exists>a. CreateAPIResourceSchema exampleSchemaLib c n agent = Inr a"
  by (simp add: CreateAPIResourceSchema_def exampleSchemaLib_def wrapErr_def)

lemma example_creates:
  "\<exists>res w' b. reconcileSchema (noServer :: unit env) exampleDiscovery memorySchemas exampleSchemaLib exampleSchemaReconciler
     publishDeployments \<lparr> sw_server = fmempty, sw_calls = [] \<rparr> = (res, w') \<and> SCreate b \<in> set (sw_calls w')"
proof -
  obtain c where c: "ProjectPublishedResource (noServer :: unit env) exampleDiscovery publishDeployments = Inr c"
    using example_projected by blast
  let ?n = "GetAPIResourceSchemaName (noServer :: unit env) exampleSchemaLib c"
  have new: "sl_NewClient exampleSchemaLib = Inr ()" by (simp add: exampleSchemaLib_def)
  obtain a where a: "CreateAPIResourceSchema exampleSchemaLib c ?n (rc_agentName exampleSchemaReconciler) = Inr a"
    using exampleSchemaLib_creates by blast
  show ?thesis
    unfolding reconcileSchema_run [OF new c]
    by (simp add: ensureSchema_def recordSchemaName_def Let_def go_simps srequest_def sread_def memorySchemas_def a)
qed

lemma exampleToolkit_fields:
  "tk_GetStartingConfig exampleToolkit f = Inr ()" "tk_ClientConfig exampleToolkit k ctx = Inr ()"
  "tk_MarshalSchema exampleToolkit a = Inr (ars_Name a)"
  "ReadPublishedResourceFile exampleToolkit ''pr.yaml'' = Inr publishDeployments"
  by (simp_all add: ReadPublishedResourceFile_def exampleToolkit_def lib_def)

lemma exampleToolkit_runs:
  "\<exists>out'. crdRun (noServer :: unit env) exampleDiscovery exampleSchemaLib exampleToolkit
     (newDefaultOptions\<lparr>to_APIResourceSchema := True\<rparr>) ''pr.yaml'' [] = (Inr (), out')"
proof -
  obtain c c' where c: "RetrieveCRD (noServer :: unit env) exampleDiscovery (PublishedResourceSourceGK publishDeployments) = Inr c"
      "ProjectCRD (noServer :: unit env) c publishDeployments = Inr c'"
    using example_projected by (auto simp: ProjectPublishedResource_def bindR_eq_Inr)
  obtain a where a: "CreateAPIResourceSchema exampleSchemaLib c'
      (GetAPIResourceSchemaName (noServer :: unit env) exampleSchemaLib c') ''pubres-toolkit'' = Inr a"
    using exampleSchemaLib_creates by blast
  have "sl_NewClient exampleSchemaLib = Inr ()" by (simp add: exampleSchemaLib_def)
  with a show ?thesis
    by (simp add: crdRun_def exampleToolkit_fields c newDefaultOptions_def printSchema_def ReadKubeconfig_def
          Println_def go_simps lib_def Let_def)
qed

theorem toolkit_prints_published_schema_witness:
  "\<exists>out' res w' a b. crdRun (noServer :: unit env) exampleDiscovery exampleSchemaLib exampleToolkit
       (newDefaultOptions\<lparr>to_APIResourceSchema := True\<rparr>) ''pr.yaml'' [] = (Inr (), out') \<and>
     reconcileSchema (noServer :: unit env) exampleDiscovery memorySchemas exampleSchemaLib exampleSchemaReconciler
       publishDeployments \<lparr> sw_server = fmempty, sw_calls = [] \<rparr> = (res, w') \<and> SCreate b \<in> set (sw_calls w') \<and>
     out' = [ars_Name a] \<and> b = fixAgentMetadata ''agent'' a"
proof -
  obtain out' where run: "crdRun (noServer :: unit env) exampleDiscovery exampleSchemaLib exampleToolkit
       (newDefaultOptions\<lparr>to_APIResourceSchema := True\<rparr>) ''pr.yaml'' [] = (Inr (), out')"
    using exampleToolkit_runs by blast
  obtain res w' b where rec: "reconcileSchema (noServer :: unit env) exampleDiscovery memorySchemas exampleSchemaLib
      exampleSchemaReconciler publishDeployments \<lparr> sw_server = fmempty, sw_calls = [] \<rparr> = (res, w')"
      "SCreate b \<in> set (sw_calls w')"
    using example_creates by blast
  have "\<exists>a enc. out' = [] @ [enc] \<and> tk_MarshalSchema exampleToolkit a = Inr enc \<and>
      b = fixAgentMetadata (rc_agentName exampleSchemaReconciler) a"
    by (rule toolkit_prints_published_schema [OF run _ _ exampleToolkit_fields(4) rec])
       (simp_all add: newDefaultOptions_def)
  with run rec show ?thesis by (auto simp: exampleToolkit_fields exampleSchemaReconciler_def)
qed

end
