(* ===== verification/Deletion_Progress.thy ===== *)
theory Deletion_Progress
  imports Syncer
begin

text \<open>
  Primary objects over several passes. One pass of \<^const>\<open>Process\<close> only does one step and
  asks for another pass; here the passes are run until it is done. The passes over an object in deletion,
  on servers that may take their time with the copy, are shown to come to an end.
\<close>

section \<open>Passes\<close>

text \<open>
  The controller reads the object and runs \<open>Process\<close>; if that asks for another pass, the service cluster
  goes on (\<open>tick\<close>) and the pass is repeated. \<open>primary\<close> is the kcp object as the servers hold it.
  Fuel bounds the number of passes: \<^const>\<open>None\<close> means that it ran out, or that a pass failed.
\<close>

fun processPasses ::
    "'s env \<Rightarrow> syncContext \<Rightarrow> ResourceSyncer \<Rightarrow> ('s \<Rightarrow> unstructured option) \<Rightarrow> ('s \<Rightarrow> 's) \<Rightarrow> nat \<Rightarrow> 's world \<Rightarrow>
     's world option" where
  "processPasses E ctx s primary tick 0 w = None"
| "processPasses E ctx s primary tick (Suc n) w =
     (case primary (server w) of
        None \<Rightarrow> Some w
      | Some p \<Rightarrow>
          (case Process E ctx s p w of
             (Inl _, _) \<Rightarrow> None
           | (Inr False, w') \<Rightarrow> Some w'
           | (Inr True, w') \<Rightarrow> processPasses E ctx s primary tick n (w'\<lparr>server := tick (server w')\<rparr>)))"

text \<open>
  What is assumed of the servers while a kcp object is deleted: listing the linked objects of the service
  cluster gives the copy, if there is one; deleting the copy succeeds and it is gone or in deletion;
  a copy in deletion has work left (its own finalizers) that gets less over time until it is gone; releasing the
  finalizer of the kcp object succeeds and changes its finalizers as requested, or ends it.
\<close>

definition dying :: "unstructured option \<Rightarrow> bool" where
  "dying obj \<longleftrightarrow> (case obj of None \<Rightarrow> True | Some x \<Rightarrow> oDeletionTimestamp x \<noteq> None)"

definition withoutFinalizer :: "unstructured \<Rightarrow> unstructured" where
  "withoutFinalizer obj = obj\<lparr>oFinalizers := sort (remdups (removeAll deletionFinalizer (oFinalizers obj)))\<rparr>"

locale copy_server =
  fixes E :: "'s env" and ctx :: syncContext and s :: ResourceSyncer
    and primary :: "'s \<Rightarrow> unstructured option" and copy :: "'s \<Rightarrow> unstructured option"
  assumes list_copy: "primary st = Some p \<Longrightarrow>
      api_List E (readTarget (rs_localClient s)) (oAPIVersion (rs_destDummy s)) (oKind (rs_destDummy s) @ ''List'')
        (SelectorFromSet (objectKey_Labels E (newObjectKey p (clusterFromContext ctx) (workspacePathFromContext ctx))))
        [] (Some 2) st = (Inr (case copy st of None \<Rightarrow> [] | Some c \<Rightarrow> [c]), st)"
begin

lemma findLocalObject_copy:
  assumes "primary (server w) = Some p"
  shows "\<exists>t. findLocalObject E s (newObjectKey p (clusterFromContext ctx) (workspacePathFromContext ctx)) w =
    (Inr (copy (server w)), w\<lparr>trace := t\<rparr>)"
  using list_copy [OF assms]
  by (auto simp: findLocalObject_def cList_def request_def go_simps split: option.splits)

end

locale collecting_server = copy_server E ctx s primary copy
  for E :: "'s env" and ctx :: syncContext and s :: ResourceSyncer
    and primary :: "'s \<Rightarrow> unstructured option" and copy :: "'s \<Rightarrow> unstructured option" +
  fixes work :: "'s \<Rightarrow> nat" and tick :: "'s \<Rightarrow> 's"
  assumes delete_copy: "copy st = Some c \<Longrightarrow> oDeletionTimestamp c = None \<Longrightarrow>
      \<exists>st'. api_Delete E (baseTarget (rs_localClient s)) c pol st = (Inr (), st') \<and>
        primary st' = primary st \<and> dying (copy st') \<and> work st' \<le> work st"
    and tick_primary: "primary (tick st) = primary st"
    and tick_copy: "dying (copy st) \<Longrightarrow> dying (copy (tick st)) \<and>
      (copy (tick st) = None \<or> (copy st \<noteq> None \<and> work (tick st) < work st))"
    and release: "primary st = Some p \<Longrightarrow> copy st = None \<Longrightarrow> deletionFinalizer \<in> set (oFinalizers p) \<Longrightarrow>
      \<exists>r st'. api_Patch E (baseTarget (rs_remoteClient s)) (withoutFinalizer p) (MergeFrom p) st = (Inr r, st') \<and>
        copy st' = None \<and> (primary st' = None \<or> (\<exists>p'. primary st' = Some p' \<and>
          oFinalizers p' = oFinalizers (withoutFinalizer p) \<and> oDeletionTimestamp p' = oDeletionTimestamp p))"
begin

text \<open>One pass: it deletes the copy, waits for it, releases the finalizer, or is done.\<close>

lemma pass:
  assumes p: "primary (server w) = Some p" "oDeletionTimestamp p \<noteq> None"
    and plain: "prs_Related (pr_Spec (rs_pubRes s)) = []" "recorderFromContext ctx"
  shows "(\<exists>c w'. copy (server w) = Some c \<and> Process E ctx s p w = (Inr True, w') \<and>
       primary (server w') = Some p \<and> dying (copy (server w')) \<and> work (server w') \<le> work (server w)) \<or>
    (copy (server w) = None \<and> deletionFinalizer \<in> set (oFinalizers p) \<and>
       (\<exists>w'. Process E ctx s p w = (Inr True, w') \<and> copy (server w') = None \<and>
         (primary (server w') = None \<or> (\<exists>p'. primary (server w') = Some p' \<and>
            deletionFinalizer \<notin> set (oFinalizers p') \<and> oDeletionTimestamp p' \<noteq> None)))) \<or>
    (copy (server w) = None \<and> deletionFinalizer \<notin> set (oFinalizers p) \<and>
       (\<exists>w'. Process E ctx s p w = (Inr False, w') \<and> server w' = server w))"
proof -
  obtain t where find: "findLocalObject E s (newObjectKey p (clusterFromContext ctx) (workspacePathFromContext ctx)) w =
      (Inr (copy (server w)), w\<lparr>trace := t\<rparr>)"
    using findLocalObject_copy [OF p(1)] by blast
  note eval = Process_def find Sync_deleting [OF p(2)] handleDeletion_def processRelatedResources_def plain Let_def
    go_simps remoteSide_def localSide_def recordEvent_def event_def primarySyncer_def
  show ?thesis
  proof (cases "copy (server w)")
    case (Some c)
    have "\<exists>w'. Process E ctx s p w = (Inr True, w') \<and> primary (server w') = Some p \<and> dying (copy (server w')) \<and>
        work (server w') \<le> work (server w)"
    proof (cases "oDeletionTimestamp c")
      case None
      let ?pol = "normalizeDeletionPropagationPolicy (deletionPropagationPolicy p)"
      obtain st' where "api_Delete E (baseTarget (rs_localClient s)) c ?pol (server w) = (Inr (), st')"
        "primary st' = primary (server w)" "dying (copy st')" "work st' \<le> work (server w)"
        using delete_copy [OF Some None] by blast
      with None p Some show ?thesis by (simp add: eval cDelete_def request_def)
    next
      case (Some d)
      with \<open>copy (server w) = Some c\<close> p show ?thesis by (simp add: eval dying_def)
    qed
    with Some show ?thesis by blast
  next
    case None
    show ?thesis
    proof (cases "deletionFinalizer \<in> set (oFinalizers p)")
      case True
      obtain r st' where patch:
        "api_Patch E (baseTarget (rs_remoteClient s)) (withoutFinalizer p) (MergeFrom p) (server w) = (Inr r, st')"
        "copy st' = None" "primary st' = None \<or> (\<exists>p'. primary st' = Some p' \<and>
          oFinalizers p' = oFinalizers (withoutFinalizer p) \<and> oDeletionTimestamp p' = oDeletionTimestamp p)"
        using release [OF p(1) None True] by blast
      have "deletionFinalizer \<notin> set (oFinalizers (withoutFinalizer p))" by (simp add: withoutFinalizer_def)
      moreover have "\<exists>w'. Process E ctx s p w = (Inr True, w') \<and> server w' = st'"
        using patch(1) None True p
        by (simp add: eval removeFinalizer_def cPatch_def request_def withoutFinalizer_def)
      ultimately show ?thesis using None True patch(2,3) p(2) by metis
    next
      case False
      then have "\<exists>w'. Process E ctx s p w = (Inr False, w') \<and> server w' = server w"
        using None p by (simp add: eval removeFinalizer_def)
      with None False show ?thesis by blast
    qed
  qed
qed

definition finished :: "'s world \<Rightarrow> bool" where
  "finished w \<longleftrightarrow> copy (server w) = None \<and>
     (case primary (server w) of None \<Rightarrow> True | Some p \<Rightarrow> deletionFinalizer \<notin> set (oFinalizers p))"

text \<open>Without a copy two more passes are enough, and with one its remaining work bounds the passes.\<close>

lemma passes_without_copy:
  assumes plain: "prs_Related (pr_Spec (rs_pubRes s)) = []" "recorderFromContext ctx"
    and copy: "copy (server w) = None" and p: "\<And>p. primary (server w) = Some p \<Longrightarrow> oDeletionTimestamp p \<noteq> None"
  shows "\<exists>w'. processPasses E ctx s primary tick (Suc (Suc n)) w = Some w' \<and> finished w'"
proof (cases "primary (server w)")
  case None
  with copy show ?thesis by (simp add: finished_def)
next
  case (Some q)
  show ?thesis
  proof (cases "deletionFinalizer \<in> set (oFinalizers q)")
    case False
    with pass [OF Some p [OF Some] plain] copy Some show ?thesis by (auto simp: finished_def)
  next
    case True
    then obtain w' where w': "Process E ctx s q w = (Inr True, w')" "copy (server w') = None"
      "primary (server w') = None \<or> (\<exists>p'. primary (server w') = Some p' \<and>
         deletionFinalizer \<notin> set (oFinalizers p') \<and> oDeletionTimestamp p' \<noteq> None)"
      using pass [OF Some p [OF Some] plain] copy by auto
    let ?v = "w'\<lparr>server := tick (server w')\<rparr>"
    have v: "copy (server ?v) = None" "primary (server ?v) = primary (server w')"
      using tick_copy [of "server w'"] w'(2) tick_primary by (auto simp: dying_def)
    have "\<exists>w''. processPasses E ctx s primary tick (Suc n) ?v = Some w'' \<and> finished w''"
    proof (cases "primary (server w')")
      case None
      with v show ?thesis by (simp add: finished_def)
    next
      case (Some p')
      then have "deletionFinalizer \<notin> set (oFinalizers p')" "oDeletionTimestamp p' \<noteq> None" using w'(3) by auto
      with pass [of ?v p'] v Some plain show ?thesis by (auto simp: finished_def)
    qed
    with w'(1) Some show ?thesis by simp
  qed
qed

lemma pass_and_tick:
  assumes p: "primary (server w) = Some p" "oDeletionTimestamp p \<noteq> None"
    and plain: "prs_Related (pr_Spec (rs_pubRes s)) = []" "recorderFromContext ctx"
    and "copy (server w) = Some c"
  shows "\<exists>v. (\<forall>m. processPasses E ctx s primary tick (Suc m) w = processPasses E ctx s primary tick m v) \<and>
    primary (server v) = Some p \<and> (copy (server v) = None \<or> work (server v) < work (server w))"
proof -
  obtain w' where w': "Process E ctx s p w = (Inr True, w')" "primary (server w') = Some p"
      "dying (copy (server w'))" "work (server w') \<le> work (server w)"
    using pass [OF p plain] assms(5) by auto
  let ?v = "w'\<lparr>server := tick (server w')\<rparr>"
  have "processPasses E ctx s primary tick (Suc m) w = processPasses E ctx s primary tick m ?v" for m
    using p(1) w'(1) by simp
  moreover have "copy (server ?v) = None \<or> work (server ?v) < work (server w)"
    using tick_copy [OF w'(3)] w'(4) by auto
  ultimately show ?thesis
    using w'(2) tick_primary [of "server w'"] by (intro exI [of _ ?v]) (simp del: processPasses.simps)
qed

lemma passes_terminate:
  assumes plain: "prs_Related (pr_Spec (rs_pubRes s)) = []" "recorderFromContext ctx"
  shows "primary (server w) = Some p \<Longrightarrow> oDeletionTimestamp p \<noteq> None \<Longrightarrow> work (server w) \<le> n \<Longrightarrow>
    \<exists>w'. processPasses E ctx s primary tick (n + 3) w = Some w' \<and> finished w'"
proof (induction n arbitrary: w)
  case (0 w)
  show ?case
  proof (cases "copy (server w)")
    case None
    have fuel: "0 + 3 = Suc (Suc 1)" by simp
    show ?thesis unfolding fuel by (rule passes_without_copy [OF plain None]) (use 0 in simp)
  next
    case (Some c)
    then obtain v where v: "\<And>m. processPasses E ctx s primary tick (Suc m) w = processPasses E ctx s primary tick m v"
      "primary (server v) = Some p" "copy (server v) = None"
      using pass_and_tick [OF 0(1,2) plain] 0(3) by fastforce
    have fuel: "0 + 3 = Suc (Suc (Suc 0))" by simp
    show ?thesis
      unfolding fuel v(1) by (rule passes_without_copy [OF plain v(3)]) (use v(2) 0(2) in simp)
  qed
next
  case (Suc n w)
  show ?case
  proof (cases "copy (server w)")
    case None
    have fuel: "Suc n + 3 = Suc (Suc (Suc (Suc n)))" by simp
    show ?thesis unfolding fuel by (rule passes_without_copy [OF plain None]) (use Suc.prems in simp)
  next
    case (Some c)
    then obtain v where v: "\<And>m. processPasses E ctx s primary tick (Suc m) w = processPasses E ctx s primary tick m v"
      "primary (server v) = Some p" "copy (server v) = None \<or> work (server v) < work (server w)"
      using pass_and_tick [OF Suc.prems(1,2) plain] by blast
    show ?thesis
    proof (cases "copy (server v) = None")
      case True
      have fuel: "Suc n + 3 = Suc (Suc (Suc (Suc n)))" by simp
      show ?thesis
        unfolding fuel v(1) by (rule passes_without_copy [OF plain True]) (use v(2) Suc.prems in simp)
    next
      case False
      with v(3) Suc.prems(3) have "work (server v) \<le> n" by simp
      from Suc.IH [OF v(2) Suc.prems(2) this] show ?thesis unfolding add_Suc v(1) .
    qed
  qed
qed

end

section \<open>Deletion comes to an end\<close>

text \<open>
  C7. The deletion of a primary object terminates. On servers that collect a deleted copy in finite
  time, the passes over a kcp object in deletion, without related resources, come to an end: after at
  most three passes more than the copy has work left, the copy is gone and the kcp object is gone or
  free of the finalizer; no pass fails.
\<close>

theorem deletion_terminates:
  assumes "collecting_server E ctx s primary copy work tick"
    and "prs_Related (pr_Spec (rs_pubRes s)) = []" "recorderFromContext ctx"
    and "primary (server w) = Some p" "oDeletionTimestamp p \<noteq> None"
  shows "\<exists>w'. processPasses E ctx s primary tick (work (server w) + 3) w = Some w' \<and>
    copy (server w') = None \<and> (\<forall>p'. primary (server w') = Some p' \<longrightarrow> deletionFinalizer \<notin> set (oFinalizers p'))"
proof -
  obtain w' where "processPasses E ctx s primary tick (work (server w) + 3) w = Some w'"
    "collecting_server.finished primary copy w'"
    using collecting_server.passes_terminate [OF assms] by blast
  then show ?thesis by (auto simp: collecting_server.finished_def [OF assms(1)])
qed

text \<open>A pair of servers: the copy has finalizers of its own, which are worked off one by one.\<close>

record collector =
  co_primary :: "unstructured option"
  co_copy :: "unstructured option"
  co_work :: nat

definition collectorTick :: "collector \<Rightarrow> collector" where
  "collectorTick st =
     (if \<not> dying (co_copy st) \<or> co_copy st = None then st
      else if co_work st = 0 then st\<lparr>co_copy := None\<rparr> else st\<lparr>co_work := co_work st - 1\<rparr>)"

definition memoryCollector :: "collector env" where
  "memoryCollector = noServer\<lparr>
     api_List := (\<lambda>c a k sel ns lim st. (Inr (case co_copy st of None \<Rightarrow> [] | Some x \<Rightarrow> [x]), st)),
     api_Delete := (\<lambda>c obj pol st. (Inr (), st\<lparr>co_copy := Some (obj\<lparr>oDeletionTimestamp := Some ''now''\<rparr>)\<rparr>)),
     api_Patch := (\<lambda>c obj p st. (Inr obj, st\<lparr>co_primary := Some obj\<rparr>))\<rparr>"

interpretation collected: collecting_server memoryCollector exampleContext plainSyncer co_primary co_copy co_work collectorTick
  by unfold_locales
     (auto simp: memoryCollector_def collectorTick_def dying_def withoutFinalizer_def split: option.splits)

theorem deletion_terminates_witness:
  "let p = emptyObject\<lparr>oName := ''db'', oDeletionTimestamp := Some ''now'', oFinalizers := [deletionFinalizer]\<rparr>;
       w = \<lparr> server = \<lparr> co_primary = Some p, co_copy = Some emptyObject, co_work = 2 \<rparr>, trace = [], selectors = noSelectors \<rparr>
   in \<exists>w'. processPasses memoryCollector exampleContext plainSyncer co_primary collectorTick 5 w = Some w' \<and>
        co_copy (server w') = None"
  using deletion_terminates [OF collected.collecting_server_axioms,
      where w = "\<lparr> server = \<lparr> co_primary = Some (emptyObject\<lparr>oName := ''db'', oDeletionTimestamp := Some ''now'',
        oFinalizers := [deletionFinalizer]\<rparr>), co_copy = Some emptyObject, co_work = 2 \<rparr>, trace = [], selectors = noSelectors \<rparr>"]
  by (auto simp: plainSyncer_def plainResource_def plainSpec_def exampleContext_def recorderFromContext_def Let_def
        simp del: processPasses.simps)

end
