(* ===== verification/Creation_Progress.thy ===== *)
theory Creation_Progress
  imports Deletion_Progress
begin

text \<open>
  A new primary object over several passes: the passes accept it, place its copy and synchronise the status,
  and come to a state in which a further pass sends only reads. Related resources and mutations are left
  out, and the syncer does not use server-side apply.
\<close>

section \<open>What the servers promise\<close>

lemma fmlookup_drops: "fmlookup (fold fmdrop ks m) k = (if k \<in> set ks then None else fmlookup m k)"
  by (induction ks arbitrary: m) auto

lemma drops_twice: "fold fmdrop ks (fold fmdrop ks m) = fold fmdrop ks m"
  by (rule fmap_ext) (simp add: fmlookup_drops)

lemma removeFields_twice:
  "removeFields subs ((removeFields subs (stripMetadata p))\<lparr>oAPIVersion := oAPIVersion p, oKind := oKind p\<rparr>) =
     removeFields subs (stripMetadata p)"
  by (cases p) (simp add: removeFields_def drops_twice stripMetadata_eq)

text \<open>The same object with the same desired state: what the server maintains and the subresources may differ.\<close>

definition sameDesired :: "string list \<Rightarrow> unstructured \<Rightarrow> unstructured \<Rightarrow> bool" where
  "sameDesired subs p q \<longleftrightarrow>
     q = p\<lparr>oFinalizers := oFinalizers q, oResourceVersion := oResourceVersion q, oGeneration := oGeneration q,
           oManagedFields := oManagedFields q, oContent := oContent q\<rparr> \<and>
     removeFields subs (stripMetadata q) = removeFields subs (stripMetadata p)"

lemma sameDesired_fields:
  assumes "sameDesired subs p q"
  shows "oName q = oName p" "oNamespace q = oNamespace p" "oAPIVersion q = oAPIVersion p" "oKind q = oKind p"
    "oDeletionTimestamp q = oDeletionTimestamp p" "newObjectKey q cn wp = newObjectKey p cn wp"
    "sourceKey E q cn = sourceKey E p cn" "hashObject E q = hashObject E p"
proof -
  have q: "q = p\<lparr>oFinalizers := oFinalizers q, oResourceVersion := oResourceVersion q, oGeneration := oGeneration q,
      oManagedFields := oManagedFields q, oContent := oContent q\<rparr>"
    using assms by (simp add: sameDesired_def)
  show "oName q = oName p" "oNamespace q = oNamespace p" "oAPIVersion q = oAPIVersion p" "oKind q = oKind p"
    "oDeletionTimestamp q = oDeletionTimestamp p"
    by (subst q, simp)+
  then show "newObjectKey q cn wp = newObjectKey p cn wp" "sourceKey E q cn = sourceKey E p cn"
    "hashObject E q = hashObject E p"
    by (simp_all add: newObjectKey_def sourceKey_def hashObject_def)
qed

lemma oContent_stripMetadata: "oContent (stripMetadata p) = oContent p"
  by (simp add: stripMetadata_eq)

lemma sameDesired_content:
  assumes "sameDesired subs p q" "k \<notin> set subs"
  shows "fmlookup (oContent q) k = fmlookup (oContent p) k"
proof -
  have "oContent (removeFields subs (stripMetadata q)) = oContent (removeFields subs (stripMetadata p))"
    using assms(1) by (simp add: sameDesired_def)
  then have "fold fmdrop subs (oContent q) = fold fmdrop subs (oContent p)"
    by (simp add: removeFields_def oContent_stripMetadata)
  then show ?thesis using assms(2) fmlookup_drops by metis
qed

lemma newLocalObjectCreator_content:
  "newLocalObjectCreator E s cn wp p = Inr d \<Longrightarrow> oContent d = oContent p"
  by (cases "crd_Scope (rs_localCRD s)") (auto simp: newLocalObjectCreator_def Let_def bindR_eq_Inr)

lemma sameDesired_trans: "sameDesired subs p q \<Longrightarrow> sameDesired subs q r \<Longrightarrow> sameDesired subs p r"
  by (cases p; cases q; cases r) (simp add: sameDesired_def)

text \<open>The server stored an object: it may fill in metadata and decides about the subresources.\<close>

definition stored :: "string list \<Rightarrow> unstructured \<Rightarrow> unstructured \<Rightarrow> bool" where
  "stored subs obj c \<longleftrightarrow>
     oName c = oName obj \<and> oNamespace c = oNamespace obj \<and> oAPIVersion c = oAPIVersion obj \<and> oKind c = oKind obj \<and>
     oLabels c = oLabels obj \<and> oAnnotations c = oAnnotations obj \<and> oDeletionTimestamp c = None \<and>
     (\<forall>k. k \<notin> set subs \<longrightarrow> fmlookup (oContent c) k = fmlookup (oContent obj) k)"

lemma primary_fields:
  "sy_agentName (primarySyncer E s b cn wp obj) = rs_agentName s"
  "sy_destCreator (primarySyncer E s b cn wp obj) = newLocalObjectCreator E s cn wp"
  "sy_subresources (primarySyncer E s b cn wp obj) = rs_subresources s"
  "sy_syncStatusBack (primarySyncer E s b cn wp obj) = True"
  "sy_syncStatusForward (primarySyncer E s b cn wp obj) = False"
  "sy_metadataOnDestination (primarySyncer E s b cn wp obj) = True"
  "sy_destLabels (primarySyncer E s b cn wp obj) = fmempty"
  "sy_destAnnotations (primarySyncer E s b cn wp obj) = fmempty"
  "sy_mutator (primarySyncer E s b cn wp obj) = rs_primaryMutator s"
  "sy_stateStore (primarySyncer E s b cn wp obj) = b"
  "sy_eventObjSide (primarySyncer E s b cn wp obj) = syncSideSource"
  "clusterName (remoteSide ctx s obj) = clusterFromContext ctx"
  "workspacePath (remoteSide ctx s obj) = workspacePathFromContext ctx"
  "client (remoteSide ctx s obj) = rs_remoteClient s" "client (localSide s l) = rs_localClient s"
  by (simp_all add: primarySyncer_def remoteSide_def localSide_def)

text \<open>What is placed carries its link and otherwise the content of the object it was made from.\<close>

lemma stampDestination_linked:
  assumes "sy_metadataOnDestination s" "sy_destLabels s = fmempty" "sy_destAnnotations s = fmempty"
  shows "objectKey_Labels E key \<subseteq>\<^sub>f orEmpty (oLabels (stampDestination E s key obj))"
    "objectKey_Annotations key \<subseteq>\<^sub>f orEmpty (oAnnotations (stampDestination E s key obj))"
    "oContent (stampDestination E s key obj) = oContent obj"
    "oDeletionTimestamp (stampDestination E s key obj) = oDeletionTimestamp obj"
  using assms
  by (auto simp: stampDestination_def labelWithAgent_def ensureDestMetadata_def ensureLabels_def ensureAnnotations_def
        Let_def fmsubset_lookup fmlookup_dom_iff objectKey_Labels_def agentNameLabel_def
        remoteObjectNameHashLabel_def remoteObjectClusterLabel_def remoteObjectNamespaceHashLabel_def split: if_splits)

text \<open>
  Adding the finalizer and updating the status of the kcp object succeed and change no more than
  that; namespaces exist or can be created; an object with the link can be created while there is none;
  none of the requests for namespaces and Secrets touches the two objects. Equal documents have the
  empty merge patch, and semantic equality is reflexive.
\<close>

locale accepting_server = copy_server E ctx s primary copy
  for E :: "'s env" and ctx :: syncContext and s :: ResourceSyncer
    and primary :: "'s \<Rightarrow> unstructured option" and copy :: "'s \<Rightarrow> unstructured option" +
  fixes view :: "'s \<Rightarrow> secret option"
  assumes accept: "primary st = Some p \<Longrightarrow> deletionFinalizer \<notin> set (oFinalizers p) \<Longrightarrow>
      \<exists>q st'. api_Patch E (baseTarget (rs_remoteClient s))
          (p\<lparr>oFinalizers := sort (remdups (deletionFinalizer # oFinalizers p))\<rparr>) (MergeFrom p) st = (Inr q, st') \<and>
        primary st' = Some q \<and> copy st' = copy st \<and> sameDesired (rs_subresources s) p q \<and>
        deletionFinalizer \<in> set (oFinalizers q)"
    and status: "primary st = Some p \<Longrightarrow>
      \<exists>q st'. api_StatusUpdate E (baseTarget (rs_remoteClient s)) (contentSet p ''status'' v) st = (Inr q, st') \<and>
        primary st' = Some q \<and> copy st' = copy st \<and> view st' = view st \<and> sameDesired (rs_subresources s) p q \<and>
        oFinalizers q = oFinalizers p \<and> contentGet q ''status'' = v"
    and namespaces: "(\<exists>ns. api_GetNamespace E (readTarget (rs_localClient s)) n st = (Inr ns, st) \<and> ns_Name ns \<noteq> []) \<or>
      (api_GetNamespace E (readTarget (rs_localClient s)) n st = (Inl NotFound, st) \<and>
       (\<exists>st'. api_CreateNamespace E (baseTarget (rs_localClient s)) n st = (Inr (), st') \<and>
          primary st' = primary st \<and> copy st' = copy st))"
    and create: "primary st = Some p \<Longrightarrow> copy st = None \<Longrightarrow>
      objectKey_Labels E (newObjectKey p (clusterFromContext ctx) (workspacePathFromContext ctx)) \<subseteq>\<^sub>f orEmpty (oLabels obj) \<Longrightarrow>
      \<exists>r c st'. api_Create E (baseTarget (rs_localClient s)) obj st = (Inr r, st') \<and>
        primary st' = Some p \<and> copy st' = Some c \<and> stored (rs_subresources s) obj c"
    and createSecret: "api_CreateSecret E cl sec st = (x, st') \<Longrightarrow> primary st' = primary st \<and> copy st' = copy st"
    and updateSecret: "api_UpdateSecret E cl sec st = (x, st') \<Longrightarrow> primary st' = primary st \<and> copy st' = copy st"
    and empty_patch: "createMergePatchLib E t t = Inr ''{}''"
    and labels_refl: "semanticEqualLabels E l l"
    and json_refl: "semanticEqualJSON E j j"
begin

abbreviation syncerFor :: "unstructured \<Rightarrow> unstructured option \<Rightarrow> objectSyncer" where
  "syncerFor p l \<equiv> primarySyncer E s (newObjectStateStore E ctx s p l) (clusterFromContext ctx)
     (workspacePathFromContext ctx) p"

abbreviation keyFor :: "unstructured \<Rightarrow> objectKey" where
  "keyFor p \<equiv> newObjectKey p (clusterFromContext ctx) (workspacePathFromContext ctx)"

text \<open>A pass over a live object without related resources is one \<open>Sync\<close>.\<close>

lemma Process_live:
  assumes "primary (server w) = Some p" "oDeletionTimestamp p = None" "copy (server w) = l"
    and "prs_Related (pr_Spec (rs_pubRes s)) = []"
    and "\<And>v cs. server v = server w \<Longrightarrow> trace v = trace w @ cs \<Longrightarrow> list_all isRead cs \<Longrightarrow>
      \<exists>u. Sync E ctx (syncerFor p l) (remoteSide ctx s p) p (localSide s l) l v = (Inr (requeue, p', l'), u) \<and> Q u"
  shows "\<exists>u. Process E ctx s p w = (Inr requeue, u) \<and> Q u"
proof -
  obtain t where find: "findLocalObject E s (keyFor p) w = (Inr l, w\<lparr>trace := t\<rparr>)"
    using findLocalObject_copy [OF assms(1)] assms(3) by blast
  have reads: "emits isRead (findLocalObject E s (keyFor p))"
    by (auto simp: findLocalObject_def cList_def intro!: emits_intros split: list.splits)
  obtain cs where "trace (w\<lparr>trace := t\<rparr>) = trace w @ cs" "list_all isRead cs"
    using reads find by (rule emitsE)
  then obtain u where u: "Sync E ctx (syncerFor p l) (remoteSide ctx s p) p (localSide s l) l (w\<lparr>trace := t\<rparr>) =
      (Inr (requeue, p', l'), u)" "Q u"
    using assms(5) [of "w\<lparr>trace := t\<rparr>" cs] by auto
  have "Process E ctx s p w = (Inr requeue, u)"
    using assms(2,4) find u(1) by (simp add: Process_def Let_def go_simps processRelatedResources_def)
  with u(2) show ?thesis by blast
qed

text \<open>The first pass adds the finalizer.\<close>

lemma pass_accept:
  assumes p: "primary (server w) = Some p" "oDeletionTimestamp p = None" "deletionFinalizer \<notin> set (oFinalizers p)"
    and plain: "prs_Related (pr_Spec (rs_pubRes s)) = []" "recorderFromContext ctx"
  shows "\<exists>u. Process E ctx s p w = (Inr True, u) \<and>
    (\<exists>q. primary (server u) = Some q \<and> copy (server u) = copy (server w) \<and> sameDesired (rs_subresources s) p q \<and>
      deletionFinalizer \<in> set (oFinalizers q))"
proof -
  obtain q st' where q: "api_Patch E (baseTarget (rs_remoteClient s))
      (p\<lparr>oFinalizers := sort (remdups (deletionFinalizer # oFinalizers p))\<rparr>) (MergeFrom p) (server w) = (Inr q, st')"
    "primary st' = Some q" "copy st' = copy (server w)" "sameDesired (rs_subresources s) p q"
    "deletionFinalizer \<in> set (oFinalizers q)"
    using accept [OF p(1,3)] by blast
  show ?thesis
  proof (rule Process_live [OF p(1,2) refl plain(1)])
    fix v :: "'s world" and cs
    assume "server v = server w"
    then show "\<exists>u. Sync E ctx (syncerFor p (copy (server w))) (remoteSide ctx s p) p (localSide s (copy (server w)))
        (copy (server w)) v = (Inr (True, q, copy (server w)), u) \<and>
      (\<exists>q. primary (server u) = Some q \<and> copy (server u) = copy (server w) \<and> sameDesired (rs_subresources s) p q \<and>
        deletionFinalizer \<in> set (oFinalizers q))"
      using p q plain(2)
      by (simp add: Sync_def ensureFinalizer_def cPatch_def request_def go_simps Let_def recordEvent_def event_def
            primary_fields)
  qed
qed

lemma ensureNamespace_ok:
  "\<exists>u. ensureNamespace E (rs_localClient s) n w = (Inr (), u) \<and>
    primary (server u) = primary (server w) \<and> copy (server u) = copy (server w)"
  using namespaces [of n "server w"]
  by (auto simp: ensureNamespace_def Let_def go_simps cGetNamespace_def cCreateNamespace_def request_def)

lemma store_Put_frame:
  assumes "storesSecrets E b view" "store_Put E b obj c subs w = (Inr (), u)"
  shows "primary (server u) = primary (server w) \<and> copy (server u) = copy (server w)"
proof -
  obtain d where "backend_Put E b obj c d w = (Inr (), u)"
    using assms(2) by (auto simp: store_Put_def bindE_eq_Inr go_simps split: sum.splits)
  moreover obtain t where "fetchSecret E b w = (Inr (view (server w)), w\<lparr>trace := t\<rparr>)"
    using fetchSecret_view [OF assms(1)] by blast
  ultimately show ?thesis
    by (auto simp: backend_Put_def go_simps Let_def cUpdateSecret_def cCreateSecret_def request_def
          split: if_splits prod.splits sum.splits dest: createSecret updateSecret)
qed

text \<open>The second pass places the copy and remembers the state that was sent.\<close>

definition remembers :: "unstructured \<Rightarrow> 's \<Rightarrow> bool" where
  "remembers p st \<longleftrightarrow>
     unmarshalJSON E (case secretLookup (view st) (sourceKey E p (clusterFromContext ctx)) of None \<Rightarrow> [] | Some d \<Rightarrow> d) =
       Inr (removeFields (rs_subresources s) (stripMetadata p))"

lemma remembers_same:
  "sameDesired (rs_subresources s) p q \<Longrightarrow> view st' = view st \<Longrightarrow> remembers p st \<Longrightarrow> remembers q st'"
  by (simp add: remembers_def sameDesired_fields) (simp add: sameDesired_def)

lemma store_Get_remembers:
  assumes "storesSecrets E b view" "remembers p (server w)"
  shows "\<exists>t. store_Get E b p (clusterFromContext ctx) w =
    (Inr (Some (removeFields (rs_subresources s) (stripMetadata p))), w\<lparr>trace := t\<rparr>)"
  using backend_Get_view [OF assms(1), of p "clusterFromContext ctx" w] assms(2)
  by (auto simp: store_Get_def go_simps remembers_def)

lemma store_Put_remembers:
  assumes "storesSecrets E b view" "jsonRoundTrip E (removeFields (rs_subresources s) (stripMetadata p))"
  shows "\<exists>u. store_Put E b p (clusterFromContext ctx) (rs_subresources s) w = (Inr (), u) \<and> remembers p (server u) \<and>
    primary (server u) = primary (server w) \<and> copy (server u) = copy (server w)"
proof -
  obtain u d where u: "store_Put E b p (clusterFromContext ctx) (rs_subresources s) w = (Inr (), u)"
    "unmarshalJSON E d = Inr (removeFields (rs_subresources s) (stripMetadata p))"
    "secretLookup (view (server u)) =
      secretLookup (Some (secretStore b (view (server w)) (sourceKey E p (clusterFromContext ctx)) d))"
    using store_Put_view [OF assms] by blast
  then have "remembers p (server u)" unfolding remembers_def u(3) kv.lookup_store by simp
  with u(1) store_Put_frame [OF assms(1) u(1)] show ?thesis by blast
qed

text \<open>The Secret belongs to the object, whatever its copy and its status.\<close>

lemma storesSecrets_same:
  "sameDesired (rs_subresources s) p q \<Longrightarrow> storesSecrets E (newObjectStateStore E ctx s p l) view \<Longrightarrow>
     storesSecrets E (newObjectStateStore E ctx s q l') view"
  by (simp add: storesSecrets_def newObjectStateStore_def newKubernetesBackend_def localSide_def Let_def sameDesired_fields)

lemma pass_create:
  assumes p: "primary (server w) = Some p" "oDeletionTimestamp p = None" "deletionFinalizer \<in> set (oFinalizers p)"
    and none: "copy (server w) = None"
    and plain: "prs_Related (pr_Spec (rs_pubRes s)) = []" "recorderFromContext ctx"
    and mode: "rs_primaryMutator s = None" "\<not> rs_useServerSideApply s"
    and name: "newLocalObjectCreator E s (clusterFromContext ctx) (workspacePathFromContext ctx) p = Inr d"
    and secrets: "storesSecrets E (newObjectStateStore E ctx s p None) view"
    and json: "jsonRoundTrip E (removeFields (rs_subresources s) (stripMetadata p))"
  shows "\<exists>u. Process E ctx s p w = (Inr True, u) \<and>
    (\<exists>c. primary (server u) = Some p \<and> copy (server u) = Some c \<and> remembers p (server u) \<and>
      stored (rs_subresources s) (stampDestination E (syncerFor p None) (keyFor p) (stripMetadata d)) c)"
proof -
  let ?obj = "stampDestination E (syncerFor p None) (keyFor p) (stripMetadata d)"
  have linked: "objectKey_Labels E (keyFor p) \<subseteq>\<^sub>f orEmpty (oLabels ?obj)"
    by (rule stampDestination_linked) (simp_all add: primary_fields)
  show ?thesis
  proof (rule Process_live [OF p(1,2) none plain(1)])
    fix v :: "'s world" and cs
    assume v: "server v = server w"
    obtain v1 where v1: "ensureNamespace E (rs_localClient s) (oNamespace d) v = (Inr (), v1)"
      "primary (server v1) = Some p" "copy (server v1) = None"
      using ensureNamespace_ok [of "oNamespace d" v] v p(1) none by auto
    obtain r c st' where c: "api_Create E (baseTarget (rs_localClient s)) ?obj (server v1) = (Inr r, st')"
      "primary st' = Some p" "copy st' = Some c" "stored (rs_subresources s) ?obj c"
      using create [OF v1(2,3) linked] by blast
    let ?v2 = "v1\<lparr>server := st', trace := trace v1 @ [CCreate (baseTarget (rs_localClient s)) ?obj,
      CEvent (Some p) ''Normal'' ''ObjectPlaced'']\<rparr>"
    obtain u where put: "store_Put E (newObjectStateStore E ctx s p None) p (clusterFromContext ctx) (rs_subresources s) ?v2 =
        (Inr (), u)" "remembers p (server u)" "primary (server u) = Some p" "copy (server u) = Some c"
      using store_Put_remembers [OF secrets json, of ?v2] c by auto
    have "ensureDestinationObject E ctx (syncerFor p None) (remoteSide ctx s p) p (localSide s None) v = (Inr (), u)"
      using v1(1) c(1) put(1) plain(2) name
      by (simp add: ensureDestinationObject_def go_simps Let_def cCreate_def request_def recordEvent_def event_def
            primary_fields)
    then show "\<exists>u. Sync E ctx (syncerFor p None) (remoteSide ctx s p) p (localSide s None) None v =
        (Inr (True, p, None), u) \<and>
      (\<exists>c. primary (server u) = Some p \<and> copy (server u) = Some c \<and> remembers p (server u) \<and> stored (rs_subresources s) ?obj c)"
      using p mode put c(4)
      by (simp add: Sync_def ensureFinalizer_def applyMutations_def go_simps primary_fields)
  qed
qed

text \<open>An accepted object with its copy: what is left is the status.\<close>

definition placed :: "unstructured \<Rightarrow> unstructured \<Rightarrow> 's \<Rightarrow> bool" where
  "placed p c st \<longleftrightarrow>
     primary st = Some p \<and> oDeletionTimestamp p = None \<and> deletionFinalizer \<in> set (oFinalizers p) \<and>
     copy st = Some c \<and> oDeletionTimestamp c = None \<and>
     objectKey_Labels E (keyFor p) \<subseteq>\<^sub>f orEmpty (oLabels c) \<and>
     objectKey_Annotations (keyFor p) \<subseteq>\<^sub>f orEmpty (oAnnotations c) \<and> remembers p st"

abbreviation sameStatus :: "unstructured \<Rightarrow> unstructured \<Rightarrow> bool" where
  "sameStatus p c \<equiv> semanticEqualJSON E (contentGet p ''status'') (contentGet c ''status'')"

lemma Sync_placed:
  assumes "placed p c (server v)"
    and plain: "rs_primaryMutator s = None" "\<not> rs_useServerSideApply s"
    and secrets: "storesSecrets E (newObjectStateStore E ctx s p l) view"
    and json: "jsonRoundTrip E (removeFields (rs_subresources s) (stripMetadata p))"
  shows "\<exists>v'. server v' = server v \<and> (\<exists>cs. trace v' = trace v @ cs \<and> list_all isRead cs) \<and>
    (\<forall>requeue p' u. syncObjectStatus E ctx (syncerFor p (Some c)) (remoteSide ctx s p) p c v' = (Inr (requeue, p'), u) \<longrightarrow>
       Sync E ctx (syncerFor p (Some c)) (remoteSide ctx s p) p (localSide s (Some c)) (Some c) v =
         (Inr (requeue, p', Some c), u))"
proof -
  have same: "sameDesired (rs_subresources s) p p" by (simp add: sameDesired_def)
  obtain t where get: "store_Get E (newObjectStateStore E ctx s p (Some c)) p (clusterFromContext ctx) v =
      (Inr (Some (removeFields (rs_subresources s) (stripMetadata p))), v\<lparr>trace := t\<rparr>)"
    using store_Get_remembers [OF storesSecrets_same [OF same secrets]] assms(1) unfolding placed_def by blast
  obtain cs where cs: "trace (v\<lparr>trace := t\<rparr>) = trace v @ cs" "list_all isRead cs"
    using emits_reads_store_Get get by (rule emitsE)
  obtain x where x: "marshalJSON E (removeFields (rs_subresources s) (stripMetadata p)) = Inr x"
    using json by (auto simp: jsonRoundTrip_def split: sum.splits)
  have snapshot: "removeSubresources (syncerFor p (Some c))
      ((removeFields (rs_subresources s) (stripMetadata p))\<lparr>oAPIVersion := oAPIVersion p, oKind := oKind p\<rparr>) =
    removeSubresources (syncerFor p (Some c)) (stripMetadata p)"
    unfolding removeSubresources_def primary_fields by (rule removeFields_twice)
  have "Sync E ctx (syncerFor p (Some c)) (remoteSide ctx s p) p (localSide s (Some c)) (Some c) v =
      (Inr (requeue, p', Some c), u)"
    if "syncObjectStatus E ctx (syncerFor p (Some c)) (remoteSide ctx s p) p c (v\<lparr>trace := t\<rparr>) = (Inr (requeue, p'), u)"
    for requeue p' u
    by (rule Sync_known [OF _ _ _ _ _ _ _ _ snapshot _ _ _ empty_patch labels_refl that])
       (use assms(1) plain get x in \<open>simp_all add: placed_def primary_fields removeSubresources_def
          ensureDestMetadata_def\<close>)
  then show ?thesis using cs by (intro exI [of _ "v\<lparr>trace := t\<rparr>"]) auto
qed

text \<open>With equal statuses the pass only reads; otherwise it copies the status and is done as well.\<close>

lemma pass_idle:
  assumes "placed p c (server w)" "sameStatus p c"
    and plain: "prs_Related (pr_Spec (rs_pubRes s)) = []" "rs_primaryMutator s = None" "\<not> rs_useServerSideApply s"
    and secrets: "storesSecrets E (newObjectStateStore E ctx s p l) view"
    and json: "jsonRoundTrip E (removeFields (rs_subresources s) (stripMetadata p))"
  shows "\<exists>u. Process E ctx s p w = (Inr False, u) \<and> server u = server w \<and>
    (\<exists>cs. trace u = trace w @ cs \<and> list_all isRead cs)"
proof (rule Process_live [OF _ _ _ plain(1)])
  fix v :: "'s world" and cs
  assume v: "server v = server w" "trace v = trace w @ cs" "list_all isRead cs"
  obtain v' cs' where v': "server v' = server v" "trace v' = trace v @ cs'" "list_all isRead cs'"
    "\<And>requeue p' u. syncObjectStatus E ctx (syncerFor p (Some c)) (remoteSide ctx s p) p c v' = (Inr (requeue, p'), u) \<Longrightarrow>
       Sync E ctx (syncerFor p (Some c)) (remoteSide ctx s p) p (localSide s (Some c)) (Some c) v =
         (Inr (requeue, p', Some c), u)"
    using Sync_placed [where v = v and c = c, OF _ plain(2,3) secrets json] assms(1) v(1) by auto
  have "syncObjectStatus E ctx (syncerFor p (Some c)) (remoteSide ctx s p) p c v' = (Inr (False, p), v')"
    using assms(2) by (simp add: syncObjectStatus_def go_simps)
  from v'(4) [OF this] v v'(1-3)
  show "\<exists>u. Sync E ctx (syncerFor p (Some c)) (remoteSide ctx s p) p (localSide s (Some c)) (Some c) v =
      (Inr (False, p, Some c), u) \<and> server u = server w \<and> (\<exists>cs. trace u = trace w @ cs \<and> list_all isRead cs)"
    by auto
qed (use assms(1) in \<open>simp_all add: placed_def\<close>)

lemma pass_sync:
  assumes "placed p c (server w)" "\<not> sameStatus p c"
    and plain: "prs_Related (pr_Spec (rs_pubRes s)) = []" "rs_primaryMutator s = None" "\<not> rs_useServerSideApply s"
      "recorderFromContext ctx"
    and secrets: "storesSecrets E (newObjectStateStore E ctx s p l) view"
    and json: "jsonRoundTrip E (removeFields (rs_subresources s) (stripMetadata p))"
  shows "\<exists>u. Process E ctx s p w = (Inr False, u) \<and>
    (\<exists>q. placed q c (server u) \<and> sameStatus q c \<and> sameDesired (rs_subresources s) p q)"
proof -
  obtain q st' where q: "api_StatusUpdate E (baseTarget (rs_remoteClient s)) (contentSet p ''status'' (contentGet c ''status''))
      (server w) = (Inr q, st')" "primary st' = Some q" "copy st' = copy (server w)" "view st' = view (server w)"
    "sameDesired (rs_subresources s) p q" "oFinalizers q = oFinalizers p"
    "contentGet q ''status'' = contentGet c ''status''"
    using status assms(1) unfolding placed_def by blast
  have placed: "placed q c st'"
    using assms(1) q remembers_same [OF q(5,4)] by (simp add: placed_def sameDesired_fields)
  show ?thesis
  proof (rule Process_live [OF _ _ _ plain(1)])
    fix v :: "'s world" and cs
    assume v: "server v = server w"
    obtain v' where v': "server v' = server v"
      "\<And>requeue p' u. syncObjectStatus E ctx (syncerFor p (Some c)) (remoteSide ctx s p) p c v' = (Inr (requeue, p'), u) \<Longrightarrow>
         Sync E ctx (syncerFor p (Some c)) (remoteSide ctx s p) p (localSide s (Some c)) (Some c) v =
           (Inr (requeue, p', Some c), u)"
      using Sync_placed [where v = v and c = c, OF _ plain(2,3) secrets json] assms(1) v by auto
    have "\<exists>u. syncObjectStatus E ctx (syncerFor p (Some c)) (remoteSide ctx s p) p c v' = (Inr (False, q), u) \<and> server u = st'"
      using assms(2) q(1) plain(4) v v'(1)
      by (simp add: syncObjectStatus_def go_simps cStatusUpdate_def request_def recordEvent_def event_def primary_fields)
    then obtain u where u: "syncObjectStatus E ctx (syncerFor p (Some c)) (remoteSide ctx s p) p c v' = (Inr (False, q), u)"
      "server u = st'" by blast
    show "\<exists>u. Sync E ctx (syncerFor p (Some c)) (remoteSide ctx s p) p (localSide s (Some c)) (Some c) v =
        (Inr (False, q, Some c), u) \<and>
      (\<exists>q. placed q c (server u) \<and> sameStatus q c \<and> sameDesired (rs_subresources s) p q)"
      using v'(2) [OF u(1)] u(2) placed q(5,7) json_refl by auto
  qed (use assms(1) in \<open>simp_all add: placed_def\<close>)
qed

text \<open>The state that the passes lead to.\<close>

definition settled :: "unstructured \<Rightarrow> 's world \<Rightarrow> bool" where
  "settled p w \<longleftrightarrow> (\<exists>q c u. primary (server w) = Some q \<and> sameDesired (rs_subresources s) p q \<and>
     placed q c (server w) \<and> deletionFinalizer \<in> set (oFinalizers q) \<and> copy (server w) = Some c \<and>
     objectKey_Labels E (keyFor p) \<subseteq>\<^sub>f orEmpty (oLabels c) \<and>
     (\<forall>k. k \<notin> set (rs_subresources s) \<longrightarrow> fmlookup (oContent c) k = fmlookup (oContent p) k) \<and> sameStatus q c \<and>
     Process E ctx s q w = (Inr False, u) \<and> server u = server w \<and>
     (\<exists>cs. trace u = trace w @ cs \<and> list_all isRead cs))"

lemma placed_settled:
  assumes "placed q c (server w)" "sameStatus q c" "sameDesired (rs_subresources s) p q"
    and "\<forall>k. k \<notin> set (rs_subresources s) \<longrightarrow> fmlookup (oContent c) k = fmlookup (oContent p) k"
    and "prs_Related (pr_Spec (rs_pubRes s)) = []" "rs_primaryMutator s = None" "\<not> rs_useServerSideApply s"
    and secrets: "storesSecrets E (newObjectStateStore E ctx s p l) view"
    and json: "jsonRoundTrip E (removeFields (rs_subresources s) (stripMetadata p))"
  shows "settled p w"
proof -
  have "jsonRoundTrip E (removeFields (rs_subresources s) (stripMetadata q))"
    using json assms(3) by (simp add: sameDesired_def)
  with pass_idle [OF assms(1,2,5,6,7) storesSecrets_same [OF assms(3) secrets]] assms(1-4) sameDesired_fields [OF assms(3)]
  show ?thesis unfolding settled_def placed_def by metis
qed

lemma passes_placed:
  assumes "placed q c (server w)" "sameDesired (rs_subresources s) p q"
    and content: "\<forall>k. k \<notin> set (rs_subresources s) \<longrightarrow> fmlookup (oContent c) k = fmlookup (oContent p) k"
    and plain: "prs_Related (pr_Spec (rs_pubRes s)) = []" "rs_primaryMutator s = None" "\<not> rs_useServerSideApply s"
      "recorderFromContext ctx"
    and secrets: "storesSecrets E (newObjectStateStore E ctx s p l) view"
    and json: "jsonRoundTrip E (removeFields (rs_subresources s) (stripMetadata p))"
  shows "\<exists>w'. processPasses E ctx s primary (\<lambda>st. st) (Suc n) w = Some w' \<and> settled p w'"
proof -
  have q: "storesSecrets E (newObjectStateStore E ctx s q l) view"
    "jsonRoundTrip E (removeFields (rs_subresources s) (stripMetadata q))" "primary (server w) = Some q"
    using json assms(1,2) storesSecrets_same [OF assms(2) secrets] by (simp_all add: sameDesired_def placed_def)
  obtain u q' where u: "Process E ctx s q w = (Inr False, u)" "placed q' c (server u)" "sameStatus q' c"
    "sameDesired (rs_subresources s) p q'"
  proof (cases "sameStatus q c")
    case True
    then show thesis using pass_idle [OF assms(1) True plain(1-3) q(1,2)] that [of _ q] assms(1,2) by auto
  next
    case False
    then show thesis
      using pass_sync [OF assms(1) False plain q(1,2)] that sameDesired_trans [OF assms(2)] by blast
  qed
  then have "settled p u" by (intro placed_settled [OF u(2-4) content plain(1-3) secrets json])
  with u(1) q(3) show ?thesis by simp
qed

lemma passes_accepted:
  assumes p: "primary (server w) = Some q" "oDeletionTimestamp q = None" "deletionFinalizer \<in> set (oFinalizers q)"
      "copy (server w) = None" "sameDesired (rs_subresources s) p q"
    and plain: "prs_Related (pr_Spec (rs_pubRes s)) = []" "rs_primaryMutator s = None" "\<not> rs_useServerSideApply s"
      "recorderFromContext ctx"
    and secrets: "storesSecrets E (newObjectStateStore E ctx s p l) view"
    and json: "jsonRoundTrip E (removeFields (rs_subresources s) (stripMetadata p))"
    and name: "newLocalObjectCreator E s (clusterFromContext ctx) (workspacePathFromContext ctx) q = Inr d"
  shows "\<exists>w'. processPasses E ctx s primary (\<lambda>st. st) (Suc (Suc n)) w = Some w' \<and> settled p w'"
proof -
  let ?obj = "stampDestination E (syncerFor q None) (keyFor q) (stripMetadata d)"
  have "storesSecrets E (newObjectStateStore E ctx s q None) view"
    "jsonRoundTrip E (removeFields (rs_subresources s) (stripMetadata q))"
    using json p(5) storesSecrets_same [OF p(5) secrets] by (simp_all add: sameDesired_def)
  then obtain u c where u: "Process E ctx s q w = (Inr True, u)" "primary (server u) = Some q" "copy (server u) = Some c"
    "remembers q (server u)" "stored (rs_subresources s) ?obj c"
    using pass_create [OF p(1-4) plain(1,4,2,3) name] by blast
  have obj: "objectKey_Labels E (keyFor q) \<subseteq>\<^sub>f orEmpty (oLabels ?obj)"
    "objectKey_Annotations (keyFor q) \<subseteq>\<^sub>f orEmpty (oAnnotations ?obj)" "oContent ?obj = oContent (stripMetadata d)"
    by (rule stampDestination_linked; simp add: primary_fields)+
  then have "placed q c (server u)" using p(2,3) u(2-5) by (simp add: placed_def stored_def)
  moreover have "\<forall>k. k \<notin> set (rs_subresources s) \<longrightarrow> fmlookup (oContent c) k = fmlookup (oContent p) k"
    using u(5) obj(3) newLocalObjectCreator_content [OF name] sameDesired_content [OF p(5)]
    by (simp add: stored_def oContent_stripMetadata)
  ultimately obtain w' where "processPasses E ctx s primary (\<lambda>st. st) (Suc n) u = Some w'" "settled p w'"
    using passes_placed [OF _ p(5) _ plain secrets json] by blast
  with u(1) p(1) show ?thesis by simp
qed

lemma passes_converge:
  assumes p: "primary (server w) = Some p" "oDeletionTimestamp p = None" "copy (server w) = None"
    and plain: "prs_Related (pr_Spec (rs_pubRes s)) = []" "rs_primaryMutator s = None" "\<not> rs_useServerSideApply s"
      "recorderFromContext ctx"
    and secrets: "storesSecrets E (newObjectStateStore E ctx s p l) view"
    and json: "jsonRoundTrip E (removeFields (rs_subresources s) (stripMetadata p))"
    and names: "\<And>q. sameDesired (rs_subresources s) p q \<Longrightarrow>
      \<exists>d. newLocalObjectCreator E s (clusterFromContext ctx) (workspacePathFromContext ctx) q = Inr d"
  shows "\<exists>w'. processPasses E ctx s primary (\<lambda>st. st) 3 w = Some w' \<and> settled p w'"
proof (cases "deletionFinalizer \<in> set (oFinalizers p)")
  case True
  have same: "sameDesired (rs_subresources s) p p" by (simp add: sameDesired_def)
  then obtain d where "newLocalObjectCreator E s (clusterFromContext ctx) (workspacePathFromContext ctx) p = Inr d"
    using names by blast
  from passes_accepted [OF p(1,2) True p(3) same plain secrets json this, of 1] show ?thesis
    by (simp add: numeral_3_eq_3)
next
  case False
  then obtain u q where u: "Process E ctx s p w = (Inr True, u)" "primary (server u) = Some q" "copy (server u) = None"
    "sameDesired (rs_subresources s) p q" "deletionFinalizer \<in> set (oFinalizers q)"
    using pass_accept [OF p(1,2) False plain(1,4)] p(3) by auto
  then obtain d where "newLocalObjectCreator E s (clusterFromContext ctx) (workspacePathFromContext ctx) q = Inr d"
    using names by blast
  moreover have "oDeletionTimestamp q = None" using sameDesired_fields(5) [OF u(4)] p(2) by simp
  ultimately obtain w' where "processPasses E ctx s primary (\<lambda>st. st) (Suc (Suc 0)) u = Some w'" "settled p w'"
    using passes_accepted [OF u(2) _ u(5,3,4) plain secrets json] by blast
  with u(1) p(1) show ?thesis by (simp add: numeral_3_eq_3)
qed

end

section \<open>A new object is synchronised\<close>


text \<open>
  A pair of servers that hold one kcp object, its copy and the Secret. The objects are claims whose spec is one
  string, which is also their JSON text and the merge patch that leads to them.
\<close>

definition claimOf :: "string \<Rightarrow> unstructured" where
  "claimOf v = emptyObject\<lparr>oKind := ''Claim'', oName := ''db'', oContent := fmap_of_list [(''spec'', JStr v)]\<rparr>"

record acceptor =
  ac_primary :: "unstructured option"
  ac_copy :: "unstructured option"
  ac_secret :: "secret option"

definition secretIn :: "string \<Rightarrow> acceptor \<Rightarrow> secret option" where
  "secretIn ns st = (case ac_secret st of None \<Rightarrow> None | Some x \<Rightarrow> if sec_Namespace x = ns then Some x else None)"

definition memoryAcceptor :: "acceptor env" where
  "memoryAcceptor = noServer\<lparr>
     api_List := (\<lambda>c a k sel ns lim st. (Inr (case ac_copy st of None \<Rightarrow> [] | Some x \<Rightarrow> [x]), st)),
     api_Patch := (\<lambda>c obj p st. case p of
        MergeFrom _ \<Rightarrow> (Inr obj, st\<lparr>ac_primary := Some obj\<rparr>)
      | RawPatch v \<Rightarrow> let obj' = contentSet obj ''spec'' (JStr v) in (Inr obj', st\<lparr>ac_copy := Some obj'\<rparr>)),
     api_StatusUpdate := (\<lambda>c obj st. (Inr obj, st\<lparr>ac_primary := Some obj\<rparr>)),
     api_Create := (\<lambda>c obj st. (Inr obj, st\<lparr>ac_copy := Some (obj\<lparr>oDeletionTimestamp := None\<rparr>)\<rparr>)),
     api_Delete := (\<lambda>c obj pol st. (Inr (), st\<lparr>ac_copy := Some (obj\<lparr>oDeletionTimestamp := Some ''now''\<rparr>)\<rparr>)),
     api_CreateNamespace := (\<lambda>c n st. (Inr (), st)),
     api_GetSecret := (\<lambda>c n st. (case secretIn (nn_Namespace n) st of None \<Rightarrow> Inl NotFound | Some x \<Rightarrow> Inr x, st)),
     api_CreateSecret := (\<lambda>c sec st. (Inr sec, st\<lparr>ac_secret := Some sec\<rparr>)),
     api_UpdateSecret := (\<lambda>c sec st. (Inr sec, st\<lparr>ac_secret := Some sec\<rparr>)),
     marshalJSON := (\<lambda>obj. case contentGet obj ''spec'' of JStr v \<Rightarrow> Inr v | _ \<Rightarrow> Inl ()),
     unmarshalJSON := (\<lambda>t. Inr (claimOf t)),
     createMergePatchLib := (\<lambda>a b. Inr (if a = b then ''{}'' else b)),
     templateParse := (\<lambda>_. Inr ()), templateExecute := (\<lambda>_ _. Inr ''copy'')\<rparr>"

lemma sameDesired_finalizers: "sameDesired subs p (p\<lparr>oFinalizers := fs\<rparr>)"
  by (simp add: sameDesired_def stripMetadata_eq)

lemma sameDesired_status: "k \<in> set subs \<Longrightarrow> sameDesired subs p (contentSet p k v)"
proof -
  assume "k \<in> set subs"
  then have "fold fmdrop subs (fmupd k v (oContent p)) = fold fmdrop subs (oContent p)"
    by (intro fmap_ext) (auto simp: fmlookup_drops)
  then show ?thesis by (simp add: sameDesired_def stripMetadata_eq removeFields_def contentSet_def)
qed

interpretation accepted: accepting_server memoryAcceptor exampleContext plainSyncer ac_primary ac_copy "secretIn ''kcp-system''"
proof unfold_locales
  fix st :: acceptor and p :: unstructured and v :: json
  assume p: "ac_primary st = Some p"
  have fin: "deletionFinalizer \<in> set (sort (remdups (deletionFinalizer # oFinalizers p)))" by simp
  show "\<exists>q st'. api_Patch memoryAcceptor (baseTarget (rs_remoteClient plainSyncer))
      (p\<lparr>oFinalizers := sort (remdups (deletionFinalizer # oFinalizers p))\<rparr>) (MergeFrom p) st = (Inr q, st') \<and>
    ac_primary st' = Some q \<and> ac_copy st' = ac_copy st \<and> sameDesired (rs_subresources plainSyncer) p q \<and>
    deletionFinalizer \<in> set (oFinalizers q)"
    using fin sameDesired_finalizers by (simp add: memoryAcceptor_def del: sort_key_simps remdups.simps)
  show "\<exists>q st'. api_StatusUpdate memoryAcceptor (baseTarget (rs_remoteClient plainSyncer)) (contentSet p ''status'' v) st =
      (Inr q, st') \<and> ac_primary st' = Some q \<and> ac_copy st' = ac_copy st \<and>
    secretIn ''kcp-system'' st' = secretIn ''kcp-system'' st \<and> sameDesired (rs_subresources plainSyncer) p q \<and>
    oFinalizers q = oFinalizers p \<and> contentGet q ''status'' = v"
    using sameDesired_status [of "''status''" "rs_subresources plainSyncer" p v]
    by (simp add: memoryAcceptor_def plainSyncer_def secretIn_def) (simp add: contentSet_def contentGet_def)
qed (auto simp: memoryAcceptor_def noServer_def stored_def)

definition newClaim :: unstructured where
  "newClaim = claimOf ''small''"

definition newClaimWorld :: "acceptor world" where
  "newClaimWorld = \<lparr> server = \<lparr> ac_primary = Some newClaim, ac_copy = None, ac_secret = None \<rparr>, trace = [],
     selectors = noSelectors \<rparr>"

lemma storesSecrets_acceptor:
  "storesSecrets memoryAcceptor (newObjectStateStore memoryAcceptor exampleContext plainSyncer p l) (secretIn ''kcp-system'')"
  by (auto simp: storesSecrets_def memoryAcceptor_def newObjectStateStore_def newKubernetesBackend_def plainSyncer_def
        secretIn_def split: option.splits)

lemma claim_snapshot:
  "removeFields (rs_subresources plainSyncer) (stripMetadata (claimOf v)) = claimOf v"
  "removeFields (rs_subresources plainSyncer) (stripMetadata ((claimOf v)\<lparr>oFinalizers := fs\<rparr>)) = claimOf v"
  by (simp_all add: removeFields_def stripMetadata_eq claimOf_def emptyObject_def plainSyncer_def
        lf.filt_empty af.filt_empty setNestedMapOmitempty_def fmap_of_list.rep_eq fmap_ext)

lemma claim_roundTrip: "TrimSpace v = v \<Longrightarrow> jsonRoundTrip memoryAcceptor (claimOf v)"
  by (simp add: jsonRoundTrip_def memoryAcceptor_def contentGet_def claimOf_def)

lemma newClaim_roundTrip: "jsonRoundTrip memoryAcceptor (removeFields (rs_subresources plainSyncer) (stripMetadata newClaim))"
  by (simp add: newClaim_def claim_snapshot claim_roundTrip TrimSpace_def isSpace_def)

lemma acceptor_names: "\<exists>d. newLocalObjectCreator memoryAcceptor plainSyncer cn wp q = Inr d"
  by (simp add: newLocalObjectCreator_def GenerateLocalObjectName_def generateLocalObjectIdentifier_def Let_def
        plainSyncer_def plainResource_def plainSpec_def Render_def memoryAcceptor_def wrapErr_def bindR_def lib_def
        split: if_splits sum.splits)

lemma plain_settings:
  "prs_Related (pr_Spec (rs_pubRes plainSyncer)) = []" "rs_primaryMutator plainSyncer = None"
  "\<not> rs_useServerSideApply plainSyncer" "recorderFromContext exampleContext"
  by (simp_all add: plainSyncer_def plainResource_def plainSpec_def exampleContext_def recorderFromContext_def)

lemma newClaim_new:
  "ac_primary (server newClaimWorld) = Some newClaim" "oDeletionTimestamp newClaim = None"
  "ac_copy (server newClaimWorld) = None"
  by (simp_all add: newClaimWorld_def newClaim_def claimOf_def emptyObject_def)


end
