(* ===== verification/Update_Progress.thy ===== *)
theory Update_Progress
  imports Creation_Progress
begin

text \<open>
  Edits of a primary object that is in sync. The agent sends the difference between the state it sent last and
  the state it sees; whether the copy then has the new state depends on what was remembered, on what the
  copy has, and on how the server applies a merge patch. The states in which all of this fits together
  are \<open>inSync\<close>; new objects get there, and edits lead from one such state to another.
\<close>

section \<open>Merge patches\<close>

text \<open>
  A merge patch from the document \<open>x\<close> to \<open>y\<close>, applied to \<open>c\<close>: fields of \<open>c\<close> that are as in \<open>x\<close> become as in
  \<open>y\<close>, and labels and annotations on which \<open>x\<close> and \<open>y\<close> agree stay as they are.
\<close>

definition patched :: "string list \<Rightarrow> unstructured \<Rightarrow> unstructured \<Rightarrow> unstructured \<Rightarrow> unstructured \<Rightarrow> bool" where
  "patched subs x y c c' \<longleftrightarrow>
     oDeletionTimestamp c' = oDeletionTimestamp c \<and>
     (\<forall>k. k \<notin> set subs \<longrightarrow> fmlookup (oContent c) k = fmlookup (oContent x) k \<longrightarrow>
        fmlookup (oContent c') k = fmlookup (oContent y) k) \<and>
     (\<forall>k. fmlookup (orEmpty (oLabels x)) k = fmlookup (orEmpty (oLabels y)) k \<longrightarrow>
        fmlookup (orEmpty (oLabels c')) k = fmlookup (orEmpty (oLabels c)) k) \<and>
     (\<forall>k. fmlookup (orEmpty (oAnnotations x)) k = fmlookup (orEmpty (oAnnotations y)) k \<longrightarrow>
        fmlookup (orEmpty (oAnnotations c')) k = fmlookup (orEmpty (oAnnotations c)) k)"

text \<open>The link is not among the metadata of a stripped object, so a patch between two of them keeps it.\<close>

lemma stripped_unlinked:
  "fmlookup (objectKey_Labels E key) k = Some v \<Longrightarrow> fmlookup (orEmpty (oLabels (stripMetadata p))) k = None"
  "fmlookup (objectKey_Annotations key) k = Some v \<Longrightarrow> fmlookup (orEmpty (oAnnotations (stripMetadata p))) k = None"
  by (auto simp: stripMetadata_eq lf.orEmpty_setNested af.orEmpty_setNested lf.lookup_filt af.lookup_filt
        objectKey_Labels_def objectKey_Annotations_def Let_def dropsLabel_def unsyncableLabels_def
        dropsAnnotation_def unsyncableAnnotations_def split: if_splits)

lemma patched_keeps_link:
  assumes "patched subs (removeFields fs (stripMetadata p)) (removeFields fs (stripMetadata q)) c c'"
    and "objectKey_Labels E key \<subseteq>\<^sub>f orEmpty (oLabels c)" "objectKey_Annotations key \<subseteq>\<^sub>f orEmpty (oAnnotations c)"
  shows "objectKey_Labels E key \<subseteq>\<^sub>f orEmpty (oLabels c')" "objectKey_Annotations key \<subseteq>\<^sub>f orEmpty (oAnnotations c')"
  using assms by (simp_all add: patched_def fmsubset_lookup removeFields_def stripped_unlinked)

text \<open>An edit keeps the identity of the object and the finalizer.\<close>

definition editOf :: "unstructured \<Rightarrow> unstructured \<Rightarrow> bool" where
  "editOf p q \<longleftrightarrow> oName q = oName p \<and> oNamespace q = oNamespace p \<and> oAPIVersion q = oAPIVersion p \<and>
     oKind q = oKind p \<and> oDeletionTimestamp q = None \<and> deletionFinalizer \<in> set (oFinalizers q)"

text \<open>Edits, each followed by two passes.\<close>

fun editPasses ::
    "'s env \<Rightarrow> syncContext \<Rightarrow> ResourceSyncer \<Rightarrow> ('s \<Rightarrow> unstructured option) \<Rightarrow> (unstructured \<Rightarrow> 's \<Rightarrow> 's) \<Rightarrow>
     unstructured list \<Rightarrow> 's world \<Rightarrow> 's world option" where
  "editPasses E ctx s primary edit [] w = Some w"
| "editPasses E ctx s primary edit (e # es) w =
     (case processPasses E ctx s primary (\<lambda>st. st) 2 (w\<lparr>server := edit e (server w)\<rparr>) of
        None \<Rightarrow> None
      | Some w' \<Rightarrow> editPasses E ctx s primary edit es w')"

text \<open>
  Documents between which the library computes merge patches that the server applies (JSON merge patches cannot
  express every change, such as one to an explicit null). An empty patch means equal documents. Users
  edit the kcp object (\<open>edit\<close>), which changes nothing else.
\<close>

locale patching_server = accepting_server E ctx s primary copy view
  for E :: "'s env" and ctx :: syncContext and s :: ResourceSyncer
    and primary :: "'s \<Rightarrow> unstructured option" and copy :: "'s \<Rightarrow> unstructured option"
    and view :: "'s \<Rightarrow> secret option" +
  fixes docs :: "unstructured \<Rightarrow> bool" and edit :: "unstructured \<Rightarrow> 's \<Rightarrow> 's"
  assumes roundTrip: "docs x \<Longrightarrow> jsonRoundTrip E x"
    and patch: "docs x \<Longrightarrow> docs y \<Longrightarrow> marshalJSON E x = Inr a \<Longrightarrow> marshalJSON E y = Inr b \<Longrightarrow>
      \<exists>patch. createMergePatchLib E a b = Inr patch \<and> (patch = ''{}'' \<longrightarrow> x = y) \<and>
        (patch \<noteq> ''{}'' \<longrightarrow> (\<forall>st c. copy st = Some c \<longrightarrow>
           (\<exists>c' st'. api_Patch E (baseTarget (rs_localClient s)) c (RawPatch patch) st = (Inr c', st') \<and>
              primary st' = primary st \<and> copy st' = Some c' \<and> view st' = view st \<and>
              patched (rs_subresources s) x y c c')))"
    and edited: "primary (edit p st) = Some p" "copy (edit p st) = copy st" "view (edit p st) = view st"
begin

abbreviation snapshot :: "unstructured \<Rightarrow> unstructured" where
  "snapshot p \<equiv> removeFields (rs_subresources s) (stripMetadata p)"

text \<open>The kcp object, its copy and the remembered state after the agent has sent the desired state of \<open>p\<close>.\<close>

definition tracks :: "unstructured \<Rightarrow> unstructured \<Rightarrow> 's \<Rightarrow> bool" where
  "tracks p c st \<longleftrightarrow>
     copy st = Some c \<and> oDeletionTimestamp c = None \<and>
     objectKey_Labels E (keyFor p) \<subseteq>\<^sub>f orEmpty (oLabels c) \<and>
     objectKey_Annotations (keyFor p) \<subseteq>\<^sub>f orEmpty (oAnnotations c) \<and>
     (\<forall>k. k \<notin> set (rs_subresources s) \<longrightarrow> fmlookup (oContent c) k = fmlookup (oContent p) k) \<and> remembers p st"

lemma editOf_fields:
  assumes "editOf p q"
  shows "keyFor q = keyFor p" "sourceKey E q cn = sourceKey E p cn" "hashObject E q = hashObject E p"
    "storesSecrets E (newObjectStateStore E ctx s p l) view \<Longrightarrow> storesSecrets E (newObjectStateStore E ctx s q l') view"
  using assms
  by (simp_all add: editOf_def newObjectKey_def sourceKey_def hashObject_def storesSecrets_def newObjectStateStore_def
        newKubernetesBackend_def localSide_def Let_def)

lemma placed_tracks: "placed p c st \<Longrightarrow>
    (\<forall>k. k \<notin> set (rs_subresources s) \<longrightarrow> fmlookup (oContent c) k = fmlookup (oContent p) k) \<Longrightarrow> tracks p c st"
  by (simp add: placed_def tracks_def)

lemma tracks_placed:
  assumes "tracks p c st" "primary st = Some p" "editOf q p"
  shows "placed p c st"
  using assms by (simp add: placed_def tracks_def editOf_def)

lemma snapshot_content:
  "k \<notin> set (rs_subresources s) \<Longrightarrow> fmlookup (oContent (snapshot p)) k = fmlookup (oContent p) k"
  by (simp add: removeFields_def fmlookup_drops oContent_stripMetadata)

lemma snapshot_snapshot:
  "removeFields (rs_subresources s)
     ((snapshot q)\<lparr>oAPIVersion := oAPIVersion (stripMetadata q), oKind := oKind (stripMetadata q)\<rparr>) = snapshot q"
  using removeFields_twice [of "rs_subresources s" q] by (simp add: stripMetadata_eq)

text \<open>An edit that changes the snapshot is patched into the copy, and the new snapshot is remembered.\<close>

lemma spec_patched:
  assumes p: "editOf q p" and known: "tracks q c (server v)" and change: "snapshot p \<noteq> snapshot q"
    and docs: "docs (snapshot q)" "docs (snapshot p)"
    and secrets: "storesSecrets E (newObjectStateStore E ctx s p l) view" and recorder: "recorderFromContext ctx"
  shows "\<exists>c' u. syncObjectSpec E ctx (syncerFor p (Some c)) (remoteSide ctx s p) p (localSide s (Some c)) c v =
      (Inr (True, c'), u) \<and> tracks p c' (server u) \<and> primary (server u) = primary (server v)"
proof -
  have same: "sameDesired (rs_subresources s) p p" by (simp add: sameDesired_def)
  note stores = storesSecrets_same [OF same secrets]
  have q: "oAPIVersion (stripMetadata p) = oAPIVersion (stripMetadata q)" "oKind (stripMetadata p) = oKind (stripMetadata q)"
    "remembers q (server v)" "sourceKey E p (clusterFromContext ctx) = sourceKey E q (clusterFromContext ctx)"
    using p known by (simp_all add: editOf_def tracks_def stripMetadata_eq editOf_fields)
  obtain t where "store_Get E (newObjectStateStore E ctx s p (Some c)) q (clusterFromContext ctx) v =
      (Inr (Some (snapshot q)), v\<lparr>trace := t\<rparr>)"
    using store_Get_remembers [OF stores q(3)] by blast
  then have get: "store_Get E (newObjectStateStore E ctx s p (Some c)) p (clusterFromContext ctx) v =
      (Inr (Some (snapshot q)), v\<lparr>trace := t\<rparr>)"
    using q(4) by (simp add: store_Get_def backend_Get_def)
  have json: "jsonRoundTrip E (snapshot q)" "jsonRoundTrip E (snapshot p)" using docs roundTrip by simp_all
  then obtain a b where ab: "marshalJSON E (snapshot q) = Inr a" "marshalJSON E (snapshot p) = Inr b"
    by (auto simp: jsonRoundTrip_def split: sum.splits)
  have copy: "copy (server v) = Some c" using known by (simp add: tracks_def)
  obtain pt c' st' where pt: "createMergePatchLib E a b = Inr pt" "pt \<noteq> ''{}''"
    and c': "api_Patch E (baseTarget (rs_localClient s)) c (RawPatch pt) (server v) = (Inr c', st')"
      "primary st' = primary (server v)" "copy st' = Some c'" "patched (rs_subresources s) (snapshot q) (snapshot p) c c'"
    using patch [OF docs ab] change copy by metis
  let ?v2 = "v\<lparr>server := st', trace := t @ [CPatch (baseTarget (rs_localClient s)) c (RawPatch pt),
    CEvent (Some p) ''Normal'' ''ObjectSynced'']\<rparr>"
  have strip: "removeFields (rs_subresources s) (stripMetadata (stripMetadata p)) = snapshot p"
    "sourceKey E (stripMetadata p) (clusterFromContext ctx) = sourceKey E p (clusterFromContext ctx)"
    by (simp_all add: stripMetadata_stripMetadata) (simp add: sourceKey_def newObjectKey_def stripMetadata_eq)
  obtain u where put: "store_Put E (newObjectStateStore E ctx s p (Some c)) (stripMetadata p) (clusterFromContext ctx)
      (rs_subresources s) ?v2 = (Inr (), u)" "remembers (stripMetadata p) (server u)"
      "primary (server u) = primary (server v)" "copy (server u) = Some c'"
    using store_Put_remembers [where w = ?v2 and p = "stripMetadata p", OF stores] json(2) c' strip(1) by auto
  have link: "objectKey_Labels E (keyFor p) \<subseteq>\<^sub>f orEmpty (oLabels c)" "objectKey_Annotations (keyFor p) \<subseteq>\<^sub>f orEmpty (oAnnotations c)"
    using known editOf_fields(1) [OF p] by (simp_all add: tracks_def)
  have whole: "threeWayDiffMetadata (stripMetadata p) c (objectKey_Labels E (keyFor p)) (objectKey_Annotations (keyFor p)) =
      stripMetadata p"
    using link by (simp add: threeWayDiffMetadata_id key_repairs)
  have mp: "createMergePatch E (syncerFor p (Some c))
      ((snapshot q)\<lparr>oAPIVersion := oAPIVersion (stripMetadata p), oKind := oKind (stripMetadata p)\<rparr>) (stripMetadata p) = Inr pt"
    unfolding q(1,2) createMergePatch_def removeSubresources_def primary_fields snapshot_snapshot
    using ab pt(1) by (simp add: wrapErr_def)
  have "syncObjectSpec E ctx (syncerFor p (Some c)) (remoteSide ctx s p) p (localSide s (Some c)) c v = (Inr (True, c'), u)"
    using get whole mp pt(2) c'(1) put(1) recorder
    by (simp add: syncObjectSpec_def go_simps Let_def primary_fields cPatch_def request_def rememberSync_def recordEvent_def
          event_def)
  moreover have "tracks p c' (server u)"
    using known put(2,4) c'(4) strip patched_keeps_link [OF c'(4) link] editOf_fields(1) [OF p]
    by (simp add: tracks_def remembers_def patched_def snapshot_content)
  ultimately show ?thesis using put(3) by blast
qed

lemma pass_update:
  assumes p: "primary (server w) = Some p" "editOf q p" and known: "tracks q c (server w)" and change: "snapshot p \<noteq> snapshot q"
    and docs: "docs (snapshot q)" "docs (snapshot p)"
    and plain: "prs_Related (pr_Spec (rs_pubRes s)) = []" "rs_primaryMutator s = None" "\<not> rs_useServerSideApply s"
      "recorderFromContext ctx"
    and secrets: "storesSecrets E (newObjectStateStore E ctx s p l) view"
  shows "\<exists>u. Process E ctx s p w = (Inr True, u) \<and> (\<exists>c'. placed p c' (server u) \<and> tracks p c' (server u))"
proof -
  have live: "oDeletionTimestamp p = None" "deletionFinalizer \<in> set (oFinalizers p)" using p(2) by (simp_all add: editOf_def)
  obtain t where find: "findLocalObject E s (keyFor p) w = (Inr (Some c), w\<lparr>trace := t\<rparr>)"
    using findLocalObject_copy [OF p(1)] known by (auto simp: tracks_def)
  have "tracks q c (server (w\<lparr>trace := t\<rparr>))" using known by simp
  then obtain c' u where u: "syncObjectSpec E ctx (syncerFor p (Some c)) (remoteSide ctx s p) p (localSide s (Some c)) c
      (w\<lparr>trace := t\<rparr>) = (Inr (True, c'), u)" "tracks p c' (server u)" "primary (server u) = Some p"
    using spec_patched [OF p(2) _ change docs secrets plain(4), of c "w\<lparr>trace := t\<rparr>"] p(1) by auto
  have "oDeletionTimestamp c = None" using known by (simp add: tracks_def)
  moreover have "ensureDestMetadataPersisted E (syncerFor p (Some c)) (localSide s (Some c)) c = ok (False, c)"
    by (rule ensureDestMetadataPersisted_idle) (simp_all add: ensureDestMetadata_def primary_fields labels_refl)
  ultimately have "Process E ctx s p w = (Inr True, u)"
    using live plain(1-3) find u(1)
    by (simp add: Process_def Sync_def ensureFinalizer_def applyMutations_def syncObjectContents_def
          syncObjectStatusForward_def visible_def go_simps Let_def primary_fields)
  with u(2,3) tracks_placed [OF u(2,3) p(2)] show ?thesis by blast
qed

text \<open>The states in which a pass has nothing to do, for the object \<open>p\<close> up to status and what the server maintains.\<close>

definition inSync :: "unstructured \<Rightarrow> 's \<Rightarrow> bool" where
  "inSync p st \<longleftrightarrow> (\<exists>q c. primary st = Some q \<and> sameDesired (rs_subresources s) p q \<and> placed q c st \<and> tracks q c st \<and>
     sameStatus q c)"

lemma passes_inSync:
  assumes "placed p c (server w)" "tracks p c (server w)" "docs (snapshot p)"
    and plain: "prs_Related (pr_Spec (rs_pubRes s)) = []" "rs_primaryMutator s = None" "\<not> rs_useServerSideApply s"
      "recorderFromContext ctx"
    and secrets: "storesSecrets E (newObjectStateStore E ctx s p l) view"
  shows "\<exists>w'. processPasses E ctx s primary (\<lambda>st. st) (Suc n) w = Some w' \<and> inSync p (server w')"
proof (cases "sameStatus p c")
  case True
  have same: "sameDesired (rs_subresources s) p p" by (simp add: sameDesired_def)
  obtain u where "Process E ctx s p w = (Inr False, u)" "server u = server w"
    using pass_idle [OF assms(1) True plain(1-3) secrets roundTrip [OF assms(3)]] by blast
  then show ?thesis using assms(1,2) True same by (auto simp: inSync_def placed_def)
next
  case False
  obtain u q where u: "Process E ctx s p w = (Inr False, u)" "placed q c (server u)" "sameStatus q c"
      "sameDesired (rs_subresources s) p q"
    using pass_sync [OF assms(1) False plain secrets roundTrip [OF assms(3)]] by blast
  have "tracks q c (server u)"
    using assms(2) u(2) sameDesired_content [OF u(4)] by (intro placed_tracks) (auto simp: tracks_def)
  then show ?thesis using u assms(1) by (auto simp: inSync_def placed_def)
qed

text \<open>An edit and the two passes it takes.\<close>

lemma passes_edit:
  assumes sync: "inSync q (server w)" and p: "editOf q p" "docs (snapshot q)" "docs (snapshot p)"
    and plain: "prs_Related (pr_Spec (rs_pubRes s)) = []" "rs_primaryMutator s = None" "\<not> rs_useServerSideApply s"
      "recorderFromContext ctx"
    and secrets: "storesSecrets E (newObjectStateStore E ctx s q l) view"
  shows "\<exists>w'. processPasses E ctx s primary (\<lambda>st. st) 2 (w\<lparr>server := edit p (server w)\<rparr>) = Some w' \<and> inSync p (server w')"
proof -
  let ?w = "w\<lparr>server := edit p (server w)\<rparr>"
  obtain q' c where q': "sameDesired (rs_subresources s) q q'" "placed q' c (server w)" "tracks q' c (server w)"
    using sync by (auto simp: inSync_def)
  have snap: "snapshot q' = snapshot q" using q'(1) by (simp add: sameDesired_def)
  have e: "editOf q' p" using p(1) sameDesired_fields [OF q'(1)] by (simp add: editOf_def)
  note s' = editOf_fields(4) [OF p(1) secrets]
  have known: "tracks q' c (server ?w)" using q'(3) by (simp add: tracks_def remembers_def edited)
  show ?thesis
  proof (cases "snapshot p = snapshot q'")
    case True
    have "tracks p c (server ?w)"
      using known editOf_fields [OF e] True snapshot_content [of _ p] snapshot_content [of _ q']
      by (simp add: tracks_def remembers_def)
    then show ?thesis
      using passes_inSync [OF tracks_placed [OF _ _ e] _ p(3) plain s', of c ?w 1] edited(1) by (simp add: numeral_2_eq_2)
  next
    case False
    obtain u c' where u: "Process E ctx s p ?w = (Inr True, u)" "placed p c' (server u)" "tracks p c' (server u)"
      using pass_update [OF _ e known False _ p(3) plain s'] p(2) snap edited(1) by auto
    obtain w' where "processPasses E ctx s primary (\<lambda>st. st) (Suc 0) u = Some w'" "inSync p (server w')"
      using passes_inSync [OF u(2,3) p(3) plain s'] by blast
    with u(1) edited(1) show ?thesis by (simp add: numeral_2_eq_2)
  qed
qed

lemma passes_edits:
  assumes plain: "prs_Related (pr_Spec (rs_pubRes s)) = []" "rs_primaryMutator s = None" "\<not> rs_useServerSideApply s"
      "recorderFromContext ctx"
  shows "inSync p (server w) \<Longrightarrow> docs (snapshot p) \<Longrightarrow> storesSecrets E (newObjectStateStore E ctx s p l) view \<Longrightarrow>
    \<forall>e \<in> set es. editOf p e \<and> docs (snapshot e) \<Longrightarrow>
    \<exists>w'. editPasses E ctx s primary edit es w = Some w' \<and> inSync (last (p # es)) (server w')"
proof (induction es arbitrary: p w)
  case (Cons e es)
  then obtain w1 where w1: "processPasses E ctx s primary (\<lambda>st. st) 2 (w\<lparr>server := edit e (server w)\<rparr>) = Some w1"
      "inSync e (server w1)"
    using passes_edit [OF _ _ _ _ plain] by (metis list.set_intros(1))
  have e: "editOf p e" "docs (snapshot e)" using Cons.prems(4) by simp_all
  have "\<forall>x \<in> set es. editOf e x \<and> docs (snapshot x)" using Cons.prems(4) e by (auto simp: editOf_def)
  then obtain w' where "editPasses E ctx s primary edit es w1 = Some w'" "inSync (last (e # es)) (server w')"
    using Cons.IH [OF w1(2) e(2) editOf_fields(4) [OF e(1) Cons.prems(3)]] by blast
  with w1(1) show ?case by simp
qed simp

lemma settled_inSync:
  assumes "settled p w"
  shows "inSync p (server w)"
proof -
  obtain q c where q: "sameDesired (rs_subresources s) p q" "placed q c (server w)" "primary (server w) = Some q"
      "\<forall>k. k \<notin> set (rs_subresources s) \<longrightarrow> fmlookup (oContent c) k = fmlookup (oContent p) k" "sameStatus q c"
    using assms unfolding settled_def by blast
  have "tracks q c (server w)" using q(2,4) sameDesired_content [OF q(1)] by (intro placed_tracks) auto
  with q show ?thesis by (auto simp: inSync_def)
qed

end

section \<open>Edits reach the copy\<close>

lemma edits_in_sync:
  assumes "patching_server E ctx s primary copy view docs edit"
    and "primary (server w) = Some p" "oDeletionTimestamp p = None" "copy (server w) = None"
    and "prs_Related (pr_Spec (rs_pubRes s)) = []" "rs_primaryMutator s = None" "\<not> rs_useServerSideApply s"
      "recorderFromContext ctx"
    and "storesSecrets E (newObjectStateStore E ctx s p l) view"
    and "\<And>q. sameDesired (rs_subresources s) p q \<Longrightarrow>
      \<exists>d. newLocalObjectCreator E s (clusterFromContext ctx) (workspacePathFromContext ctx) q = Inr d"
    and "docs (removeFields (rs_subresources s) (stripMetadata p))"
    and "\<forall>e \<in> set es. editOf p e \<and> docs (removeFields (rs_subresources s) (stripMetadata e))"
  shows "\<exists>w1 w' q c. processPasses E ctx s primary (\<lambda>st. st) 3 w = Some w1 \<and>
    editPasses E ctx s primary edit es w1 = Some w' \<and>
    primary (server w') = Some q \<and> sameDesired (rs_subresources s) (last (p # es)) q \<and> copy (server w') = Some c \<and>
    objectKey_Labels E (newObjectKey p (clusterFromContext ctx) (workspacePathFromContext ctx)) \<subseteq>\<^sub>f orEmpty (oLabels c) \<and>
    (\<forall>k. k \<notin> set (rs_subresources s) \<longrightarrow> fmlookup (oContent c) k = fmlookup (oContent (last (p # es))) k) \<and>
    semanticEqualJSON E (contentGet q ''status'') (contentGet c ''status'')"
proof -
  have acc: "accepting_server E ctx s primary copy view" using assms(1) by (rule patching_server.axioms)
  have json: "jsonRoundTrip E (removeFields (rs_subresources s) (stripMetadata p))"
    using patching_server.roundTrip [OF assms(1,11)] .
  obtain w1 where w1: "processPasses E ctx s primary (\<lambda>st. st) 3 w = Some w1"
      "accepting_server.settled E ctx s primary copy view p w1"
    using accepting_server.passes_converge [OF acc assms(2-9) json assms(10)] by blast
  obtain w' where w': "editPasses E ctx s primary edit es w1 = Some w'"
      "patching_server.inSync E ctx s primary copy view (last (p # es)) (server w')"
    using patching_server.passes_edits [OF assms(1,5-8) patching_server.settled_inSync [OF assms(1) w1(2)] assms(11,9,12)]
    by blast
  obtain q c where qc: "primary (server w') = Some q" "sameDesired (rs_subresources s) (last (p # es)) q"
      "patching_server.tracks E ctx s copy view q c (server w')"
      "semanticEqualJSON E (contentGet q ''status'') (contentGet c ''status'')"
    using w'(2) unfolding patching_server.inSync_def [OF assms(1)] by blast
  have "newObjectKey (last (p # es)) (clusterFromContext ctx) (workspacePathFromContext ctx) =
      newObjectKey p (clusterFromContext ctx) (workspacePathFromContext ctx)"
    using assms(12) last_in_set [of es] by (auto simp: newObjectKey_def editOf_def)
  with qc sameDesired_fields(6) [OF qc(2)] sameDesired_content [OF qc(2)] w1(1) w'(1) show ?thesis
    unfolding patching_server.tracks_def [OF assms(1)] by (intro exI [of _ w1] exI [of _ w'] exI [of _ q] exI [of _ c]) auto
qed


text \<open>Users of the concrete servers edit the claim between two sizes.\<close>

definition sizes :: "unstructured \<Rightarrow> bool" where
  "sizes x \<longleftrightarrow> x = claimOf ''small'' \<or> x = claimOf ''large''"

definition editPrimary :: "unstructured \<Rightarrow> acceptor \<Rightarrow> acceptor" where
  "editPrimary p st = st\<lparr>ac_primary := Some p\<rparr>"

lemma claim_patched:
  "patched subs (claimOf v) (claimOf v') c (contentSet c ''spec'' (JStr v'))"
  by (simp add: patched_def claimOf_def contentSet_def emptyObject_def fmap_of_list.rep_eq)

interpretation pat: patching_server memoryAcceptor exampleContext plainSyncer ac_primary ac_copy "secretIn ''kcp-system''"
  sizes editPrimary
proof unfold_locales
  fix x y :: unstructured and a b :: string
  show "sizes x \<Longrightarrow> jsonRoundTrip memoryAcceptor x"
    by (auto simp: sizes_def TrimSpace_def isSpace_def intro!: claim_roundTrip)
  assume "sizes x" "sizes y" and m: "marshalJSON memoryAcceptor x = Inr a" "marshalJSON memoryAcceptor y = Inr b"
  then obtain v v' where v: "x = claimOf v" "y = claimOf v'" "v' \<noteq> ''{}''" unfolding sizes_def by force
  then have "a = v" "b = v'" using m by (simp_all add: memoryAcceptor_def contentGet_def claimOf_def)
  then show "\<exists>patch. createMergePatchLib memoryAcceptor a b = Inr patch \<and> (patch = ''{}'' \<longrightarrow> x = y) \<and>
      (patch \<noteq> ''{}'' \<longrightarrow> (\<forall>st c. ac_copy st = Some c \<longrightarrow>
         (\<exists>c' st'. api_Patch memoryAcceptor (baseTarget (rs_localClient plainSyncer)) c (RawPatch patch) st = (Inr c', st') \<and>
            ac_primary st' = ac_primary st \<and> ac_copy st' = Some c' \<and>
            secretIn ''kcp-system'' st' = secretIn ''kcp-system'' st \<and> patched (rs_subresources plainSyncer) x y c c')))"
    using v claim_patched by (simp add: memoryAcceptor_def Let_def secretIn_def)
qed (simp_all add: editPrimary_def secretIn_def)


end
