(* ===== verification/Label_Values.thy ===== *)
theory Label_Values
  imports Syncer
begin

text \<open>
  The values of the labels that the agent puts on objects. The API server refuses an object with a label
  value that is longer than 63 characters or has other than the allowed ones; names of objects and
  namespaces can be longer, which is why the links are hashes.
\<close>

section \<open>Label values\<close>

definition isAlnum :: "char \<Rightarrow> bool" where
  "isAlnum c \<longleftrightarrow>
     (let n = of_char c :: nat in (48 \<le> n \<and> n \<le> 57) \<or> (65 \<le> n \<and> n \<le> 90) \<or> (97 \<le> n \<and> n \<le> 122))"

definition validLabelValue :: "string \<Rightarrow> bool" where
  "validLabelValue v \<longleftrightarrow> length v \<le> 63 \<and>
     (v \<noteq> [] \<longrightarrow> isAlnum (hd v) \<and> isAlnum (last v) \<and>
        list_all (\<lambda>c. isAlnum c \<or> c \<in> {CHR ''-'', CHR ''_'', CHR ''.''}) v)"

definition validLabels :: "labels \<Rightarrow> bool" where
  "validLabels m \<longleftrightarrow> (\<forall>k v. fmlookup m k = Some v \<longrightarrow> validLabelValue v)"

definition wellLabelled :: "unstructured \<Rightarrow> bool" where
  "wellLabelled obj \<longleftrightarrow> validLabels (orEmpty (oLabels obj))"

lemma isAlnum_hexDigit: "d < 16 \<Longrightarrow> isAlnum (hexDigit d)"
  by (auto simp: hexDigit_def isAlnum_def Let_def)

lemma hexEncode_alnum: "list_all isAlnum (hexEncode s)"
proof (induction s)
  case (Cons c s)
  have "(of_char c :: nat) < 256" by (rule nat_of_char_less_256)
  then have "(of_char c :: nat) div 16 < 16" by (simp add: div_less_iff_less_mult)
  then have "list_all isAlnum (hexByte c)" by (simp add: hexByte_def Let_def isAlnum_hexDigit)
  with Cons show ?case by (simp add: hexEncode_def)
qed (simp add: hexEncode_def)

lemma validLabelValue_alnum: "list_all isAlnum v \<Longrightarrow> length v \<le> 63 \<Longrightarrow> validLabelValue v"
  by (auto simp: validLabelValue_def list_all_iff)

text \<open>What the agent relies on of SHA-1: a digest has 20 bytes. In hexadecimal it is a label value.\<close>

definition sha1Digests :: "'s env \<Rightarrow> bool" where
  "sha1Digests E \<longleftrightarrow> (\<forall>x. length (sha1 E x) = 20)"

lemma Hash_valid: "sha1Digests E \<Longrightarrow> length (Hash E d) = 40 \<and> validLabelValue (Hash E d)"
  by (auto simp: Hash_def sha1Digests_def hexEncode_alnum intro: validLabelValue_alnum)

lemma validLabels_simps [simp]:
  "validLabels fmempty" "validLabels (fmupd k v m) \<longleftrightarrow> validLabelValue v \<and> validLabels (fmdrop k m)"
  by (auto simp: validLabels_def)

lemma validLabels_drop: "validLabels m \<Longrightarrow> validLabels (fmdrop k m)"
  by (simp add: validLabels_def)

lemma validLabels_add: "validLabels m \<Longrightarrow> validLabels n \<Longrightarrow> validLabels (m ++\<^sub>f n)"
  by (simp add: validLabels_def)

lemma validLabels_filter: "validLabels m \<Longrightarrow> validLabels (fmfilter P m)"
  by (simp add: validLabels_def)

lemma objectKey_Labels_valid:
  "sha1Digests E \<Longrightarrow> validLabelValue (ok_ClusterName k) \<Longrightarrow> validLabels (objectKey_Labels E k)"
  by (auto simp: objectKey_Labels_def Let_def Hash_valid intro!: validLabels_drop)

lemma relatedCopyLabels_valid:
  "sha1Digests E \<Longrightarrow> validLabelValue identifier \<Longrightarrow> validLabelValue agent \<Longrightarrow>
     validLabels (relatedCopyLabels E primary c pr identifier agent)"
  by (auto simp: relatedCopyLabels_def relatedOwnerHash_def Let_def Hash_valid intro!: validLabels_drop)

section \<open>Objects that are placed\<close>

lemma wellLabelled_strip: "wellLabelled obj \<Longrightarrow> wellLabelled (stripMetadata obj)"
  by (auto simp: wellLabelled_def stripMetadata_def stripLabels_def stripAnnotations_def setNestedMapOmitempty_def
        filterUnsyncableLabels_def filterLabels_def validLabels_filter split: option.splits)

lemma wellLabelled_ensureLabels: "wellLabelled obj \<Longrightarrow> validLabels m \<Longrightarrow> wellLabelled (ensureLabels obj m)"
  by (simp add: wellLabelled_def ensureLabels_def validLabels_add)

lemma wellLabelled_ensureAnnotations [simp]: "wellLabelled (ensureAnnotations obj m) = wellLabelled obj"
  by (simp add: wellLabelled_def ensureAnnotations_def)

lemma wellLabelled_removeSubresources [simp]: "wellLabelled (removeSubresources s obj) = wellLabelled obj"
  by (simp add: wellLabelled_def removeSubresources_def removeFields_def)

lemma wellLabelled_stampDestination:
  assumes "sha1Digests E" "validLabelValue (ok_ClusterName key)" "validLabelValue (sy_agentName s)"
    "validLabels (sy_destLabels s)" "wellLabelled obj"
  shows "wellLabelled (stampDestination E s key obj)"
  using assms
  by (auto simp: stampDestination_def labelWithAgent_def ensureDestMetadata_def Let_def
        intro!: wellLabelled_ensureLabels objectKey_Labels_valid)

fun placesLabelled :: "call \<Rightarrow> bool" where
  "placesLabelled (CCreate c obj) = wellLabelled obj"
| "placesLabelled (CApply c obj owner) = wellLabelled obj"
| "placesLabelled c = True"

interpretation plab: call_policy placesLabelled
proof unfold_locales
  fix c
  assume "isRead c"
  then show "placesLabelled c" by (cases c) auto
qed simp

lemma emits_placesLabelled_others:
  "emits placesLabelled (recordEvent ctx s o1 o2 typ reason)"
  "emits placesLabelled (store_Get E b obj c)" "emits placesLabelled (store_Put E b obj c subs)"
  "emits placesLabelled (ensureNamespace E cl n)"
  "emits placesLabelled (handleDeletion E ctx s source src dest dst)"
  "emits placesLabelled (ensureFinalizer E cl src)"
  "emits placesLabelled (adoptExistingDestinationObject E s dest d key)"
  "emits placesLabelled (ensureDestMetadataPersisted E s dest d)"
  "emits placesLabelled (syncObjectStatus E ctx s source src d)"
  by (auto simp: recordEvent_def store_Get_def store_Put_def backend_Get_def backend_Put_def fetchSecret_def
        ensureNamespace_def handleDeletion_def ensureFinalizer_def removeFinalizer_def
        adoptExistingDestinationObject_def ensureDestMetadataPersisted_def syncObjectStatus_def
        client_defs Let_def intro!: emits_intros)

lemma emits_placesLabelled_contents: "emits placesLabelled (syncObjectContents E ctx s source src dest d)"
  by (auto simp: syncObjectContents_def syncObjectSpec_def syncObjectStatusForward_def rememberSync_def
        cPatch_def cUpdate_def cStatusUpdate_def Let_def intro!: emits_intros emits_placesLabelled_others)

lemma liftE_Inl: "checkE msg (liftE (Inl e)) k = fail (if isPanic e then e else Wrapped msg e)"
  by (rule ext) (simp add: go_simps)

lemma Sync_places_labelled:
  assumes "sha1Digests E" "validLabelValue (clusterName source)" "validLabelValue (sy_agentName s)"
    "validLabels (sy_destLabels s)" "sy_mutator s = None"
    and creator: "\<And>d. sy_destCreator s src = Inr d \<Longrightarrow> wellLabelled d"
  shows "list_all placesLabelled (sent (Sync E ctx s source src dest dst) w)"
proof (rule emits_sent)
  have mut: "applyMutations E s src dst = Inr (src, dst)" using assms(5) by (simp add: applyMutations_def)
  have stamp: "wellLabelled (stampDestination E s (newObjectKey src (clusterName source) (workspacePath source)) (stripMetadata d))"
    if "sy_destCreator s src = Inr d" for d
    using assms(1-4) creator [OF that]
    by (intro wellLabelled_stampDestination wellLabelled_strip) (simp_all add: newObjectKey_def)
  have "emits placesLabelled (ensureDestinationObject E ctx s source src dest)"
  proof (cases "sy_destCreator s src")
    case (Inr d)
    then show ?thesis
      by (auto simp: ensureDestinationObject_def cCreate_def Let_def stamp intro!: emits_intros emits_placesLabelled_others)
  qed (auto simp: ensureDestinationObject_def liftE_Inl intro!: emits_intros)
  moreover have "emits placesLabelled (applyServerSide E ctx s source src dest dst)"
  proof (cases "sy_destCreator s src")
    case (Inr d)
    then show ?thesis
      by (auto simp: applyServerSide_def cApply_def Let_def stamp
            intro!: emits_intros emits_placesLabelled_others split: option.split)
  qed (auto simp: applyServerSide_def liftE_Inl intro!: emits_intros)
  ultimately show "emits placesLabelled (Sync E ctx s source src dest dst)"
    unfolding Sync_def mut liftE_Inr prod.case
    by (auto intro!: emits_intros emits_placesLabelled_others emits_placesLabelled_contents)
qed

lemma newLocalObjectCreator_labels: "newLocalObjectCreator E s c p obj = Inr d \<Longrightarrow> oLabels d = oLabels obj"
  by (cases "crd_Scope (rs_localCRD s)") (auto simp: newLocalObjectCreator_def Let_def bindR_eq_Inr)



end
