(* ===== verification/Informers.thy ===== *)
theory Informers
  imports Multi_Cluster
begin

text \<open>
  The informer factories and listers of the SDK (\<open>../sdk/informers/externalversions\<close>, \<open>../sdk/listers\<close>),
  through which programs other than the agent watch PublishedResources: a factory across workspaces with
  a shutdown, and one for a single workspace. Every method of a factory runs under its lock, so it is a
  step of a transition system; the goroutines it starts end in steps of their own.

  Types are named by strings, \<open>'t\<close> are functions that tweak list options, \<open>'x\<close> transforms of objects and
  \<open>'c\<close> stop channels. Informers themselves are client-go's; what matters here is how they are configured.
\<close>

section \<open>Options\<close>

record ('t, 'x) informer =
  inf_Type :: string
  inf_Resync :: int
  inf_ClusterIndex :: bool
  inf_Tweak :: "'t option"
  inf_Transform :: "'x option"

record ('t, 'x) SharedInformerOptions =
  so_customResync :: "(string, int) fmap"
  so_tweakListOptions :: "'t option"
  so_transform :: "'x option"
  so_namespace :: string

type_synonym ('t, 'x) informerOption = "('t, 'x) SharedInformerOptions \<Rightarrow> ('t, 'x) SharedInformerOptions"

text \<open>The resync configuration is ranged over in the order given.\<close>

definition WithCustomResyncConfig :: "(string \<times> int) list \<Rightarrow> ('t, 'x) informerOption" where
  "WithCustomResyncConfig resyncConfig opts =
     opts\<lparr>so_customResync := foldl (\<lambda>m (k, v). fmupd k v m) (so_customResync opts) resyncConfig\<rparr>"

definition WithTweakListOptions :: "'t option \<Rightarrow> ('t, 'x) informerOption" where
  "WithTweakListOptions tweak opts = opts\<lparr>so_tweakListOptions := tweak\<rparr>"

definition WithTransform :: "'x option \<Rightarrow> ('t, 'x) informerOption" where
  "WithTransform transform opts = opts\<lparr>so_transform := transform\<rparr>"

definition WithNamespace :: "string \<Rightarrow> ('t, 'x) informerOption" where
  "WithNamespace namespace opts = opts\<lparr>so_namespace := namespace\<rparr>"

definition noOptions :: "('t, 'x) SharedInformerOptions" where
  "noOptions = \<lparr> so_customResync = fmempty, so_tweakListOptions = None, so_transform = None, so_namespace = [] \<rparr>"

definition applyOptions :: "('t, 'x) informerOption list \<Rightarrow> ('t, 'x) SharedInformerOptions" where
  "applyOptions options = foldl (\<lambda>opts opt. opt opts) noOptions options"

section \<open>The factory across workspaces\<close>

text \<open>
  \<open>fa_runs\<close> is the history of started goroutines, with their informers and stop channels, and \<open>fa_live\<close>
  those that have not ended; \<open>fa_wg\<close> is the counter of the wait group.
\<close>

record ('t, 'x, 'c) sharedInformerFactory =
  fa_tweakListOptions :: "'t option"
  fa_defaultResync :: int
  fa_customResync :: "(string, int) fmap"
  fa_transform :: "'x option"
  fa_informers :: "(string, ('t, 'x) informer) fmap"
  fa_startedInformers :: "string fset"
  fa_wg :: nat
  fa_shuttingDown :: bool
  fa_runs :: "(string \<times> ('t, 'x) informer \<times> 'c) list"
  fa_live :: "string multiset"

definition NewSharedInformerFactoryWithOptions ::
    "int \<Rightarrow> ('t, 'x) informerOption list \<Rightarrow> ('t, 'x, 'c) sharedInformerFactory" where
  "NewSharedInformerFactoryWithOptions defaultResync options =
     (let opts = applyOptions options in
      \<lparr> fa_tweakListOptions = so_tweakListOptions opts, fa_defaultResync = defaultResync,
        fa_customResync = so_customResync opts, fa_transform = so_transform opts, fa_informers = fmempty,
        fa_startedInformers = {||}, fa_wg = 0, fa_shuttingDown = False, fa_runs = [], fa_live = {#} \<rparr>)"

definition NewSharedInformerFactory :: "int \<Rightarrow> ('t, 'x, 'c) sharedInformerFactory" where
  "NewSharedInformerFactory defaultResync = NewSharedInformerFactoryWithOptions defaultResync []"

definition startInformer :: "'c \<Rightarrow> string \<Rightarrow> ('t, 'x, 'c) sharedInformerFactory \<Rightarrow> ('t, 'x, 'c) sharedInformerFactory" where
  "startInformer stopCh informerType f =
     (case fmlookup (fa_informers f) informerType of
        None \<Rightarrow> f
      | Some informer \<Rightarrow>
          if informerType |\<in>| fa_startedInformers f then f
          else f\<lparr>fa_wg := fa_wg f + 1, fa_live := add_mset informerType (fa_live f),
                 fa_runs := fa_runs f @ [(informerType, informer, stopCh)],
                 fa_startedInformers := finsert informerType (fa_startedInformers f)\<rparr>)"

definition factory_Start ::
    "string list \<Rightarrow> 'c \<Rightarrow> ('t, 'x, 'c) sharedInformerFactory \<Rightarrow> ('t, 'x, 'c) sharedInformerFactory" where
  "factory_Start order stopCh f =
     (if fa_shuttingDown f then f else fold (startInformer stopCh) order f)"

text \<open>\<open>Shutdown\<close> sets the flag under the lock and then waits until the counter is zero.\<close>

definition beginShutdown :: "('t, 'x, 'c) sharedInformerFactory \<Rightarrow> ('t, 'x, 'c) sharedInformerFactory" where
  "beginShutdown f = f\<lparr>fa_shuttingDown := True\<rparr>"

definition shutdownReturns :: "('t, 'x, 'c) sharedInformerFactory \<Rightarrow> bool" where
  "shutdownReturns f \<longleftrightarrow> fa_wg f = 0"

definition goroutineDone :: "string \<Rightarrow> ('t, 'x, 'c) sharedInformerFactory \<Rightarrow> ('t, 'x, 'c) sharedInformerFactory" where
  "goroutineDone informerType f = f\<lparr>fa_wg := fa_wg f - 1, fa_live := fa_live f - {#informerType#}\<rparr>"

text \<open>\<open>synced\<close> is the outcome of waiting for the cache of an informer.\<close>

definition WaitForCacheSync ::
    "(('t, 'x) informer \<Rightarrow> bool) \<Rightarrow> ('t, 'x, 'c) sharedInformerFactory \<Rightarrow> (string, bool) fmap" where
  "WaitForCacheSync synced f =
     fmmap synced (fmfilter (\<lambda>t. t |\<in>| fa_startedInformers f) (fa_informers f))"

definition InformerFor ::
    "string \<Rightarrow> (int \<Rightarrow> ('t, 'x) informer) \<Rightarrow> ('t, 'x, 'c) sharedInformerFactory \<Rightarrow>
     ('t, 'x) informer \<times> ('t, 'x, 'c) sharedInformerFactory" where
  "InformerFor informerType newFunc f =
     (case fmlookup (fa_informers f) informerType of
        Some informer \<Rightarrow> (informer, f)
      | None \<Rightarrow>
          let resyncPeriod = (case fmlookup (fa_customResync f) informerType of
                                Some p \<Rightarrow> p | None \<Rightarrow> fa_defaultResync f);
              informer = newFunc resyncPeriod
          in (informer, f\<lparr>fa_informers := fmupd informerType informer (fa_informers f)\<rparr>))"

section \<open>The factory for one workspace\<close>

record ('t, 'x, 'c) sharedScopedInformerFactory =
  sf_namespace :: string
  sf_tweakListOptions :: "'t option"
  sf_defaultResync :: int
  sf_customResync :: "(string, int) fmap"
  sf_transform :: "'x option"
  sf_informers :: "(string, ('t, 'x) informer) fmap"
  sf_startedInformers :: "string fset"
  sf_runs :: "(string \<times> ('t, 'x) informer \<times> 'c) list"

definition NewSharedScopedInformerFactoryWithOptions ::
    "int \<Rightarrow> ('t, 'x) informerOption list \<Rightarrow> ('t, 'x, 'c) sharedScopedInformerFactory" where
  "NewSharedScopedInformerFactoryWithOptions defaultResync options =
     (let opts = applyOptions options in
      \<lparr> sf_namespace = so_namespace opts, sf_tweakListOptions = so_tweakListOptions opts,
        sf_defaultResync = defaultResync, sf_customResync = so_customResync opts, sf_transform = None,
        sf_informers = fmempty, sf_startedInformers = {||}, sf_runs = [] \<rparr>)"

definition NewSharedScopedInformerFactory ::
    "int \<Rightarrow> string \<Rightarrow> ('t, 'x, 'c) sharedScopedInformerFactory" where
  "NewSharedScopedInformerFactory defaultResync namespace =
     NewSharedScopedInformerFactoryWithOptions defaultResync [WithNamespace namespace]"

definition scoped_startInformer ::
    "'c \<Rightarrow> string \<Rightarrow> ('t, 'x, 'c) sharedScopedInformerFactory \<Rightarrow> ('t, 'x, 'c) sharedScopedInformerFactory" where
  "scoped_startInformer stopCh informerType f =
     (case fmlookup (sf_informers f) informerType of
        None \<Rightarrow> f
      | Some informer \<Rightarrow>
          if informerType |\<in>| sf_startedInformers f then f
          else f\<lparr>sf_runs := sf_runs f @ [(informerType, informer, stopCh)],
                 sf_startedInformers := finsert informerType (sf_startedInformers f)\<rparr>)"

definition scoped_Start ::
    "string list \<Rightarrow> 'c \<Rightarrow> ('t, 'x, 'c) sharedScopedInformerFactory \<Rightarrow> ('t, 'x, 'c) sharedScopedInformerFactory" where
  "scoped_Start order stopCh f = fold (scoped_startInformer stopCh) order f"

definition scoped_WaitForCacheSync ::
    "(('t, 'x) informer \<Rightarrow> bool) \<Rightarrow> ('t, 'x, 'c) sharedScopedInformerFactory \<Rightarrow> (string, bool) fmap" where
  "scoped_WaitForCacheSync synced f =
     fmmap synced (fmfilter (\<lambda>t. t |\<in>| sf_startedInformers f) (sf_informers f))"

definition scoped_InformerFor ::
    "string \<Rightarrow> (int \<Rightarrow> ('t, 'x) informer) \<Rightarrow> ('t, 'x, 'c) sharedScopedInformerFactory \<Rightarrow>
     ('t, 'x) informer \<times> ('t, 'x, 'c) sharedScopedInformerFactory" where
  "scoped_InformerFor informerType newFunc f =
     (case fmlookup (sf_informers f) informerType of
        Some informer \<Rightarrow> (informer, f)
      | None \<Rightarrow>
          let resyncPeriod = (case fmlookup (sf_customResync f) informerType of
                                Some p \<Rightarrow> p | None \<Rightarrow> sf_defaultResync f);
              informer = (newFunc resyncPeriod)\<lparr>inf_Transform := sf_transform f\<rparr>
          in (informer, f\<lparr>sf_informers := fmupd informerType informer (sf_informers f)\<rparr>))"

section \<open>Informers and listers for PublishedResources\<close>

definition NewFilteredPublishedResourceClusterInformer :: "int \<Rightarrow> bool \<Rightarrow> 't option \<Rightarrow> ('t, 'x) informer" where
  "NewFilteredPublishedResourceClusterInformer resyncPeriod clusterIndex tweak =
     \<lparr> inf_Type = ''PublishedResource'', inf_Resync = resyncPeriod, inf_ClusterIndex = clusterIndex,
       inf_Tweak = tweak, inf_Transform = None \<rparr>"

definition NewFilteredPublishedResourceInformer :: "int \<Rightarrow> bool \<Rightarrow> 't option \<Rightarrow> ('t, 'x) informer" where
  "NewFilteredPublishedResourceInformer resyncPeriod clusterIndex tweak =
     \<lparr> inf_Type = ''PublishedResource'', inf_Resync = resyncPeriod, inf_ClusterIndex = clusterIndex,
       inf_Tweak = tweak, inf_Transform = None \<rparr>"

definition publishedResourceClusterInformer_Informer ::
    "('t, 'x, 'c) sharedInformerFactory \<Rightarrow> ('t, 'x) informer \<times> ('t, 'x, 'c) sharedInformerFactory" where
  "publishedResourceClusterInformer_Informer f =
     InformerFor ''PublishedResource''
       (\<lambda>resync. NewFilteredPublishedResourceClusterInformer resync True (fa_tweakListOptions f)) f"

definition publishedResourceScopedInformer_Informer ::
    "('t, 'x, 'c) sharedScopedInformerFactory \<Rightarrow> ('t, 'x) informer \<times> ('t, 'x, 'c) sharedScopedInformerFactory" where
  "publishedResourceScopedInformer_Informer f =
     scoped_InformerFor ''PublishedResource''
       (\<lambda>resync. NewFilteredPublishedResourceInformer resync False (sf_tweakListOptions f)) f"

definition publishedResourcesGVR :: groupVersionResource where
  "publishedResourcesGVR = \<lparr> gvr_Group = ''syncagent.kcp.io'', gvr_Version = ''v1alpha1'',
     gvr_Resource = ''publishedresources'' \<rparr>"

definition ForResource ::
    "groupVersionResource \<Rightarrow> ('t, 'x, 'c) sharedInformerFactory \<Rightarrow>
     (groupResource \<times> ('t, 'x) informer) result \<times> ('t, 'x, 'c) sharedInformerFactory" where
  "ForResource resource f =
     (if resource = publishedResourcesGVR then
        (case publishedResourceClusterInformer_Informer f of (i, f') \<Rightarrow> (Inr (GroupResource resource, i), f'))
      else (Inl (Msg ''no informer found''), f))"

definition scoped_ForResource ::
    "groupVersionResource \<Rightarrow> ('t, 'x, 'c) sharedScopedInformerFactory \<Rightarrow>
     (groupResource \<times> ('t, 'x) informer) result \<times> ('t, 'x, 'c) sharedScopedInformerFactory" where
  "scoped_ForResource resource f =
     (if resource = publishedResourcesGVR then
        (case publishedResourceScopedInformer_Informer f of (i, f') \<Rightarrow> (Inr (GroupResource resource, i), f'))
      else (Inl (Msg ''no informer found''), f))"

text \<open>
  Listers over an indexer. The key of an object in a workspace (\<open>ToClusterAwareKey\<close>), the listing by
  selector and by workspace are those of the cache packages.
\<close>

record 'i indexerLib =
  ix_ToClusterAwareKey :: "string \<Rightarrow> string \<Rightarrow> string \<Rightarrow> string"
  ix_GetByKey :: "'i \<Rightarrow> string \<Rightarrow> (unit + PublishedResource option)"
  ix_ListAll :: "'i \<Rightarrow> selector \<Rightarrow> unit + PublishedResource list"
  ix_ListAllByCluster :: "'i \<Rightarrow> string \<Rightarrow> selector \<Rightarrow> unit + PublishedResource list"

definition getByKey :: "'i indexerLib \<Rightarrow> 'i \<Rightarrow> string \<Rightarrow> PublishedResource result" where
  "getByKey I indexer key =
     bindR (lib ''index'' (ix_GetByKey I indexer key)) (\<lambda>obj.
     case obj of None \<Rightarrow> Inl (ApiErr NotFound) | Some pr \<Rightarrow> Inr pr)"

definition clusterLister_List :: "'i indexerLib \<Rightarrow> 'i \<Rightarrow> selector \<Rightarrow> PublishedResource list result" where
  "clusterLister_List I indexer sel = lib ''list'' (ix_ListAll I indexer sel)"

definition lister_List :: "'i indexerLib \<Rightarrow> 'i \<Rightarrow> string \<Rightarrow> selector \<Rightarrow> PublishedResource list result" where
  "lister_List I indexer clusterName sel = lib ''list'' (ix_ListAllByCluster I indexer clusterName sel)"

definition lister_Get :: "'i indexerLib \<Rightarrow> 'i \<Rightarrow> string \<Rightarrow> string \<Rightarrow> PublishedResource result" where
  "lister_Get I indexer clusterName name =
     getByKey I indexer (ix_ToClusterAwareKey I clusterName [] name)"

definition scopedLister_Get :: "'i indexerLib \<Rightarrow> 'i \<Rightarrow> string \<Rightarrow> PublishedResource result" where
  "scopedLister_Get I indexer name = getByKey I indexer name"

section \<open>Steps\<close>

inductive factory_step :: "('t, 'x, 'c) sharedInformerFactory \<Rightarrow> ('t, 'x, 'c) sharedInformerFactory \<Rightarrow> bool" where
  requested: "factory_step f (snd (InformerFor informerType newFunc f))"
| started: "enumerates order (fa_informers f) \<Longrightarrow> factory_step f (factory_Start order stopCh f)"
| shut: "factory_step f (beginShutdown f)"
| ended: "informerType \<in># fa_live f \<Longrightarrow> factory_step f (goroutineDone informerType f)"

inductive_cases factory_stepE: "factory_step f f'"

text \<open>
  The wait group counts the live goroutines; each type was started at most once, exactly if it is marked
  as started, and with the informer that is handed out for it.
\<close>

definition factoryInv :: "('t, 'x, 'c) sharedInformerFactory \<Rightarrow> bool" where
  "factoryInv f \<longleftrightarrow> fa_wg f = size (fa_live f) \<and> distinct (map fst (fa_runs f)) \<and>
     set (map fst (fa_runs f)) = fset (fa_startedInformers f) \<and> fa_live f \<subseteq># mset (map fst (fa_runs f)) \<and>
     (\<forall>(t, i, c) \<in> set (fa_runs f). fmlookup (fa_informers f) t = Some i)"

lemma InformerFor_fields:
  "fmlookup (fa_informers f) t = Some i \<Longrightarrow> fmlookup (fa_informers (snd (InformerFor informerType newFunc f))) t = Some i"
  "fa_runs (snd (InformerFor informerType newFunc f)) = fa_runs f"
  "fa_live (snd (InformerFor informerType newFunc f)) = fa_live f"
  "fa_wg (snd (InformerFor informerType newFunc f)) = fa_wg f"
  "fa_startedInformers (snd (InformerFor informerType newFunc f)) = fa_startedInformers f"
  "fa_shuttingDown (snd (InformerFor informerType newFunc f)) = fa_shuttingDown f"
  by (auto simp: InformerFor_def Let_def split: option.splits)

lemma factoryInv_InformerFor: "factoryInv f \<Longrightarrow> factoryInv (snd (InformerFor informerType newFunc f))"
  by (fastforce simp: factoryInv_def InformerFor_fields)

lemma factoryInv_startInformer: "factoryInv f \<Longrightarrow> factoryInv (startInformer stopCh informerType f)"
  by (auto simp: factoryInv_def startInformer_def split: option.splits)

lemma startInformer_keeps:
  "fa_informers (startInformer stopCh t f) = fa_informers f"
  "fa_shuttingDown (startInformer stopCh t f) = fa_shuttingDown f"
  by (auto simp: startInformer_def split: option.splits)

lemma factoryInv_Start: "factoryInv f \<Longrightarrow> factoryInv (factory_Start order stopCh f)"
proof -
  have "factoryInv f \<Longrightarrow> factoryInv (fold (startInformer stopCh) order f)"
    by (induction order arbitrary: f) (auto simp: factoryInv_startInformer)
  then show "factoryInv f \<Longrightarrow> factoryInv (factory_Start order stopCh f)" by (simp add: factory_Start_def)
qed

lemma factoryInv_done:
  "factoryInv f \<Longrightarrow> informerType \<in># fa_live f \<Longrightarrow> factoryInv (goroutineDone informerType f)"
  by (auto simp: factoryInv_def goroutineDone_def size_Diff_singleton
        intro: subset_mset.order_trans [OF diff_subset_eq_self])

interpretation informer_factory: state_invariant
    "NewSharedInformerFactoryWithOptions defaultResync options :: ('t, 'x, 'c) sharedInformerFactory" factory_step factoryInv
    for defaultResync options
proof unfold_locales
  show "factoryInv (NewSharedInformerFactoryWithOptions defaultResync options :: ('t, 'x, 'c) sharedInformerFactory)"
    by (simp add: factoryInv_def NewSharedInformerFactoryWithOptions_def Let_def)
next
  fix f f' :: "('t, 'x, 'c) sharedInformerFactory"
  assume "factoryInv f" "factory_step f f'"
  then show "factoryInv f'"
    by (elim factory_stepE)
       (auto simp: factoryInv_InformerFor factoryInv_Start factoryInv_done factoryInv_def [of "beginShutdown f"]
          beginShutdown_def, auto simp: factoryInv_def)
qed

text \<open>Once it is shutting down, a factory starts nothing more.\<close>

lemma shutdown_step:
  "factory_step f f' \<Longrightarrow> fa_shuttingDown f \<Longrightarrow>
     fa_shuttingDown f' \<and> fa_runs f' = fa_runs f \<and> fa_live f' \<subseteq># fa_live f"
  by (elim factory_stepE) (auto simp: InformerFor_fields factory_Start_def beginShutdown_def goroutineDone_def)

lemma shutdown_steps:
  "factory_step\<^sup>*\<^sup>* f f' \<Longrightarrow> fa_shuttingDown f \<Longrightarrow>
     fa_shuttingDown f' \<and> fa_runs f' = fa_runs f \<and> fa_live f' \<subseteq># fa_live f"
proof (induction rule: rtranclp_induct)
  case (step g h)
  with shutdown_step [of g h] show ?case by (auto intro: subset_mset.order_trans)
qed simp

text \<open>
  C34. Informers are shared and started once. In every reachable state of a factory, no type was started
  twice, what runs for a type is the informer that the factory hands out for it, and the wait group
  counts the running goroutines. Therefore a shutdown that returns is final: nothing is running then,
  and whatever is called afterwards, nothing will ever run again.
\<close>

theorem informers_start_once:
  assumes "factory_step\<^sup>*\<^sup>* (NewSharedInformerFactoryWithOptions defaultResync options) f"
  shows "distinct (map fst (fa_runs f)) \<and> fa_wg f = size (fa_live f) \<and>
    (\<forall>(t, i, c) \<in> set (fa_runs f). \<forall>newFunc. fst (InformerFor t newFunc f) = i) \<and>
    (fa_shuttingDown f \<and> shutdownReturns f \<longrightarrow>
       (\<forall>f'. factory_step\<^sup>*\<^sup>* f f' \<longrightarrow> fa_live f' = {#} \<and> fa_runs f' = fa_runs f))"
proof -
  have inv: "factoryInv f" using informer_factory.inv_reachable [OF assms] .
  have "fst (InformerFor t newFunc f) = i" if "(t, i, c) \<in> set (fa_runs f)" for t i c newFunc
  proof -
    have "fmlookup (fa_informers f) t = Some i" using inv that by (auto simp: factoryInv_def)
    then show ?thesis by (simp add: InformerFor_def)
  qed
  moreover have "fa_live f' = {#} \<and> fa_runs f' = fa_runs f"
    if "fa_shuttingDown f" "shutdownReturns f" "factory_step\<^sup>*\<^sup>* f f'" for f'
    using shutdown_steps [OF that(3,1)] that(2) inv by (auto simp: factoryInv_def shutdownReturns_def)
  moreover have "distinct (map fst (fa_runs f))" "fa_wg f = size (fa_live f)" using inv by (simp_all add: factoryInv_def)
  ultimately show ?thesis by blast
qed

text \<open>
  Starting is complete: every informer that was requested before is running or has run, and waiting for
  the caches covers exactly these.
\<close>

lemma fold_startInformer:
  "fa_startedInformers (fold (startInformer stopCh) order f) =
     fa_startedInformers f |\<union>| (fset_of_list order |\<inter>| fmdom (fa_informers f))"
proof (induction order arbitrary: f)
  case (Cons t order)
  have "fa_startedInformers (startInformer stopCh t f) = fa_startedInformers f |\<union>| ({|t|} |\<inter>| fmdom (fa_informers f))"
    by (auto simp: startInformer_def split: option.splits dest: fmdomI)
  moreover note Cons.IH [of "startInformer stopCh t f", unfolded startInformer_keeps]
  ultimately have "fa_startedInformers (fold (startInformer stopCh) (t # order) f) =
      fa_startedInformers f |\<union>| ({|t|} |\<inter>| fmdom (fa_informers f)) |\<union>| (fset_of_list order |\<inter>| fmdom (fa_informers f))"
    by simp
  then show ?case by (simp only: fset_of_list_simps) blast
qed simp

lemma Start_starts_all:
  assumes "enumerates order (fa_informers f)" "\<not> fa_shuttingDown f"
  shows "fmdom (WaitForCacheSync synced (factory_Start order stopCh f)) = fmdom (fa_informers f)"
proof -
  have "fset_of_list order = fmdom (fa_informers f)"
    using assms(1) by (simp add: enumerates_def fset_of_list.rep_eq flip: fset_inject)
  moreover have "fa_informers (fold (startInformer stopCh) order f) = fa_informers f"
    by (induction order arbitrary: f) (simp_all add: startInformer_keeps)
  ultimately have st: "fa_startedInformers (factory_Start order stopCh f) =
      fa_startedInformers f |\<union>| fmdom (fa_informers f)" and inf: "fa_informers (factory_Start order stopCh f) = fa_informers f"
    using assms(2) by (simp_all add: factory_Start_def fold_startInformer)
  have "fmfilter (\<lambda>t. t |\<in>| fa_startedInformers f |\<union>| fmdom (fa_informers f)) (fa_informers f) = fa_informers f"
    by (rule fmap_ext) (simp add: fmdom_notD)
  then show ?thesis unfolding WaitForCacheSync_def st inf by simp
qed

section \<open>Both factories agree, and both ignore transforms\<close>

text \<open>Forgetting the wait group and the shutdown gives the factory of one workspace.\<close>

definition scopedView :: "string \<Rightarrow> ('t, 'x, 'c) sharedInformerFactory \<Rightarrow> ('t, 'x, 'c) sharedScopedInformerFactory" where
  "scopedView namespace f =
     \<lparr> sf_namespace = namespace, sf_tweakListOptions = fa_tweakListOptions f, sf_defaultResync = fa_defaultResync f,
       sf_customResync = fa_customResync f, sf_transform = None, sf_informers = fa_informers f,
       sf_startedInformers = fa_startedInformers f, sf_runs = fa_runs f \<rparr>"

lemma scopedView_fields [simp]:
  "sf_informers (scopedView ns f) = fa_informers f" "sf_startedInformers (scopedView ns f) = fa_startedInformers f"
  "sf_customResync (scopedView ns f) = fa_customResync f" "sf_defaultResync (scopedView ns f) = fa_defaultResync f"
  "sf_transform (scopedView ns f) = None"
  by (simp_all add: scopedView_def)

lemma without_transform: "inf_Transform i = None \<Longrightarrow> i\<lparr>inf_Transform := None\<rparr> = i"
  by (cases i) simp

lemma scopedView_startInformer:
  "scopedView ns (startInformer stopCh t f) = scoped_startInformer stopCh t (scopedView ns f)"
  by (auto simp: scopedView_def startInformer_def scoped_startInformer_def split: option.splits)

lemma scopedView_Start:
  "\<not> fa_shuttingDown f \<Longrightarrow> scopedView ns (factory_Start order stopCh f) = scoped_Start order stopCh (scopedView ns f)"
proof -
  have "scopedView ns (fold (startInformer stopCh) order f) = fold (scoped_startInformer stopCh) order (scopedView ns f)"
    by (induction order arbitrary: f) (simp_all add: scopedView_startInformer)
  then show "\<not> fa_shuttingDown f \<Longrightarrow> ?thesis" by (simp add: factory_Start_def scoped_Start_def)
qed

lemma scopedView_InformerFor:
  "inf_Transform (newFunc (case fmlookup (fa_customResync f) t of Some p \<Rightarrow> p | None \<Rightarrow> fa_defaultResync f)) = None \<Longrightarrow>
   scoped_InformerFor t newFunc (scopedView ns f) =
     (case InformerFor t newFunc f of (i, f') \<Rightarrow> (i, scopedView ns f'))"
  by (cases "fmlookup (fa_informers f) t"; cases "fmlookup (fa_customResync f) t")
     (simp_all add: scoped_InformerFor_def InformerFor_def Let_def without_transform, simp_all add: scopedView_def)

lemma scopedView_Wait: "scoped_WaitForCacheSync synced (scopedView ns f) = WaitForCacheSync synced f"
  unfolding scoped_WaitForCacheSync_def WaitForCacheSync_def scopedView_fields by (rule refl)

text \<open>
  The factory for one workspace refines to the same view. As long as the factory across workspaces is
  not shut down, the one for a workspace, created with the same options, behaves as its view without
  the wait group: creation, the request for an informer, starting and waiting for the caches all
  commute with the view.
\<close>

theorem scoped_factory_refines:
  "scopedView (so_namespace (applyOptions options)) (NewSharedInformerFactoryWithOptions resync options) =
     NewSharedScopedInformerFactoryWithOptions resync options \<and>
   (\<not> fa_shuttingDown f \<longrightarrow>
      scopedView ns (factory_Start order stopCh f) = scoped_Start order stopCh (scopedView ns f)) \<and>
   ((\<forall>r. inf_Transform (newFunc r) = None) \<longrightarrow>
      scoped_InformerFor t newFunc (scopedView ns f) =
        (case InformerFor t newFunc f of (i, f') \<Rightarrow> (i, scopedView ns f'))) \<and>
   scoped_WaitForCacheSync synced (scopedView ns f) = WaitForCacheSync synced f"
  by (simp add: scopedView_Start scopedView_InformerFor scopedView_Wait)
     (simp add: scopedView_def NewSharedInformerFactoryWithOptions_def NewSharedScopedInformerFactoryWithOptions_def Let_def)

text \<open>
  A transform has no effect. Whatever transform is configured, the informer for PublishedResources
  that a new factory of either kind hands out has none: one factory does not set it on the informer,
  the other does not take it from the options.
\<close>

theorem transform_ignored:
  "inf_Transform (fst (publishedResourceClusterInformer_Informer
      (NewSharedInformerFactoryWithOptions resync (options @ [WithTransform (Some x)])))) = None \<and>
   inf_Transform (fst (publishedResourceScopedInformer_Informer
      (NewSharedScopedInformerFactoryWithOptions resync (options @ [WithTransform (Some x)])))) = None"
  by (simp add: publishedResourceClusterInformer_Informer_def publishedResourceScopedInformer_Informer_def
        InformerFor_def scoped_InformerFor_def NewSharedInformerFactoryWithOptions_def
        NewSharedScopedInformerFactoryWithOptions_def NewFilteredPublishedResourceClusterInformer_def NewFilteredPublishedResourceInformer_def Let_def)

section \<open>A factory at work\<close>

definition exampleFactory :: "(unit, unit, unit) sharedInformerFactory" where
  "exampleFactory = NewSharedInformerFactoryWithOptions 30 [WithTransform (Some ())]"

definition runningFactory :: "(unit, unit, unit) sharedInformerFactory" where
  "runningFactory = factory_Start [''PublishedResource''] () (snd (publishedResourceClusterInformer_Informer exampleFactory))"

lemma exampleFactory_informers:
  "fmlookup (fa_informers (snd (publishedResourceClusterInformer_Informer exampleFactory))) t =
     (if t = ''PublishedResource'' then Some (fst (publishedResourceClusterInformer_Informer exampleFactory)) else None)"
  by (simp add: publishedResourceClusterInformer_Informer_def exampleFactory_def NewSharedInformerFactoryWithOptions_def
        InformerFor_def Let_def)

lemma runningFactory_fields:
  "fa_live runningFactory = {#''PublishedResource''#}" "fa_wg runningFactory = 1"
  "fa_runs runningFactory =
     [(''PublishedResource'', fst (publishedResourceClusterInformer_Informer exampleFactory), ())]"
  by (simp_all add: runningFactory_def factory_Start_def startInformer_def exampleFactory_informers)
     (simp_all add: publishedResourceClusterInformer_Informer_def InformerFor_def exampleFactory_def
        NewSharedInformerFactoryWithOptions_def Let_def)

lemma runningFactory_reachable:
  "factory_step\<^sup>*\<^sup>* (NewSharedInformerFactoryWithOptions 30 [WithTransform (Some ())]) runningFactory"
proof -
  let ?f = "snd (publishedResourceClusterInformer_Informer exampleFactory)"
  have "factory_step exampleFactory ?f" unfolding publishedResourceClusterInformer_Informer_def by (rule requested)
  moreover have "enumerates [''PublishedResource''] (fa_informers ?f)"
    by (auto simp: enumerates_def fmlookup_dom_iff exampleFactory_informers split: if_splits)
  then have "factory_step ?f runningFactory" unfolding runningFactory_def by (rule started)
  ultimately show ?thesis unfolding exampleFactory_def [symmetric]
    by (rule converse_rtranclp_into_rtranclp [OF _ r_into_rtranclp])
qed

theorem informers_start_once_witness:
  "let f = goroutineDone ''PublishedResource'' (beginShutdown runningFactory) in
   fa_shuttingDown f \<and> shutdownReturns f \<and> fa_runs f \<noteq> [] \<and>
   (\<forall>f'. factory_step\<^sup>*\<^sup>* f f' \<longrightarrow> fa_live f' = {#} \<and> fa_runs f' = fa_runs f)"
proof -
  let ?f = "goroutineDone ''PublishedResource'' (beginShutdown runningFactory)"
  have "factory_step (beginShutdown runningFactory) ?f"
    by (rule ended) (simp add: beginShutdown_def runningFactory_fields)
  then have reach: "factory_step\<^sup>*\<^sup>* (NewSharedInformerFactoryWithOptions 30 [WithTransform (Some ())]) ?f"
    by (rule rtranclp.rtrancl_into_rtrancl [OF rtranclp.rtrancl_into_rtrancl [OF runningFactory_reachable shut]])
  have fields: "fa_shuttingDown ?f" "shutdownReturns ?f" "fa_runs ?f \<noteq> []"
    by (simp_all add: goroutineDone_def beginShutdown_def shutdownReturns_def runningFactory_fields)
  with informers_start_once [OF reach] show ?thesis unfolding Let_def by blast
qed

theorem scoped_factory_refines_witness:
  "let f = snd (publishedResourceClusterInformer_Informer exampleFactory) in
   scopedView [] runningFactory = scoped_Start [''PublishedResource''] () (scopedView [] f)"
proof -
  have "\<not> fa_shuttingDown (snd (publishedResourceClusterInformer_Informer exampleFactory))"
    by (simp add: publishedResourceClusterInformer_Informer_def InformerFor_fields exampleFactory_def
          NewSharedInformerFactoryWithOptions_def Let_def)
  then show ?thesis unfolding Let_def runningFactory_def
    by (rule scoped_factory_refines [THEN conjunct2, THEN conjunct1, THEN mp])
qed

end
