(* ===== verification/Deep_Copy.thy ===== *)
theory Deep_Copy
  imports Prelude
begin

text \<open>
  The generated deep copies (\<open>src/sdk/apis/syncagent/v1alpha1/zz_generated.deepcopy.go\<close>). Everywhere else in this
  library a PublishedResource is a value. That this is right for objects that come from a shared cache
  depends on aliasing, so here pointers, slices and maps are addresses in an explicit store. A copier takes
  what \<open>in\<close> points to and gives what is written to \<open>out\<close>; the contract of a deep copy is the locale
  \<open>deep_copier\<close>, and the copier of every type has it.
\<close>

section \<open>Stores\<close>

datatype gval =
    GBase string
  | GPtr "nat option"
  | GSlice "nat option"
  | GMap "nat option"
  | GStruct "(string \<times> gval) list"

datatype cell =
    CVar gval
  | CArray "gval list"
  | CMap "(string, string) fmap"

record gstore =
  st_next :: nat
  st_cells :: "(nat, cell) fmap"

abbreviation cellAt :: "gstore \<Rightarrow> nat \<Rightarrow> cell option" where
  "cellAt st a \<equiv> fmlookup (st_cells st) a"

definition alloc :: "cell \<Rightarrow> gstore \<Rightarrow> nat \<times> gstore" where
  "alloc c st = (st_next st, st\<lparr>st_next := Suc (st_next st), st_cells := fmupd (st_next st) c (st_cells st)\<rparr>)"

definition storeInv :: "gstore \<Rightarrow> bool" where
  "storeInv st \<longleftrightarrow> (\<forall>a c. cellAt st a = Some c \<longrightarrow> a < st_next st)"

text \<open>A later store has every cell that was there, unchanged.\<close>

definition extends :: "gstore \<Rightarrow> gstore \<Rightarrow> bool" where
  "extends st st' \<longleftrightarrow> storeInv st' \<and> st_next st \<le> st_next st' \<and> (\<forall>a < st_next st. cellAt st' a = cellAt st a)"

lemma extends_refl: "storeInv st \<Longrightarrow> extends st st"
  by (simp add: extends_def)

lemma extends_trans: "extends st st' \<Longrightarrow> extends st' st'' \<Longrightarrow> extends st st''"
  by (auto simp: extends_def)

lemma extends_inv: "extends st st' \<Longrightarrow> storeInv st'"
  by (simp add: extends_def)

lemma alloc_extends: "storeInv st \<Longrightarrow> alloc c st = (a, st') \<Longrightarrow> extends st st'"
  by (auto simp: alloc_def extends_def storeInv_def less_Suc_eq split: if_splits)

lemma alloc_cell: "alloc c st = (a, st') \<Longrightarrow> a = st_next st \<and> cellAt st' a = Some c"
  by (auto simp: alloc_def)

section \<open>Types and what a value of a type denotes\<close>

datatype gtype =
    TBase
  | TPtr gtype
  | TSlice gtype
  | TMap
  | TStruct "(string \<times> gtype) list"

datatype gtree =
    Leaf string
  | Nil
  | Ref gtree
  | Arr "gtree list"
  | Dict "(string, string) fmap"
  | Rec "(string \<times> gtree) list"

fun sequence :: "'a option list \<Rightarrow> 'a list option" where
  "sequence [] = Some []"
| "sequence (x # xs) = (case x of None \<Rightarrow> None | Some y \<Rightarrow> map_option ((#) y) (sequence xs))"

text \<open>The tree that is read from a value by following its references; none if the value is not of the type.\<close>

fun denotes :: "gtype \<Rightarrow> gstore \<Rightarrow> gval \<Rightarrow> gtree option"
and denotesFields :: "(string \<times> gtype) list \<Rightarrow> gstore \<Rightarrow> (string \<times> gval) list \<Rightarrow> (string \<times> gtree) list option" where
  "denotes TBase st (GBase b) = Some (Leaf b)"
| "denotes (TPtr t) st (GPtr None) = Some Nil"
| "denotes (TPtr t) st (GPtr (Some a)) =
     (case cellAt st a of Some (CVar v) \<Rightarrow> map_option Ref (denotes t st v) | _ \<Rightarrow> None)"
| "denotes (TSlice t) st (GSlice None) = Some Nil"
| "denotes (TSlice t) st (GSlice (Some a)) =
     (case cellAt st a of Some (CArray vs) \<Rightarrow> map_option Arr (sequence (map (denotes t st) vs)) | _ \<Rightarrow> None)"
| "denotes TMap st (GMap None) = Some Nil"
| "denotes TMap st (GMap (Some a)) = (case cellAt st a of Some (CMap m) \<Rightarrow> Some (Dict m) | _ \<Rightarrow> None)"
| "denotes (TStruct ts) st (GStruct fs) = map_option Rec (denotesFields ts st fs)"
| "denotes _ st _ = None"
| "denotesFields [] st [] = Some []"
| "denotesFields ((f, t) # ts) st ((g, v) # fs) =
     (if f = g then
        (case denotes t st v of
           None \<Rightarrow> None
         | Some x \<Rightarrow> map_option ((#) (f, x)) (denotesFields ts st fs))
      else None)"
| "denotesFields _ st _ = None"

text \<open>The addresses that can be reached from a value, the cells that a write through it can change.\<close>

fun reach :: "gtype \<Rightarrow> gstore \<Rightarrow> gval \<Rightarrow> nat set"
and reachFields :: "(string \<times> gtype) list \<Rightarrow> gstore \<Rightarrow> (string \<times> gval) list \<Rightarrow> nat set" where
  "reach (TPtr t) st (GPtr (Some a)) =
     insert a (case cellAt st a of Some (CVar v) \<Rightarrow> reach t st v | _ \<Rightarrow> {})"
| "reach (TSlice t) st (GSlice (Some a)) =
     insert a (case cellAt st a of Some (CArray vs) \<Rightarrow> \<Union> (reach t st ` set vs) | _ \<Rightarrow> {})"
| "reach TMap st (GMap (Some a)) = {a}"
| "reach (TStruct ts) st (GStruct fs) = reachFields ts st fs"
| "reach _ st _ = {}"
| "reachFields ((f, t) # ts) st ((g, v) # fs) = reach t st v \<union> reachFields ts st fs"
| "reachFields _ st _ = {}"

lemma sequence_Some: "sequence (map f xs) = Some ys \<Longrightarrow> x \<in> set xs \<Longrightarrow> \<exists>y. f x = Some y"
  by (induction xs arbitrary: ys) (auto split: option.splits)

lemma sequence_map_cong: "(\<And>x. x \<in> set xs \<Longrightarrow> f x = g x) \<Longrightarrow> sequence (map f xs) = sequence (map g xs)"
  by (metis (no_types, lifting) map_cong)

lemma denotes_local:
  "denotes T st v = Some t \<Longrightarrow> (\<forall>a \<in> reach T st v. cellAt st' a = cellAt st a) \<Longrightarrow>
     denotes T st' v = Some t \<and> reach T st' v = reach T st v"
  "denotesFields ts st fs = Some xs \<Longrightarrow> (\<forall>a \<in> reachFields ts st fs. cellAt st' a = cellAt st a) \<Longrightarrow>
     denotesFields ts st' fs = Some xs \<and> reachFields ts st' fs = reachFields ts st fs"
proof (induction T st v and ts st fs arbitrary: t and xs rule: denotes_denotesFields.induct)
  case (5 t' st a)
  then obtain vs where vs: "cellAt st a = Some (CArray vs)" "cellAt st' a = Some (CArray vs)"
    by (auto split: option.splits cell.splits)
  have "denotes t' st' v = denotes t' st v \<and> reach t' st' v = reach t' st v" if "v \<in> set vs" for v
    using 5 vs that sequence_Some [of "denotes t' st" vs _ v] by fastforce
  then show ?case using 5(2) vs sequence_map_cong [of vs "denotes t' st'" "denotes t' st"] by simp
qed (auto split: option.splits cell.splits if_splits)

lemma reach_bounded:
  "denotes T st v = Some t \<Longrightarrow> storeInv st \<Longrightarrow> a \<in> reach T st v \<Longrightarrow> a < st_next st"
  "denotesFields ts st fs = Some xs \<Longrightarrow> storeInv st \<Longrightarrow> a \<in> reachFields ts st fs \<Longrightarrow> a < st_next st"
proof (induction T st v and ts st fs arbitrary: t and xs rule: reach_reachFields.induct)
  case (2 t' st b)
  then show ?case by (auto simp: storeInv_def split: option.splits cell.splits dest: sequence_Some)
qed (auto simp: storeInv_def split: option.splits cell.splits if_splits)

lemma denotes_extends:
  assumes "denotes T st v = Some t" "storeInv st" "extends st st'"
  shows "denotes T st' v = Some t \<and> reach T st' v = reach T st v"
proof -
  have "\<forall>a \<in> reach T st v. cellAt st' a = cellAt st a"
    using assms(3) reach_bounded(1) [OF assms(1,2)] by (auto simp: extends_def)
  then show ?thesis using denotes_local(1) [OF assms(1)] by blast
qed

section \<open>The contract of a deep copy\<close>

type_synonym copier = "gval \<Rightarrow> gstore \<Rightarrow> gval \<times> gstore"

text \<open>The value \<open>v'\<close> denotes \<open>t\<close> in the later store, and reaches only cells that \<open>st\<close> does not have.\<close>

definition copied :: "gtype \<Rightarrow> gstore \<Rightarrow> gtree \<Rightarrow> gval \<Rightarrow> gstore \<Rightarrow> bool" where
  "copied T st t v' st' \<longleftrightarrow>
     extends st st' \<and> denotes T st' v' = Some t \<and> (\<forall>a \<in> reach T st' v'. st_next st \<le> a)"

lemma copied_extends: "copied T st t v' st' \<Longrightarrow> extends st' st'' \<Longrightarrow> copied T st t v' st''"
  using denotes_extends [of T st' v' t st''] extends_inv [of st st'] extends_trans [of st st' st'']
  by (auto simp: copied_def)

lemma copied_earlier: "copied T st t v' st' \<Longrightarrow> extends st0 st \<Longrightarrow> copied T st0 t v' st'"
  by (auto simp: copied_def intro: extends_trans) (auto simp: extends_def)

locale deep_copier =
  fixes T :: gtype and k :: copier
  assumes copies: "storeInv st \<Longrightarrow> denotes T st v = Some t \<Longrightarrow> k v st = (v', st') \<Longrightarrow> copied T st t v' st'"
begin

text \<open>Original and copy denote the same and share nothing: writes through one never show in the other.\<close>

lemma isolated:
  assumes "storeInv st" "denotes T st v = Some t" "k v st = (v', st')"
  shows "denotes T st' v' = Some t \<and> denotes T st' v = Some t \<and>
    reach T st' v \<inter> reach T st' v' = {} \<and>
    (\<forall>st''. (\<forall>a. a \<notin> reach T st' v \<longrightarrow> cellAt st'' a = cellAt st' a) \<longrightarrow> denotes T st'' v' = Some t) \<and>
    (\<forall>st''. (\<forall>a. a \<notin> reach T st' v' \<longrightarrow> cellAt st'' a = cellAt st' a) \<longrightarrow> denotes T st'' v = Some t)"
proof -
  have c: "copied T st t v' st'" using copies assms by blast
  then have v: "denotes T st' v = Some t" "reach T st' v = reach T st v"
    using denotes_extends [OF assms(2,1)] by (auto simp: copied_def)
  have disj: "reach T st' v \<inter> reach T st' v' = {}"
    using c reach_bounded(1) [OF assms(2,1)] unfolding v(2) copied_def by fastforce
  have one: "denotes T st'' x = Some t"
    if "denotes T st' x = Some t" "reach T st' x \<inter> R = {}" "\<forall>a. a \<notin> R \<longrightarrow> cellAt st'' a = cellAt st' a" for x R st''
    using denotes_local(1) [OF that(1)] that(2,3) by blast
  have c': "denotes T st' v' = Some t" using c by (simp add: copied_def)
  have disj': "reach T st' v' \<inter> reach T st' v = {}" using disj by blast
  show ?thesis using disj v(1) c' one [OF c' disj'] one [OF v(1) disj] by blast
qed

end

section \<open>The pieces of the generated code\<close>

text \<open>
  \<open>assign\<close> is \<open>*out = *in\<close>; \<open>copyPtr\<close> is the block for a field that is a pointer: nil
  is kept, else a new variable is written by the copier; \<open>copySlice\<close> and \<open>copyMap\<close> are
  the blocks for slices and for maps of strings. \<open>copyStruct\<close> assigns a struct and then
  overwrites the fields that have a copier, in the order in which they are declared.
\<close>

definition assign :: copier where
  "assign v st = (v, st)"

fun copyPtr :: "copier \<Rightarrow> copier" where
  "copyPtr k (GPtr (Some a)) st =
     (case cellAt st a of
        Some (CVar v) \<Rightarrow>
          (case k v st of (v', st1) \<Rightarrow> (case alloc (CVar v') st1 of (b, st2) \<Rightarrow> (GPtr (Some b), st2)))
      | _ \<Rightarrow> (GPtr (Some a), st))"
| "copyPtr k v st = (v, st)"

fun copyAll :: "copier \<Rightarrow> gval list \<Rightarrow> gstore \<Rightarrow> gval list \<times> gstore" where
  "copyAll k [] st = ([], st)"
| "copyAll k (v # vs) st =
     (case k v st of (v', st1) \<Rightarrow> (case copyAll k vs st1 of (vs', st2) \<Rightarrow> (v' # vs', st2)))"

fun copySlice :: "copier \<Rightarrow> copier" where
  "copySlice k (GSlice (Some a)) st =
     (case cellAt st a of
        Some (CArray vs) \<Rightarrow>
          (case copyAll k vs st of (vs', st1) \<Rightarrow> (case alloc (CArray vs') st1 of (b, st2) \<Rightarrow> (GSlice (Some b), st2)))
      | _ \<Rightarrow> (GSlice (Some a), st))"
| "copySlice k v st = (v, st)"

fun copyMap :: copier where
  "copyMap (GMap (Some a)) st =
     (case cellAt st a of
        Some (CMap m) \<Rightarrow> (case alloc (CMap m) st of (b, st1) \<Rightarrow> (GMap (Some b), st1))
      | _ \<Rightarrow> (GMap (Some a), st))"
| "copyMap v st = (v, st)"

definition fieldCopier :: "(string \<times> copier) list \<Rightarrow> string \<Rightarrow> copier" where
  "fieldCopier ks f = (case map_of ks f of None \<Rightarrow> assign | Some k \<Rightarrow> k)"

fun copyFields :: "(string \<times> copier) list \<Rightarrow> (string \<times> gval) list \<Rightarrow> gstore \<Rightarrow> (string \<times> gval) list \<times> gstore" where
  "copyFields ks [] st = ([], st)"
| "copyFields ks ((f, v) # fs) st =
     (case fieldCopier ks f v st of (v', st1) \<Rightarrow>
        (case copyFields ks fs st1 of (fs', st2) \<Rightarrow> ((f, v') # fs', st2)))"

fun copyStruct :: "(string \<times> copier) list \<Rightarrow> copier" where
  "copyStruct ks (GStruct fs) st = (case copyFields ks fs st of (fs', st') \<Rightarrow> (GStruct fs', st'))"
| "copyStruct ks v st = (v, st)"

text \<open>An assignment is a deep copy of the types without references.\<close>

fun plain :: "gtype \<Rightarrow> bool"
and plainFields :: "(string \<times> gtype) list \<Rightarrow> bool" where
  "plain TBase = True"
| "plain (TPtr t) = False"
| "plain (TSlice t) = False"
| "plain TMap = False"
| "plain (TStruct ts) = plainFields ts"
| "plainFields [] = True"
| "plainFields ((f, t) # ts) \<longleftrightarrow> plain t \<and> plainFields ts"

lemma plain_reach: "plain T \<Longrightarrow> reach T st v = {}" "plainFields ts \<Longrightarrow> reachFields ts st fs = {}"
  by (induction T st v and ts st fs rule: reach_reachFields.induct) auto

lemma plain_assign: "plain T \<Longrightarrow> deep_copier T assign"
  by unfold_locales (auto simp: assign_def copied_def plain_reach extends_refl)

lemma copyPtr_deep:
  assumes "deep_copier t k"
  shows "deep_copier (TPtr t) (copyPtr k)"
proof
  fix st v x v' st'
  assume inv: "storeInv st" and den: "denotes (TPtr t) st v = Some x" and run: "copyPtr k v st = (v', st')"
  show "copied (TPtr t) st x v' st'"
  proof (cases "v = GPtr None")
    case True
    then show ?thesis using inv den run by (auto simp: copied_def extends_refl)
  next
    case False
    then obtain a u y where v: "v = GPtr (Some a)" "cellAt st a = Some (CVar u)" "denotes t st u = Some y" "x = Ref y"
      using den by (cases v) (auto split: option.splits cell.splits)
    obtain u' st1 where k: "k u st = (u', st1)" by fastforce
    then have c: "copied t st y u' st1" using deep_copier.copies [OF assms inv v(3)] by blast
    obtain b where al: "alloc (CVar u') st1 = (b, st')" "v' = GPtr (Some b)"
      using run v k by (auto split: prod.splits)
    have ext: "extends st1 st'" using alloc_extends al c extends_inv copied_def by blast
    have "copied t st y u' st'" using copied_extends [OF c ext] .
    moreover have "st_next st \<le> b" "cellAt st' b = Some (CVar u')"
      using alloc_cell [OF al(1)] c by (auto simp: copied_def extends_def)
    ultimately show ?thesis using al(2) v(4) by (auto simp: copied_def)
  qed
qed

lemma copyPtr_nil: "copyPtr k v st = (v', st') \<Longrightarrow> v = GPtr None \<longleftrightarrow> v' = GPtr None"
  by (induction k v st rule: copyPtr.induct) (auto split: prod.splits option.splits cell.splits)

text \<open>Values that are copied one after the other, elements of a slice or fields of a struct.\<close>

lemma copied_next:
  assumes "copied t st x v' st1" "copied s st1 y u' st2"
  shows "copied t st x v' st2 \<and> copied s st y u' st2"
  using assms copied_extends copied_earlier copied_def by blast

lemma copyAll_deep:
  assumes "deep_copier t k"
  shows "storeInv st \<Longrightarrow> sequence (map (denotes t st) vs) = Some xs \<Longrightarrow> copyAll k vs st = (vs', st') \<Longrightarrow>
    extends st st' \<and> sequence (map (denotes t st') vs') = Some xs \<and> (\<forall>v \<in> set vs'. \<forall>a \<in> reach t st' v. st_next st \<le> a)"
proof (induction vs arbitrary: st xs vs')
  case Nil
  then show ?case by (auto simp: extends_refl)
next
  case (Cons v vs)
  obtain x ys where x: "denotes t st v = Some x" "sequence (map (denotes t st) vs) = Some ys" "xs = x # ys"
    using Cons.prems(2) by (auto split: option.splits)
  obtain v' st1 us where k: "k v st = (v', st1)" "copyAll k vs st1 = (us, st')" "vs' = v' # us"
    using Cons.prems(3) by (auto split: prod.splits)
  have c: "copied t st x v' st1" using deep_copier.copies [OF assms Cons.prems(1) x(1) k(1)] .
  then have e: "extends st st1" by (simp add: copied_def)
  have "sequence (map (denotes t st1) vs) = sequence (map (denotes t st) vs)"
    using sequence_Some [OF x(2)] denotes_extends [OF _ Cons.prems(1) e] by (intro sequence_map_cong) metis
  then have "extends st1 st' \<and> sequence (map (denotes t st') us) = Some ys \<and>
      (\<forall>v \<in> set us. \<forall>a \<in> reach t st' v. st_next st1 \<le> a)"
    using Cons.IH [OF extends_inv [OF e] _ k(2)] x(2) by simp
  moreover from this have "copied t st x v' st'" using copied_extends [OF c] by blast
  ultimately show ?case using e k(3) x(3) extends_trans [OF e]
    by (auto simp: copied_def) (meson e extends_def le_trans)
qed

lemma copySlice_deep:
  assumes "deep_copier t k"
  shows "deep_copier (TSlice t) (copySlice k)"
proof
  fix st v x v' st'
  assume inv: "storeInv st" and den: "denotes (TSlice t) st v = Some x" and run: "copySlice k v st = (v', st')"
  show "copied (TSlice t) st x v' st'"
  proof (cases "v = GSlice None")
    case True
    then show ?thesis using inv den run by (auto simp: copied_def extends_refl)
  next
    case False
    then obtain a vs xs where v: "v = GSlice (Some a)" "cellAt st a = Some (CArray vs)"
        "sequence (map (denotes t st) vs) = Some xs" "x = Arr xs"
      using den by (cases v) (auto split: option.splits cell.splits)
    obtain vs' st1 where k: "copyAll k vs st = (vs', st1)" by fastforce
    note c = copyAll_deep [OF assms inv v(3) k]
    obtain b where al: "alloc (CArray vs') st1 = (b, st')" "v' = GSlice (Some b)"
      using run v k by (auto split: prod.splits)
    have ext: "extends st1 st'" using alloc_extends al c extends_inv by blast
    have keep: "denotes t st' u = denotes t st1 u \<and> reach t st' u = reach t st1 u" if "u \<in> set vs'" for u
      using sequence_Some [of "denotes t st1" vs' xs u] c that denotes_extends [OF _ _ ext] extends_inv by metis
    then have "sequence (map (denotes t st') vs') = Some xs" using c sequence_map_cong [of vs'] by metis
    moreover have "st_next st \<le> b" "cellAt st' b = Some (CArray vs')"
      using alloc_cell [OF al(1)] c by (auto simp: extends_def)
    ultimately show ?thesis using al(2) v(4) c keep extends_trans [OF _ ext] by (auto simp: copied_def)
  qed
qed

lemma copyMap_deep: "deep_copier TMap copyMap"
proof
  fix st v x v' st'
  assume inv: "storeInv st" and den: "denotes TMap st v = Some x" and run: "copyMap v st = (v', st')"
  show "copied TMap st x v' st'"
  proof (cases "v = GMap None")
    case True
    then show ?thesis using inv den run by (auto simp: copied_def extends_refl)
  next
    case False
    then obtain a m where v: "v = GMap (Some a)" "cellAt st a = Some (CMap m)" "x = Dict m"
      using den by (cases v) (auto split: option.splits cell.splits)
    then obtain b where al: "alloc (CMap m) st = (b, st')" "v' = GMap (Some b)"
      using run by (auto split: prod.splits)
    then show ?thesis using alloc_extends [OF inv al(1)] alloc_cell [OF al(1)] v(3) by (auto simp: copied_def)
  qed
qed

lemma copyFields_deep:
  "(\<forall>(f, t) \<in> set ts. deep_copier t (fieldCopier ks f)) \<Longrightarrow> storeInv st \<Longrightarrow> denotesFields ts st fs = Some xs \<Longrightarrow>
   copyFields ks fs st = (fs', st') \<Longrightarrow>
   extends st st' \<and> denotesFields ts st' fs' = Some xs \<and> (\<forall>a \<in> reachFields ts st' fs'. st_next st \<le> a)"
proof (induction fs arbitrary: ts st xs fs')
  case Nil
  then show ?case by (cases ts) (auto simp: extends_refl)
next
  case (Cons fv fs)
  obtain f v where fv: "fv = (f, v)" by fastforce
  obtain t ts1 x ys where x: "ts = (f, t) # ts1" "denotes t st v = Some x" "denotesFields ts1 st fs = Some ys"
      "xs = (f, x) # ys"
    using Cons.prems(3) fv by (cases ts) (auto split: option.splits if_splits)
  obtain v' st1 us where k: "fieldCopier ks f v st = (v', st1)" "copyFields ks fs st1 = (us, st')" "fs' = (f, v') # us"
    using Cons.prems(4) fv by (auto split: prod.splits)
  have "deep_copier t (fieldCopier ks f)" using Cons.prems(1) x(1) by auto
  then have c: "copied t st x v' st1" using deep_copier.copies Cons.prems(2) x(2) k(1) by blast
  then have e: "extends st st1" by (simp add: copied_def)
  have "\<forall>a \<in> reachFields ts1 st fs. cellAt st1 a = cellAt st a"
    using reach_bounded(2) [OF x(3) Cons.prems(2)] e by (auto simp: extends_def)
  then have "denotesFields ts1 st1 fs = Some ys" using denotes_local(2) [OF x(3)] by blast
  moreover have "\<forall>(f, t) \<in> set ts1. deep_copier t (fieldCopier ks f)" using Cons.prems(1) x(1) by simp
  ultimately have r: "extends st1 st' \<and> denotesFields ts1 st' us = Some ys \<and> (\<forall>a \<in> reachFields ts1 st' us. st_next st1 \<le> a)"
    using Cons.IH [OF _ extends_inv [OF e] _ k(2)] by blast
  then have "copied t st x v' st'" using copied_extends [OF c] by blast
  then show ?case using r e k(3) x(1,4) extends_trans [OF e]
    by (auto simp: copied_def) (meson e extends_def le_trans)
qed

lemma copyStruct_deep:
  assumes "\<forall>(f, t) \<in> set ts. deep_copier t (fieldCopier ks f)"
  shows "deep_copier (TStruct ts) (copyStruct ks)"
proof
  fix st v x v' st'
  assume inv: "storeInv st" and den: "denotes (TStruct ts) st v = Some x" and run: "copyStruct ks v st = (v', st')"
  obtain fs xs where v: "v = GStruct fs" "denotesFields ts st fs = Some xs" "x = Rec xs"
    using den by (cases v) auto
  obtain fs' where "copyFields ks fs st = (fs', st')" "v' = GStruct fs'"
    using run v by (auto split: prod.splits)
  then show "copied (TStruct ts) st x v' st'" using copyFields_deep [OF assms inv v(2)] v(3) by (simp add: copied_def)
qed

lemmas deep_copy_rules = plain_assign copyPtr_deep copySlice_deep copyMap_deep copyStruct_deep

section \<open>The types of the API\<close>

text \<open>
  The structs of \<open>published_resource.go\<close>, with embedded structs as fields. The metadata of an object and of
  a list and the label selector are types of the Kubernetes library, which brings their copiers.
\<close>

record metaLib =
  ml_ObjectMeta :: gtype
  ml_copyObjectMeta :: copier
  ml_ListMeta :: gtype
  ml_copyListMeta :: copier
  ml_LabelSelector :: gtype
  ml_copyLabelSelector :: copier

definition texts :: "string list \<Rightarrow> gtype" where
  "texts fs = TStruct (map (\<lambda>f. (f, TBase)) fs)"

definition TypeMeta_type :: gtype where
  "TypeMeta_type = texts [''Kind'', ''APIVersion'']"

definition ResourceNaming_type :: gtype where
  "ResourceNaming_type = texts [''Name'', ''Namespace'']"

definition ResourceDeleteMutation_type :: gtype where
  "ResourceDeleteMutation_type = texts [''Path'']"

definition ResourceRegexMutation_type :: gtype where
  "ResourceRegexMutation_type = texts [''Path'', ''Pattern'', ''Replacement'']"

definition ResourceTemplateMutation_type :: gtype where
  "ResourceTemplateMutation_type = texts [''Path'', ''Template'']"

definition ResourceCELMutation_type :: gtype where
  "ResourceCELMutation_type = texts [''Path'', ''Expression'']"

definition RelatedResourceWatchByOwner_type :: gtype where
  "RelatedResourceWatchByOwner_type = texts []"

definition RelatedResourceProjection_type :: gtype where
  "RelatedResourceProjection_type = texts [''Group'', ''Version'', ''Resource'']"

definition RegularExpression_type :: gtype where
  "RegularExpression_type = texts [''Pattern'', ''Replacement'']"

definition TemplateExpression_type :: gtype where
  "TemplateExpression_type = texts [''Template'']"

definition SynchronizationSpec_type :: gtype where
  "SynchronizationSpec_type = texts [''Enabled'']"

definition PublishedResourceStatus_type :: gtype where
  "PublishedResourceStatus_type = texts [''ResourceSchemaName'']"

definition ResourceMutation_type :: gtype where
  "ResourceMutation_type = TStruct
     [(''Delete'', TPtr ResourceDeleteMutation_type), (''Regex'', TPtr ResourceRegexMutation_type),
      (''Template'', TPtr ResourceTemplateMutation_type), (''CEL'', TPtr ResourceCELMutation_type)]"

definition ResourceMutationSpec_type :: gtype where
  "ResourceMutationSpec_type = TStruct
     [(''Spec'', TSlice ResourceMutation_type), (''Status'', TSlice ResourceMutation_type)]"

definition ResourceProjection_type :: gtype where
  "ResourceProjection_type = TStruct
     [(''Group'', TBase), (''Version'', TBase), (''Versions'', TMap), (''Scope'', TBase), (''Kind'', TBase),
      (''Plural'', TBase), (''ShortNames'', TSlice TBase), (''Categories'', TSlice TBase)]"

definition SourceResourceDescriptor_type :: gtype where
  "SourceResourceDescriptor_type = TStruct
     [(''APIGroup'', TBase), (''Version'', TBase), (''Versions'', TSlice TBase), (''Kind'', TBase)]"

definition ResourceFilter_type :: "metaLib \<Rightarrow> gtype" where
  "ResourceFilter_type L = TStruct
     [(''Namespace'', TPtr (ml_LabelSelector L)), (''Resource'', TPtr (ml_LabelSelector L))]"

definition RelatedResourceSelectorRewrite_type :: gtype where
  "RelatedResourceSelectorRewrite_type = TStruct
     [(''Regex'', TPtr RegularExpression_type), (''Template'', TPtr TemplateExpression_type)]"

definition RelatedResourceObjectSelector_type :: "metaLib \<Rightarrow> gtype" where
  "RelatedResourceObjectSelector_type L = TStruct
     [(''LabelSelector'', ml_LabelSelector L), (''Rewrite'', RelatedResourceSelectorRewrite_type)]"

definition RelatedResourceObjectReference_type :: gtype where
  "RelatedResourceObjectReference_type = TStruct [(''Path'', TBase), (''Regex'', TPtr RegularExpression_type)]"

definition RelatedResourceObjectSpec_type :: "metaLib \<Rightarrow> gtype" where
  "RelatedResourceObjectSpec_type L = TStruct
     [(''Selector'', TPtr (RelatedResourceObjectSelector_type L)),
      (''Reference'', TPtr RelatedResourceObjectReference_type), (''Template'', TPtr TemplateExpression_type)]"

definition RelatedResourceObject_type :: "metaLib \<Rightarrow> gtype" where
  "RelatedResourceObject_type L = TStruct
     [(''RelatedResourceObjectSpec'', RelatedResourceObjectSpec_type L),
      (''Namespace'', TPtr (RelatedResourceObjectSpec_type L))]"

definition RelatedResourceWatch_type :: "metaLib \<Rightarrow> gtype" where
  "RelatedResourceWatch_type L = TStruct
     [(''ByOwner'', TPtr RelatedResourceWatchByOwner_type), (''BySelector'', TPtr (ml_LabelSelector L))]"

definition RelatedResourceSpec_type :: "metaLib \<Rightarrow> gtype" where
  "RelatedResourceSpec_type L = TStruct
     [(''Identifier'', TBase), (''Origin'', TBase), (''Group'', TBase), (''Version'', TBase), (''Resource'', TBase),
      (''Kind'', TBase), (''IdentityHash'', TBase), (''Cleanup'', TBase), (''CleanupPolicy'', TBase),
      (''Projection'', TPtr RelatedResourceProjection_type), (''Object'', RelatedResourceObject_type L),
      (''Mutation'', TPtr ResourceMutationSpec_type), (''Watch'', TPtr (RelatedResourceWatch_type L)),
      (''SyncStatus'', TBase)]"

definition PublishedResourceSpec_type :: "metaLib \<Rightarrow> gtype" where
  "PublishedResourceSpec_type L = TStruct
     [(''Resource'', SourceResourceDescriptor_type), (''Filter'', TPtr (ResourceFilter_type L)),
      (''Naming'', TPtr ResourceNaming_type), (''EnableWorkspacePaths'', TBase),
      (''Projection'', TPtr ResourceProjection_type), (''Mutation'', TPtr ResourceMutationSpec_type),
      (''Related'', TSlice (RelatedResourceSpec_type L)), (''Synchronization'', TPtr SynchronizationSpec_type)]"

definition PublishedResource_type :: "metaLib \<Rightarrow> gtype" where
  "PublishedResource_type L = TStruct
     [(''TypeMeta'', TypeMeta_type), (''ObjectMeta'', ml_ObjectMeta L), (''Spec'', PublishedResourceSpec_type L),
      (''Status'', PublishedResourceStatus_type)]"

definition PublishedResourceList_type :: "metaLib \<Rightarrow> gtype" where
  "PublishedResourceList_type L = TStruct
     [(''TypeMeta'', TypeMeta_type), (''ListMeta'', ml_ListMeta L), (''Items'', TSlice (PublishedResource_type L))]"

section \<open>The copiers\<close>

definition DeepCopyInto_ResourceNaming :: copier where
  "DeepCopyInto_ResourceNaming = assign"

definition DeepCopyInto_ResourceDeleteMutation :: copier where
  "DeepCopyInto_ResourceDeleteMutation = assign"

definition DeepCopyInto_ResourceRegexMutation :: copier where
  "DeepCopyInto_ResourceRegexMutation = assign"

definition DeepCopyInto_ResourceTemplateMutation :: copier where
  "DeepCopyInto_ResourceTemplateMutation = assign"

definition DeepCopyInto_ResourceCELMutation :: copier where
  "DeepCopyInto_ResourceCELMutation = assign"

definition DeepCopyInto_RelatedResourceWatchByOwner :: copier where
  "DeepCopyInto_RelatedResourceWatchByOwner = assign"

definition DeepCopyInto_RelatedResourceProjection :: copier where
  "DeepCopyInto_RelatedResourceProjection = assign"

definition DeepCopyInto_RegularExpression :: copier where
  "DeepCopyInto_RegularExpression = assign"

definition DeepCopyInto_TemplateExpression :: copier where
  "DeepCopyInto_TemplateExpression = assign"

definition DeepCopyInto_SynchronizationSpec :: copier where
  "DeepCopyInto_SynchronizationSpec = assign"

definition DeepCopyInto_PublishedResourceStatus :: copier where
  "DeepCopyInto_PublishedResourceStatus = assign"

definition DeepCopyInto_ResourceMutation :: copier where
  "DeepCopyInto_ResourceMutation = copyStruct
     [(''Delete'', copyPtr assign), (''Regex'', copyPtr assign), (''Template'', copyPtr assign),
      (''CEL'', copyPtr assign)]"

definition DeepCopyInto_ResourceMutationSpec :: copier where
  "DeepCopyInto_ResourceMutationSpec = copyStruct
     [(''Spec'', copySlice DeepCopyInto_ResourceMutation), (''Status'', copySlice DeepCopyInto_ResourceMutation)]"

definition DeepCopyInto_ResourceProjection :: copier where
  "DeepCopyInto_ResourceProjection = copyStruct
     [(''Versions'', copyMap), (''ShortNames'', copySlice assign), (''Categories'', copySlice assign)]"

definition DeepCopyInto_SourceResourceDescriptor :: copier where
  "DeepCopyInto_SourceResourceDescriptor = copyStruct [(''Versions'', copySlice assign)]"

definition DeepCopyInto_ResourceFilter :: "metaLib \<Rightarrow> copier" where
  "DeepCopyInto_ResourceFilter L = copyStruct
     [(''Namespace'', copyPtr (ml_copyLabelSelector L)), (''Resource'', copyPtr (ml_copyLabelSelector L))]"

definition DeepCopyInto_RelatedResourceSelectorRewrite :: copier where
  "DeepCopyInto_RelatedResourceSelectorRewrite = copyStruct
     [(''Regex'', copyPtr assign), (''Template'', copyPtr assign)]"

definition DeepCopyInto_RelatedResourceObjectSelector :: "metaLib \<Rightarrow> copier" where
  "DeepCopyInto_RelatedResourceObjectSelector L = copyStruct
     [(''LabelSelector'', ml_copyLabelSelector L), (''Rewrite'', DeepCopyInto_RelatedResourceSelectorRewrite)]"

definition DeepCopyInto_RelatedResourceObjectReference :: copier where
  "DeepCopyInto_RelatedResourceObjectReference = copyStruct [(''Regex'', copyPtr assign)]"

definition DeepCopyInto_RelatedResourceObjectSpec :: "metaLib \<Rightarrow> copier" where
  "DeepCopyInto_RelatedResourceObjectSpec L = copyStruct
     [(''Selector'', copyPtr (DeepCopyInto_RelatedResourceObjectSelector L)),
      (''Reference'', copyPtr DeepCopyInto_RelatedResourceObjectReference), (''Template'', copyPtr assign)]"

definition DeepCopyInto_RelatedResourceObject :: "metaLib \<Rightarrow> copier" where
  "DeepCopyInto_RelatedResourceObject L = copyStruct
     [(''RelatedResourceObjectSpec'', DeepCopyInto_RelatedResourceObjectSpec L),
      (''Namespace'', copyPtr (DeepCopyInto_RelatedResourceObjectSpec L))]"

definition DeepCopyInto_RelatedResourceWatch :: "metaLib \<Rightarrow> copier" where
  "DeepCopyInto_RelatedResourceWatch L = copyStruct
     [(''ByOwner'', copyPtr assign), (''BySelector'', copyPtr (ml_copyLabelSelector L))]"

definition DeepCopyInto_RelatedResourceSpec :: "metaLib \<Rightarrow> copier" where
  "DeepCopyInto_RelatedResourceSpec L = copyStruct
     [(''Projection'', copyPtr assign), (''Object'', DeepCopyInto_RelatedResourceObject L),
      (''Mutation'', copyPtr DeepCopyInto_ResourceMutationSpec),
      (''Watch'', copyPtr (DeepCopyInto_RelatedResourceWatch L))]"

definition DeepCopyInto_PublishedResourceSpec :: "metaLib \<Rightarrow> copier" where
  "DeepCopyInto_PublishedResourceSpec L = copyStruct
     [(''Resource'', DeepCopyInto_SourceResourceDescriptor), (''Filter'', copyPtr (DeepCopyInto_ResourceFilter L)),
      (''Naming'', copyPtr assign), (''Projection'', copyPtr DeepCopyInto_ResourceProjection),
      (''Mutation'', copyPtr DeepCopyInto_ResourceMutationSpec),
      (''Related'', copySlice (DeepCopyInto_RelatedResourceSpec L)), (''Synchronization'', copyPtr assign)]"

definition DeepCopyInto_PublishedResource :: "metaLib \<Rightarrow> copier" where
  "DeepCopyInto_PublishedResource L = copyStruct
     [(''ObjectMeta'', ml_copyObjectMeta L), (''Spec'', DeepCopyInto_PublishedResourceSpec L)]"

definition DeepCopyInto_PublishedResourceList :: "metaLib \<Rightarrow> copier" where
  "DeepCopyInto_PublishedResourceList L = copyStruct
     [(''ListMeta'', ml_copyListMeta L), (''Items'', copySlice (DeepCopyInto_PublishedResource L))]"

text \<open>
  The \<open>DeepCopy\<close> methods, one per type, differ only in the copier: nil for nil, else a new variable written by it.
\<close>

definition DeepCopy :: "copier \<Rightarrow> copier" where
  "DeepCopy k v st = (if v = GPtr None then (GPtr None, st) else copyPtr k v st)"

text \<open>\<open>DeepCopyObject\<close>: the copy as an object, or no object, not a nil pointer of the type, for a nil pointer.\<close>

definition DeepCopyObject :: "copier \<Rightarrow> gval \<Rightarrow> gstore \<Rightarrow> gval option \<times> gstore" where
  "DeepCopyObject k v st = (case k v st of (c, st') \<Rightarrow> (if c \<noteq> GPtr None then Some c else None, st'))"

section \<open>Every copier is a deep copy\<close>

lemma plain_texts: "plain (texts fs)"
  by (induction fs) (auto simp: texts_def)

lemmas text_types = TypeMeta_type_def ResourceNaming_type_def ResourceDeleteMutation_type_def
  ResourceRegexMutation_type_def ResourceTemplateMutation_type_def ResourceCELMutation_type_def
  RelatedResourceWatchByOwner_type_def RelatedResourceProjection_type_def RegularExpression_type_def
  TemplateExpression_type_def SynchronizationSpec_type_def PublishedResourceStatus_type_def

lemmas assigns = DeepCopyInto_ResourceNaming_def DeepCopyInto_ResourceDeleteMutation_def
  DeepCopyInto_ResourceRegexMutation_def DeepCopyInto_ResourceTemplateMutation_def
  DeepCopyInto_ResourceCELMutation_def DeepCopyInto_RelatedResourceWatchByOwner_def
  DeepCopyInto_RelatedResourceProjection_def DeepCopyInto_RegularExpression_def
  DeepCopyInto_TemplateExpression_def DeepCopyInto_SynchronizationSpec_def
  DeepCopyInto_PublishedResourceStatus_def

lemmas struct_simps = fieldCopier_def text_types plain_texts deep_copy_rules

text \<open>Every type with its copier, the ones that are assigned first.\<close>

definition textCopiers :: "(gtype \<times> copier) list" where
  "textCopiers =
     [(ResourceNaming_type, DeepCopyInto_ResourceNaming),
      (ResourceDeleteMutation_type, DeepCopyInto_ResourceDeleteMutation),
      (ResourceRegexMutation_type, DeepCopyInto_ResourceRegexMutation),
      (ResourceTemplateMutation_type, DeepCopyInto_ResourceTemplateMutation),
      (ResourceCELMutation_type, DeepCopyInto_ResourceCELMutation),
      (RelatedResourceWatchByOwner_type, DeepCopyInto_RelatedResourceWatchByOwner),
      (RelatedResourceProjection_type, DeepCopyInto_RelatedResourceProjection),
      (RegularExpression_type, DeepCopyInto_RegularExpression),
      (TemplateExpression_type, DeepCopyInto_TemplateExpression),
      (SynchronizationSpec_type, DeepCopyInto_SynchronizationSpec),
      (PublishedResourceStatus_type, DeepCopyInto_PublishedResourceStatus)]"

definition apiCopiers :: "metaLib \<Rightarrow> (gtype \<times> copier) list" where
  "apiCopiers L = textCopiers @
     [(ResourceMutation_type, DeepCopyInto_ResourceMutation),
      (ResourceMutationSpec_type, DeepCopyInto_ResourceMutationSpec),
      (ResourceProjection_type, DeepCopyInto_ResourceProjection),
      (SourceResourceDescriptor_type, DeepCopyInto_SourceResourceDescriptor),
      (ResourceFilter_type L, DeepCopyInto_ResourceFilter L),
      (RelatedResourceSelectorRewrite_type, DeepCopyInto_RelatedResourceSelectorRewrite),
      (RelatedResourceObjectSelector_type L, DeepCopyInto_RelatedResourceObjectSelector L),
      (RelatedResourceObjectReference_type, DeepCopyInto_RelatedResourceObjectReference),
      (RelatedResourceObjectSpec_type L, DeepCopyInto_RelatedResourceObjectSpec L),
      (RelatedResourceObject_type L, DeepCopyInto_RelatedResourceObject L),
      (RelatedResourceWatch_type L, DeepCopyInto_RelatedResourceWatch L),
      (RelatedResourceSpec_type L, DeepCopyInto_RelatedResourceSpec L),
      (PublishedResourceSpec_type L, DeepCopyInto_PublishedResourceSpec L),
      (PublishedResource_type L, DeepCopyInto_PublishedResource L),
      (PublishedResourceList_type L, DeepCopyInto_PublishedResourceList L)]"

lemma textCopiers_deep: "(t, k) \<in> set textCopiers \<Longrightarrow> deep_copier t k"
  by (auto simp: textCopiers_def assigns text_types plain_texts intro!: plain_assign)

lemma DeepCopy_copyPtr: "DeepCopy = copyPtr"
  by (auto simp: DeepCopy_def fun_eq_iff)

text \<open>What the library promises: its own types are copied deeply.\<close>

locale copy_library =
  fixes L :: metaLib
  assumes objectMeta: "deep_copier (ml_ObjectMeta L) (ml_copyObjectMeta L)"
    and listMeta: "deep_copier (ml_ListMeta L) (ml_copyListMeta L)"
    and labelSelector: "deep_copier (ml_LabelSelector L) (ml_copyLabelSelector L)"
begin

lemmas struct_rules = struct_simps objectMeta listMeta labelSelector

lemma mutation: "deep_copier ResourceMutation_type DeepCopyInto_ResourceMutation"
  by (simp add: ResourceMutation_type_def DeepCopyInto_ResourceMutation_def struct_rules)

lemma mutationSpec: "deep_copier ResourceMutationSpec_type DeepCopyInto_ResourceMutationSpec"
  by (simp add: ResourceMutationSpec_type_def DeepCopyInto_ResourceMutationSpec_def struct_rules mutation)

lemma projection: "deep_copier ResourceProjection_type DeepCopyInto_ResourceProjection"
  by (simp add: ResourceProjection_type_def DeepCopyInto_ResourceProjection_def struct_rules)

lemma descriptor: "deep_copier SourceResourceDescriptor_type DeepCopyInto_SourceResourceDescriptor"
  by (simp add: SourceResourceDescriptor_type_def DeepCopyInto_SourceResourceDescriptor_def struct_rules)

lemma filters: "deep_copier (ResourceFilter_type L) (DeepCopyInto_ResourceFilter L)"
  by (simp add: ResourceFilter_type_def DeepCopyInto_ResourceFilter_def struct_rules)

lemma rewrite: "deep_copier RelatedResourceSelectorRewrite_type DeepCopyInto_RelatedResourceSelectorRewrite"
  by (simp add: RelatedResourceSelectorRewrite_type_def DeepCopyInto_RelatedResourceSelectorRewrite_def struct_rules)

lemma objectSelector: "deep_copier (RelatedResourceObjectSelector_type L) (DeepCopyInto_RelatedResourceObjectSelector L)"
  by (simp add: RelatedResourceObjectSelector_type_def DeepCopyInto_RelatedResourceObjectSelector_def
     struct_rules rewrite)

lemma reference: "deep_copier RelatedResourceObjectReference_type DeepCopyInto_RelatedResourceObjectReference"
  by (simp add: RelatedResourceObjectReference_type_def DeepCopyInto_RelatedResourceObjectReference_def struct_rules)

lemma objectSpec: "deep_copier (RelatedResourceObjectSpec_type L) (DeepCopyInto_RelatedResourceObjectSpec L)"
  by (simp add: RelatedResourceObjectSpec_type_def DeepCopyInto_RelatedResourceObjectSpec_def struct_rules
     objectSelector reference)

lemma relatedObject: "deep_copier (RelatedResourceObject_type L) (DeepCopyInto_RelatedResourceObject L)"
  by (simp add: RelatedResourceObject_type_def DeepCopyInto_RelatedResourceObject_def struct_rules objectSpec)

lemma watch: "deep_copier (RelatedResourceWatch_type L) (DeepCopyInto_RelatedResourceWatch L)"
  by (simp add: RelatedResourceWatch_type_def DeepCopyInto_RelatedResourceWatch_def struct_rules)

lemma relatedSpec: "deep_copier (RelatedResourceSpec_type L) (DeepCopyInto_RelatedResourceSpec L)"
  by (simp add: RelatedResourceSpec_type_def DeepCopyInto_RelatedResourceSpec_def struct_rules relatedObject
     mutationSpec watch)

lemma spec: "deep_copier (PublishedResourceSpec_type L) (DeepCopyInto_PublishedResourceSpec L)"
  by (simp add: PublishedResourceSpec_type_def DeepCopyInto_PublishedResourceSpec_def struct_rules descriptor
     filters projection mutationSpec relatedSpec)

lemma publishedResource: "deep_copier (PublishedResource_type L) (DeepCopyInto_PublishedResource L)"
  by (simp add: PublishedResource_type_def DeepCopyInto_PublishedResource_def struct_rules spec)

lemma publishedResourceList: "deep_copier (PublishedResourceList_type L) (DeepCopyInto_PublishedResourceList L)"
  by (simp add: PublishedResourceList_type_def DeepCopyInto_PublishedResourceList_def struct_rules publishedResource)

text \<open>All types of the API.\<close>

lemma apiCopiers: "(t, k) \<in> set (apiCopiers L) \<Longrightarrow> deep_copier t k"
  using textCopiers_deep mutation mutationSpec projection descriptor filters rewrite objectSelector reference
    objectSpec relatedObject watch relatedSpec spec publishedResource publishedResourceList
  unfolding apiCopiers_def by auto

end

section \<open>The metadata of Kubernetes\<close>

text \<open>The types of the package \<open>metav1\<close> with their copiers, which have the contract of the library.\<close>

definition LabelSelector_type :: gtype where
  "LabelSelector_type = TStruct
     [(''MatchLabels'', TMap),
      (''MatchExpressions'', TSlice (TStruct [(''Key'', TBase), (''Operator'', TBase), (''Values'', TSlice TBase)]))]"

definition ObjectMeta_type :: gtype where
  "ObjectMeta_type = TStruct
     [(''Name'', TBase), (''GenerateName'', TBase), (''Namespace'', TBase), (''SelfLink'', TBase), (''UID'', TBase),
      (''ResourceVersion'', TBase), (''Generation'', TBase), (''CreationTimestamp'', TBase),
      (''DeletionTimestamp'', TPtr TBase), (''DeletionGracePeriodSeconds'', TPtr TBase), (''Labels'', TMap),
      (''Annotations'', TMap),
      (''OwnerReferences'', TSlice (TStruct
         [(''APIVersion'', TBase), (''Kind'', TBase), (''Name'', TBase), (''UID'', TBase),
          (''Controller'', TPtr TBase), (''BlockOwnerDeletion'', TPtr TBase)])),
      (''Finalizers'', TSlice TBase),
      (''ManagedFields'', TSlice (TStruct
         [(''Manager'', TBase), (''Operation'', TBase), (''APIVersion'', TBase), (''Time'', TPtr TBase),
          (''FieldsType'', TBase), (''FieldsV1'', TPtr (TStruct [(''Raw'', TSlice TBase)])), (''Subresource'', TBase)]))]"

definition ListMeta_type :: gtype where
  "ListMeta_type = TStruct
     [(''SelfLink'', TBase), (''ResourceVersion'', TBase), (''Continue'', TBase), (''RemainingItemCount'', TPtr TBase)]"

definition metaV1 :: metaLib where
  "metaV1 =
     \<lparr> ml_ObjectMeta = ObjectMeta_type,
       ml_copyObjectMeta = copyStruct
         [(''DeletionTimestamp'', copyPtr assign), (''DeletionGracePeriodSeconds'', copyPtr assign),
          (''Labels'', copyMap), (''Annotations'', copyMap),
          (''OwnerReferences'', copySlice (copyStruct
             [(''Controller'', copyPtr assign), (''BlockOwnerDeletion'', copyPtr assign)])),
          (''Finalizers'', copySlice assign),
          (''ManagedFields'', copySlice (copyStruct
             [(''Time'', copyPtr assign), (''FieldsV1'', copyPtr (copyStruct [(''Raw'', copySlice assign)]))]))],
       ml_ListMeta = ListMeta_type,
       ml_copyListMeta = copyStruct [(''RemainingItemCount'', copyPtr assign)],
       ml_LabelSelector = LabelSelector_type,
       ml_copyLabelSelector = copyStruct
         [(''MatchLabels'', copyMap), (''MatchExpressions'', copySlice (copyStruct [(''Values'', copySlice assign)]))] \<rparr>"

interpretation metav1: copy_library metaV1
  by (rule copy_library.intro)
     (simp_all add: metaV1_def ObjectMeta_type_def ListMeta_type_def LabelSelector_type_def struct_simps)

section \<open>Isolation\<close>

text \<open>
  C35. Deep copies are isolated. For every type of the API, the deep copy of an object denotes the same object,
  and original and copy have no cell in common: however the cells of the original are written afterwards,
  the copy denotes what was copied, and however those of the copy are written, the original does. The
  copy as an object is absent exactly for a nil pointer.
\<close>

theorem deep_copies_isolated:
  assumes "copy_library L" "(t, c) \<in> set (apiCopiers L)" "storeInv st"
    and "denotes (TPtr t) st p = Some x" "DeepCopy c p st = (q, st')"
  shows "denotes (TPtr t) st' q = Some x \<and> denotes (TPtr t) st' p = Some x \<and>
    DeepCopyObject (DeepCopy c) p st = (if p = GPtr None then None else Some q, st') \<and>
    reach (TPtr t) st' p \<inter> reach (TPtr t) st' q = {} \<and>
    (\<forall>st''. (\<forall>a. a \<notin> reach (TPtr t) st' p \<longrightarrow> cellAt st'' a = cellAt st' a) \<longrightarrow> denotes (TPtr t) st'' q = Some x) \<and>
    (\<forall>st''. (\<forall>a. a \<notin> reach (TPtr t) st' q \<longrightarrow> cellAt st'' a = cellAt st' a) \<longrightarrow> denotes (TPtr t) st'' p = Some x)"
proof -
  have k: "deep_copier (TPtr t) (DeepCopy c)"
    unfolding DeepCopy_copyPtr using copyPtr_deep copy_library.apiCopiers [OF assms(1,2)] by blast
  have "p = GPtr None \<longleftrightarrow> q = GPtr None" using copyPtr_nil assms(5) unfolding DeepCopy_copyPtr by blast
  then have "DeepCopyObject (DeepCopy c) p st = (if p = GPtr None then None else Some q, st')"
    using assms(5) by (simp add: DeepCopyObject_def)
  with deep_copier.isolated [OF k assms(3-5)] show ?thesis by blast
qed

text \<open>A resource whose labels are at the same time the labels its filter asks for.\<close>

definition noPtr :: "string \<Rightarrow> string \<times> gval" where
  "noPtr f = (f, GPtr None)"

definition blank :: "string \<Rightarrow> string \<times> gval" where
  "blank f = (f, GBase [])"

definition exampleMeta :: gval where
  "exampleMeta = GStruct
     (map blank [''Name'', ''GenerateName'', ''Namespace'', ''SelfLink'', ''UID'', ''ResourceVersion'', ''Generation'',
        ''CreationTimestamp''] @
      [noPtr ''DeletionTimestamp'', noPtr ''DeletionGracePeriodSeconds'', (''Labels'', GMap (Some 0)),
       (''Annotations'', GMap None), (''OwnerReferences'', GSlice None), (''Finalizers'', GSlice None),
       (''ManagedFields'', GSlice None)])"

definition exampleSpec :: gval where
  "exampleSpec = GStruct
     [(''Resource'', GStruct [blank ''APIGroup'', blank ''Version'', (''Versions'', GSlice None), blank ''Kind'']),
      (''Filter'', GPtr (Some 2)), noPtr ''Naming'', blank ''EnableWorkspacePaths'', noPtr ''Projection'',
      noPtr ''Mutation'', (''Related'', GSlice None), noPtr ''Synchronization'']"

definition exampleResource :: gval where
  "exampleResource = GStruct
     [(''TypeMeta'', GStruct [blank ''Kind'', blank ''APIVersion'']), (''ObjectMeta'', exampleMeta),
      (''Spec'', exampleSpec), (''Status'', GStruct [blank ''ResourceSchemaName''])]"

definition exampleStore :: gstore where
  "exampleStore =
     \<lparr> st_next = 4,
       st_cells = fmupd 3 (CVar exampleResource)
         (fmupd 2 (CVar (GStruct [(''Namespace'', GPtr (Some 1)), noPtr ''Resource'']))
         (fmupd 1 (CVar (GStruct [(''MatchLabels'', GMap (Some 0)), (''MatchExpressions'', GSlice None)]))
         (fmupd 0 (CMap (fmupd ''team'' ''a'' fmempty)) fmempty))) \<rparr>"

lemma exampleStore_inv: "storeInv exampleStore"
  by (auto simp: storeInv_def exampleStore_def split: if_splits)

theorem deep_copies_isolated_witness:
  "case DeepCopy (DeepCopyInto_PublishedResource metaV1) (GPtr (Some 3)) exampleStore of (q, st') \<Rightarrow>
     q = GPtr (Some 8) \<and>
     (\<forall>st''. (\<forall>a. a \<notin> reach (TPtr (PublishedResource_type metaV1)) st' (GPtr (Some 3)) \<longrightarrow>
              cellAt st'' a = cellAt st' a) \<longrightarrow>
        denotes (TPtr (PublishedResource_type metaV1)) st'' q =
        denotes (TPtr (PublishedResource_type metaV1)) exampleStore (GPtr (Some 3)))"
proof -
  obtain q st' where run: "DeepCopy (DeepCopyInto_PublishedResource metaV1) (GPtr (Some 3)) exampleStore = (q, st')"
    by fastforce
  have "fst (DeepCopy (DeepCopyInto_PublishedResource metaV1) (GPtr (Some 3)) exampleStore) = GPtr (Some 8)"
    by code_simp
  then have q: "q = GPtr (Some 8)" using run by simp
  have "denotes (TPtr (PublishedResource_type metaV1)) exampleStore (GPtr (Some 3)) \<noteq> None" by code_simp
  then obtain x where x: "denotes (TPtr (PublishedResource_type metaV1)) exampleStore (GPtr (Some 3)) = Some x" by blast
  have "(PublishedResource_type metaV1, DeepCopyInto_PublishedResource metaV1) \<in> set (apiCopiers metaV1)"
    by (simp add: apiCopiers_def)
  from deep_copies_isolated [OF metav1.copy_library_axioms this exampleStore_inv x run] q show ?thesis
    unfolding run prod.case x by blast
qed

end
