(* ===== verification/Apply_Configuration.thy ===== *)
theory Apply_Configuration
  imports API_Types
begin

text \<open>
  The apply configurations of the PublishedResource API (\<open>sdk/applyconfiguration\<close>): records in which every field
  can be left out, and the \<open>With\<close> functions that fill them. A function takes the value and then the
  receiver, so that calls are chained by application; it changes the receiver in place in Go and
  returns it, and returns the changed record here. A configuration that is passed by pointer is passed by value here:
  later changes through the caller's pointer are not followed. The receiver is never nil. A nil slice and an empty
  one behave alike in these types and are both the empty list; a nil map is \<open>None\<close>.
\<close>

section \<open>Setters\<close>

type_synonym ('v, 'b) setter = "'v \<Rightarrow> 'b \<Rightarrow> 'b"
type_synonym ('v, 'b) setterR = "'v \<Rightarrow> 'b \<Rightarrow> 'b result"

text \<open>The loop of a setter that takes pointers and appends what they point to.\<close>

fun appendValues :: "string \<Rightarrow> 'a option list \<Rightarrow> 'a list \<Rightarrow> 'a list result" where
  "appendValues msg [] vs = Inr vs"
| "appendValues msg (None # vals) vs = Inl (Panic msg)"
| "appendValues msg (Some v # vals) vs = appendValues msg vals (vs @ [v])"

text \<open>
  The loop of a setter that puts entries into a map, which is made first if there is an entry to put. A Go map
  has every key once, so the order of the iteration does not matter.
\<close>

definition putEntries :: "labels \<Rightarrow> labels option \<Rightarrow> labels option" where
  "putEntries entries m =
     (case (if m = None \<and> entries \<noteq> fmempty then Some fmempty else m) of
        None \<Rightarrow> None
      | Some x \<Rightarrow> Some (x ++\<^sub>f entries))"

text \<open>
  The parts of the configurations of \<open>client-go\<close> that the setters write. Configurations of label selector
  requirements and owner references are only passed on; they are their JSON documents.
\<close>

record LabelSelectorApplyConfiguration =
  lsc_MatchLabels :: "labels option"
  lsc_MatchExpressions :: "json list"

definition new_LabelSelector :: LabelSelectorApplyConfiguration where
  "new_LabelSelector = \<lparr> lsc_MatchLabels = None, lsc_MatchExpressions = [] \<rparr>"

record TypeMetaApplyConfiguration =
  tmc_Kind :: "string option"
  tmc_APIVersion :: "string option"

record ObjectMetaApplyConfiguration =
  omc_Name :: "string option"
  omc_GenerateName :: "string option"
  omc_Namespace :: "string option"
  omc_UID :: "string option"
  omc_ResourceVersion :: "string option"
  omc_Generation :: "int option"
  omc_CreationTimestamp :: "string option"
  omc_DeletionTimestamp :: "string option"
  omc_DeletionGracePeriodSeconds :: "int option"
  omc_Labels :: "labels option"
  omc_Annotations :: "labels option"
  omc_OwnerReferences :: "json list"
  omc_Finalizers :: "string list"

definition new_ObjectMeta :: ObjectMetaApplyConfiguration where
  "new_ObjectMeta = \<lparr> omc_Name = None, omc_GenerateName = None, omc_Namespace = None, omc_UID = None,
     omc_ResourceVersion = None, omc_Generation = None, omc_CreationTimestamp = None, omc_DeletionTimestamp = None,
     omc_DeletionGracePeriodSeconds = None, omc_Labels = None, omc_Annotations = None, omc_OwnerReferences = [],
     omc_Finalizers = [] \<rparr>"

section \<open>Configurations\<close>

subsection \<open>Expressions\<close>

record RegularExpressionApplyConfiguration =
  rec_Pattern :: "string option"
  rec_Replacement :: "string option"

definition new_RegularExpression :: RegularExpressionApplyConfiguration where
  "new_RegularExpression = \<lparr> rec_Pattern = None, rec_Replacement = None \<rparr>"

definition RegularExpression_WithPattern :: "(string, RegularExpressionApplyConfiguration) setter" where
  "RegularExpression_WithPattern v b = b\<lparr>rec_Pattern := Some v\<rparr>"

definition RegularExpression_WithReplacement :: "(string, RegularExpressionApplyConfiguration) setter" where
  "RegularExpression_WithReplacement v b = b\<lparr>rec_Replacement := Some v\<rparr>"

record TemplateExpressionApplyConfiguration =
  tec_Template :: "string option"

definition new_TemplateExpression :: TemplateExpressionApplyConfiguration where
  "new_TemplateExpression = \<lparr> tec_Template = None \<rparr>"

definition TemplateExpression_WithTemplate :: "(string, TemplateExpressionApplyConfiguration) setter" where
  "TemplateExpression_WithTemplate v b = b\<lparr>tec_Template := Some v\<rparr>"

subsection \<open>Mutations\<close>

record ResourceDeleteMutationApplyConfiguration =
  rdmc_Path :: "string option"

definition new_ResourceDeleteMutation :: ResourceDeleteMutationApplyConfiguration where
  "new_ResourceDeleteMutation = \<lparr> rdmc_Path = None \<rparr>"

definition ResourceDeleteMutation_WithPath :: "(string, ResourceDeleteMutationApplyConfiguration) setter" where
  "ResourceDeleteMutation_WithPath v b = b\<lparr>rdmc_Path := Some v\<rparr>"

record ResourceRegexMutationApplyConfiguration =
  rrmc_Path :: "string option"
  rrmc_Pattern :: "string option"
  rrmc_Replacement :: "string option"

definition new_ResourceRegexMutation :: ResourceRegexMutationApplyConfiguration where
  "new_ResourceRegexMutation = \<lparr> rrmc_Path = None, rrmc_Pattern = None, rrmc_Replacement = None \<rparr>"

definition ResourceRegexMutation_WithPath :: "(string, ResourceRegexMutationApplyConfiguration) setter" where
  "ResourceRegexMutation_WithPath v b = b\<lparr>rrmc_Path := Some v\<rparr>"

definition ResourceRegexMutation_WithPattern :: "(string, ResourceRegexMutationApplyConfiguration) setter" where
  "ResourceRegexMutation_WithPattern v b = b\<lparr>rrmc_Pattern := Some v\<rparr>"

definition ResourceRegexMutation_WithReplacement ::
    "(string, ResourceRegexMutationApplyConfiguration) setter" where
  "ResourceRegexMutation_WithReplacement v b = b\<lparr>rrmc_Replacement := Some v\<rparr>"

record ResourceTemplateMutationApplyConfiguration =
  rtmc_Path :: "string option"
  rtmc_Template :: "string option"

definition new_ResourceTemplateMutation :: ResourceTemplateMutationApplyConfiguration where
  "new_ResourceTemplateMutation = \<lparr> rtmc_Path = None, rtmc_Template = None \<rparr>"

definition ResourceTemplateMutation_WithPath ::
    "(string, ResourceTemplateMutationApplyConfiguration) setter" where
  "ResourceTemplateMutation_WithPath v b = b\<lparr>rtmc_Path := Some v\<rparr>"

definition ResourceTemplateMutation_WithTemplate ::
    "(string, ResourceTemplateMutationApplyConfiguration) setter" where
  "ResourceTemplateMutation_WithTemplate v b = b\<lparr>rtmc_Template := Some v\<rparr>"

record ResourceCELMutationApplyConfiguration =
  rcmc_Path :: "string option"
  rcmc_Expression :: "string option"

definition new_ResourceCELMutation :: ResourceCELMutationApplyConfiguration where
  "new_ResourceCELMutation = \<lparr> rcmc_Path = None, rcmc_Expression = None \<rparr>"

definition ResourceCELMutation_WithPath :: "(string, ResourceCELMutationApplyConfiguration) setter" where
  "ResourceCELMutation_WithPath v b = b\<lparr>rcmc_Path := Some v\<rparr>"

definition ResourceCELMutation_WithExpression :: "(string, ResourceCELMutationApplyConfiguration) setter" where
  "ResourceCELMutation_WithExpression v b = b\<lparr>rcmc_Expression := Some v\<rparr>"

record ResourceMutationApplyConfiguration =
  rmc_Delete :: "ResourceDeleteMutationApplyConfiguration option"
  rmc_Regex :: "ResourceRegexMutationApplyConfiguration option"
  rmc_Template :: "ResourceTemplateMutationApplyConfiguration option"
  rmc_CEL :: "ResourceCELMutationApplyConfiguration option"

definition new_ResourceMutation :: ResourceMutationApplyConfiguration where
  "new_ResourceMutation = \<lparr> rmc_Delete = None, rmc_Regex = None, rmc_Template = None, rmc_CEL = None \<rparr>"

definition ResourceMutation_WithDelete ::
    "(ResourceDeleteMutationApplyConfiguration option, ResourceMutationApplyConfiguration) setter" where
  "ResourceMutation_WithDelete v b = b\<lparr>rmc_Delete := v\<rparr>"

definition ResourceMutation_WithRegex ::
    "(ResourceRegexMutationApplyConfiguration option, ResourceMutationApplyConfiguration) setter" where
  "ResourceMutation_WithRegex v b = b\<lparr>rmc_Regex := v\<rparr>"

definition ResourceMutation_WithTemplate ::
    "(ResourceTemplateMutationApplyConfiguration option, ResourceMutationApplyConfiguration) setter" where
  "ResourceMutation_WithTemplate v b = b\<lparr>rmc_Template := v\<rparr>"

definition ResourceMutation_WithCEL ::
    "(ResourceCELMutationApplyConfiguration option, ResourceMutationApplyConfiguration) setter" where
  "ResourceMutation_WithCEL v b = b\<lparr>rmc_CEL := v\<rparr>"

record ResourceMutationSpecApplyConfiguration =
  rmsc_Spec :: "ResourceMutationApplyConfiguration list"
  rmsc_Status :: "ResourceMutationApplyConfiguration list"

definition new_ResourceMutationSpec :: ResourceMutationSpecApplyConfiguration where
  "new_ResourceMutationSpec = \<lparr> rmsc_Spec = [], rmsc_Status = [] \<rparr>"

definition ResourceMutationSpec_WithSpec ::
    "((ResourceMutationApplyConfiguration option) list, ResourceMutationSpecApplyConfiguration) setterR" where
  "ResourceMutationSpec_WithSpec vals b =
     bindR (appendValues ''nil value passed to WithSpec'' vals (rmsc_Spec b))
       (\<lambda>vs. Inr (b\<lparr>rmsc_Spec := vs\<rparr>))"

definition ResourceMutationSpec_WithStatus ::
    "((ResourceMutationApplyConfiguration option) list, ResourceMutationSpecApplyConfiguration) setterR" where
  "ResourceMutationSpec_WithStatus vals b =
     bindR (appendValues ''nil value passed to WithStatus'' vals (rmsc_Status b))
       (\<lambda>vs. Inr (b\<lparr>rmsc_Status := vs\<rparr>))"

subsection \<open>Filters, naming and projection\<close>

record ResourceFilterApplyConfiguration =
  fltc_Namespace :: "LabelSelectorApplyConfiguration option"
  fltc_Resource :: "LabelSelectorApplyConfiguration option"

definition new_ResourceFilter :: ResourceFilterApplyConfiguration where
  "new_ResourceFilter = \<lparr> fltc_Namespace = None, fltc_Resource = None \<rparr>"

definition ResourceFilter_WithNamespace ::
    "(LabelSelectorApplyConfiguration option, ResourceFilterApplyConfiguration) setter" where
  "ResourceFilter_WithNamespace v b = b\<lparr>fltc_Namespace := v\<rparr>"

definition ResourceFilter_WithResource ::
    "(LabelSelectorApplyConfiguration option, ResourceFilterApplyConfiguration) setter" where
  "ResourceFilter_WithResource v b = b\<lparr>fltc_Resource := v\<rparr>"

record ResourceNamingApplyConfiguration =
  rnc_Name :: "string option"
  rnc_Namespace :: "string option"

definition new_ResourceNaming :: ResourceNamingApplyConfiguration where
  "new_ResourceNaming = \<lparr> rnc_Name = None, rnc_Namespace = None \<rparr>"

definition ResourceNaming_WithName :: "(string, ResourceNamingApplyConfiguration) setter" where
  "ResourceNaming_WithName v b = b\<lparr>rnc_Name := Some v\<rparr>"

definition ResourceNaming_WithNamespace :: "(string, ResourceNamingApplyConfiguration) setter" where
  "ResourceNaming_WithNamespace v b = b\<lparr>rnc_Namespace := Some v\<rparr>"

record ResourceProjectionApplyConfiguration =
  rpc_Group :: "string option"
  rpc_Version :: "string option"
  rpc_Versions :: "labels option"
  rpc_Scope :: "ResourceScope option"
  rpc_Kind :: "string option"
  rpc_Plural :: "string option"
  rpc_ShortNames :: "string list"
  rpc_Categories :: "string list"

definition new_ResourceProjection :: ResourceProjectionApplyConfiguration where
  "new_ResourceProjection = \<lparr> rpc_Group = None, rpc_Version = None, rpc_Versions = None, rpc_Scope = None, rpc_Kind = None,
     rpc_Plural = None, rpc_ShortNames = [], rpc_Categories = [] \<rparr>"

definition ResourceProjection_WithGroup :: "(string, ResourceProjectionApplyConfiguration) setter" where
  "ResourceProjection_WithGroup v b = b\<lparr>rpc_Group := Some v\<rparr>"

definition ResourceProjection_WithVersion :: "(string, ResourceProjectionApplyConfiguration) setter" where
  "ResourceProjection_WithVersion v b = b\<lparr>rpc_Version := Some v\<rparr>"

definition ResourceProjection_WithVersions :: "(labels, ResourceProjectionApplyConfiguration) setter" where
  "ResourceProjection_WithVersions entries b =
     b\<lparr>rpc_Versions := putEntries entries (rpc_Versions b)\<rparr>"

definition ResourceProjection_WithScope :: "(ResourceScope, ResourceProjectionApplyConfiguration) setter" where
  "ResourceProjection_WithScope v b = b\<lparr>rpc_Scope := Some v\<rparr>"

definition ResourceProjection_WithKind :: "(string, ResourceProjectionApplyConfiguration) setter" where
  "ResourceProjection_WithKind v b = b\<lparr>rpc_Kind := Some v\<rparr>"

definition ResourceProjection_WithPlural :: "(string, ResourceProjectionApplyConfiguration) setter" where
  "ResourceProjection_WithPlural v b = b\<lparr>rpc_Plural := Some v\<rparr>"

definition ResourceProjection_WithShortNames ::
    "(string list, ResourceProjectionApplyConfiguration) setter" where
  "ResourceProjection_WithShortNames vals b =
     b\<lparr>rpc_ShortNames := fold (\<lambda>v vs. vs @ [v]) vals (rpc_ShortNames b)\<rparr>"

definition ResourceProjection_WithCategories ::
    "(string list, ResourceProjectionApplyConfiguration) setter" where
  "ResourceProjection_WithCategories vals b =
     b\<lparr>rpc_Categories := fold (\<lambda>v vs. vs @ [v]) vals (rpc_Categories b)\<rparr>"

record SourceResourceDescriptorApplyConfiguration =
  srdc_APIGroup :: "string option"
  srdc_Version :: "string option"
  srdc_Versions :: "string list"
  srdc_Kind :: "string option"

definition new_SourceResourceDescriptor :: SourceResourceDescriptorApplyConfiguration where
  "new_SourceResourceDescriptor = \<lparr> srdc_APIGroup = None, srdc_Version = None, srdc_Versions = [], srdc_Kind = None \<rparr>"

definition SourceResourceDescriptor_WithAPIGroup ::
    "(string, SourceResourceDescriptorApplyConfiguration) setter" where
  "SourceResourceDescriptor_WithAPIGroup v b = b\<lparr>srdc_APIGroup := Some v\<rparr>"

definition SourceResourceDescriptor_WithVersion ::
    "(string, SourceResourceDescriptorApplyConfiguration) setter" where
  "SourceResourceDescriptor_WithVersion v b = b\<lparr>srdc_Version := Some v\<rparr>"

definition SourceResourceDescriptor_WithVersions ::
    "(string list, SourceResourceDescriptorApplyConfiguration) setter" where
  "SourceResourceDescriptor_WithVersions vals b =
     b\<lparr>srdc_Versions := fold (\<lambda>v vs. vs @ [v]) vals (srdc_Versions b)\<rparr>"

definition SourceResourceDescriptor_WithKind ::
    "(string, SourceResourceDescriptorApplyConfiguration) setter" where
  "SourceResourceDescriptor_WithKind v b = b\<lparr>srdc_Kind := Some v\<rparr>"

record SynchronizationSpecApplyConfiguration =
  sycc_Enabled :: "bool option"

definition new_SynchronizationSpec :: SynchronizationSpecApplyConfiguration where
  "new_SynchronizationSpec = \<lparr> sycc_Enabled = None \<rparr>"

definition SynchronizationSpec_WithEnabled :: "(bool, SynchronizationSpecApplyConfiguration) setter" where
  "SynchronizationSpec_WithEnabled v b = b\<lparr>sycc_Enabled := Some v\<rparr>"

subsection \<open>Related resources\<close>

record RelatedResourceSelectorRewriteApplyConfiguration =
  rwc_Regex :: "RegularExpressionApplyConfiguration option"
  rwc_Template :: "TemplateExpressionApplyConfiguration option"

definition new_RelatedResourceSelectorRewrite :: RelatedResourceSelectorRewriteApplyConfiguration where
  "new_RelatedResourceSelectorRewrite = \<lparr> rwc_Regex = None, rwc_Template = None \<rparr>"

definition RelatedResourceSelectorRewrite_WithRegex ::
    "(RegularExpressionApplyConfiguration option, RelatedResourceSelectorRewriteApplyConfiguration) setter" where
  "RelatedResourceSelectorRewrite_WithRegex v b = b\<lparr>rwc_Regex := v\<rparr>"

definition RelatedResourceSelectorRewrite_WithTemplate ::
    "(TemplateExpressionApplyConfiguration option, RelatedResourceSelectorRewriteApplyConfiguration) setter" where
  "RelatedResourceSelectorRewrite_WithTemplate v b = b\<lparr>rwc_Template := v\<rparr>"

record RelatedResourceObjectReferenceApplyConfiguration =
  refc_Path :: "string option"
  refc_Regex :: "RegularExpressionApplyConfiguration option"

definition new_RelatedResourceObjectReference :: RelatedResourceObjectReferenceApplyConfiguration where
  "new_RelatedResourceObjectReference = \<lparr> refc_Path = None, refc_Regex = None \<rparr>"

definition RelatedResourceObjectReference_WithPath ::
    "(string, RelatedResourceObjectReferenceApplyConfiguration) setter" where
  "RelatedResourceObjectReference_WithPath v b = b\<lparr>refc_Path := Some v\<rparr>"

definition RelatedResourceObjectReference_WithRegex ::
    "(RegularExpressionApplyConfiguration option, RelatedResourceObjectReferenceApplyConfiguration) setter" where
  "RelatedResourceObjectReference_WithRegex v b = b\<lparr>refc_Regex := v\<rparr>"

record RelatedResourceObjectSelectorApplyConfiguration =
  rosc_LabelSelector :: LabelSelectorApplyConfiguration
  rosc_Rewrite :: "RelatedResourceSelectorRewriteApplyConfiguration option"

definition new_RelatedResourceObjectSelector :: RelatedResourceObjectSelectorApplyConfiguration where
  "new_RelatedResourceObjectSelector = \<lparr> rosc_LabelSelector = new_LabelSelector,
     rosc_Rewrite = None \<rparr>"

definition RelatedResourceObjectSelector_WithMatchLabels ::
    "(labels, RelatedResourceObjectSelectorApplyConfiguration) setter" where
  "RelatedResourceObjectSelector_WithMatchLabels entries b =
     b\<lparr>rosc_LabelSelector := (rosc_LabelSelector b)\<lparr>lsc_MatchLabels :=
       putEntries entries (lsc_MatchLabels (rosc_LabelSelector b))\<rparr>\<rparr>"

definition RelatedResourceObjectSelector_WithMatchExpressions ::
    "((json option) list, RelatedResourceObjectSelectorApplyConfiguration) setterR" where
  "RelatedResourceObjectSelector_WithMatchExpressions vals b =
     bindR (appendValues ''nil value passed to WithMatchExpressions'' vals
         (lsc_MatchExpressions (rosc_LabelSelector b)))
       (\<lambda>vs. Inr (b\<lparr>rosc_LabelSelector := (rosc_LabelSelector b)\<lparr>lsc_MatchExpressions := vs\<rparr>\<rparr>))"

definition RelatedResourceObjectSelector_WithRewrite ::
    "(RelatedResourceSelectorRewriteApplyConfiguration option, RelatedResourceObjectSelectorApplyConfiguration) setter" where
  "RelatedResourceObjectSelector_WithRewrite v b = b\<lparr>rosc_Rewrite := v\<rparr>"

record RelatedResourceObjectSpecApplyConfiguration =
  osc_Selector :: "RelatedResourceObjectSelectorApplyConfiguration option"
  osc_Reference :: "RelatedResourceObjectReferenceApplyConfiguration option"
  osc_Template :: "TemplateExpressionApplyConfiguration option"

definition new_RelatedResourceObjectSpec :: RelatedResourceObjectSpecApplyConfiguration where
  "new_RelatedResourceObjectSpec = \<lparr> osc_Selector = None, osc_Reference = None, osc_Template = None \<rparr>"

definition RelatedResourceObjectSpec_WithSelector ::
    "(RelatedResourceObjectSelectorApplyConfiguration option, RelatedResourceObjectSpecApplyConfiguration) setter" where
  "RelatedResourceObjectSpec_WithSelector v b = b\<lparr>osc_Selector := v\<rparr>"

definition RelatedResourceObjectSpec_WithReference ::
    "(RelatedResourceObjectReferenceApplyConfiguration option, RelatedResourceObjectSpecApplyConfiguration) setter" where
  "RelatedResourceObjectSpec_WithReference v b = b\<lparr>osc_Reference := v\<rparr>"

definition RelatedResourceObjectSpec_WithTemplate ::
    "(TemplateExpressionApplyConfiguration option, RelatedResourceObjectSpecApplyConfiguration) setter" where
  "RelatedResourceObjectSpec_WithTemplate v b = b\<lparr>osc_Template := v\<rparr>"

record RelatedResourceObjectApplyConfiguration =
  roc_Spec :: RelatedResourceObjectSpecApplyConfiguration
  roc_Namespace :: "RelatedResourceObjectSpecApplyConfiguration option"

definition new_RelatedResourceObject :: RelatedResourceObjectApplyConfiguration where
  "new_RelatedResourceObject = \<lparr> roc_Spec = new_RelatedResourceObjectSpec, roc_Namespace = None \<rparr>"

definition RelatedResourceObject_WithSelector ::
    "(RelatedResourceObjectSelectorApplyConfiguration option, RelatedResourceObjectApplyConfiguration) setter" where
  "RelatedResourceObject_WithSelector v b =
     b\<lparr>roc_Spec := (roc_Spec b)\<lparr>osc_Selector := v\<rparr>\<rparr>"

definition RelatedResourceObject_WithReference ::
    "(RelatedResourceObjectReferenceApplyConfiguration option, RelatedResourceObjectApplyConfiguration) setter" where
  "RelatedResourceObject_WithReference v b =
     b\<lparr>roc_Spec := (roc_Spec b)\<lparr>osc_Reference := v\<rparr>\<rparr>"

definition RelatedResourceObject_WithTemplate ::
    "(TemplateExpressionApplyConfiguration option, RelatedResourceObjectApplyConfiguration) setter" where
  "RelatedResourceObject_WithTemplate v b =
     b\<lparr>roc_Spec := (roc_Spec b)\<lparr>osc_Template := v\<rparr>\<rparr>"

definition RelatedResourceObject_WithNamespace ::
    "(RelatedResourceObjectSpecApplyConfiguration option, RelatedResourceObjectApplyConfiguration) setter" where
  "RelatedResourceObject_WithNamespace v b = b\<lparr>roc_Namespace := v\<rparr>"

record RelatedResourceProjectionApplyConfiguration =
  rrpc_Group :: "string option"
  rrpc_Version :: "string option"
  rrpc_Resource :: "string option"

definition new_RelatedResourceProjection :: RelatedResourceProjectionApplyConfiguration where
  "new_RelatedResourceProjection = \<lparr> rrpc_Group = None, rrpc_Version = None, rrpc_Resource = None \<rparr>"

definition RelatedResourceProjection_WithGroup ::
    "(string, RelatedResourceProjectionApplyConfiguration) setter" where
  "RelatedResourceProjection_WithGroup v b = b\<lparr>rrpc_Group := Some v\<rparr>"

definition RelatedResourceProjection_WithVersion ::
    "(string, RelatedResourceProjectionApplyConfiguration) setter" where
  "RelatedResourceProjection_WithVersion v b = b\<lparr>rrpc_Version := Some v\<rparr>"

definition RelatedResourceProjection_WithResource ::
    "(string, RelatedResourceProjectionApplyConfiguration) setter" where
  "RelatedResourceProjection_WithResource v b = b\<lparr>rrpc_Resource := Some v\<rparr>"

record RelatedResourceWatchApplyConfiguration =
  rrwc_ByOwner :: "unit option"
  rrwc_BySelector :: "LabelSelectorApplyConfiguration option"

definition new_RelatedResourceWatch :: RelatedResourceWatchApplyConfiguration where
  "new_RelatedResourceWatch = \<lparr> rrwc_ByOwner = None, rrwc_BySelector = None \<rparr>"

definition RelatedResourceWatch_WithByOwner :: "(unit, RelatedResourceWatchApplyConfiguration) setter" where
  "RelatedResourceWatch_WithByOwner v b = b\<lparr>rrwc_ByOwner := Some v\<rparr>"

definition RelatedResourceWatch_WithBySelector ::
    "(LabelSelectorApplyConfiguration option, RelatedResourceWatchApplyConfiguration) setter" where
  "RelatedResourceWatch_WithBySelector v b = b\<lparr>rrwc_BySelector := v\<rparr>"

record RelatedResourceSpecApplyConfiguration =
  rrc_Identifier :: "string option"
  rrc_Origin :: "RelatedResourceOrigin option"
  rrc_Group :: "string option"
  rrc_Version :: "string option"
  rrc_Resource :: "string option"
  rrc_Kind :: "string option"
  rrc_IdentityHash :: "string option"
  rrc_Cleanup :: "bool option"
  rrc_CleanupPolicy :: "RelatedResourceCleanupPolicy option"
  rrc_Projection :: "RelatedResourceProjectionApplyConfiguration option"
  rrc_Object :: "RelatedResourceObjectApplyConfiguration option"
  rrc_Mutation :: "ResourceMutationSpecApplyConfiguration option"
  rrc_Watch :: "RelatedResourceWatchApplyConfiguration option"
  rrc_SyncStatus :: "bool option"

definition new_RelatedResourceSpec :: RelatedResourceSpecApplyConfiguration where
  "new_RelatedResourceSpec = \<lparr> rrc_Identifier = None, rrc_Origin = None, rrc_Group = None, rrc_Version = None, rrc_Resource = None,
     rrc_Kind = None, rrc_IdentityHash = None, rrc_Cleanup = None, rrc_CleanupPolicy = None,
     rrc_Projection = None, rrc_Object = None, rrc_Mutation = None, rrc_Watch = None,
     rrc_SyncStatus = None \<rparr>"

definition RelatedResourceSpec_WithIdentifier :: "(string, RelatedResourceSpecApplyConfiguration) setter" where
  "RelatedResourceSpec_WithIdentifier v b = b\<lparr>rrc_Identifier := Some v\<rparr>"

definition RelatedResourceSpec_WithOrigin ::
    "(RelatedResourceOrigin, RelatedResourceSpecApplyConfiguration) setter" where
  "RelatedResourceSpec_WithOrigin v b = b\<lparr>rrc_Origin := Some v\<rparr>"

definition RelatedResourceSpec_WithGroup :: "(string, RelatedResourceSpecApplyConfiguration) setter" where
  "RelatedResourceSpec_WithGroup v b = b\<lparr>rrc_Group := Some v\<rparr>"

definition RelatedResourceSpec_WithVersion :: "(string, RelatedResourceSpecApplyConfiguration) setter" where
  "RelatedResourceSpec_WithVersion v b = b\<lparr>rrc_Version := Some v\<rparr>"

definition RelatedResourceSpec_WithResource :: "(string, RelatedResourceSpecApplyConfiguration) setter" where
  "RelatedResourceSpec_WithResource v b = b\<lparr>rrc_Resource := Some v\<rparr>"

definition RelatedResourceSpec_WithKind :: "(string, RelatedResourceSpecApplyConfiguration) setter" where
  "RelatedResourceSpec_WithKind v b = b\<lparr>rrc_Kind := Some v\<rparr>"

definition RelatedResourceSpec_WithIdentityHash ::
    "(string, RelatedResourceSpecApplyConfiguration) setter" where
  "RelatedResourceSpec_WithIdentityHash v b = b\<lparr>rrc_IdentityHash := Some v\<rparr>"

definition RelatedResourceSpec_WithCleanup :: "(bool, RelatedResourceSpecApplyConfiguration) setter" where
  "RelatedResourceSpec_WithCleanup v b = b\<lparr>rrc_Cleanup := Some v\<rparr>"

definition RelatedResourceSpec_WithCleanupPolicy ::
    "(RelatedResourceCleanupPolicy, RelatedResourceSpecApplyConfiguration) setter" where
  "RelatedResourceSpec_WithCleanupPolicy v b = b\<lparr>rrc_CleanupPolicy := Some v\<rparr>"

definition RelatedResourceSpec_WithProjection ::
    "(RelatedResourceProjectionApplyConfiguration option, RelatedResourceSpecApplyConfiguration) setter" where
  "RelatedResourceSpec_WithProjection v b = b\<lparr>rrc_Projection := v\<rparr>"

definition RelatedResourceSpec_WithObject ::
    "(RelatedResourceObjectApplyConfiguration option, RelatedResourceSpecApplyConfiguration) setter" where
  "RelatedResourceSpec_WithObject v b = b\<lparr>rrc_Object := v\<rparr>"

definition RelatedResourceSpec_WithMutation ::
    "(ResourceMutationSpecApplyConfiguration option, RelatedResourceSpecApplyConfiguration) setter" where
  "RelatedResourceSpec_WithMutation v b = b\<lparr>rrc_Mutation := v\<rparr>"

definition RelatedResourceSpec_WithWatch ::
    "(RelatedResourceWatchApplyConfiguration option, RelatedResourceSpecApplyConfiguration) setter" where
  "RelatedResourceSpec_WithWatch v b = b\<lparr>rrc_Watch := v\<rparr>"

definition RelatedResourceSpec_WithSyncStatus :: "(bool, RelatedResourceSpecApplyConfiguration) setter" where
  "RelatedResourceSpec_WithSyncStatus v b = b\<lparr>rrc_SyncStatus := Some v\<rparr>"

subsection \<open>PublishedResources\<close>

record PublishedResourceSpecApplyConfiguration =
  prsc_Resource :: "SourceResourceDescriptorApplyConfiguration option"
  prsc_Filter :: "ResourceFilterApplyConfiguration option"
  prsc_Naming :: "ResourceNamingApplyConfiguration option"
  prsc_EnableWorkspacePaths :: "bool option"
  prsc_Projection :: "ResourceProjectionApplyConfiguration option"
  prsc_Mutation :: "ResourceMutationSpecApplyConfiguration option"
  prsc_Related :: "RelatedResourceSpecApplyConfiguration list"
  prsc_Synchronization :: "SynchronizationSpecApplyConfiguration option"

definition new_PublishedResourceSpec :: PublishedResourceSpecApplyConfiguration where
  "new_PublishedResourceSpec = \<lparr> prsc_Resource = None, prsc_Filter = None, prsc_Naming = None, prsc_EnableWorkspacePaths = None,
     prsc_Projection = None, prsc_Mutation = None, prsc_Related = [], prsc_Synchronization = None \<rparr>"

definition PublishedResourceSpec_WithResource ::
    "(SourceResourceDescriptorApplyConfiguration option, PublishedResourceSpecApplyConfiguration) setter" where
  "PublishedResourceSpec_WithResource v b = b\<lparr>prsc_Resource := v\<rparr>"

definition PublishedResourceSpec_WithFilter ::
    "(ResourceFilterApplyConfiguration option, PublishedResourceSpecApplyConfiguration) setter" where
  "PublishedResourceSpec_WithFilter v b = b\<lparr>prsc_Filter := v\<rparr>"

definition PublishedResourceSpec_WithNaming ::
    "(ResourceNamingApplyConfiguration option, PublishedResourceSpecApplyConfiguration) setter" where
  "PublishedResourceSpec_WithNaming v b = b\<lparr>prsc_Naming := v\<rparr>"

definition PublishedResourceSpec_WithEnableWorkspacePaths ::
    "(bool, PublishedResourceSpecApplyConfiguration) setter" where
  "PublishedResourceSpec_WithEnableWorkspacePaths v b =
     b\<lparr>prsc_EnableWorkspacePaths := Some v\<rparr>"

definition PublishedResourceSpec_WithProjection ::
    "(ResourceProjectionApplyConfiguration option, PublishedResourceSpecApplyConfiguration) setter" where
  "PublishedResourceSpec_WithProjection v b = b\<lparr>prsc_Projection := v\<rparr>"

definition PublishedResourceSpec_WithMutation ::
    "(ResourceMutationSpecApplyConfiguration option, PublishedResourceSpecApplyConfiguration) setter" where
  "PublishedResourceSpec_WithMutation v b = b\<lparr>prsc_Mutation := v\<rparr>"

definition PublishedResourceSpec_WithRelated ::
    "((RelatedResourceSpecApplyConfiguration option) list, PublishedResourceSpecApplyConfiguration) setterR" where
  "PublishedResourceSpec_WithRelated vals b =
     bindR (appendValues ''nil value passed to WithRelated'' vals (prsc_Related b))
       (\<lambda>vs. Inr (b\<lparr>prsc_Related := vs\<rparr>))"

definition PublishedResourceSpec_WithSynchronization ::
    "(SynchronizationSpecApplyConfiguration option, PublishedResourceSpecApplyConfiguration) setter" where
  "PublishedResourceSpec_WithSynchronization v b = b\<lparr>prsc_Synchronization := v\<rparr>"

record PublishedResourceStatusApplyConfiguration =
  pstc_ResourceSchemaName :: "string option"

definition new_PublishedResourceStatus :: PublishedResourceStatusApplyConfiguration where
  "new_PublishedResourceStatus = \<lparr> pstc_ResourceSchemaName = None \<rparr>"

definition PublishedResourceStatus_WithResourceSchemaName ::
    "(string, PublishedResourceStatusApplyConfiguration) setter" where
  "PublishedResourceStatus_WithResourceSchemaName v b =
     b\<lparr>pstc_ResourceSchemaName := Some v\<rparr>"

record PublishedResourceApplyConfiguration =
  prc_TypeMeta :: TypeMetaApplyConfiguration
  prc_ObjectMeta :: "ObjectMetaApplyConfiguration option"
  prc_Spec :: "PublishedResourceSpecApplyConfiguration option"
  prc_Status :: "PublishedResourceStatusApplyConfiguration option"

definition zero_PublishedResource :: PublishedResourceApplyConfiguration where
  "zero_PublishedResource = \<lparr> prc_TypeMeta = \<lparr> tmc_Kind = None, tmc_APIVersion = None \<rparr>, prc_ObjectMeta = None,
     prc_Spec = None, prc_Status = None \<rparr>"

text \<open>The metadata is created when the first of its fields is set or read.\<close>

definition ensureObjectMetaApplyConfigurationExists ::
    "PublishedResourceApplyConfiguration \<Rightarrow> PublishedResourceApplyConfiguration" where
  "ensureObjectMetaApplyConfigurationExists b =
     (case prc_ObjectMeta b of None \<Rightarrow> b\<lparr>prc_ObjectMeta := Some new_ObjectMeta\<rparr> | Some m \<Rightarrow> b)"

definition updateObjectMeta ::
    "(ObjectMetaApplyConfiguration \<Rightarrow> ObjectMetaApplyConfiguration) \<Rightarrow>
     PublishedResourceApplyConfiguration \<Rightarrow> PublishedResourceApplyConfiguration" where
  "updateObjectMeta f b =
     (let b = ensureObjectMetaApplyConfigurationExists b in b\<lparr>prc_ObjectMeta := map_option f (prc_ObjectMeta b)\<rparr>)"

definition GetName ::
    "PublishedResourceApplyConfiguration \<Rightarrow> string option \<times> PublishedResourceApplyConfiguration" where
  "GetName b =
     (let b = ensureObjectMetaApplyConfigurationExists b
      in (case prc_ObjectMeta b of None \<Rightarrow> None | Some m \<Rightarrow> omc_Name m, b))"

definition PublishedResource_WithKind :: "(string, PublishedResourceApplyConfiguration) setter" where
  "PublishedResource_WithKind v b =
     b\<lparr>prc_TypeMeta := (prc_TypeMeta b)\<lparr>tmc_Kind := Some v\<rparr>\<rparr>"

definition PublishedResource_WithAPIVersion :: "(string, PublishedResourceApplyConfiguration) setter" where
  "PublishedResource_WithAPIVersion v b =
     b\<lparr>prc_TypeMeta := (prc_TypeMeta b)\<lparr>tmc_APIVersion := Some v\<rparr>\<rparr>"

definition PublishedResource_WithName :: "(string, PublishedResourceApplyConfiguration) setter" where
  "PublishedResource_WithName v b =
     updateObjectMeta (\<lambda>m. m\<lparr>omc_Name := Some v\<rparr>) b"

definition PublishedResource_WithGenerateName :: "(string, PublishedResourceApplyConfiguration) setter" where
  "PublishedResource_WithGenerateName v b =
     updateObjectMeta (\<lambda>m. m\<lparr>omc_GenerateName := Some v\<rparr>) b"

definition PublishedResource_WithNamespace :: "(string, PublishedResourceApplyConfiguration) setter" where
  "PublishedResource_WithNamespace v b =
     updateObjectMeta (\<lambda>m. m\<lparr>omc_Namespace := Some v\<rparr>) b"

definition PublishedResource_WithUID :: "(string, PublishedResourceApplyConfiguration) setter" where
  "PublishedResource_WithUID v b =
     updateObjectMeta (\<lambda>m. m\<lparr>omc_UID := Some v\<rparr>) b"

definition PublishedResource_WithResourceVersion :: "(string, PublishedResourceApplyConfiguration) setter" where
  "PublishedResource_WithResourceVersion v b =
     updateObjectMeta (\<lambda>m. m\<lparr>omc_ResourceVersion := Some v\<rparr>) b"

definition PublishedResource_WithGeneration :: "(int, PublishedResourceApplyConfiguration) setter" where
  "PublishedResource_WithGeneration v b =
     updateObjectMeta (\<lambda>m. m\<lparr>omc_Generation := Some v\<rparr>) b"

definition PublishedResource_WithCreationTimestamp ::
    "(string, PublishedResourceApplyConfiguration) setter" where
  "PublishedResource_WithCreationTimestamp v b =
     updateObjectMeta (\<lambda>m. m\<lparr>omc_CreationTimestamp := Some v\<rparr>) b"

definition PublishedResource_WithDeletionTimestamp ::
    "(string, PublishedResourceApplyConfiguration) setter" where
  "PublishedResource_WithDeletionTimestamp v b =
     updateObjectMeta (\<lambda>m. m\<lparr>omc_DeletionTimestamp := Some v\<rparr>) b"

definition PublishedResource_WithDeletionGracePeriodSeconds ::
    "(int, PublishedResourceApplyConfiguration) setter" where
  "PublishedResource_WithDeletionGracePeriodSeconds v b =
     updateObjectMeta (\<lambda>m. m\<lparr>omc_DeletionGracePeriodSeconds := Some v\<rparr>) b"

definition PublishedResource_WithLabels :: "(labels, PublishedResourceApplyConfiguration) setter" where
  "PublishedResource_WithLabels entries b =
     updateObjectMeta (\<lambda>m. m\<lparr>omc_Labels := putEntries entries (omc_Labels m)\<rparr>) b"

definition PublishedResource_WithAnnotations :: "(labels, PublishedResourceApplyConfiguration) setter" where
  "PublishedResource_WithAnnotations entries b =
     updateObjectMeta (\<lambda>m. m\<lparr>omc_Annotations := putEntries entries (omc_Annotations m)\<rparr>) b"

definition PublishedResource_WithOwnerReferences ::
    "((json option) list, PublishedResourceApplyConfiguration) setterR" where
  "PublishedResource_WithOwnerReferences vals b =
     bindR (appendValues ''nil value passed to WithOwnerReferences'' vals
         (case prc_ObjectMeta b of None \<Rightarrow> [] | Some m \<Rightarrow> omc_OwnerReferences m))
       (\<lambda>vs. Inr (updateObjectMeta (\<lambda>m. m\<lparr>omc_OwnerReferences := vs\<rparr>) b))"

definition PublishedResource_WithFinalizers :: "(string list, PublishedResourceApplyConfiguration) setter" where
  "PublishedResource_WithFinalizers vals b =
     updateObjectMeta (\<lambda>m. m\<lparr>omc_Finalizers := fold (\<lambda>v vs. vs @ [v]) vals (omc_Finalizers m)\<rparr>) b"

definition PublishedResource_WithSpec ::
    "(PublishedResourceSpecApplyConfiguration option, PublishedResourceApplyConfiguration) setter" where
  "PublishedResource_WithSpec v b = b\<lparr>prc_Spec := v\<rparr>"

definition PublishedResource_WithStatus ::
    "(PublishedResourceStatusApplyConfiguration option, PublishedResourceApplyConfiguration) setter" where
  "PublishedResource_WithStatus v b = b\<lparr>prc_Status := v\<rparr>"

definition new_PublishedResource :: "string \<Rightarrow> PublishedResourceApplyConfiguration" where
  "new_PublishedResource name =
     (let b = zero_PublishedResource;
          b = PublishedResource_WithName name b;
          b = PublishedResource_WithKind ''PublishedResource'' b
      in PublishedResource_WithAPIVersion ''syncagent.kcp.io/v1alpha1'' b)"

section \<open>Configurations by kind\<close>

definition GroupName :: string where
  "GroupName = ''syncagent.kcp.io''"

definition GroupVersion :: string where
  "GroupVersion = ''v1alpha1''"

text \<open>\<open>SchemeGroupVersion.WithKind\<close>.\<close>

definition SchemeGroupVersion :: "string \<Rightarrow> groupVersionKind" where
  "SchemeGroupVersion kind = \<lparr> gvk_Group = GroupName, gvk_Version = GroupVersion, gvk_Kind = kind \<rparr>"

text \<open>The result of \<open>ForKind\<close>, an \<open>interface{}\<close>, with the type of the configuration as the constructor.\<close>

datatype anyConfiguration =
    AnyPublishedResource PublishedResourceApplyConfiguration
  | AnyPublishedResourceSpec PublishedResourceSpecApplyConfiguration
  | AnyPublishedResourceStatus PublishedResourceStatusApplyConfiguration
  | AnyRegularExpression RegularExpressionApplyConfiguration
  | AnyRelatedResourceObject RelatedResourceObjectApplyConfiguration
  | AnyRelatedResourceObjectReference RelatedResourceObjectReferenceApplyConfiguration
  | AnyRelatedResourceObjectSelector RelatedResourceObjectSelectorApplyConfiguration
  | AnyRelatedResourceObjectSpec RelatedResourceObjectSpecApplyConfiguration
  | AnyRelatedResourceProjection RelatedResourceProjectionApplyConfiguration
  | AnyRelatedResourceSelectorRewrite RelatedResourceSelectorRewriteApplyConfiguration
  | AnyRelatedResourceSpec RelatedResourceSpecApplyConfiguration
  | AnyRelatedResourceWatch RelatedResourceWatchApplyConfiguration
  | AnyResourceCELMutation ResourceCELMutationApplyConfiguration
  | AnyResourceDeleteMutation ResourceDeleteMutationApplyConfiguration
  | AnyResourceFilter ResourceFilterApplyConfiguration
  | AnyResourceMutation ResourceMutationApplyConfiguration
  | AnyResourceMutationSpec ResourceMutationSpecApplyConfiguration
  | AnyResourceNaming ResourceNamingApplyConfiguration
  | AnyResourceProjection ResourceProjectionApplyConfiguration
  | AnyResourceRegexMutation ResourceRegexMutationApplyConfiguration
  | AnyResourceTemplateMutation ResourceTemplateMutationApplyConfiguration
  | AnySourceResourceDescriptor SourceResourceDescriptorApplyConfiguration
  | AnySynchronizationSpec SynchronizationSpecApplyConfiguration
  | AnyTemplateExpression TemplateExpressionApplyConfiguration

definition ForKind :: "groupVersionKind \<Rightarrow> anyConfiguration option" where
  "ForKind kind =
     (if kind = SchemeGroupVersion ''PublishedResource'' then Some (AnyPublishedResource zero_PublishedResource)
      else if kind = SchemeGroupVersion ''PublishedResourceSpec'' then Some (AnyPublishedResourceSpec new_PublishedResourceSpec)
      else if kind = SchemeGroupVersion ''PublishedResourceStatus'' then Some (AnyPublishedResourceStatus new_PublishedResourceStatus)
      else if kind = SchemeGroupVersion ''RegularExpression'' then Some (AnyRegularExpression new_RegularExpression)
      else if kind = SchemeGroupVersion ''RelatedResourceObject'' then Some (AnyRelatedResourceObject new_RelatedResourceObject)
      else if kind = SchemeGroupVersion ''RelatedResourceObjectReference'' then Some (AnyRelatedResourceObjectReference new_RelatedResourceObjectReference)
      else if kind = SchemeGroupVersion ''RelatedResourceObjectSelector'' then Some (AnyRelatedResourceObjectSelector new_RelatedResourceObjectSelector)
      else if kind = SchemeGroupVersion ''RelatedResourceObjectSpec'' then Some (AnyRelatedResourceObjectSpec new_RelatedResourceObjectSpec)
      else if kind = SchemeGroupVersion ''RelatedResourceProjection'' then Some (AnyRelatedResourceProjection new_RelatedResourceProjection)
      else if kind = SchemeGroupVersion ''RelatedResourceSelectorRewrite'' then Some (AnyRelatedResourceSelectorRewrite new_RelatedResourceSelectorRewrite)
      else if kind = SchemeGroupVersion ''RelatedResourceSpec'' then Some (AnyRelatedResourceSpec new_RelatedResourceSpec)
      else if kind = SchemeGroupVersion ''RelatedResourceWatch'' then Some (AnyRelatedResourceWatch new_RelatedResourceWatch)
      else if kind = SchemeGroupVersion ''ResourceCELMutation'' then Some (AnyResourceCELMutation new_ResourceCELMutation)
      else if kind = SchemeGroupVersion ''ResourceDeleteMutation'' then Some (AnyResourceDeleteMutation new_ResourceDeleteMutation)
      else if kind = SchemeGroupVersion ''ResourceFilter'' then Some (AnyResourceFilter new_ResourceFilter)
      else if kind = SchemeGroupVersion ''ResourceMutation'' then Some (AnyResourceMutation new_ResourceMutation)
      else if kind = SchemeGroupVersion ''ResourceMutationSpec'' then Some (AnyResourceMutationSpec new_ResourceMutationSpec)
      else if kind = SchemeGroupVersion ''ResourceNaming'' then Some (AnyResourceNaming new_ResourceNaming)
      else if kind = SchemeGroupVersion ''ResourceProjection'' then Some (AnyResourceProjection new_ResourceProjection)
      else if kind = SchemeGroupVersion ''ResourceRegexMutation'' then Some (AnyResourceRegexMutation new_ResourceRegexMutation)
      else if kind = SchemeGroupVersion ''ResourceTemplateMutation'' then Some (AnyResourceTemplateMutation new_ResourceTemplateMutation)
      else if kind = SchemeGroupVersion ''SourceResourceDescriptor'' then Some (AnySourceResourceDescriptor new_SourceResourceDescriptor)
      else if kind = SchemeGroupVersion ''SynchronizationSpec'' then Some (AnySynchronizationSpec new_SynchronizationSpec)
      else if kind = SchemeGroupVersion ''TemplateExpression'' then Some (AnyTemplateExpression new_TemplateExpression)
      else None)"

definition configurationKinds :: "string list" where
  "configurationKinds =
   [''PublishedResource'', ''PublishedResourceSpec'', ''PublishedResourceStatus'', ''RegularExpression'',
    ''RelatedResourceObject'', ''RelatedResourceObjectReference'', ''RelatedResourceObjectSelector'',
    ''RelatedResourceObjectSpec'', ''RelatedResourceProjection'', ''RelatedResourceSelectorRewrite'',
    ''RelatedResourceSpec'', ''RelatedResourceWatch'', ''ResourceCELMutation'', ''ResourceDeleteMutation'',
    ''ResourceFilter'', ''ResourceMutation'', ''ResourceMutationSpec'', ''ResourceNaming'',
    ''ResourceProjection'', ''ResourceRegexMutation'', ''ResourceTemplateMutation'',
    ''SourceResourceDescriptor'', ''SynchronizationSpec'', ''TemplateExpression'']"

text \<open>There is a configuration exactly for the types of the API group and version.\<close>

lemma ForKind_iff:
  "ForKind kind \<noteq> None \<longleftrightarrow> kind \<in> SchemeGroupVersion ` set configurationKinds"
  by (simp add: ForKind_def configurationKinds_def)

text \<open>
  The parser of the schema, made at the first call. \<open>NewParser\<close> is a parameter, applied to the schema of the
  package. If it fails, the first call panics, and later calls return the nil parser, since the attempt counts.
\<close>

record 'p parserState =
  ps_parserOnce :: bool
  ps_parser :: "'p option"

definition Parser :: "(string \<Rightarrow> 'p result) \<Rightarrow> string \<Rightarrow> ('p parserState, 'p option) go" where
  "Parser newParser schemaYAML st =
     (if ps_parserOnce st then (Inr (ps_parser st), st)
      else (case newParser schemaYAML of
              Inl e \<Rightarrow> (Inl (Panic ''Failed to parse schema''), \<lparr> ps_parserOnce = True, ps_parser = None \<rparr>)
            | Inr p \<Rightarrow> (Inr (Some p), \<lparr> ps_parserOnce = True, ps_parser = Some p \<rparr>)))"

definition NewTypeConverter ::
    "(string \<Rightarrow> 'p result) \<Rightarrow> string \<Rightarrow> 'scheme \<Rightarrow> ('p parserState, 'scheme \<times> 'p option) go" where
  "NewTypeConverter newParser schemaYAML scheme =
     bindE (Parser newParser schemaYAML) (\<lambda>p. ok (scheme, p))"

text \<open>There is one parser: converters that are made one after the other use the same.\<close>

lemma converters_share_parser:
  assumes "NewTypeConverter newParser y a st = (Inr (a', p), st')" "NewTypeConverter newParser y b st' = (r, st'')"
  shows "r = Inr (b, p) \<and> st'' = st'"
  using assms by (auto simp: NewTypeConverter_def Parser_def go_simps split: if_splits sum.splits)

section \<open>Laws of the setters\<close>

text \<open>A field that is set if there is a value for it.\<close>

definition setOpt :: "('v, 'b) setter \<Rightarrow> 'v option \<Rightarrow> 'b \<Rightarrow> 'b" where
  "setOpt wth v b = (case v of None \<Rightarrow> b | Some x \<Rightarrow> wth x b)"

text \<open>
  What the documentation of the setters of single values says: the field has the value of the last call, and
  nothing else changes, since the update is one of the field.
\<close>

locale field_setter =
  fixes get :: "'b \<Rightarrow> 'v option" and upd :: "('v option \<Rightarrow> 'v option) \<Rightarrow> 'b \<Rightarrow> 'b" and wth :: "('v, 'b) setter"
  assumes writes: "wth v b = upd (\<lambda>_. Some v) b"
    and reads: "get (upd f b) = f (get b)"
    and twice: "upd f (upd g b) = upd (\<lambda>x. f (g x)) b"
    and same: "upd (\<lambda>_. get b) b = b"
begin

lemma last_wins: "get (wth v b) = Some v" "wth v (wth u b) = wth v b"
  by (simp_all add: writes reads twice)

lemma setOpt_upd: "get b = None \<Longrightarrow> setOpt wth v b = upd (\<lambda>_. v) b"
  using same [of b] by (simp add: setOpt_def writes split: option.splits)

end

lemmas setter_defs =
  RegularExpression_WithPattern_def RegularExpression_WithReplacement_def TemplateExpression_WithTemplate_def
  ResourceDeleteMutation_WithPath_def ResourceRegexMutation_WithPath_def ResourceRegexMutation_WithPattern_def
  ResourceRegexMutation_WithReplacement_def ResourceTemplateMutation_WithPath_def
  ResourceTemplateMutation_WithTemplate_def ResourceCELMutation_WithPath_def
  ResourceCELMutation_WithExpression_def ResourceNaming_WithName_def ResourceNaming_WithNamespace_def
  ResourceProjection_WithGroup_def ResourceProjection_WithVersion_def ResourceProjection_WithScope_def
  ResourceProjection_WithKind_def ResourceProjection_WithPlural_def SourceResourceDescriptor_WithAPIGroup_def
  SourceResourceDescriptor_WithVersion_def SourceResourceDescriptor_WithKind_def
  SynchronizationSpec_WithEnabled_def RelatedResourceObjectReference_WithPath_def
  RelatedResourceProjection_WithGroup_def RelatedResourceProjection_WithVersion_def
  RelatedResourceProjection_WithResource_def RelatedResourceWatch_WithByOwner_def
  RelatedResourceSpec_WithIdentifier_def RelatedResourceSpec_WithOrigin_def RelatedResourceSpec_WithGroup_def
  RelatedResourceSpec_WithVersion_def RelatedResourceSpec_WithResource_def RelatedResourceSpec_WithKind_def
  RelatedResourceSpec_WithIdentityHash_def RelatedResourceSpec_WithCleanup_def
  RelatedResourceSpec_WithCleanupPolicy_def RelatedResourceSpec_WithSyncStatus_def
  PublishedResourceSpec_WithEnableWorkspacePaths_def PublishedResourceStatus_WithResourceSchemaName_def

interpretation set_rec_Pattern: field_setter rec_Pattern rec_Pattern_update RegularExpression_WithPattern
  by unfold_locales (simp_all add: setter_defs)
interpretation set_rec_Replacement: field_setter rec_Replacement rec_Replacement_update RegularExpression_WithReplacement
  by unfold_locales (simp_all add: setter_defs)
interpretation set_tec_Template: field_setter tec_Template tec_Template_update TemplateExpression_WithTemplate
  by unfold_locales (simp_all add: setter_defs)
interpretation set_rdmc_Path: field_setter rdmc_Path rdmc_Path_update ResourceDeleteMutation_WithPath
  by unfold_locales (simp_all add: setter_defs)
interpretation set_rrmc_Path: field_setter rrmc_Path rrmc_Path_update ResourceRegexMutation_WithPath
  by unfold_locales (simp_all add: setter_defs)
interpretation set_rrmc_Pattern: field_setter rrmc_Pattern rrmc_Pattern_update ResourceRegexMutation_WithPattern
  by unfold_locales (simp_all add: setter_defs)
interpretation set_rrmc_Replacement: field_setter rrmc_Replacement rrmc_Replacement_update ResourceRegexMutation_WithReplacement
  by unfold_locales (simp_all add: setter_defs)
interpretation set_rtmc_Path: field_setter rtmc_Path rtmc_Path_update ResourceTemplateMutation_WithPath
  by unfold_locales (simp_all add: setter_defs)
interpretation set_rtmc_Template: field_setter rtmc_Template rtmc_Template_update ResourceTemplateMutation_WithTemplate
  by unfold_locales (simp_all add: setter_defs)
interpretation set_rcmc_Path: field_setter rcmc_Path rcmc_Path_update ResourceCELMutation_WithPath
  by unfold_locales (simp_all add: setter_defs)
interpretation set_rcmc_Expression: field_setter rcmc_Expression rcmc_Expression_update ResourceCELMutation_WithExpression
  by unfold_locales (simp_all add: setter_defs)
interpretation set_rnc_Name: field_setter rnc_Name rnc_Name_update ResourceNaming_WithName
  by unfold_locales (simp_all add: setter_defs)
interpretation set_rnc_Namespace: field_setter rnc_Namespace rnc_Namespace_update ResourceNaming_WithNamespace
  by unfold_locales (simp_all add: setter_defs)
interpretation set_rpc_Group: field_setter rpc_Group rpc_Group_update ResourceProjection_WithGroup
  by unfold_locales (simp_all add: setter_defs)
interpretation set_rpc_Version: field_setter rpc_Version rpc_Version_update ResourceProjection_WithVersion
  by unfold_locales (simp_all add: setter_defs)
interpretation set_rpc_Scope: field_setter rpc_Scope rpc_Scope_update ResourceProjection_WithScope
  by unfold_locales (simp_all add: setter_defs)
interpretation set_rpc_Kind: field_setter rpc_Kind rpc_Kind_update ResourceProjection_WithKind
  by unfold_locales (simp_all add: setter_defs)
interpretation set_rpc_Plural: field_setter rpc_Plural rpc_Plural_update ResourceProjection_WithPlural
  by unfold_locales (simp_all add: setter_defs)
interpretation set_srdc_APIGroup: field_setter srdc_APIGroup srdc_APIGroup_update SourceResourceDescriptor_WithAPIGroup
  by unfold_locales (simp_all add: setter_defs)
interpretation set_srdc_Version: field_setter srdc_Version srdc_Version_update SourceResourceDescriptor_WithVersion
  by unfold_locales (simp_all add: setter_defs)
interpretation set_srdc_Kind: field_setter srdc_Kind srdc_Kind_update SourceResourceDescriptor_WithKind
  by unfold_locales (simp_all add: setter_defs)
interpretation set_sycc_Enabled: field_setter sycc_Enabled sycc_Enabled_update SynchronizationSpec_WithEnabled
  by unfold_locales (simp_all add: setter_defs)
interpretation set_refc_Path: field_setter refc_Path refc_Path_update RelatedResourceObjectReference_WithPath
  by unfold_locales (simp_all add: setter_defs)
interpretation set_rrpc_Group: field_setter rrpc_Group rrpc_Group_update RelatedResourceProjection_WithGroup
  by unfold_locales (simp_all add: setter_defs)
interpretation set_rrpc_Version: field_setter rrpc_Version rrpc_Version_update RelatedResourceProjection_WithVersion
  by unfold_locales (simp_all add: setter_defs)
interpretation set_rrpc_Resource: field_setter rrpc_Resource rrpc_Resource_update RelatedResourceProjection_WithResource
  by unfold_locales (simp_all add: setter_defs)
interpretation set_rrwc_ByOwner: field_setter rrwc_ByOwner rrwc_ByOwner_update RelatedResourceWatch_WithByOwner
  by unfold_locales (simp_all add: setter_defs)
interpretation set_rrc_Identifier: field_setter rrc_Identifier rrc_Identifier_update RelatedResourceSpec_WithIdentifier
  by unfold_locales (simp_all add: setter_defs)
interpretation set_rrc_Origin: field_setter rrc_Origin rrc_Origin_update RelatedResourceSpec_WithOrigin
  by unfold_locales (simp_all add: setter_defs)
interpretation set_rrc_Group: field_setter rrc_Group rrc_Group_update RelatedResourceSpec_WithGroup
  by unfold_locales (simp_all add: setter_defs)
interpretation set_rrc_Version: field_setter rrc_Version rrc_Version_update RelatedResourceSpec_WithVersion
  by unfold_locales (simp_all add: setter_defs)
interpretation set_rrc_Resource: field_setter rrc_Resource rrc_Resource_update RelatedResourceSpec_WithResource
  by unfold_locales (simp_all add: setter_defs)
interpretation set_rrc_Kind: field_setter rrc_Kind rrc_Kind_update RelatedResourceSpec_WithKind
  by unfold_locales (simp_all add: setter_defs)
interpretation set_rrc_IdentityHash: field_setter rrc_IdentityHash rrc_IdentityHash_update RelatedResourceSpec_WithIdentityHash
  by unfold_locales (simp_all add: setter_defs)
interpretation set_rrc_Cleanup: field_setter rrc_Cleanup rrc_Cleanup_update RelatedResourceSpec_WithCleanup
  by unfold_locales (simp_all add: setter_defs)
interpretation set_rrc_CleanupPolicy: field_setter rrc_CleanupPolicy rrc_CleanupPolicy_update RelatedResourceSpec_WithCleanupPolicy
  by unfold_locales (simp_all add: setter_defs)
interpretation set_rrc_SyncStatus: field_setter rrc_SyncStatus rrc_SyncStatus_update RelatedResourceSpec_WithSyncStatus
  by unfold_locales (simp_all add: setter_defs)
interpretation set_prsc_EnableWorkspacePaths: field_setter prsc_EnableWorkspacePaths prsc_EnableWorkspacePaths_update PublishedResourceSpec_WithEnableWorkspacePaths
  by unfold_locales (simp_all add: setter_defs)
interpretation set_pstc_ResourceSchemaName: field_setter pstc_ResourceSchemaName pstc_ResourceSchemaName_update PublishedResourceStatus_WithResourceSchemaName
  by unfold_locales (simp_all add: setter_defs)

lemmas setOpt_simps =
  set_rec_Pattern.setOpt_upd set_rec_Replacement.setOpt_upd set_tec_Template.setOpt_upd
  set_rdmc_Path.setOpt_upd set_rrmc_Path.setOpt_upd set_rrmc_Pattern.setOpt_upd
  set_rrmc_Replacement.setOpt_upd set_rtmc_Path.setOpt_upd set_rtmc_Template.setOpt_upd
  set_rcmc_Path.setOpt_upd set_rcmc_Expression.setOpt_upd set_rnc_Name.setOpt_upd set_rnc_Namespace.setOpt_upd
  set_rpc_Group.setOpt_upd set_rpc_Version.setOpt_upd set_rpc_Scope.setOpt_upd set_rpc_Kind.setOpt_upd
  set_rpc_Plural.setOpt_upd set_srdc_APIGroup.setOpt_upd set_srdc_Version.setOpt_upd set_srdc_Kind.setOpt_upd
  set_sycc_Enabled.setOpt_upd set_refc_Path.setOpt_upd set_rrpc_Group.setOpt_upd set_rrpc_Version.setOpt_upd
  set_rrpc_Resource.setOpt_upd set_rrwc_ByOwner.setOpt_upd set_rrc_Identifier.setOpt_upd
  set_rrc_Origin.setOpt_upd set_rrc_Group.setOpt_upd set_rrc_Version.setOpt_upd set_rrc_Resource.setOpt_upd
  set_rrc_Kind.setOpt_upd set_rrc_IdentityHash.setOpt_upd set_rrc_Cleanup.setOpt_upd
  set_rrc_CleanupPolicy.setOpt_upd set_rrc_SyncStatus.setOpt_upd set_prsc_EnableWorkspacePaths.setOpt_upd
  set_pstc_ResourceSchemaName.setOpt_upd

text \<open>Values that are all given are appended, a nil pointer anywhere is a panic.\<close>

lemma appendValues_given: "appendValues msg (map Some vals) vs = Inr (vs @ vals)"
  by (induction vals arbitrary: vs) simp_all

lemma appendValues_panics: "None \<in> set vals \<Longrightarrow> appendValues msg vals vs = Inl (Panic msg)"
  by (induction msg vals vs rule: appendValues.induct) simp_all

lemma appendValues_twice:
  "bindR (appendValues msg xs vs) (appendValues msg ys) = appendValues msg (xs @ ys) vs"
  by (induction msg xs vs rule: appendValues.induct) (simp_all add: bindR_def)

lemma fold_append: "fold (\<lambda>v vs. vs @ [v]) vals vs = vs @ vals"
  by (induction vals arbitrary: vs) simp_all

text \<open>The entries of the last call win, those of earlier calls stay; no call writes to a nil map.\<close>

lemma lookup_putEntries:
  "fmlookup (orEmpty (putEntries entries m)) k =
     (case fmlookup entries k of None \<Rightarrow> fmlookup (orEmpty m) k | Some v \<Rightarrow> Some v)"
  by (auto simp: putEntries_def orEmpty_def split: option.splits)

lemma putEntries_new: "putEntries entries None = (if entries = fmempty then None else Some entries)"
  by (simp add: putEntries_def)

text \<open>A new configuration has its name, kind and version, and nothing else.\<close>

lemma new_PublishedResource_eq:
  "new_PublishedResource name = zero_PublishedResource\<lparr>
     prc_TypeMeta := \<lparr> tmc_Kind = Some ''PublishedResource'', tmc_APIVersion = Some ''syncagent.kcp.io/v1alpha1'' \<rparr>,
     prc_ObjectMeta := Some (new_ObjectMeta\<lparr>omc_Name := Some name\<rparr>)\<rparr>"
  by (simp add: new_PublishedResource_def PublishedResource_WithName_def PublishedResource_WithKind_def
        PublishedResource_WithAPIVersion_def updateObjectMeta_def ensureObjectMetaApplyConfigurationExists_def
        zero_PublishedResource_def)

lemma GetName_new: "fst (GetName (new_PublishedResource name)) = Some name"
  by (simp add: new_PublishedResource_eq GetName_def ensureObjectMetaApplyConfigurationExists_def)

end
