(* ===== verification/Declared_Specs.thy ===== *)
theory Declared_Specs
  imports Apply_Configuration
begin

text \<open>
  What apply configurations can say. The JSON documents of the API types and of their configurations follow the
  tags of the structs (\<open>published_resource.go\<close> and the files of \<open>sdk/applyconfiguration\<close>). For every
  PublishedResource spec there is a chain of \<open>With\<close> calls whose configuration has the document of the spec, unless
  the spec removes all short names or categories: an empty list is left out of a configuration.
\<close>

section \<open>Documents of structs\<close>

text \<open>The fields of a struct under their tags; a field that \<open>omitempty\<close> leaves out is \<open>None\<close>.\<close>

type_synonym jsonFields = "(string \<times> json option) list"

definition given :: "jsonFields \<Rightarrow> (string \<times> json) list" where
  "given fs = concat (map (\<lambda>(k, v). case v of None \<Rightarrow> [] | Some x \<Rightarrow> [(k, x)]) fs)"

definition structDoc :: "jsonFields \<Rightarrow> json" where
  "structDoc fs = JObj (fmap_of_list (given fs))"

definition listDoc :: "('a \<Rightarrow> json) \<Rightarrow> 'a list \<Rightarrow> json" where
  "listDoc f xs = JArr (map f xs)"

text \<open>\<open>omitempty\<close> for strings, booleans, slices and maps; pointers are left out when they are nil.\<close>

definition nonEmpty :: "'a list \<Rightarrow> 'a list option" where
  "nonEmpty s = (if s = [] then None else Some s)"

definition nonFalse :: "bool \<Rightarrow> bool option" where
  "nonFalse b = (if b then Some True else None)"

definition nonEmptyMap :: "labels \<Rightarrow> labels option" where
  "nonEmptyMap m = (if m = fmempty then None else Some m)"

definition mapDoc :: "labels \<Rightarrow> json" where
  "mapDoc m = JObj (fmmap JStr m)"

text \<open>The values of the enumerations.\<close>

fun originString :: "RelatedResourceOrigin \<Rightarrow> string" where
  "originString OriginService = ''service''"
| "originString OriginKcp = ''kcp''"

fun policyString :: "RelatedResourceCleanupPolicy \<Rightarrow> string" where
  "policyString PolicyEmpty = []"
| "policyString CleanupOrphan = ''Orphan''"
| "policyString CleanupOnPrimaryDeletion = ''OnPrimaryDeletion''"
| "policyString CleanupMatchOrigin = ''MatchOrigin''"

fun scopeString :: "ResourceScope \<Rightarrow> string" where
  "scopeString ScopeUnset = []"
| "scopeString ClusterScoped = ''Cluster''"
| "scopeString NamespaceScoped = ''Namespaced''"

text \<open>The fields of label selectors and of their configurations, which are types of Kubernetes.\<close>

record metaLib =
  ml_selector :: "LabelSelector \<Rightarrow> jsonFields"
  ml_selectorConf :: "LabelSelectorApplyConfiguration \<Rightarrow> jsonFields"
  ml_requirementConf :: "labelSelectorRequirement \<Rightarrow> json"

section \<open>Documents of configurations\<close>

definition confDoc_RegularExpression :: "RegularExpressionApplyConfiguration \<Rightarrow> json" where
  "confDoc_RegularExpression c = structDoc
     [(''pattern'', map_option JStr (rec_Pattern c)),
      (''replacement'', map_option JStr (rec_Replacement c))]"

definition confDoc_TemplateExpression :: "TemplateExpressionApplyConfiguration \<Rightarrow> json" where
  "confDoc_TemplateExpression c = structDoc
     [(''template'', map_option JStr (tec_Template c))]"

definition confDoc_ResourceDeleteMutation :: "ResourceDeleteMutationApplyConfiguration \<Rightarrow> json" where
  "confDoc_ResourceDeleteMutation c = structDoc
     [(''path'', map_option JStr (rdmc_Path c))]"

definition confDoc_ResourceRegexMutation :: "ResourceRegexMutationApplyConfiguration \<Rightarrow> json" where
  "confDoc_ResourceRegexMutation c = structDoc
     [(''path'', map_option JStr (rrmc_Path c)),
      (''pattern'', map_option JStr (rrmc_Pattern c)),
      (''replacement'', map_option JStr (rrmc_Replacement c))]"

definition confDoc_ResourceTemplateMutation :: "ResourceTemplateMutationApplyConfiguration \<Rightarrow> json" where
  "confDoc_ResourceTemplateMutation c = structDoc
     [(''path'', map_option JStr (rtmc_Path c)),
      (''template'', map_option JStr (rtmc_Template c))]"

definition confDoc_ResourceCELMutation :: "ResourceCELMutationApplyConfiguration \<Rightarrow> json" where
  "confDoc_ResourceCELMutation c = structDoc
     [(''path'', map_option JStr (rcmc_Path c)),
      (''expression'', map_option JStr (rcmc_Expression c))]"

definition confDoc_ResourceMutation :: "ResourceMutationApplyConfiguration \<Rightarrow> json" where
  "confDoc_ResourceMutation c = structDoc
     [(''delete'', map_option confDoc_ResourceDeleteMutation (rmc_Delete c)),
      (''regex'', map_option confDoc_ResourceRegexMutation (rmc_Regex c)),
      (''template'', map_option confDoc_ResourceTemplateMutation (rmc_Template c)),
      (''cel'', map_option confDoc_ResourceCELMutation (rmc_CEL c))]"

definition confDoc_ResourceMutationSpec :: "ResourceMutationSpecApplyConfiguration \<Rightarrow> json" where
  "confDoc_ResourceMutationSpec c = structDoc
     [(''spec'', map_option (listDoc confDoc_ResourceMutation) (nonEmpty (rmsc_Spec c))),
      (''status'', map_option (listDoc confDoc_ResourceMutation) (nonEmpty (rmsc_Status c)))]"

definition confDoc_ResourceFilter :: "metaLib \<Rightarrow> ResourceFilterApplyConfiguration \<Rightarrow> json" where
  "confDoc_ResourceFilter L c = structDoc
     [(''namespace'', map_option (structDoc \<circ> ml_selectorConf L) (fltc_Namespace c)),
      (''resource'', map_option (structDoc \<circ> ml_selectorConf L) (fltc_Resource c))]"

definition confDoc_ResourceNaming :: "ResourceNamingApplyConfiguration \<Rightarrow> json" where
  "confDoc_ResourceNaming c = structDoc
     [(''name'', map_option JStr (rnc_Name c)),
      (''namespace'', map_option JStr (rnc_Namespace c))]"

definition confDoc_ResourceProjection :: "ResourceProjectionApplyConfiguration \<Rightarrow> json" where
  "confDoc_ResourceProjection c = structDoc
     [(''group'', map_option JStr (rpc_Group c)),
      (''version'', map_option JStr (rpc_Version c)),
      (''versions'', map_option mapDoc (Option.bind (rpc_Versions c) nonEmptyMap)),
      (''scope'', map_option (JStr \<circ> scopeString) (rpc_Scope c)),
      (''kind'', map_option JStr (rpc_Kind c)),
      (''plural'', map_option JStr (rpc_Plural c)),
      (''shortNames'', map_option (listDoc JStr) (nonEmpty (rpc_ShortNames c))),
      (''categories'', map_option (listDoc JStr) (nonEmpty (rpc_Categories c)))]"

definition confDoc_SourceResourceDescriptor :: "SourceResourceDescriptorApplyConfiguration \<Rightarrow> json" where
  "confDoc_SourceResourceDescriptor c = structDoc
     [(''apiGroup'', map_option JStr (srdc_APIGroup c)),
      (''version'', map_option JStr (srdc_Version c)),
      (''versions'', map_option (listDoc JStr) (nonEmpty (srdc_Versions c))),
      (''kind'', map_option JStr (srdc_Kind c))]"

definition confDoc_SynchronizationSpec :: "SynchronizationSpecApplyConfiguration \<Rightarrow> json" where
  "confDoc_SynchronizationSpec c = structDoc
     [(''enabled'', map_option JBool (sycc_Enabled c))]"

definition confDoc_RelatedResourceSelectorRewrite ::
    "RelatedResourceSelectorRewriteApplyConfiguration \<Rightarrow> json" where
  "confDoc_RelatedResourceSelectorRewrite c = structDoc
     [(''regex'', map_option confDoc_RegularExpression (rwc_Regex c)),
      (''template'', map_option confDoc_TemplateExpression (rwc_Template c))]"

definition confDoc_RelatedResourceObjectReference ::
    "RelatedResourceObjectReferenceApplyConfiguration \<Rightarrow> json" where
  "confDoc_RelatedResourceObjectReference c = structDoc
     [(''path'', map_option JStr (refc_Path c)),
      (''regex'', map_option confDoc_RegularExpression (refc_Regex c))]"

definition confDoc_RelatedResourceObjectSelector ::
    "metaLib \<Rightarrow> RelatedResourceObjectSelectorApplyConfiguration \<Rightarrow> json" where
  "confDoc_RelatedResourceObjectSelector L c = structDoc
     (ml_selectorConf L (rosc_LabelSelector c) @
      [(''rewrite'', map_option confDoc_RelatedResourceSelectorRewrite (rosc_Rewrite c))])"

definition confFields_RelatedResourceObjectSpec ::
    "metaLib \<Rightarrow> RelatedResourceObjectSpecApplyConfiguration \<Rightarrow> jsonFields" where
  "confFields_RelatedResourceObjectSpec L c =
     [(''selector'', map_option (confDoc_RelatedResourceObjectSelector L) (osc_Selector c)),
      (''reference'', map_option confDoc_RelatedResourceObjectReference (osc_Reference c)),
      (''template'', map_option confDoc_TemplateExpression (osc_Template c))]"

definition confDoc_RelatedResourceObjectSpec :: "metaLib \<Rightarrow> RelatedResourceObjectSpecApplyConfiguration \<Rightarrow> json" where
  "confDoc_RelatedResourceObjectSpec L c = structDoc (confFields_RelatedResourceObjectSpec L c)"

definition confDoc_RelatedResourceObject ::
    "metaLib \<Rightarrow> RelatedResourceObjectApplyConfiguration \<Rightarrow> json" where
  "confDoc_RelatedResourceObject L c = structDoc
     (confFields_RelatedResourceObjectSpec L (roc_Spec c) @
      [(''namespace'', map_option (confDoc_RelatedResourceObjectSpec L) (roc_Namespace c))])"

definition confDoc_RelatedResourceProjection :: "RelatedResourceProjectionApplyConfiguration \<Rightarrow> json" where
  "confDoc_RelatedResourceProjection c = structDoc
     [(''group'', map_option JStr (rrpc_Group c)),
      (''version'', map_option JStr (rrpc_Version c)),
      (''resource'', map_option JStr (rrpc_Resource c))]"

definition confDoc_RelatedResourceWatch ::
    "metaLib \<Rightarrow> RelatedResourceWatchApplyConfiguration \<Rightarrow> json" where
  "confDoc_RelatedResourceWatch L c = structDoc
     [(''byOwner'', map_option (\<lambda>_. structDoc []) (rrwc_ByOwner c)),
      (''bySelector'', map_option (structDoc \<circ> ml_selectorConf L) (rrwc_BySelector c))]"

definition confDoc_RelatedResourceSpec ::
    "metaLib \<Rightarrow> RelatedResourceSpecApplyConfiguration \<Rightarrow> json" where
  "confDoc_RelatedResourceSpec L c = structDoc
     [(''identifier'', map_option JStr (rrc_Identifier c)),
      (''origin'', map_option (JStr \<circ> originString) (rrc_Origin c)),
      (''group'', map_option JStr (rrc_Group c)),
      (''version'', map_option JStr (rrc_Version c)),
      (''resource'', map_option JStr (rrc_Resource c)),
      (''kind'', map_option JStr (rrc_Kind c)),
      (''identityHash'', map_option JStr (rrc_IdentityHash c)),
      (''cleanup'', map_option JBool (rrc_Cleanup c)),
      (''cleanupPolicy'', map_option (JStr \<circ> policyString) (rrc_CleanupPolicy c)),
      (''projection'', map_option confDoc_RelatedResourceProjection (rrc_Projection c)),
      (''object'', map_option (confDoc_RelatedResourceObject L) (rrc_Object c)),
      (''mutation'', map_option confDoc_ResourceMutationSpec (rrc_Mutation c)),
      (''watch'', map_option (confDoc_RelatedResourceWatch L) (rrc_Watch c)),
      (''syncStatus'', map_option JBool (rrc_SyncStatus c))]"

definition confDoc_PublishedResourceSpec ::
    "metaLib \<Rightarrow> PublishedResourceSpecApplyConfiguration \<Rightarrow> json" where
  "confDoc_PublishedResourceSpec L c = structDoc
     [(''resource'', map_option confDoc_SourceResourceDescriptor (prsc_Resource c)),
      (''filter'', map_option (confDoc_ResourceFilter L) (prsc_Filter c)),
      (''naming'', map_option confDoc_ResourceNaming (prsc_Naming c)),
      (''enableWorkspacePaths'', map_option JBool (prsc_EnableWorkspacePaths c)),
      (''projection'', map_option confDoc_ResourceProjection (prsc_Projection c)),
      (''mutation'', map_option confDoc_ResourceMutationSpec (prsc_Mutation c)),
      (''related'', map_option (listDoc (confDoc_RelatedResourceSpec L)) (nonEmpty (prsc_Related c))),
      (''synchronization'', map_option confDoc_SynchronizationSpec (prsc_Synchronization c))]"

definition confDoc_PublishedResourceStatus :: "PublishedResourceStatusApplyConfiguration \<Rightarrow> json" where
  "confDoc_PublishedResourceStatus c = structDoc
     [(''resourceSchemaName'', map_option JStr (pstc_ResourceSchemaName c))]"

section \<open>Documents of the API types\<close>

text \<open>The selectors of related objects are read from the store that their addresses point into.\<close>

definition doc_RegularExpression :: "RegularExpression \<Rightarrow> json" where
  "doc_RegularExpression x = structDoc
     [(''pattern'', map_option JStr (nonEmpty (re_Pattern x))),
      (''replacement'', map_option JStr (nonEmpty (re_Replacement x)))]"

definition doc_TemplateExpression :: "TemplateExpression \<Rightarrow> json" where
  "doc_TemplateExpression x = structDoc
     [(''template'', map_option JStr (nonEmpty (te_Template x)))]"

definition doc_ResourceDeleteMutation :: "ResourceDeleteMutation \<Rightarrow> json" where
  "doc_ResourceDeleteMutation x = structDoc
     [(''path'', Some (JStr (rdm_Path x)))]"

definition doc_ResourceRegexMutation :: "ResourceRegexMutation \<Rightarrow> json" where
  "doc_ResourceRegexMutation x = structDoc
     [(''path'', Some (JStr (rrm_Path x))),
      (''pattern'', map_option JStr (nonEmpty (rrm_Pattern x))),
      (''replacement'', map_option JStr (nonEmpty (rrm_Replacement x)))]"

definition doc_ResourceTemplateMutation :: "ResourceTemplateMutation \<Rightarrow> json" where
  "doc_ResourceTemplateMutation x = structDoc
     [(''path'', Some (JStr (rtm_Path x))),
      (''template'', Some (JStr (rtm_Template x)))]"

definition doc_ResourceCELMutation :: "ResourceCELMutation \<Rightarrow> json" where
  "doc_ResourceCELMutation x = structDoc
     [(''path'', Some (JStr (rcm_Path x))),
      (''expression'', Some (JStr (rcm_Expression x)))]"

definition doc_ResourceMutation :: "ResourceMutation \<Rightarrow> json" where
  "doc_ResourceMutation x = structDoc
     [(''delete'', map_option doc_ResourceDeleteMutation (rm_Delete x)),
      (''regex'', map_option doc_ResourceRegexMutation (rm_Regex x)),
      (''template'', map_option doc_ResourceTemplateMutation (rm_Template x)),
      (''cel'', map_option doc_ResourceCELMutation (rm_CEL x))]"

definition doc_ResourceMutationSpec :: "ResourceMutationSpec \<Rightarrow> json" where
  "doc_ResourceMutationSpec x = structDoc
     [(''spec'', map_option (listDoc doc_ResourceMutation) (nonEmpty (rms_Spec x))),
      (''status'', map_option (listDoc doc_ResourceMutation) (nonEmpty (rms_Status x)))]"

definition doc_ResourceFilter :: "metaLib \<Rightarrow> ResourceFilter \<Rightarrow> json" where
  "doc_ResourceFilter L x = structDoc
     [(''namespace'', map_option (structDoc \<circ> ml_selector L) (flt_Namespace x)),
      (''resource'', map_option (structDoc \<circ> ml_selector L) (flt_Resource x))]"

definition doc_ResourceNaming :: "ResourceNaming \<Rightarrow> json" where
  "doc_ResourceNaming x = structDoc
     [(''name'', map_option JStr (nonEmpty (rn_Name x))),
      (''namespace'', map_option JStr (nonEmpty (rn_Namespace x)))]"

definition doc_ResourceProjection :: "ResourceProjection \<Rightarrow> json" where
  "doc_ResourceProjection x = structDoc
     [(''group'', map_option JStr (nonEmpty (rp_Group x))),
      (''version'', map_option JStr (nonEmpty (rp_Version x))),
      (''versions'', map_option mapDoc (nonEmptyMap (rp_Versions x))),
      (''scope'', map_option JStr (nonEmpty (scopeString (rp_Scope x)))),
      (''kind'', map_option JStr (nonEmpty (rp_Kind x))),
      (''plural'', map_option JStr (nonEmpty (rp_Plural x))),
      (''shortNames'', Some (case rp_ShortNames x of None \<Rightarrow> JNull | Some xs \<Rightarrow> listDoc JStr xs)),
      (''categories'', Some (case rp_Categories x of None \<Rightarrow> JNull | Some xs \<Rightarrow> listDoc JStr xs))]"

definition doc_SourceResourceDescriptor :: "SourceResourceDescriptor \<Rightarrow> json" where
  "doc_SourceResourceDescriptor x = structDoc
     [(''apiGroup'', Some (JStr (srd_APIGroup x))),
      (''version'', map_option JStr (nonEmpty (srd_Version x))),
      (''versions'', map_option (listDoc JStr) (nonEmpty (srd_Versions x))),
      (''kind'', Some (JStr (srd_Kind x)))]"

definition doc_SynchronizationSpec :: "SynchronizationSpec \<Rightarrow> json" where
  "doc_SynchronizationSpec x = structDoc
     [(''enabled'', Some (JBool (sync_Enabled x)))]"

definition doc_RelatedResourceSelectorRewrite :: "RelatedResourceSelectorRewrite \<Rightarrow> json" where
  "doc_RelatedResourceSelectorRewrite x = structDoc
     [(''regex'', map_option doc_RegularExpression (rw_Regex x)),
      (''template'', map_option doc_TemplateExpression (rw_Template x))]"

definition doc_RelatedResourceObjectReference :: "RelatedResourceObjectReference \<Rightarrow> json" where
  "doc_RelatedResourceObjectReference x = structDoc
     [(''path'', Some (JStr (ref_Path x))),
      (''regex'', map_option doc_RegularExpression (ref_Regex x))]"

definition doc_RelatedResourceObjectSelector :: "metaLib \<Rightarrow> RelatedResourceObjectSelector \<Rightarrow> json" where
  "doc_RelatedResourceObjectSelector L x = structDoc
     (ml_selector L (ros_LabelSelector x) @
      [(''rewrite'', Some (doc_RelatedResourceSelectorRewrite (ros_Rewrite x)))])"

definition fields_RelatedResourceObjectSpec ::
    "metaLib \<Rightarrow> (selptr \<Rightarrow> RelatedResourceObjectSelector) \<Rightarrow> RelatedResourceObjectSpec \<Rightarrow> jsonFields" where
  "fields_RelatedResourceObjectSpec L sel x =
     [(''selector'', map_option (doc_RelatedResourceObjectSelector L \<circ> sel) (os_Selector x)),
      (''reference'', map_option doc_RelatedResourceObjectReference (os_Reference x)),
      (''template'', map_option doc_TemplateExpression (os_Template x))]"

definition doc_RelatedResourceObjectSpec ::
    "metaLib \<Rightarrow> (selptr \<Rightarrow> RelatedResourceObjectSelector) \<Rightarrow> RelatedResourceObjectSpec \<Rightarrow> json" where
  "doc_RelatedResourceObjectSpec L sel x = structDoc (fields_RelatedResourceObjectSpec L sel x)"

definition doc_RelatedResourceObject ::
    "metaLib \<Rightarrow> (selptr \<Rightarrow> RelatedResourceObjectSelector) \<Rightarrow> RelatedResourceObject \<Rightarrow> json" where
  "doc_RelatedResourceObject L sel x = structDoc
     (fields_RelatedResourceObjectSpec L sel (ro_Spec x) @
      [(''namespace'', map_option (doc_RelatedResourceObjectSpec L sel) (ro_Namespace x))])"

definition doc_RelatedResourceProjection :: "RelatedResourceProjection \<Rightarrow> json" where
  "doc_RelatedResourceProjection x = structDoc
     [(''group'', map_option JStr (nonEmpty (rrp_Group x))),
      (''version'', map_option JStr (nonEmpty (rrp_Version x))),
      (''resource'', map_option JStr (nonEmpty (rrp_Resource x)))]"

definition doc_RelatedResourceWatch :: "metaLib \<Rightarrow> RelatedResourceWatch \<Rightarrow> json" where
  "doc_RelatedResourceWatch L x = structDoc
     [(''byOwner'', if rw_ByOwner x then Some (structDoc []) else None),
      (''bySelector'', map_option (structDoc \<circ> ml_selector L) (rw_BySelector x))]"

definition doc_RelatedResourceSpec ::
    "metaLib \<Rightarrow> (selptr \<Rightarrow> RelatedResourceObjectSelector) \<Rightarrow> RelatedResourceSpec \<Rightarrow> json" where
  "doc_RelatedResourceSpec L sel x = structDoc
     [(''identifier'', Some (JStr (rr_Identifier x))),
      (''origin'', Some (JStr (originString (rr_Origin x)))),
      (''group'', map_option JStr (nonEmpty (rr_Group x))),
      (''version'', map_option JStr (nonEmpty (rr_Version x))),
      (''resource'', map_option JStr (nonEmpty (rr_Resource x))),
      (''kind'', map_option JStr (nonEmpty (rr_Kind x))),
      (''identityHash'', map_option JStr (nonEmpty (rr_IdentityHash x))),
      (''cleanup'', map_option JBool (nonFalse (rr_Cleanup x))),
      (''cleanupPolicy'', map_option JStr (nonEmpty (policyString (rr_CleanupPolicy x)))),
      (''projection'', map_option doc_RelatedResourceProjection (rr_Projection x)),
      (''object'', Some (doc_RelatedResourceObject L sel (rr_Object x))),
      (''mutation'', map_option doc_ResourceMutationSpec (rr_Mutation x)),
      (''watch'', map_option (doc_RelatedResourceWatch L) (rr_Watch x)),
      (''syncStatus'', map_option JBool (nonFalse (rr_SyncStatus x)))]"

definition doc_PublishedResourceSpec ::
    "metaLib \<Rightarrow> (selptr \<Rightarrow> RelatedResourceObjectSelector) \<Rightarrow> PublishedResourceSpec \<Rightarrow> json" where
  "doc_PublishedResourceSpec L sel x = structDoc
     [(''resource'', Some (doc_SourceResourceDescriptor (prs_Resource x))),
      (''filter'', map_option (doc_ResourceFilter L) (prs_Filter x)),
      (''naming'', map_option doc_ResourceNaming (prs_Naming x)),
      (''enableWorkspacePaths'', map_option JBool (nonFalse (prs_EnableWorkspacePaths x))),
      (''projection'', map_option doc_ResourceProjection (prs_Projection x)),
      (''mutation'', map_option doc_ResourceMutationSpec (prs_Mutation x)),
      (''related'', map_option (listDoc (doc_RelatedResourceSpec L sel)) (nonEmpty (prs_Related x))),
      (''synchronization'', map_option doc_SynchronizationSpec (prs_Synchronization x))]"

section \<open>Documents without nulls\<close>

text \<open>A field that is null and one that is absent are decoded alike, into nil.\<close>

primrec dropNulls :: "json \<Rightarrow> json" where
  "dropNulls JNull = JNull"
| "dropNulls (JBool b) = JBool b"
| "dropNulls (JInt i) = JInt i"
| "dropNulls (JFloat f) = JFloat f"
| "dropNulls (JStr s) = JStr s"
| "dropNulls (JArr xs) = JArr (map dropNulls xs)"
| "dropNulls (JObj m) = JObj (fmfilter (\<lambda>k. fmlookup m k \<noteq> Some JNull) (fmmap dropNulls m))"

definition dropNull :: "json option \<Rightarrow> json option" where
  "dropNull v = (case v of None \<Rightarrow> None | Some x \<Rightarrow> if x = JNull then None else Some (dropNulls x))"

lemma dropNull_simps [simp]:
  "dropNull None = None"
  "dropNull (Some (JStr t)) = Some (JStr t)"
  "dropNull (Some (JBool b)) = Some (JBool b)"
  "dropNull (Some JNull) = None"
  "dropNull (Some (structDoc fs)) = Some (dropNulls (structDoc fs))"
  "dropNull (Some (listDoc f xs)) = Some (listDoc (\<lambda>x. dropNulls (f x)) xs)"
  "dropNull (Some (mapDoc m)) = Some (mapDoc m)"
  by (auto simp: dropNull_def structDoc_def listDoc_def mapDoc_def fmap.map_comp comp_def intro!: fmap_ext)

lemma dropNull_map:
  "(\<And>x. f x \<noteq> JNull) \<Longrightarrow> dropNull (map_option f v) = map_option (\<lambda>x. dropNulls (f x)) v"
  by (cases v) (simp_all add: dropNull_def)

lemma map_of_given: "distinct (map fst fs) \<Longrightarrow> map_of (given fs) k = Option.bind (map_of fs k) id"
proof (induction fs)
  case (Cons f fs)
  then have "map_of fs k = None" if "fst f = k" using that by (auto simp: map_of_eq_None_iff)
  with Cons show ?case by (cases f) (auto simp: given_def split: option.splits)
qed (simp add: given_def)

lemma map_of_dropNull: "map_of (map (map_prod id dropNull) fs) k = map_option dropNull (map_of fs k)"
  by (induction fs) auto

lemma dropNull_bind: "Option.bind (map_option dropNull v) id = dropNull (Option.bind v id)"
  by (cases v) simp_all

lemma dropNull_eq: "dropNull v = (if v = Some JNull then None else map_option dropNulls v)"
  by (simp add: dropNull_def split: option.splits)

text \<open>Nulls are dropped field by field.\<close>

lemma dropNulls_structDoc:
  assumes "distinct (map fst fs)"
  shows "dropNulls (structDoc fs) = structDoc (map (map_prod id dropNull) fs)"
proof -
  have "distinct (map fst (map (map_prod id dropNull) fs))" using assms by (simp add: comp_def)
  with assms show ?thesis
    by (auto simp: structDoc_def fmlookup_of_list map_of_given map_of_dropNull dropNull_bind dropNull_eq intro!: fmap_ext)
qed

section \<open>Configurations of specs\<close>

text \<open>
  The chain of calls that declares each type: fields that are always printed are set, fields with
  \<open>omitempty\<close> are set if they are not empty.
\<close>

definition declareRegularExpression :: "RegularExpression \<Rightarrow> RegularExpressionApplyConfiguration" where
  "declareRegularExpression x =
     setOpt RegularExpression_WithPattern (nonEmpty (re_Pattern x))
    (setOpt RegularExpression_WithReplacement (nonEmpty (re_Replacement x)) new_RegularExpression)"

definition declareTemplateExpression :: "TemplateExpression \<Rightarrow> TemplateExpressionApplyConfiguration" where
  "declareTemplateExpression x =
     setOpt TemplateExpression_WithTemplate (nonEmpty (te_Template x)) new_TemplateExpression"

definition declareDeleteMutation :: "ResourceDeleteMutation \<Rightarrow> ResourceDeleteMutationApplyConfiguration" where
  "declareDeleteMutation x = ResourceDeleteMutation_WithPath (rdm_Path x) new_ResourceDeleteMutation"

definition declareRegexMutation :: "ResourceRegexMutation \<Rightarrow> ResourceRegexMutationApplyConfiguration" where
  "declareRegexMutation x =
     ResourceRegexMutation_WithPath (rrm_Path x)
    (setOpt ResourceRegexMutation_WithPattern (nonEmpty (rrm_Pattern x))
    (setOpt ResourceRegexMutation_WithReplacement (nonEmpty (rrm_Replacement x)) new_ResourceRegexMutation))"

definition declareTemplateMutation :: "ResourceTemplateMutation \<Rightarrow> ResourceTemplateMutationApplyConfiguration" where
  "declareTemplateMutation x =
     ResourceTemplateMutation_WithPath (rtm_Path x)
    (ResourceTemplateMutation_WithTemplate (rtm_Template x) new_ResourceTemplateMutation)"

definition declareCELMutation :: "ResourceCELMutation \<Rightarrow> ResourceCELMutationApplyConfiguration" where
  "declareCELMutation x =
     ResourceCELMutation_WithPath (rcm_Path x)
    (ResourceCELMutation_WithExpression (rcm_Expression x) new_ResourceCELMutation)"

definition declareMutation :: "ResourceMutation \<Rightarrow> ResourceMutationApplyConfiguration" where
  "declareMutation x =
     ResourceMutation_WithDelete (map_option declareDeleteMutation (rm_Delete x))
    (ResourceMutation_WithRegex (map_option declareRegexMutation (rm_Regex x))
    (ResourceMutation_WithTemplate (map_option declareTemplateMutation (rm_Template x))
    (ResourceMutation_WithCEL (map_option declareCELMutation (rm_CEL x)) new_ResourceMutation)))"

definition declareMutationSpec :: "ResourceMutationSpec \<Rightarrow> ResourceMutationSpecApplyConfiguration result" where
  "declareMutationSpec x =
     bindR (ResourceMutationSpec_WithSpec (map (Some \<circ> declareMutation) (rms_Spec x)) new_ResourceMutationSpec)
       (ResourceMutationSpec_WithStatus (map (Some \<circ> declareMutation) (rms_Status x)))"

definition declareSelector :: "metaLib \<Rightarrow> LabelSelector \<Rightarrow> LabelSelectorApplyConfiguration" where
  "declareSelector L x = \<lparr> lsc_MatchLabels = putEntries (ls_MatchLabels x) None,
     lsc_MatchExpressions = map (ml_requirementConf L) (ls_MatchExpressions x) \<rparr>"

definition declareFilter :: "metaLib \<Rightarrow> ResourceFilter \<Rightarrow> ResourceFilterApplyConfiguration" where
  "declareFilter L x =
     ResourceFilter_WithNamespace (map_option (declareSelector L) (flt_Namespace x))
    (ResourceFilter_WithResource (map_option (declareSelector L) (flt_Resource x)) new_ResourceFilter)"

definition declareNaming :: "ResourceNaming \<Rightarrow> ResourceNamingApplyConfiguration" where
  "declareNaming x =
     setOpt ResourceNaming_WithName (nonEmpty (rn_Name x))
    (setOpt ResourceNaming_WithNamespace (nonEmpty (rn_Namespace x)) new_ResourceNaming)"

definition declareProjection :: "ResourceProjection \<Rightarrow> ResourceProjectionApplyConfiguration" where
  "declareProjection x =
     setOpt ResourceProjection_WithGroup (nonEmpty (rp_Group x))
    (setOpt ResourceProjection_WithVersion (nonEmpty (rp_Version x))
    (ResourceProjection_WithVersions (rp_Versions x)
    (setOpt ResourceProjection_WithScope (if rp_Scope x = ScopeUnset then None else Some (rp_Scope x))
    (setOpt ResourceProjection_WithKind (nonEmpty (rp_Kind x))
    (setOpt ResourceProjection_WithPlural (nonEmpty (rp_Plural x))
    (setOpt ResourceProjection_WithShortNames (rp_ShortNames x)
    (setOpt ResourceProjection_WithCategories (rp_Categories x) new_ResourceProjection)))))))"

definition declareDescriptor :: "SourceResourceDescriptor \<Rightarrow> SourceResourceDescriptorApplyConfiguration" where
  "declareDescriptor x =
     SourceResourceDescriptor_WithAPIGroup (srd_APIGroup x)
    (setOpt SourceResourceDescriptor_WithVersion (nonEmpty (srd_Version x))
    (SourceResourceDescriptor_WithVersions (srd_Versions x)
    (SourceResourceDescriptor_WithKind (srd_Kind x) new_SourceResourceDescriptor)))"

definition declareSynchronization :: "SynchronizationSpec \<Rightarrow> SynchronizationSpecApplyConfiguration" where
  "declareSynchronization x = SynchronizationSpec_WithEnabled (sync_Enabled x) new_SynchronizationSpec"

text \<open>Setters of lists of configurations may panic, so what is built with them is a result.\<close>

fun mapR :: "('a \<Rightarrow> 'b result) \<Rightarrow> 'a list \<Rightarrow> 'b list result" where
  "mapR f [] = Inr []"
| "mapR f (x # xs) = bindR (f x) (\<lambda>y. bindR (mapR f xs) (\<lambda>ys. Inr (y # ys)))"

definition optR :: "('a \<Rightarrow> 'b result) \<Rightarrow> 'a option \<Rightarrow> 'b option result" where
  "optR f v = (case v of None \<Rightarrow> Inr None | Some x \<Rightarrow> bindR (f x) (\<lambda>y. Inr (Some y)))"

definition declareRewrite :: "RelatedResourceSelectorRewrite \<Rightarrow> RelatedResourceSelectorRewriteApplyConfiguration" where
  "declareRewrite x =
     RelatedResourceSelectorRewrite_WithRegex (map_option declareRegularExpression (rw_Regex x))
    (RelatedResourceSelectorRewrite_WithTemplate (map_option declareTemplateExpression (rw_Template x))
       new_RelatedResourceSelectorRewrite)"

definition declareReference :: "RelatedResourceObjectReference \<Rightarrow> RelatedResourceObjectReferenceApplyConfiguration" where
  "declareReference x =
     RelatedResourceObjectReference_WithPath (ref_Path x)
    (RelatedResourceObjectReference_WithRegex (map_option declareRegularExpression (ref_Regex x))
       new_RelatedResourceObjectReference)"

definition declareObjectSelector ::
    "metaLib \<Rightarrow> RelatedResourceObjectSelector \<Rightarrow> RelatedResourceObjectSelectorApplyConfiguration result" where
  "declareObjectSelector L x =
     RelatedResourceObjectSelector_WithMatchExpressions
       (map (Some \<circ> ml_requirementConf L) (ls_MatchExpressions (ros_LabelSelector x)))
       (RelatedResourceObjectSelector_WithMatchLabels (ls_MatchLabels (ros_LabelSelector x))
       (RelatedResourceObjectSelector_WithRewrite (Some (declareRewrite (ros_Rewrite x)))
          new_RelatedResourceObjectSelector))"

definition declareObjectSpec ::
    "metaLib \<Rightarrow> (selptr \<Rightarrow> RelatedResourceObjectSelector) \<Rightarrow> RelatedResourceObjectSpec \<Rightarrow>
     RelatedResourceObjectSpecApplyConfiguration result" where
  "declareObjectSpec L sel x =
     bindR (optR (declareObjectSelector L \<circ> sel) (os_Selector x)) (\<lambda>s. Inr
       (RelatedResourceObjectSpec_WithSelector s
       (RelatedResourceObjectSpec_WithReference (map_option declareReference (os_Reference x))
       (RelatedResourceObjectSpec_WithTemplate (map_option declareTemplateExpression (os_Template x))
          new_RelatedResourceObjectSpec))))"

definition declareObject ::
    "metaLib \<Rightarrow> (selptr \<Rightarrow> RelatedResourceObjectSelector) \<Rightarrow> RelatedResourceObject \<Rightarrow>
     RelatedResourceObjectApplyConfiguration result" where
  "declareObject L sel x =
     bindR (optR (declareObjectSelector L \<circ> sel) (os_Selector (ro_Spec x))) (\<lambda>s.
     bindR (optR (declareObjectSpec L sel) (ro_Namespace x)) (\<lambda>n. Inr
       (RelatedResourceObject_WithSelector s
       (RelatedResourceObject_WithReference (map_option declareReference (os_Reference (ro_Spec x)))
       (RelatedResourceObject_WithTemplate (map_option declareTemplateExpression (os_Template (ro_Spec x)))
       (RelatedResourceObject_WithNamespace n new_RelatedResourceObject))))))"

definition declareRelatedProjection :: "RelatedResourceProjection \<Rightarrow> RelatedResourceProjectionApplyConfiguration" where
  "declareRelatedProjection x =
     setOpt RelatedResourceProjection_WithGroup (nonEmpty (rrp_Group x))
    (setOpt RelatedResourceProjection_WithVersion (nonEmpty (rrp_Version x))
    (setOpt RelatedResourceProjection_WithResource (nonEmpty (rrp_Resource x)) new_RelatedResourceProjection))"

definition declareWatch :: "metaLib \<Rightarrow> RelatedResourceWatch \<Rightarrow> RelatedResourceWatchApplyConfiguration" where
  "declareWatch L x =
     setOpt RelatedResourceWatch_WithByOwner (if rw_ByOwner x then Some () else None)
    (RelatedResourceWatch_WithBySelector (map_option (declareSelector L) (rw_BySelector x)) new_RelatedResourceWatch)"

definition declareRelated ::
    "metaLib \<Rightarrow> (selptr \<Rightarrow> RelatedResourceObjectSelector) \<Rightarrow> RelatedResourceSpec \<Rightarrow>
     RelatedResourceSpecApplyConfiguration result" where
  "declareRelated L sel x =
     bindR (declareObject L sel (rr_Object x)) (\<lambda>object.
     bindR (optR declareMutationSpec (rr_Mutation x)) (\<lambda>mutation. Inr
       (RelatedResourceSpec_WithIdentifier (rr_Identifier x)
       (RelatedResourceSpec_WithOrigin (rr_Origin x)
       (setOpt RelatedResourceSpec_WithGroup (nonEmpty (rr_Group x))
       (setOpt RelatedResourceSpec_WithVersion (nonEmpty (rr_Version x))
       (setOpt RelatedResourceSpec_WithResource (nonEmpty (rr_Resource x))
       (setOpt RelatedResourceSpec_WithKind (nonEmpty (rr_Kind x))
       (setOpt RelatedResourceSpec_WithIdentityHash (nonEmpty (rr_IdentityHash x))
       (setOpt RelatedResourceSpec_WithCleanup (nonFalse (rr_Cleanup x))
       (setOpt RelatedResourceSpec_WithCleanupPolicy
          (if rr_CleanupPolicy x = PolicyEmpty then None else Some (rr_CleanupPolicy x))
       (RelatedResourceSpec_WithProjection (map_option declareRelatedProjection (rr_Projection x))
       (RelatedResourceSpec_WithObject (Some object)
       (RelatedResourceSpec_WithMutation mutation
       (RelatedResourceSpec_WithWatch (map_option (declareWatch L) (rr_Watch x))
       (setOpt RelatedResourceSpec_WithSyncStatus (nonFalse (rr_SyncStatus x)) new_RelatedResourceSpec))))))))))))))))"

definition declareSpec ::
    "metaLib \<Rightarrow> (selptr \<Rightarrow> RelatedResourceObjectSelector) \<Rightarrow> PublishedResourceSpec \<Rightarrow>
     PublishedResourceSpecApplyConfiguration result" where
  "declareSpec L sel x =
     bindR (optR declareMutationSpec (prs_Mutation x)) (\<lambda>mutation.
     bindR (mapR (declareRelated L sel) (prs_Related x)) (\<lambda>related.
       PublishedResourceSpec_WithRelated (map Some related)
       (PublishedResourceSpec_WithResource (Some (declareDescriptor (prs_Resource x)))
       (PublishedResourceSpec_WithFilter (map_option (declareFilter L) (prs_Filter x))
       (PublishedResourceSpec_WithNaming (map_option declareNaming (prs_Naming x))
       (setOpt PublishedResourceSpec_WithEnableWorkspacePaths (nonFalse (prs_EnableWorkspacePaths x))
       (PublishedResourceSpec_WithProjection (map_option declareProjection (prs_Projection x))
       (PublishedResourceSpec_WithMutation mutation
       (PublishedResourceSpec_WithSynchronization (map_option declareSynchronization (prs_Synchronization x))
          new_PublishedResourceSpec)))))))))"

section \<open>The configuration has the document of the spec\<close>

text \<open>Documents of structs are objects, never null.\<close>

lemma structDoc_given [simp]: "structDoc fs \<noteq> JNull" "listDoc f xs \<noteq> JNull" "mapDoc m \<noteq> JNull"
  by (simp_all add: structDoc_def listDoc_def mapDoc_def)

lemma dropNulls_parts [simp]:
  "dropNulls (listDoc f xs) = listDoc (\<lambda>x. dropNulls (f x)) xs" "dropNulls (mapDoc m) = mapDoc m"
  by (auto simp: listDoc_def mapDoc_def fmap.map_comp comp_def intro!: fmap_ext)

lemma nonEmpty_map: "nonEmpty (map f xs) = map_option (map f) (nonEmpty xs)"
  by (simp add: nonEmpty_def)

lemma listDoc_map: "listDoc f (map g xs) = listDoc (\<lambda>x. f (g x)) xs"
  by (simp add: listDoc_def comp_def)

lemma doc_given [simp]:
  "doc_RegularExpression x0 \<noteq> JNull" "doc_TemplateExpression x1 \<noteq> JNull"
  "doc_ResourceDeleteMutation x2 \<noteq> JNull" "doc_ResourceRegexMutation x3 \<noteq> JNull"
  "doc_ResourceTemplateMutation x4 \<noteq> JNull" "doc_ResourceCELMutation x5 \<noteq> JNull"
  "doc_ResourceMutation x6 \<noteq> JNull" "doc_ResourceMutationSpec x7 \<noteq> JNull"
  "doc_ResourceNaming x8 \<noteq> JNull" "doc_ResourceProjection x9 \<noteq> JNull"
  "doc_SourceResourceDescriptor x10 \<noteq> JNull" "doc_SynchronizationSpec x11 \<noteq> JNull"
  "doc_RelatedResourceSelectorRewrite x12 \<noteq> JNull"
  "doc_RelatedResourceObjectReference x13 \<noteq> JNull" "doc_RelatedResourceProjection x14 \<noteq> JNull"
  "doc_ResourceFilter L y0 \<noteq> JNull" "doc_RelatedResourceObjectSelector L y1 \<noteq> JNull"
  "doc_RelatedResourceWatch L y2 \<noteq> JNull" "doc_RelatedResourceObjectSpec L sel z0 \<noteq> JNull"
  "doc_RelatedResourceObject L sel z1 \<noteq> JNull" "doc_RelatedResourceSpec L sel z2 \<noteq> JNull"
  by (simp_all add: doc_RegularExpression_def doc_TemplateExpression_def doc_ResourceDeleteMutation_def
    doc_ResourceRegexMutation_def doc_ResourceTemplateMutation_def doc_ResourceCELMutation_def
    doc_ResourceMutation_def doc_ResourceMutationSpec_def doc_ResourceNaming_def doc_ResourceProjection_def
    doc_SourceResourceDescriptor_def doc_SynchronizationSpec_def doc_RelatedResourceSelectorRewrite_def
    doc_RelatedResourceObjectReference_def doc_RelatedResourceProjection_def doc_ResourceFilter_def
    doc_RelatedResourceObjectSelector_def doc_RelatedResourceWatch_def doc_RelatedResourceObjectSpec_def
    doc_RelatedResourceObject_def doc_RelatedResourceSpec_def)

named_theorems docs \<open>documents of structs and their nulls\<close>

lemma dropNull_struct: "f x \<noteq> JNull \<Longrightarrow> dropNull (Some (f x)) = Some (dropNulls (f x))"
  by (simp add: dropNull_def)

lemmas [docs] = dropNulls_structDoc dropNull_map option.map_comp comp_def nonEmpty_map listDoc_map map_prod_def

named_theorems declared \<open>configurations with the document of a value\<close>

lemmas expression_defs = doc_RegularExpression_def confDoc_RegularExpression_def declareRegularExpression_def
  new_RegularExpression_def doc_TemplateExpression_def confDoc_TemplateExpression_def declareTemplateExpression_def
  new_TemplateExpression_def

lemma declared_expressions [declared]:
  "confDoc_RegularExpression (declareRegularExpression x) = dropNulls (doc_RegularExpression x)"
  "confDoc_TemplateExpression (declareTemplateExpression y) = dropNulls (doc_TemplateExpression y)"
  by (simp_all add: expression_defs setOpt_simps docs)

lemmas mutation_defs = doc_ResourceDeleteMutation_def confDoc_ResourceDeleteMutation_def declareDeleteMutation_def
  new_ResourceDeleteMutation_def doc_ResourceRegexMutation_def confDoc_ResourceRegexMutation_def declareRegexMutation_def
  new_ResourceRegexMutation_def doc_ResourceTemplateMutation_def confDoc_ResourceTemplateMutation_def
  declareTemplateMutation_def new_ResourceTemplateMutation_def doc_ResourceCELMutation_def
  confDoc_ResourceCELMutation_def declareCELMutation_def new_ResourceCELMutation_def

lemma declared_mutations [declared]:
  "confDoc_ResourceDeleteMutation (declareDeleteMutation u) = dropNulls (doc_ResourceDeleteMutation u)"
  "confDoc_ResourceRegexMutation (declareRegexMutation v) = dropNulls (doc_ResourceRegexMutation v)"
  "confDoc_ResourceTemplateMutation (declareTemplateMutation x) = dropNulls (doc_ResourceTemplateMutation x)"
  "confDoc_ResourceCELMutation (declareCELMutation y) = dropNulls (doc_ResourceCELMutation y)"
  by (simp_all add: mutation_defs setOpt_simps setter_defs docs)

lemma declared_mutation [declared]:
  "confDoc_ResourceMutation (declareMutation x) = dropNulls (doc_ResourceMutation x)"
  by (simp add: confDoc_ResourceMutation_def declareMutation_def new_ResourceMutation_def doc_ResourceMutation_def
        ResourceMutation_WithDelete_def ResourceMutation_WithRegex_def ResourceMutation_WithTemplate_def
        ResourceMutation_WithCEL_def docs declared)

lemma declared_mutationSpec:
  "\<exists>c. declareMutationSpec x = Inr c \<and> confDoc_ResourceMutationSpec c = dropNulls (doc_ResourceMutationSpec x)"
  using appendValues_given [of _ "map declareMutation (rms_Spec x)"] appendValues_given [of _ "map declareMutation (rms_Status x)"]
  by (simp add: declareMutationSpec_def ResourceMutationSpec_WithSpec_def ResourceMutationSpec_WithStatus_def bindR_def
        new_ResourceMutationSpec_def doc_ResourceMutationSpec_def confDoc_ResourceMutationSpec_def docs declared)

lemma declared_naming [declared]:
  "confDoc_ResourceNaming (declareNaming x) = dropNulls (doc_ResourceNaming x)"
  "confDoc_SynchronizationSpec (declareSynchronization y) = dropNulls (doc_SynchronizationSpec y)"
  by (simp_all add: confDoc_ResourceNaming_def declareNaming_def new_ResourceNaming_def doc_ResourceNaming_def
        confDoc_SynchronizationSpec_def declareSynchronization_def new_SynchronizationSpec_def
        doc_SynchronizationSpec_def setOpt_simps setter_defs docs)

lemma declared_descriptor [declared]:
  "confDoc_SourceResourceDescriptor (declareDescriptor x) = dropNulls (doc_SourceResourceDescriptor x)"
  by (simp add: confDoc_SourceResourceDescriptor_def declareDescriptor_def new_SourceResourceDescriptor_def
        doc_SourceResourceDescriptor_def SourceResourceDescriptor_WithVersions_def fold_append
        setOpt_simps setter_defs docs)

text \<open>Lists of names that are given are not empty.\<close>

definition keepsNames :: "ResourceProjection \<Rightarrow> bool" where
  "keepsNames x \<longleftrightarrow> rp_ShortNames x \<noteq> Some [] \<and> rp_Categories x \<noteq> Some []"

lemma declared_projection:
  assumes "keepsNames x"
  shows "confDoc_ResourceProjection (declareProjection x) = dropNulls (doc_ResourceProjection x)"
proof -
  have scope: "map_option (JStr \<circ> scopeString) (if rp_Scope x = ScopeUnset then None else Some (rp_Scope x)) =
      map_option JStr (nonEmpty (scopeString (rp_Scope x)))"
    by (cases "rp_Scope x") (simp_all add: nonEmpty_def)
  have names: "map_option (listDoc JStr) (nonEmpty (case xs of None \<Rightarrow> [] | Some ys \<Rightarrow> ys)) =
      dropNull (Some (case xs of None \<Rightarrow> JNull | Some ys \<Rightarrow> listDoc JStr ys))" if "xs \<noteq> Some []" for xs
    using that by (cases xs) (simp_all add: nonEmpty_def)
  have lists: "setOpt ResourceProjection_WithShortNames v b =
        b\<lparr>rpc_ShortNames := rpc_ShortNames b @ (case v of None \<Rightarrow> [] | Some ys \<Rightarrow> ys)\<rparr>"
      "setOpt ResourceProjection_WithCategories v b =
        b\<lparr>rpc_Categories := rpc_Categories b @ (case v of None \<Rightarrow> [] | Some ys \<Rightarrow> ys)\<rparr>" for v b
    by (simp_all add: setOpt_def ResourceProjection_WithShortNames_def ResourceProjection_WithCategories_def
          fold_append split: option.splits)
  have versions: "map_option mapDoc (Option.bind (putEntries (rp_Versions x) None) nonEmptyMap) =
      map_option mapDoc (nonEmptyMap (rp_Versions x))"
    by (simp add: putEntries_new nonEmptyMap_def)
  show ?thesis
    using assms names [of "rp_ShortNames x"] names [of "rp_Categories x"] scope versions
    by (simp add: keepsNames_def confDoc_ResourceProjection_def declareProjection_def new_ResourceProjection_def
          doc_ResourceProjection_def ResourceProjection_WithVersions_def lists setOpt_simps docs)
qed

text \<open>A list that is emptied is in no document of a configuration.\<close>

lemma undeclared_projection:
  assumes "confDoc_ResourceProjection c = dropNulls (doc_ResourceProjection x)"
  shows "keepsNames x"
proof -
  let ?d = "\<lambda>k. fmlookup (case dropNulls (doc_ResourceProjection x) of JObj m \<Rightarrow> m) k"
  have "?d ''shortNames'' \<noteq> Some (listDoc JStr [])" "?d ''categories'' \<noteq> Some (listDoc JStr [])"
    unfolding assms [symmetric]
    by (auto simp: confDoc_ResourceProjection_def structDoc_def fmlookup_of_list map_of_given nonEmpty_def listDoc_def)
  then show ?thesis
    by (auto simp: keepsNames_def doc_ResourceProjection_def dropNulls_structDoc)
       (auto simp: structDoc_def fmlookup_of_list map_of_given listDoc_def)
qed

text \<open>
  What is expected of the label selectors of Kubernetes: a configuration with the same labels and
  requirements has the same fields, none of which is null or collides with the field that the agent's API adds.
\<close>

locale selector_library =
  fixes L :: metaLib
  assumes sameFields: "ml_selectorConf L (declareSelector L x) = ml_selector L x"
    and noNulls: "map (map_prod id dropNull) (ml_selector L x) = ml_selector L x"
    and keys: "distinct (map fst (ml_selector L x))" "''rewrite'' \<notin> fst ` set (ml_selector L x)"
begin

lemma declared_selector:
  "structDoc (ml_selectorConf L (declareSelector L x)) = dropNulls (structDoc (ml_selector L x))"
  by (simp add: sameFields dropNulls_structDoc keys noNulls)

lemma declared_filter:
  "confDoc_ResourceFilter L (declareFilter L x) = dropNulls (doc_ResourceFilter L x)"
  by (simp add: confDoc_ResourceFilter_def declareFilter_def new_ResourceFilter_def doc_ResourceFilter_def
        ResourceFilter_WithNamespace_def ResourceFilter_WithResource_def declared_selector docs)

lemma declared_watch:
  "confDoc_RelatedResourceWatch L (declareWatch L x) = dropNulls (doc_RelatedResourceWatch L x)"
  by (simp add: confDoc_RelatedResourceWatch_def declareWatch_def new_RelatedResourceWatch_def
        doc_RelatedResourceWatch_def RelatedResourceWatch_WithBySelector_def setOpt_simps declared_selector docs given_def)

lemma declared_rewrite:
  "confDoc_RelatedResourceSelectorRewrite (declareRewrite x) = dropNulls (doc_RelatedResourceSelectorRewrite x)"
  "confDoc_RelatedResourceObjectReference (declareReference y) = dropNulls (doc_RelatedResourceObjectReference y)"
  "confDoc_RelatedResourceProjection (declareRelatedProjection z) = dropNulls (doc_RelatedResourceProjection z)"
  by (simp_all add: confDoc_RelatedResourceSelectorRewrite_def declareRewrite_def new_RelatedResourceSelectorRewrite_def
        doc_RelatedResourceSelectorRewrite_def RelatedResourceSelectorRewrite_WithRegex_def
        RelatedResourceSelectorRewrite_WithTemplate_def confDoc_RelatedResourceObjectReference_def declareReference_def
        new_RelatedResourceObjectReference_def doc_RelatedResourceObjectReference_def
        RelatedResourceObjectReference_WithRegex_def confDoc_RelatedResourceProjection_def declareRelatedProjection_def
        new_RelatedResourceProjection_def doc_RelatedResourceProjection_def setOpt_simps setter_defs docs declared)

lemma declared_objectSelector:
  "\<exists>c. declareObjectSelector L x = Inr c \<and>
     confDoc_RelatedResourceObjectSelector L c = dropNulls (doc_RelatedResourceObjectSelector L x)"
  using appendValues_given [of _ "map (ml_requirementConf L) (ls_MatchExpressions (ros_LabelSelector x))"]
    sameFields [of "ros_LabelSelector x"] noNulls [of "ros_LabelSelector x"] keys [of "ros_LabelSelector x"]
  by (simp add: declareObjectSelector_def RelatedResourceObjectSelector_WithMatchExpressions_def bindR_def
        RelatedResourceObjectSelector_WithMatchLabels_def RelatedResourceObjectSelector_WithRewrite_def
        new_RelatedResourceObjectSelector_def new_LabelSelector_def confDoc_RelatedResourceObjectSelector_def
        doc_RelatedResourceObjectSelector_def declareSelector_def declared_rewrite dropNull_struct docs)

lemma declared_optR:
  assumes "\<And>x. \<exists>c. f x = Inr c \<and> g c = dropNulls (h x)"
  shows "\<exists>c. optR f v = Inr c \<and> map_option g c = map_option (\<lambda>x. dropNulls (h x)) v"
proof (cases v)
  case (Some x)
  with assms [of x] show ?thesis by (auto simp: optR_def bindR_def)
qed (simp add: optR_def)

lemma declared_mapR:
  assumes "\<And>x. \<exists>c. f x = Inr c \<and> g c = dropNulls (h x)"
  shows "\<exists>cs. mapR f xs = Inr cs \<and> map g cs = map (\<lambda>x. dropNulls (h x)) xs"
proof (induction xs)
  case (Cons x xs)
  with assms [of x] show ?case by (auto simp: bindR_def)
qed simp

lemma declared_selectorOpt:
  "\<exists>c. optR (declareObjectSelector L \<circ> sel) v = Inr c \<and>
     map_option (confDoc_RelatedResourceObjectSelector L) c =
     map_option (\<lambda>x. dropNulls (doc_RelatedResourceObjectSelector L (sel x))) v"
  by (rule declared_optR) (simp add: declared_objectSelector)

lemma declared_objectSpec:
  "\<exists>c. declareObjectSpec L sel x = Inr c \<and>
     confDoc_RelatedResourceObjectSpec L c = dropNulls (doc_RelatedResourceObjectSpec L sel x)"
  using declared_selectorOpt [of sel "os_Selector x"]
  by (auto simp: declareObjectSpec_def bindR_def RelatedResourceObjectSpec_WithSelector_def
        RelatedResourceObjectSpec_WithReference_def RelatedResourceObjectSpec_WithTemplate_def
        new_RelatedResourceObjectSpec_def confDoc_RelatedResourceObjectSpec_def confFields_RelatedResourceObjectSpec_def
        doc_RelatedResourceObjectSpec_def fields_RelatedResourceObjectSpec_def declared_rewrite docs declared)

lemma declared_object:
  "\<exists>c. declareObject L sel x = Inr c \<and>
     confDoc_RelatedResourceObject L c = dropNulls (doc_RelatedResourceObject L sel x)"
  using declared_selectorOpt [of sel "os_Selector (ro_Spec x)"]
    declared_optR [where f = "declareObjectSpec L sel" and v = "ro_Namespace x", OF declared_objectSpec]
  by (auto simp: declareObject_def bindR_def RelatedResourceObject_WithSelector_def
        RelatedResourceObject_WithReference_def RelatedResourceObject_WithTemplate_def
        RelatedResourceObject_WithNamespace_def new_RelatedResourceObject_def new_RelatedResourceObjectSpec_def
        confDoc_RelatedResourceObject_def confFields_RelatedResourceObjectSpec_def doc_RelatedResourceObject_def
        fields_RelatedResourceObjectSpec_def declared_rewrite docs declared)

lemma declared_related:
  "\<exists>c. declareRelated L sel x = Inr c \<and> confDoc_RelatedResourceSpec L c = dropNulls (doc_RelatedResourceSpec L sel x)"
proof -
  obtain ob where ob: "declareObject L sel (rr_Object x) = Inr ob"
      "confDoc_RelatedResourceObject L ob = dropNulls (doc_RelatedResourceObject L sel (rr_Object x))"
    using declared_object by blast
  obtain mu where mu: "optR declareMutationSpec (rr_Mutation x) = Inr mu"
      "map_option confDoc_ResourceMutationSpec mu =
       map_option (\<lambda>x. dropNulls (doc_ResourceMutationSpec x)) (rr_Mutation x)"
    using declared_optR [where f = declareMutationSpec, OF declared_mutationSpec] by blast
  have policy: "map_option (JStr \<circ> policyString)
      (if rr_CleanupPolicy x = PolicyEmpty then None else Some (rr_CleanupPolicy x)) =
      map_option JStr (nonEmpty (policyString (rr_CleanupPolicy x)))"
    by (cases "rr_CleanupPolicy x") (simp_all add: nonEmpty_def)
  show ?thesis
    using mu(2) policy
    by (simp add: declareRelated_def ob(1) mu(1) bindR_def RelatedResourceSpec_WithProjection_def
          RelatedResourceSpec_WithObject_def RelatedResourceSpec_WithMutation_def RelatedResourceSpec_WithWatch_def
          new_RelatedResourceSpec_def confDoc_RelatedResourceSpec_def doc_RelatedResourceSpec_def setOpt_simps
          RelatedResourceSpec_WithIdentifier_def RelatedResourceSpec_WithOrigin_def ob(2) declared_rewrite
          declared_watch dropNull_struct docs)
qed

lemma declared_spec:
  assumes "\<forall>y. prs_Projection x = Some y \<longrightarrow> keepsNames y"
  shows "\<exists>c. declareSpec L sel x = Inr c \<and>
    confDoc_PublishedResourceSpec L c = dropNulls (doc_PublishedResourceSpec L sel x)"
proof -
  obtain rs where rs: "mapR (declareRelated L sel) (prs_Related x) = Inr rs"
      "map (confDoc_RelatedResourceSpec L) rs = map (\<lambda>x. dropNulls (doc_RelatedResourceSpec L sel x)) (prs_Related x)"
    using declared_mapR [where f = "declareRelated L sel", OF declared_related] by blast
  obtain mu where mu: "optR declareMutationSpec (prs_Mutation x) = Inr mu"
      "map_option confDoc_ResourceMutationSpec mu =
       map_option (\<lambda>x. dropNulls (doc_ResourceMutationSpec x)) (prs_Mutation x)"
    using declared_optR [where f = declareMutationSpec, OF declared_mutationSpec] by blast
  have related: "map_option (listDoc (confDoc_RelatedResourceSpec L)) (nonEmpty rs) =
      map_option (listDoc (\<lambda>x. dropNulls (doc_RelatedResourceSpec L sel x))) (nonEmpty (prs_Related x))"
    using rs(2) by (auto simp: nonEmpty_def listDoc_def)
  have projection: "map_option (\<lambda>y. confDoc_ResourceProjection (declareProjection y)) (prs_Projection x) =
      map_option (\<lambda>y. dropNulls (doc_ResourceProjection y)) (prs_Projection x)"
    using assms declared_projection by (cases "prs_Projection x") simp_all
  show ?thesis
    using mu(2) related projection
    by (simp add: declareSpec_def rs(1) mu(1) bindR_def PublishedResourceSpec_WithRelated_def appendValues_given
          PublishedResourceSpec_WithResource_def PublishedResourceSpec_WithFilter_def PublishedResourceSpec_WithNaming_def
          PublishedResourceSpec_WithProjection_def PublishedResourceSpec_WithMutation_def
          PublishedResourceSpec_WithSynchronization_def new_PublishedResourceSpec_def setOpt_simps
          confDoc_PublishedResourceSpec_def doc_PublishedResourceSpec_def declared_filter declared dropNull_struct docs)
qed

end

text \<open>The fields of equal documents are equal.\<close>

lemma structDoc_fields:
  assumes "structDoc fs = structDoc gs" "distinct (map fst fs)" "distinct (map fst gs)"
  shows "Option.bind (map_of fs k) id = Option.bind (map_of gs k) id"
proof -
  have "fmlookup (fmap_of_list (given fs)) k = fmlookup (fmap_of_list (given gs)) k" using assms(1) by (simp add: structDoc_def)
  with assms(2,3) show ?thesis by (simp add: fmlookup_of_list map_of_given)
qed

lemma undeclared_spec:
  assumes "confDoc_PublishedResourceSpec L c = dropNulls (doc_PublishedResourceSpec L sel x)" "prs_Projection x = Some y"
  shows "keepsNames y"
proof -
  have "map_option confDoc_ResourceProjection (prsc_Projection c) = Some (dropNulls (doc_ResourceProjection y))"
    using assms
    by (simp add: confDoc_PublishedResourceSpec_def doc_PublishedResourceSpec_def dropNulls_structDoc dropNull_struct)
       (drule structDoc_fields [where k = "''projection''"]; simp)
  then show ?thesis using undeclared_projection by auto
qed

section \<open>Which specs can be declared\<close>

text \<open>
  C40. Apply configurations can say everything but the removal of all names: for a PublishedResource spec there is
  a configuration with the same JSON document, up to nulls, exactly if its projection does not set
  \<open>shortNames\<close> or \<open>categories\<close> to the empty list, and then a chain of \<open>With\<close> calls builds it without a panic.
\<close>

theorem spec_declarable_iff:
  assumes "selector_library L"
  shows "((\<exists>c. confDoc_PublishedResourceSpec L c = dropNulls (doc_PublishedResourceSpec L sel x)) \<longleftrightarrow>
      (case prs_Projection x of None \<Rightarrow> True
       | Some y \<Rightarrow> rp_ShortNames y \<noteq> Some [] \<and> rp_Categories y \<noteq> Some [])) \<and>
    ((\<exists>c. confDoc_PublishedResourceSpec L c = dropNulls (doc_PublishedResourceSpec L sel x)) \<longleftrightarrow>
     (\<exists>c. declareSpec L sel x = Inr c \<and>
        confDoc_PublishedResourceSpec L c = dropNulls (doc_PublishedResourceSpec L sel x)))"
proof -
  have "\<forall>y. prs_Projection x = Some y \<longrightarrow> keepsNames y"
    if "confDoc_PublishedResourceSpec L c = dropNulls (doc_PublishedResourceSpec L sel x)" for c
    using undeclared_spec [OF that] by blast
  moreover note selector_library.declared_spec [OF assms, of x sel]
  moreover have "(\<forall>y. prs_Projection x = Some y \<longrightarrow> keepsNames y) \<longleftrightarrow>
      (case prs_Projection x of None \<Rightarrow> True | Some y \<Rightarrow> rp_ShortNames y \<noteq> Some [] \<and> rp_Categories y \<noteq> Some [])"
    by (simp add: keepsNames_def split: option.splits)
  ultimately show ?thesis by blast
qed

text \<open>Documents of label selectors as Kubernetes prints them.\<close>

definition requirementDoc :: "labelSelectorRequirement \<Rightarrow> json" where
  "requirementDoc r = structDoc
     [(''key'', Some (JStr (lsr_Key r))), (''values'', map_option (listDoc JStr) (nonEmpty (lsr_Values r)))]"

definition exampleMeta :: metaLib where
  "exampleMeta = \<lparr>
     ml_selector = (\<lambda>x. [(''matchLabels'', map_option mapDoc (nonEmptyMap (ls_MatchLabels x))),
       (''matchExpressions'', map_option (listDoc requirementDoc) (nonEmpty (ls_MatchExpressions x)))]),
     ml_selectorConf = (\<lambda>c. [(''matchLabels'', map_option mapDoc (Option.bind (lsc_MatchLabels c) nonEmptyMap)),
       (''matchExpressions'', map_option (listDoc id) (nonEmpty (lsc_MatchExpressions c)))]),
     ml_requirementConf = requirementDoc \<rparr>"

lemma dropNulls_requirement: "dropNulls (requirementDoc r) = requirementDoc r"
  by (simp add: requirementDoc_def docs)

interpretation meta: selector_library exampleMeta
  by unfold_locales
     (auto simp: exampleMeta_def declareSelector_def putEntries_new nonEmptyMap_def nonEmpty_def listDoc_def comp_def
        dropNulls_requirement dropNull_def split: option.splits)

definition shortNamed :: "string list \<Rightarrow> PublishedResourceSpec" where
  "shortNamed names = plainSpec\<lparr>prs_Related := [plainRelated], prs_Projection := Some \<lparr> rp_Group = [], rp_Version = [],
     rp_Versions = fmempty, rp_Scope = ScopeUnset, rp_Kind = [], rp_Plural = [], rp_ShortNames = Some names,
     rp_Categories = None \<rparr>\<rparr>"

definition matchAll :: "selptr \<Rightarrow> RelatedResourceObjectSelector" where
  "matchAll a = \<lparr> ros_LabelSelector = \<lparr> ls_MatchLabels = fmempty, ls_MatchExpressions = [] \<rparr>,
     ros_Rewrite = \<lparr> rw_Regex = None, rw_Template = None \<rparr> \<rparr>"

theorem spec_declarable_iff_witness:
  "(\<exists>c. declareSpec exampleMeta matchAll (shortNamed [''cl'']) = Inr c \<and>
      confDoc_PublishedResourceSpec exampleMeta c =
      dropNulls (doc_PublishedResourceSpec exampleMeta matchAll (shortNamed [''cl'']))) \<and>
   \<not> (\<exists>c. confDoc_PublishedResourceSpec exampleMeta c =
      dropNulls (doc_PublishedResourceSpec exampleMeta matchAll (shortNamed [])))"
proof -
  have names: "(case prs_Projection (shortNamed ns) of None \<Rightarrow> True
      | Some y \<Rightarrow> rp_ShortNames y \<noteq> Some [] \<and> rp_Categories y \<noteq> Some []) \<longleftrightarrow> ns \<noteq> []" for ns
    by (simp add: shortNamed_def)
  note declarable = spec_declarable_iff [OF meta.selector_library_axioms, where sel = matchAll]
  show ?thesis
    using declarable [of "shortNamed [''cl'']", unfolded names] declarable [of "shortNamed []", unfolded names] by blast
qed

end
