(* ===== verification/Clientsets.thy ===== *)
theory Clientsets
  imports Apply_Configuration Complex_Main
begin

text \<open>
  The clients for PublishedResources (\<open>sdk/clientset/versioned\<close>): clientsets for one cluster and for all clusters,
  from the configuration to the clients that are built, and the fake client of kcp's tests. A REST client is
  represented by the configuration and the HTTP client it was built from, a rate limiter by its number among
  those that were created. Whether a client can be built, the HTTP client for a configuration, and the cache
  of clients per cluster are client-go's and kcp's, and parameters.
\<close>

section \<open>Clients of one cluster\<close>

record clientConfig =
  cc_Host :: string
  cc_UserAgent :: string
  cc_RateLimiter :: "nat option"
  cc_QPS :: rat
  cc_Burst :: int
  cc_GroupVersion :: "(string \<times> string) option"
  cc_APIPath :: string

record 'h restClient =
  rc_Config :: clientConfig
  rc_HTTP :: 'h

record 'h clientLib =
  kl_DefaultKubernetesUserAgent :: string
  kl_HTTPClientFor :: "clientConfig \<Rightarrow> 'h result"
  kl_RESTClientFor :: "clientConfig \<Rightarrow> 'h \<Rightarrow> unit result"
  kl_DiscoveryClientFor :: "clientConfig \<Rightarrow> 'h \<Rightarrow> unit result"

text \<open>The rate limiters that were created, with their rates and bursts.\<close>

type_synonym limiters = "(rat \<times> int) list"

definition NewTokenBucketRateLimiter :: "rat \<Rightarrow> int \<Rightarrow> (limiters, nat) go" where
  "NewTokenBucketRateLimiter qps burst w = (Inr (length w), w @ [(qps, burst)])"

definition setConfigDefaults :: "'h clientLib \<Rightarrow> clientConfig \<Rightarrow> clientConfig" where
  "setConfigDefaults K config =
     (let config = config\<lparr>cc_GroupVersion := Some (GroupName, GroupVersion), cc_APIPath := ''/apis''\<rparr>
      in if cc_UserAgent config = [] then config\<lparr>cc_UserAgent := kl_DefaultKubernetesUserAgent K\<rparr> else config)"

definition SyncagentV1alpha1_NewForConfigAndClient ::
    "'h clientLib \<Rightarrow> clientConfig \<Rightarrow> 'h \<Rightarrow> (limiters, 'h restClient) go" where
  "SyncagentV1alpha1_NewForConfigAndClient K c h =
     (let config = setConfigDefaults K c
      in bindE (liftE (kl_RESTClientFor K config h)) (\<lambda>_. ok \<lparr> rc_Config = config, rc_HTTP = h \<rparr>))"

definition SyncagentV1alpha1_NewForConfig :: "'h clientLib \<Rightarrow> clientConfig \<Rightarrow> (limiters, 'h restClient) go" where
  "SyncagentV1alpha1_NewForConfig K c =
     (let config = setConfigDefaults K c
      in bindE (liftE (kl_HTTPClientFor K config)) (\<lambda>httpClient.
         SyncagentV1alpha1_NewForConfigAndClient K config httpClient))"

text \<open>\<open>panic(err)\<close> of the \<open>OrDie\<close> variants.\<close>

definition orDie :: "(limiters, 'a) go \<Rightarrow> (limiters, 'a) go" where
  "orDie m = attempt m (\<lambda>r. case r of Inl e \<Rightarrow> fail (Panic ''error in the config'') | Inr x \<Rightarrow> ok x)"

definition SyncagentV1alpha1_NewForConfigOrDie :: "'h clientLib \<Rightarrow> clientConfig \<Rightarrow> (limiters, 'h restClient) go" where
  "SyncagentV1alpha1_NewForConfigOrDie K c = orDie (SyncagentV1alpha1_NewForConfig K c)"

record 'h Clientset =
  cs_DiscoveryClient :: "'h restClient"
  cs_syncagentV1alpha1 :: "'h restClient"

text \<open>A limiter is created if there is none and the rate asks for one; then the burst must allow a request.\<close>

definition limitRate :: "clientConfig \<Rightarrow> (limiters, clientConfig) go" where
  "limitRate c =
     (if cc_RateLimiter c = None \<and> cc_QPS c > 0
      then if cc_Burst c \<le> 0
           then fail (Msg (''burst is required to be greater than 0 when RateLimiter is not set'' @
                  '' and QPS is set to greater than 0''))
           else bindE (NewTokenBucketRateLimiter (cc_QPS c) (cc_Burst c)) (\<lambda>r. ok (c\<lparr>cc_RateLimiter := Some r\<rparr>))
      else ok c)"

definition Clientset_NewForConfigAndClient ::
    "'h clientLib \<Rightarrow> clientConfig \<Rightarrow> 'h \<Rightarrow> (limiters, 'h Clientset) go" where
  "Clientset_NewForConfigAndClient K c h =
     bindE (limitRate c) (\<lambda>configShallowCopy.
     bindE (SyncagentV1alpha1_NewForConfigAndClient K configShallowCopy h) (\<lambda>syncagent.
     bindE (liftE (kl_DiscoveryClientFor K configShallowCopy h)) (\<lambda>_.
     ok \<lparr> cs_DiscoveryClient = \<lparr> rc_Config = configShallowCopy, rc_HTTP = h \<rparr>, cs_syncagentV1alpha1 = syncagent \<rparr>)))"

definition defaultUserAgent :: "'h clientLib \<Rightarrow> clientConfig \<Rightarrow> clientConfig" where
  "defaultUserAgent K c =
     (if cc_UserAgent c = [] then c\<lparr>cc_UserAgent := kl_DefaultKubernetesUserAgent K\<rparr> else c)"

definition Clientset_NewForConfig :: "'h clientLib \<Rightarrow> clientConfig \<Rightarrow> (limiters, 'h Clientset) go" where
  "Clientset_NewForConfig K c =
     (let configShallowCopy = defaultUserAgent K c
      in bindE (liftE (kl_HTTPClientFor K configShallowCopy)) (\<lambda>httpClient.
         Clientset_NewForConfigAndClient K configShallowCopy httpClient))"

definition Clientset_NewForConfigOrDie :: "'h clientLib \<Rightarrow> clientConfig \<Rightarrow> (limiters, 'h Clientset) go" where
  "Clientset_NewForConfigOrDie K c = orDie (Clientset_NewForConfig K c)"

definition Clientset_New :: "'h restClient \<Rightarrow> 'h Clientset" where
  "Clientset_New c = \<lparr> cs_DiscoveryClient = c, cs_syncagentV1alpha1 = c \<rparr>"

section \<open>Clients of all clusters\<close>

text \<open>
  The cache of clients per cluster: the client for a cluster path, built by the given function from the
  configuration and the HTTP client that the cache was made with, when it was not built before.
\<close>

definition Wildcard :: string where
  "Wildcard = ''*''"

type_synonym ('h, 'c) clusterCache =
  "clientConfig \<Rightarrow> 'h \<Rightarrow> (clientConfig \<Rightarrow> 'h \<Rightarrow> (limiters, 'c) go) \<Rightarrow> string \<Rightarrow> (limiters, 'c) go"

text \<open>A cluster client holds its cache: what the cache was made with.\<close>

record 'h clusterClient =
  cl_Config :: clientConfig
  cl_HTTP :: 'h

definition SyncagentV1alpha1Cluster_NewForConfigAndClient ::
    "'h clientLib \<Rightarrow> ('h, 'h restClient) clusterCache \<Rightarrow> clientConfig \<Rightarrow> 'h \<Rightarrow> (limiters, 'h clusterClient) go" where
  "SyncagentV1alpha1Cluster_NewForConfigAndClient K G c h =
     bindE (G c h (SyncagentV1alpha1_NewForConfigAndClient K) ''root'') (\<lambda>_. ok \<lparr> cl_Config = c, cl_HTTP = h \<rparr>)"

definition SyncagentV1alpha1Cluster_NewForConfig ::
    "'h clientLib \<Rightarrow> ('h, 'h restClient) clusterCache \<Rightarrow> clientConfig \<Rightarrow> (limiters, 'h clusterClient) go" where
  "SyncagentV1alpha1Cluster_NewForConfig K G c =
     bindE (liftE (kl_HTTPClientFor K c)) (\<lambda>h. SyncagentV1alpha1Cluster_NewForConfigAndClient K G c h)"

definition SyncagentV1alpha1Cluster_NewForConfigOrDie ::
    "'h clientLib \<Rightarrow> ('h, 'h restClient) clusterCache \<Rightarrow> clientConfig \<Rightarrow> (limiters, 'h clusterClient) go" where
  "SyncagentV1alpha1Cluster_NewForConfigOrDie K G c = orDie (SyncagentV1alpha1Cluster_NewForConfig K G c)"

text \<open>Scoping to one cluster. The wildcard is refused here, and used by the calls that span all clusters.\<close>

definition scoped :: "(string \<Rightarrow> (limiters, 'c) go) \<Rightarrow> string \<Rightarrow> (limiters, 'c) go" where
  "scoped clusterOf clusterPath =
     (if clusterPath = Wildcard
      then fail (Panic ''A specific cluster must be provided when scoping, not the wildcard.'')
      else orDie (clusterOf clusterPath))"

definition SyncagentV1alpha1Cluster_Cluster ::
    "'h clientLib \<Rightarrow> ('h, 'h restClient) clusterCache \<Rightarrow> 'h clusterClient \<Rightarrow> string \<Rightarrow> (limiters, 'h restClient) go" where
  "SyncagentV1alpha1Cluster_Cluster K G c = scoped (G (cl_Config c) (cl_HTTP c) (SyncagentV1alpha1_NewForConfigAndClient K))"

text \<open>PublishedResources of one cluster, and of all clusters for \<open>List\<close> and \<open>Watch\<close>, through the client of the group.\<close>

definition publishedResourcesCluster_Cluster ::
    "'h clientLib \<Rightarrow> ('h, 'h restClient) clusterCache \<Rightarrow> 'h clusterClient \<Rightarrow> string \<Rightarrow> (limiters, 'h restClient) go" where
  "publishedResourcesCluster_Cluster K G c = scoped (G (cl_Config c) (cl_HTTP c) (SyncagentV1alpha1_NewForConfigAndClient K))"

definition publishedResourcesCluster_all ::
    "'h clientLib \<Rightarrow> ('h, 'h restClient) clusterCache \<Rightarrow> 'h clusterClient \<Rightarrow> (limiters, 'h restClient) go" where
  "publishedResourcesCluster_all K G c =
     orDie (G (cl_Config c) (cl_HTTP c) (SyncagentV1alpha1_NewForConfigAndClient K) Wildcard)"

record 'h ClusterClientset =
  ccs_DiscoveryClient :: "'h restClient"
  ccs_clientCache :: "'h clusterClient"
  ccs_syncagentV1alpha1 :: "'h clusterClient"

definition ClusterClientset_NewForConfigAndClient ::
    "'h clientLib \<Rightarrow> ('h, 'h Clientset) clusterCache \<Rightarrow> ('h, 'h restClient) clusterCache \<Rightarrow> clientConfig \<Rightarrow> 'h \<Rightarrow>
     (limiters, 'h ClusterClientset) go" where
  "ClusterClientset_NewForConfigAndClient K S G c h =
     bindE (limitRate c) (\<lambda>configShallowCopy.
     bindE (S c h (Clientset_NewForConfigAndClient K) ''root'') (\<lambda>_.
     bindE (SyncagentV1alpha1Cluster_NewForConfigAndClient K G configShallowCopy h) (\<lambda>syncagent.
     bindE (liftE (kl_DiscoveryClientFor K configShallowCopy h)) (\<lambda>_.
     ok \<lparr> ccs_DiscoveryClient = \<lparr> rc_Config = configShallowCopy, rc_HTTP = h \<rparr>,
          ccs_clientCache = \<lparr> cl_Config = c, cl_HTTP = h \<rparr>, ccs_syncagentV1alpha1 = syncagent \<rparr>))))"

definition ClusterClientset_NewForConfig ::
    "'h clientLib \<Rightarrow> ('h, 'h Clientset) clusterCache \<Rightarrow> ('h, 'h restClient) clusterCache \<Rightarrow> clientConfig \<Rightarrow>
     (limiters, 'h ClusterClientset) go" where
  "ClusterClientset_NewForConfig K S G c =
     (let configShallowCopy = defaultUserAgent K c
      in bindE (liftE (kl_HTTPClientFor K configShallowCopy)) (\<lambda>httpClient.
         ClusterClientset_NewForConfigAndClient K S G configShallowCopy httpClient))"

definition ClusterClientset_NewForConfigOrDie ::
    "'h clientLib \<Rightarrow> ('h, 'h Clientset) clusterCache \<Rightarrow> ('h, 'h restClient) clusterCache \<Rightarrow> clientConfig \<Rightarrow>
     (limiters, 'h ClusterClientset) go" where
  "ClusterClientset_NewForConfigOrDie K S G c = orDie (ClusterClientset_NewForConfig K S G c)"

definition ClusterClientset_Cluster ::
    "'h clientLib \<Rightarrow> ('h, 'h Clientset) clusterCache \<Rightarrow> 'h ClusterClientset \<Rightarrow> string \<Rightarrow> (limiters, 'h Clientset) go" where
  "ClusterClientset_Cluster K S c =
     scoped (S (cl_Config (ccs_clientCache c)) (cl_HTTP (ccs_clientCache c)) (Clientset_NewForConfigAndClient K))"

section \<open>The fake client\<close>

text \<open>
  The fake client turns every call into an action on a tracker of objects, a parameter. What the tracker returns is
  asserted to be of the type that the call returns; an object comes back together with an error if there is one.
\<close>

record listOptions =
  lo_LabelSelector :: string
  lo_FieldSelector :: string

datatype fakeAction =
    RootCreate string PublishedResource
  | RootUpdate string PublishedResource
  | RootUpdateSubresource string string PublishedResource
  | RootDelete string string
  | RootDeleteCollection string listOptions
  | RootGet string string
  | RootList string listOptions
  | RootWatch string listOptions
  | RootPatch string string string string "string list"

record PublishedResourceList =
  prl_ListMeta :: json
  prl_Items :: "PublishedResource list"

datatype fakeObject = FakeResource PublishedResource | FakeList PublishedResourceList

type_synonym 's fake = "fakeAction \<Rightarrow> 's \<Rightarrow> (fakeObject option \<times> gerror option) \<times> 's"
type_synonym ('s, 'a) fakeCall = "('s, 'a option \<times> gerror option) go"

definition invokeResource :: "'s fake \<Rightarrow> fakeAction \<Rightarrow> ('s, PublishedResource) fakeCall" where
  "invokeResource F a w =
     (case F a w of
        ((None, err), w') \<Rightarrow> (Inr (None, err), w')
      | ((Some (FakeResource p), err), w') \<Rightarrow> (Inr (Some p, err), w')
      | ((Some (FakeList l), err), w') \<Rightarrow> (Inl (Panic ''interface conversion''), w'))"

definition fake_Create :: "'s fake \<Rightarrow> string \<Rightarrow> PublishedResource \<Rightarrow> ('s, PublishedResource) fakeCall" where
  "fake_Create F path p = invokeResource F (RootCreate path p)"

definition fake_Update :: "'s fake \<Rightarrow> string \<Rightarrow> PublishedResource \<Rightarrow> ('s, PublishedResource) fakeCall" where
  "fake_Update F path p = invokeResource F (RootUpdate path p)"

definition fake_UpdateStatus :: "'s fake \<Rightarrow> string \<Rightarrow> PublishedResource \<Rightarrow> ('s, PublishedResource) fakeCall" where
  "fake_UpdateStatus F path p = invokeResource F (RootUpdateSubresource path ''status'' p)"

definition fake_Delete :: "'s fake \<Rightarrow> string \<Rightarrow> string \<Rightarrow> 's \<Rightarrow> gerror option \<times> 's" where
  "fake_Delete F path name w = (case F (RootDelete path name) w of ((_, err), w') \<Rightarrow> (err, w'))"

definition fake_DeleteCollection :: "'s fake \<Rightarrow> string \<Rightarrow> listOptions \<Rightarrow> 's \<Rightarrow> gerror option \<times> 's" where
  "fake_DeleteCollection F path opts w = (case F (RootDeleteCollection path opts) w of ((_, err), w') \<Rightarrow> (err, w'))"

definition fake_Get :: "'s fake \<Rightarrow> string \<Rightarrow> string \<Rightarrow> ('s, PublishedResource) fakeCall" where
  "fake_Get F path name = invokeResource F (RootGet path name)"

text \<open>\<open>label\<close> is the selector in the options, nil if there is none, \<open>sees\<close> the matching of labels.\<close>

definition fake_List ::
    "'s fake \<Rightarrow> (listOptions \<Rightarrow> selector option) \<Rightarrow> (selector \<Rightarrow> labels \<Rightarrow> bool) \<Rightarrow> string \<Rightarrow> listOptions \<Rightarrow>
     ('s, PublishedResourceList) fakeCall" where
  "fake_List F label sees path opts w =
     (case F (RootList path opts) w of
        ((None, err), w') \<Rightarrow> (Inr (None, err), w')
      | ((Some (FakeList l), err), w') \<Rightarrow>
          let sel = (case label opts of None \<Rightarrow> Everything | Some x \<Rightarrow> x)
          in (Inr (Some \<lparr> prl_ListMeta = prl_ListMeta l,
                prl_Items = filter (\<lambda>p. sees sel (orEmpty (pr_Labels p))) (prl_Items l) \<rparr>, err), w')
      | ((Some (FakeResource p), err), w') \<Rightarrow> (Inl (Panic ''interface conversion''), w'))"

text \<open>The list across all clusters.\<close>

definition fakeCluster_List ::
    "'s fake \<Rightarrow> (listOptions \<Rightarrow> selector option) \<Rightarrow> (selector \<Rightarrow> labels \<Rightarrow> bool) \<Rightarrow> listOptions \<Rightarrow>
     ('s, PublishedResourceList) fakeCall" where
  "fakeCluster_List F label sees opts = fake_List F label sees Wildcard opts"

definition fakeCluster_Cluster :: "string \<Rightarrow> string result" where
  "fakeCluster_Cluster clusterPath =
     (if clusterPath = Wildcard
      then Inl (Panic ''A specific cluster must be provided when scoping, not the wildcard.'')
      else Inr clusterPath)"

definition fake_Watch :: "(fakeAction \<Rightarrow> ('s, 'i) go) \<Rightarrow> string \<Rightarrow> listOptions \<Rightarrow> ('s, 'i) go" where
  "fake_Watch invokesWatch path opts = invokesWatch (RootWatch path opts)"

definition fakeCluster_Watch :: "(fakeAction \<Rightarrow> ('s, 'i) go) \<Rightarrow> listOptions \<Rightarrow> ('s, 'i) go" where
  "fakeCluster_Watch invokesWatch opts = invokesWatch (RootWatch Wildcard opts)"

definition fake_Patch ::
    "'s fake \<Rightarrow> string \<Rightarrow> string \<Rightarrow> string \<Rightarrow> string \<Rightarrow> string list \<Rightarrow> ('s, PublishedResource) fakeCall" where
  "fake_Patch F path name pt data subresources = invokeResource F (RootPatch path name pt data subresources)"

text \<open>
  \<open>Apply\<close> and \<open>ApplyStatus\<close>, which differ in the subresource. The name is read through the embedded pointer to the
  metadata, without the check that \<open>GetName\<close> makes.
\<close>

definition ApplyPatchType :: string where
  "ApplyPatchType = ''application/apply-patch+yaml''"

definition fake_apply ::
    "'s fake \<Rightarrow> (PublishedResourceApplyConfiguration \<Rightarrow> string result) \<Rightarrow> string list \<Rightarrow> string \<Rightarrow>
     PublishedResourceApplyConfiguration option \<Rightarrow> ('s, PublishedResource) fakeCall" where
  "fake_apply F marshal subresources path applyConfiguration =
     (case applyConfiguration of
        None \<Rightarrow> ok (None, Some (Msg ''applyConfiguration provided to Apply must not be nil''))
      | Some c \<Rightarrow>
          (case marshal c of
             Inl e \<Rightarrow> ok (None, Some e)
           | Inr data \<Rightarrow>
               (case prc_ObjectMeta c of
                  None \<Rightarrow> fail (Panic ''nil pointer dereference'')
                | Some m \<Rightarrow>
                    (case omc_Name m of
                       None \<Rightarrow> ok (None, Some (Msg ''applyConfiguration.Name must be provided to Apply''))
                     | Some name \<Rightarrow> invokeResource F (RootPatch path name ApplyPatchType data subresources)))))"

definition fake_Apply ::
    "'s fake \<Rightarrow> (PublishedResourceApplyConfiguration \<Rightarrow> string result) \<Rightarrow> string \<Rightarrow>
     PublishedResourceApplyConfiguration option \<Rightarrow> ('s, PublishedResource) fakeCall" where
  "fake_Apply F marshal = fake_apply F marshal []"

definition fake_ApplyStatus ::
    "'s fake \<Rightarrow> (PublishedResourceApplyConfiguration \<Rightarrow> string result) \<Rightarrow> string \<Rightarrow>
     PublishedResourceApplyConfiguration option \<Rightarrow> ('s, PublishedResource) fakeCall" where
  "fake_ApplyStatus F marshal = fake_apply F marshal [''status'']"

section \<open>What the clients share\<close>

text \<open>Whether a configuration gets a limiter of its own.\<close>

definition needsLimiter :: "clientConfig \<Rightarrow> bool" where
  "needsLimiter c \<longleftrightarrow> cc_RateLimiter c = None \<and> cc_QPS c > 0"

lemma limitRate_succeeds:
  "limitRate c w = (Inr c', w') \<longleftrightarrow>
     (if needsLimiter c
      then cc_Burst c > 0 \<and> c' = c\<lparr>cc_RateLimiter := Some (length w)\<rparr> \<and> w' = w @ [(cc_QPS c, cc_Burst c)]
      else c' = c \<and> w' = w)"
  by (auto simp: limitRate_def needsLimiter_def NewTokenBucketRateLimiter_def go_simps)

lemma setConfigDefaults_fields:
  "cc_RateLimiter (setConfigDefaults K c) = cc_RateLimiter c" "cc_Host (setConfigDefaults K c) = cc_Host c"
  "cc_QPS (setConfigDefaults K c) = cc_QPS c" "cc_Burst (setConfigDefaults K c) = cc_Burst c"
  by (simp_all add: setConfigDefaults_def Let_def)

lemma group_client_eq:
  "SyncagentV1alpha1_NewForConfigAndClient K c h w =
     (case kl_RESTClientFor K (setConfigDefaults K c) h of
        Inl e \<Rightarrow> (Inl e, w)
      | Inr _ \<Rightarrow> (Inr \<lparr> rc_Config = setConfigDefaults K c, rc_HTTP = h \<rparr>, w))"
  by (simp add: SyncagentV1alpha1_NewForConfigAndClient_def go_simps Let_def split: sum.splits)

text \<open>
  The clients of one clientset use one HTTP client and one limiter: the configured one, or one that was created
  with the configured rate, for which the burst must be positive.
\<close>

theorem clientset_shares:
  assumes "Clientset_NewForConfigAndClient K c h w = (Inr cs, w')"
  shows "rc_HTTP (cs_DiscoveryClient cs) = h \<and> rc_HTTP (cs_syncagentV1alpha1 cs) = h \<and>
    cc_RateLimiter (rc_Config (cs_syncagentV1alpha1 cs)) = cc_RateLimiter (rc_Config (cs_DiscoveryClient cs)) \<and>
    (if needsLimiter c
     then cc_Burst c > 0 \<and> cc_RateLimiter (rc_Config (cs_DiscoveryClient cs)) = Some (length w) \<and>
       w' = w @ [(cc_QPS c, cc_Burst c)]
     else cc_RateLimiter (rc_Config (cs_DiscoveryClient cs)) = cc_RateLimiter c \<and> w' = w)"
proof -
  obtain c1 w1 where c1: "limitRate c w = (Inr c1, w1)"
    using assms by (cases "limitRate c w"; cases "fst (limitRate c w)")
      (auto simp: Clientset_NewForConfigAndClient_def go_simps)
  then show ?thesis
    using assms c1 [unfolded limitRate_succeeds]
    by (auto simp: Clientset_NewForConfigAndClient_def go_simps group_client_eq setConfigDefaults_fields
          split: sum.splits if_splits)
qed

text \<open>
  Requests for different clusters are not limited together. The cache of a cluster clientset is made with the
  configuration before the limiter is added to it, so that every client it builds adds one, while the
  limiter of the clientset itself only serves discovery and the group client for all clusters. The cache here builds
  a client at every request, with the configuration scoped to the cluster.
\<close>

definition building :: "(clientConfig \<Rightarrow> string \<Rightarrow> clientConfig) \<Rightarrow> ('h, 'c) clusterCache" where
  "building scope c h constructor p = constructor (scope c p) h"

lemma scoped_built: "scoped f p w = (Inr x, w') \<Longrightarrow> f p w = (Inr x, w')"
  by (auto simp: scoped_def orDie_def go_simps split: if_splits prod.splits sum.splits)

theorem clusters_limited_apart:
  assumes scope: "\<And>c p. cc_RateLimiter (scope c p) = cc_RateLimiter c \<and> cc_QPS (scope c p) = cc_QPS c"
    and needs: "needsLimiter c"
    and set: "ClusterClientset_NewForConfigAndClient K (building scope) (building scope) c h w = (Inr cs, w1)"
    and a: "ClusterClientset_Cluster K (building scope) cs p w1 = (Inr x, w2)"
    and b: "ClusterClientset_Cluster K (building scope) cs q w2 = (Inr y, w3)"
  shows "distinct (map (cc_RateLimiter \<circ> rc_Config)
    [ccs_DiscoveryClient cs, cs_syncagentV1alpha1 x, cs_syncagentV1alpha1 y])"
proof -
  have cs: "cl_Config (ccs_clientCache cs) = c \<and> cl_HTTP (ccs_clientCache cs) = h \<and>
      cc_RateLimiter (rc_Config (ccs_DiscoveryClient cs)) = Some (length w) \<and> length w < length w1"
  proof -
    obtain c1 w0 where c1: "limitRate c w = (Inr c1, w0)"
      using set by (cases "limitRate c w"; cases "fst (limitRate c w)")
        (auto simp: ClusterClientset_NewForConfigAndClient_def go_simps)
    obtain r wr where r: "Clientset_NewForConfigAndClient K (scope c ''root'') h w0 = (Inr r, wr)"
      using set c1
      by (cases "Clientset_NewForConfigAndClient K (scope c ''root'') h w0";
          cases "fst (Clientset_NewForConfigAndClient K (scope c ''root'') h w0)")
         (auto simp: ClusterClientset_NewForConfigAndClient_def go_simps building_def)
    have "length w < length w0" "cc_RateLimiter c1 = Some (length w)"
      using c1 needs by (auto simp: limitRate_succeeds)
    moreover have "length w0 \<le> length wr" using clientset_shares [OF r] by (auto split: if_splits)
    ultimately show ?thesis
      using set c1 r
      by (auto simp: ClusterClientset_NewForConfigAndClient_def go_simps building_def group_client_eq
            SyncagentV1alpha1Cluster_NewForConfigAndClient_def split: sum.splits)
  qed
  have own: "needsLimiter (scope c p)" for p using needs scope by (simp add: needsLimiter_def)
  have "Clientset_NewForConfigAndClient K (scope c p) h w1 = (Inr x, w2)"
      "Clientset_NewForConfigAndClient K (scope c q) h w2 = (Inr y, w3)"
    using scoped_built [OF a [unfolded ClusterClientset_Cluster_def]]
      scoped_built [OF b [unfolded ClusterClientset_Cluster_def]] cs by (simp_all add: building_def)
  then show ?thesis
    using clientset_shares [of K "scope c p" h w1 x w2] clientset_shares [of K "scope c q" h w2 y w3] own cs by auto
qed

definition exampleClientLib :: "unit clientLib" where
  "exampleClientLib = \<lparr> kl_DefaultKubernetesUserAgent = ''agent'', kl_HTTPClientFor = (\<lambda>c. Inr ()),
     kl_RESTClientFor = (\<lambda>c h. Inr ()), kl_DiscoveryClientFor = (\<lambda>c h. Inr ()) \<rparr>"

definition limitedConfig :: clientConfig where
  "limitedConfig = \<lparr> cc_Host = ''https://kcp'', cc_UserAgent = [], cc_RateLimiter = None, cc_QPS = 5, cc_Burst = 10,
     cc_GroupVersion = None, cc_APIPath = [] \<rparr>"

definition clusterHost :: "clientConfig \<Rightarrow> string \<Rightarrow> clientConfig" where
  "clusterHost c p = c\<lparr>cc_Host := cc_Host c @ ''/clusters/'' @ p\<rparr>"

theorem clusters_limited_apart_witness:
  "\<exists>cs w1 x w2 y w3.
     ClusterClientset_NewForConfigAndClient exampleClientLib (building clusterHost) (building clusterHost) limitedConfig () [] =
       (Inr cs, w1) \<and>
     ClusterClientset_Cluster exampleClientLib (building clusterHost) cs ''root:a'' w1 = (Inr x, w2) \<and>
     ClusterClientset_Cluster exampleClientLib (building clusterHost) cs ''root:b'' w2 = (Inr y, w3) \<and>
     distinct (map (cc_RateLimiter \<circ> rc_Config) [ccs_DiscoveryClient cs, cs_syncagentV1alpha1 x, cs_syncagentV1alpha1 y])"
proof -
  have scope: "cc_RateLimiter (clusterHost c p) = cc_RateLimiter c \<and> cc_QPS (clusterHost c p) = cc_QPS c" for c p
    by (simp add: clusterHost_def)
  have needs: "needsLimiter limitedConfig" by (simp add: needsLimiter_def limitedConfig_def)
  let ?S = "building clusterHost"
  have built: "limitRate (clusterHost limitedConfig p) w =
      (Inr ((clusterHost limitedConfig p)\<lparr>cc_RateLimiter := Some (length w)\<rparr>), w @ [(5, 10)])"
    "limitRate limitedConfig w = (Inr (limitedConfig\<lparr>cc_RateLimiter := Some (length w)\<rparr>), w @ [(5, 10)])" for p w
    by (simp_all add: limitRate_succeeds needsLimiter_def clusterHost_def limitedConfig_def)
  have one: "\<exists>x. Clientset_NewForConfigAndClient exampleClientLib (clusterHost limitedConfig p) () w = (Inr x, w @ [(5, 10)])"
    for p w
    by (simp add: Clientset_NewForConfigAndClient_def built go_simps group_client_eq)
       (simp add: exampleClientLib_def go_simps)
  then obtain r where r: "Clientset_NewForConfigAndClient exampleClientLib (clusterHost limitedConfig ''root'') () [(5, 10)] =
      (Inr r, [(5, 10)] @ [(5, 10)])" by blast
  have "\<exists>cs. ClusterClientset_NewForConfigAndClient exampleClientLib ?S ?S limitedConfig () [] =
      (Inr cs, [(5, 10), (5, 10)]) \<and> ccs_clientCache cs = \<lparr> cl_Config = limitedConfig, cl_HTTP = () \<rparr>"
    by (simp add: ClusterClientset_NewForConfigAndClient_def SyncagentV1alpha1Cluster_NewForConfigAndClient_def built
          go_simps group_client_eq building_def r [simplified])
       (simp add: exampleClientLib_def go_simps)
  then obtain cs where cs: "ClusterClientset_NewForConfigAndClient exampleClientLib ?S ?S limitedConfig () [] =
      (Inr cs, [(5, 10), (5, 10)])" "ccs_clientCache cs = \<lparr> cl_Config = limitedConfig, cl_HTTP = () \<rparr>" by blast
  have "\<exists>x. ClusterClientset_Cluster exampleClientLib ?S cs p w = (Inr x, w @ [(5, 10)])" if "p \<noteq> Wildcard" for p w
    using one [of p w] that by (auto simp: ClusterClientset_Cluster_def cs(2) scoped_def orDie_def go_simps building_def)
  moreover have "''root:a'' \<noteq> Wildcard" "''root:b'' \<noteq> Wildcard" by (simp_all add: Wildcard_def)
  ultimately show ?thesis
    using cs(1) clusters_limited_apart [OF scope needs cs(1)] by meson
qed

section \<open>Calls of the fake client\<close>

text \<open>A new configuration is applied under its name; one without metadata is not refused but ends in a panic.\<close>

theorem fake_apply_named:
  assumes "marshal (f (new_PublishedResource name)) = Inr doc"
    and "prc_ObjectMeta (f (new_PublishedResource name)) = prc_ObjectMeta (new_PublishedResource name)"
  shows "fake_Apply F marshal path (Some (f (new_PublishedResource name))) =
    fake_Patch F path name ApplyPatchType doc []"
  using assms by (simp add: fake_Apply_def fake_apply_def fake_Patch_def new_PublishedResource_eq)

theorem fake_apply_unnamed:
  assumes "marshal c = Inr doc" "fst (GetName c) = None"
  shows "(\<exists>m. fake_Apply F marshal path (Some c) w = (Inl (Panic m), w)) \<longleftrightarrow> prc_ObjectMeta c = None"
  using assms
  by (auto simp: fake_Apply_def fake_apply_def go_simps GetName_def ensureObjectMetaApplyConfigurationExists_def
        split: option.splits)

lemma fake_list_scoped:
  assumes "F (RootList path opts) w = ((Some (FakeList l), err), w')" "fake_List F label sees path opts w = (Inr (Some r, err'), w'')"
  shows "p \<in> set (prl_Items r) \<longleftrightarrow> p \<in> set (prl_Items l) \<and>
    sees (case label opts of None \<Rightarrow> Everything | Some x \<Rightarrow> x) (orEmpty (pr_Labels p))"
  using assms by (auto simp: fake_List_def Let_def)

lemma wildcard_not_scoped:
  "fst (scoped f Wildcard w) = Inl (Panic ''A specific cluster must be provided when scoping, not the wildcard.'')"
  "snd (scoped f Wildcard w) = w"
  by (simp_all add: scoped_def go_simps)

end
