(* ===== verification/Spec2Isabelle.thy ===== *)
theory Spec2Isabelle
  imports Agent_Main Toolkit Update_Progress Label_Values Informers Deep_Copy
    Declared_Specs Clientsets
begin

text \<open>
  The kcp api-syncagent publishes resources of a Kubernetes cluster (the service cluster) in kcp and
  synchronises their objects: for every object in a kcp workspace it keeps a copy on the service
  cluster, sends the desired state there and the status back, and carries related objects, such as
  Secrets, in either direction. This library is a model of its logic and of what makes it correct.

  \<^bold>\<open>Parts of the program and their theories.\<close> File names are relative to \<open>src/internal\<close>.

  \<^item> \<open>Prelude\<close>: strings, the sort with a comparator, and the monad of the model. A Go function that touches
    state is \<open>'w \<Rightarrow> 'a result \<times> 'w\<close>: it returns an error or a value, and the state survives an error.
    A nil dereference, a failed type assertion or a call of \<open>panic\<close> is the error \<open>Panic\<close>, which passes
    through every handler.
  \<^item> \<open>Kube_Types\<close>, \<open>API_Types\<close> (\<open>../sdk/apis/syncagent/v1alpha1\<close>): Kubernetes objects, with JSON values for
    what the agent does not look into, and the PublishedResource with everything it configures.
  \<^item> \<open>Client\<close>: the API servers and the Go libraries. They are the fields of the record \<open>env\<close>, arguments of
    every definition that uses them. A \<open>world\<close> is the state of the servers, the trace of requests sent,
    and the label selectors that the code overwrites in place. \<open>Trace_Logic\<close> has the rules by which the
    requests of a program are bounded, once for every policy (locale \<open>call_policy\<close>).
  \<^item> \<open>Metadata\<close> (\<open>sync/meta.go\<close>, \<open>sync/metadata.go\<close>, \<open>sync/types.go\<close>, \<open>sync/context.go\<close>,
    \<open>sync/deletion_policy.go\<close>, \<open>crypto/hash.go\<close>): the labels and annotations that link a copy to its
    source, the provenance of related copies, stripping and repair.
  \<^item> \<open>Templating\<close> (\<open>sync/templating\<close>): names of copies and the data templates see.
  \<^item> \<open>State_Store\<close> (\<open>sync/state_store.go\<close>): the last known state of an object, kept in a Secret.
  \<^item> \<open>Mutation\<close> (\<open>mutation\<close>): compiled mutation rules.
  \<^item> \<open>Projection\<close> (\<open>projection\<close>): versions and names under which a CRD is published.
  \<^item> \<open>Discovery\<close> (\<open>discovery\<close>): the CRD behind a resource, from the CRD or the OpenAPI documents, and the
    probe whether a kind is served by all endpoints of the virtual workspace.
  \<^item> \<open>Object_Syncer\<close> (\<open>sync/object_syncer.go\<close>): the synchronisation of one object with its copy.
  \<^item> \<open>Related\<close>, \<open>Related_Properties\<close> (\<open>sync/syncer_related.go\<close>): finding, copying, remembering and pruning
    related objects.
  \<^item> \<open>Syncer\<close> (\<open>sync/syncer.go\<close>): one pass over a primary object, \<open>Process\<close>.
  \<^item> \<open>Sync_Controller\<close> (\<open>controller/sync\<close>): watches, event handlers, filters, and the reconciliation of a
    request, which builds a syncer and runs \<open>Process\<close>.
  \<^item> \<open>Multi_Cluster\<close> (\<open>kcp/multicluster.go\<close>): controllers that start at any time and the clusters they have
    to know, as a transition system with one step per section that a lock makes atomic.
  \<^item> \<open>Sync_Manager\<close> (\<open>controller/syncmanager\<close>): which sync controllers run; a transition system on top of the
    one of \<open>Multi_Cluster\<close>, whose controllers are those that \<open>Sync_Controller\<close> creates.
  \<^item> \<open>Resource_Schema\<close> (\<open>controller/apiresourceschema\<close>, \<open>kcp/apiresourceschema.go\<close>) and \<open>API_Export\<close>
    (\<open>controller/apiexport\<close>, \<open>resources/reconciling\<close>): the schema objects in kcp, and the schemas and
    permission claims of the APIExport.
  \<^item> \<open>Event_Filter\<close> (\<open>controllerutil\<close>): event predicates.
  \<^item> \<open>Agent_Options\<close> (\<open>../cmd/api-syncagent/options.go\<close>, \<open>log\<close>, \<open>options\<close>): flags, their validation and
    completion.
  \<^item> \<open>Sync_Endpoint\<close> (\<open>../cmd/api-syncagent/kcp.go\<close>, \<open>kubeconfig\<close>): the endpoint slice and the APIExport an agent
    works for, and the configuration retargeted from one workspace to the other.
  \<^item> \<open>Agent_Main\<close> (\<open>../cmd/api-syncagent/main.go\<close> and the \<open>Add\<close> functions of the controllers): the process,
    from the arguments to the controllers it starts, their watches and what they are wired to.
  \<^item> \<open>Toolkit\<close> (\<open>../cmd/pubres-toolkit\<close>): the command that prints the schema of a PublishedResource.
  \<^item> \<open>Informers\<close> (\<open>../sdk/informers\<close>, \<open>../sdk/listers\<close>): the informer factories as a transition system, the
    informers and listers for PublishedResources.
  \<^item> \<open>Deep_Copy\<close> (\<open>../sdk/apis/syncagent/v1alpha1/zz_generated.deepcopy.go\<close>): the copiers of the API types, on a
    store in which pointers, slices and maps are addresses.
  \<^item> \<open>Apply_Configuration\<close>, \<open>Declared_Specs\<close> (\<open>../sdk/applyconfiguration\<close>): the configurations and their setters, and the
    JSON documents of the API types and of the configurations.
  \<^item> \<open>Clientsets\<close> (\<open>../sdk/clientset/versioned\<close>): the construction of the clients, for one and for all clusters,
    and the fake client for PublishedResources.
  \<^item> \<open>Deletion_Progress\<close>, \<open>Creation_Progress\<close>, \<open>Update_Progress\<close> and \<open>Label_Values\<close> have no code of their own: the
    passes over an object in deletion composed with a server that collects objects, those over a new object
    composed with a server that stores what it is sent, those after edits composed with a server that applies
    merge patches, and the label values that the API server accepts.

  \<^bold>\<open>Correspondence.\<close> A definition has the name of the Go function it translates; a method of a type whose
  name is not unique is prefixed or spelled out (\<open>store_Get\<close>, \<open>managerReconcile\<close>). A long function is cut
  into definitions along its loops and branches, composed as in the code. Structs are records, with a
  prefix for the field names. The iteration over a Go map is a parameter or a choice of the
  environment, never a fixed order. The text of wrapped errors is kept, without the values that are
  formatted into it; log output and metrics are left out.

  \<^bold>\<open>What is shown.\<close>

  \<^item> Safety of the sync: the complete list of writes that a pass may send to either cluster
    (\<open>Process_writes\<close>, \<open>Sync_writes\<close>, \<open>processRelatedResource_writes\<close>), lifted to the controller
    (\<open>Reconcile_writes\<close>); the order in which deletion proceeds; that copies are only pruned if they are
    stale and, for an empty origin, only after a live confirmation.
  \<^item> Stability: a pass over an object in sync, over a published schema, over an APIExport, changes nothing.
  \<^item> Round trips: states in the store, links from copies to sources up to the request that the watch
    enqueues, names of schema objects.
  \<^item> Compilation: a mutator behaves as its rules; a projection gives exactly the wanted versions; a CRD
    built from documents has exactly the listed versions.
  \<^item> Concurrency: in every interleaving, running controllers know the tracked clusters; every running
    controller is accounted for by the manager.
  \<^item> Refinement: the state store, any sequence of writes through a Secret, implements a finite map.
  \<^item> Termination: on servers that collect what is deleted, the passes over an object in deletion come to an
    end without copy and without finalizer (\<open>deletion_terminates\<close>).
  \<^item> Convergence: on servers that store what they are sent, three passes bring a new object into sync, and the
    next pass only reads (\<open>creation_converges\<close>); on servers that also apply merge patches, two passes bring any
    edit to the copy, so that after any sequence of edits it has the last one (\<open>edits_reach_copy\<close>).
    Together with termination this is the life of an object from creation to deletion (\<open>object_lifecycle\<close>).
  \<^item> Types: copies carry only valid label values; validated options complete to a full configuration.
  \<^item> The process: a started agent runs exactly the enabled controllers on the right connections
    (\<open>agent_runs_enabled_controllers\<close>), for an endpoint whose parts belong together, with a configuration
    that retargeting changes only in its workspace; a published schema wakes the next controllers; the
    toolkit prints the schema that the agent publishes; informers run once.
  \<^item> Aliasing: a deep copy of any API type shares no cell with its original (\<open>deep_copies_isolated\<close>).
  \<^item> Declarations: which specs an apply configuration can express (\<open>spec_declarable_iff\<close>); the clients of a clientset
    share their connection and limiter, those for different clusters do not share a limiter (\<open>clientset_shares\<close>,
    \<open>clusters_limited_apart\<close>).
  \<^item> Errors: exactly when a projection succeeds and when a reconciliation panics.
  \<^item> Deviations: theorems that show where the code does something other than its comments say, among
    them that no sync controller is ever stopped, that a failed start is not retried, that a cluster can
    be lost when it is engaged again, that states of different kinds collide in the store, that the
    default agent name escapes validation, that a shared connection is not restricted to the slice, that the
    transform of an informer factory is ignored, and that no apply configuration can remove all short names.

  \<^bold>\<open>Assumptions.\<close> Where a theorem relies on code outside the repository, the assumption is in its statement:
  the contract of a server or library (locales \<open>comparator\<close>, \<open>schema_store\<close>, \<open>sort_func\<close>, \<open>export_lib\<close>,
  \<open>collecting_server\<close>, \<open>accepting_server\<close>, \<open>patching_server\<close>, \<open>copy_library\<close>,
  \<open>selector_library\<close> and those of the store), or a property of the parameter that is used. Each is instantiated by a concrete function in a witness.

  \<^bold>\<open>Termination and bounds.\<close> Every definition is a total function, most of them recursive over the list that
  the Go loop ranges over; the search for workspaces in a URL and the expansion of its replacement recurse
  over the rest of the text. The only fuel is the number of passes in \<open>processPasses\<close>, and the theorems
  about it show that three passes are enough for a new object, two for an edit, and three more
  than the server has work left for one in deletion. Go integers occur as generations and counters, which do not overflow here and are \<open>int\<close> or \<open>nat\<close>.

  \<^bold>\<open>Not modelled.\<close> The version strings and the metric; of the generated clientsets the getters, the sending of
  requests, which is client-go's, and the fakes but the one for PublishedResources; test utilities. They get or set
  fields and call libraries. Parsing the
  argument vector and starting the manager are library functions and parameters. A caching client answers
  by its server function like any other; that a cache may lag behind is covered by the absence of any
  assumption that reads are current.
\<close>

section \<open>The life of an object\<close>


definition acceptorTick :: "acceptor \<Rightarrow> acceptor" where
  "acceptorTick st = (if dying (ac_copy st) then st\<lparr>ac_copy := None\<rparr> else st)"

definition markDeleted :: "acceptor \<Rightarrow> acceptor" where
  "markDeleted st = st\<lparr>ac_primary := map_option (\<lambda>p. p\<lparr>oDeletionTimestamp := Some ''now''\<rparr>) (ac_primary st)\<rparr>"

interpretation life: collecting_server memoryAcceptor exampleContext plainSyncer ac_primary ac_copy "\<lambda>_. 0" acceptorTick
  by unfold_locales (auto simp: memoryAcceptor_def acceptorTick_def dying_def withoutFinalizer_def)


end
